(* ===== verification/Prelude.thy ===== *)
theory Prelude
  imports Main "HOL-Library.AList" "HOL-Library.Char_ord" "HOL-Library.List_Lexorder"
begin

text \<open>
  What every component shares: Go maps as association lists, the sum type of fallible
  results, sorting by a string key, and the named collections of the development.

  A Go map is an association list: \<^term>\<open>map_of m k\<close> is the lookup, \<^term>\<open>AList.update k v m\<close>
  the assignment, \<^term>\<open>AList.delete k m\<close> the built-in delete. Go iterates a map in an
  unspecified order; the model iterates the list, and a theorem about every list is a theorem
  about every order. A Go string is a list of bytes, which is what a HOL string is.
\<close>

named_theorems runs_simps \<open>what a program can do, one rule per construct\<close>
named_theorems str_simps \<open>facts about the strings package\<close>
named_theorems err_simps \<open>classification of errors\<close>

type_synonym 'v gomap = "(string \<times> 'v) list"

abbreviation mget :: "'v gomap \<Rightarrow> string \<Rightarrow> 'v option" where
  "mget m k \<equiv> map_of m k"

abbreviation mput :: "string \<Rightarrow> 'v \<Rightarrow> 'v gomap \<Rightarrow> 'v gomap" where
  "mput k v m \<equiv> AList.update k v m"

abbreviation mdel :: "string \<Rightarrow> 'v gomap \<Rightarrow> 'v gomap" where
  "mdel k m \<equiv> AList.delete k m"

abbreviation mkeys :: "'v gomap \<Rightarrow> string list" where
  "mkeys m \<equiv> map fst m"

text \<open>Reading a missing key of a string map yields the zero value.\<close>

definition mstr :: "string gomap \<Rightarrow> string \<Rightarrow> string" where
  "mstr m k = (case mget m k of None \<Rightarrow> [] | Some v \<Rightarrow> v)"

lemma mget_mput [simp]: "mget (mput k v m) k' = (if k' = k then Some v else mget m k')"
  by (simp add: update_conv')

lemma mget_mdel [simp]: "mget (mdel k m) k' = (if k' = k then None else mget m k')"
  by (simp add: delete_conv')

lemma mput_distinct: "distinct (mkeys m) \<Longrightarrow> distinct (mkeys (mput k v m))"
  by (rule distinct_update)

lemma mdel_distinct: "distinct (mkeys m) \<Longrightarrow> distinct (mkeys (mdel k m))"
  by (rule distinct_delete)

lemma mstr_mput [simp]: "mstr (mput k v m) k' = (if k' = k then v else mstr m k')"
  by (simp add: mstr_def)

lemma mget_filter_key: "mget (filter (\<lambda>(k, v). P k) m) x = (if P x then mget m x else None)"
  by (induction m) auto

lemma mget_in_keys: "mget m k = Some v \<Longrightarrow> k \<in> set (mkeys m)"
  by (force dest: map_of_SomeD)

lemma mget_None_keys: "mget m k = None \<longleftrightarrow> k \<notin> set (mkeys m)"
  by (force simp: map_of_eq_None_iff)

text \<open>Copying the entries of one map over another.\<close>

definition mmerge :: "'v gomap \<Rightarrow> 'v gomap \<Rightarrow> 'v gomap" where
  "mmerge a b = foldr (\<lambda>(k, v) m. mput k v m) b a"

lemma mget_mmerge [simp]:
  "mget (mmerge a b) k = (case mget b k of None \<Rightarrow> mget a k | Some v \<Rightarrow> Some v)"
  by (induction b) (auto simp: mmerge_def split: option.splits)

lemma mmerge_distinct: "distinct (mkeys a) \<Longrightarrow> distinct (mkeys (mmerge a b))"
  by (induction b) (auto simp: mmerge_def mput_distinct)

text \<open>\<^verbatim>\<open>sort.Slice\<close> on a string field: strings compare byte by byte.\<close>

definition sort_by :: "('a \<Rightarrow> string) \<Rightarrow> 'a list \<Rightarrow> 'a list" where
  "sort_by f xs = sort_key f xs"

lemma set_sort_by [simp]: "set (sort_by f xs) = set xs"
  by (simp add: sort_by_def)

lemma sorted_sort_by: "sorted (map f (sort_by f xs))"
  by (simp add: sort_by_def)

lemma length_sort_by [simp]: "length (sort_by f xs) = length xs"
  by (simp add: sort_by_def)

lemma distinct_sort_by [simp]: "distinct (map f (sort_by f xs)) \<longleftrightarrow> distinct (map f xs)"
  by (metis sort_by_def distinct_map set_sort distinct_sort)

lemma sort_by_Nil [simp]: "sort_by f [] = []"
  by (simp add: sort_by_def)

lemma sort_by_Cons [simp]: "sort_by f (x # xs) = insort_key f x (sort_by f xs)"
  by (simp add: sort_by_def)

text \<open>The first element that satisfies a predicate, as a range loop with an early return.\<close>

fun find_index :: "('a \<Rightarrow> bool) \<Rightarrow> 'a list \<Rightarrow> nat option" where
  "find_index P [] = None"
| "find_index P (x # xs) = (if P x then Some 0 else map_option Suc (find_index P xs))"

text \<open>
  A fallible Go result: \<^term>\<open>Inl e\<close> is a non-nil error, \<^term>\<open>Inr v\<close> a value with a nil error.
  A function that returns only an error yields \<^term>\<open>Inr ()\<close>.
\<close>

definition sum_bind :: "'e + 'a \<Rightarrow> ('a \<Rightarrow> 'e + 'b) \<Rightarrow> 'e + 'b" where
  "sum_bind m f = (case m of Inl e \<Rightarrow> Inl e | Inr x \<Rightarrow> f x)"

lemma sum_bind_simps [simp]:
  "sum_bind (Inl e) f = Inl e" "sum_bind (Inr x) f = f x"
  by (simp_all add: sum_bind_def)

lemma sum_bind_Inr_iff:
  "sum_bind m f = Inr y \<longleftrightarrow> (\<exists>x. m = Inr x \<and> f x = Inr y)"
  by (cases m) auto

lemma sum_bind_Inl_iff:
  "sum_bind m f = Inl e \<longleftrightarrow> m = Inl e \<or> (\<exists>x. m = Inr x \<and> f x = Inl e)"
  by (cases m) auto

text \<open>A loop that stops at the first error.\<close>

fun each_ok :: "('a \<Rightarrow> 'e + unit) \<Rightarrow> 'a list \<Rightarrow> 'e + unit" where
  "each_ok f [] = Inr ()"
| "each_ok f (x # xs) = sum_bind (f x) (\<lambda>_. each_ok f xs)"

lemma each_ok_Inr: "each_ok f xs = Inr u \<longleftrightarrow> (\<forall>x\<in>set xs. f x = Inr ())"
  by (induction xs) (auto simp: sum_bind_Inr_iff)

lemma each_ok_Inl: "each_ok f xs = Inl e \<Longrightarrow> \<exists>x\<in>set xs. f x = Inl e"
  by (induction xs) (auto simp: sum_bind_Inl_iff)

end
