(* ===== verification/Go_Strings.thy ===== *)
theory Go_Strings
  imports Prelude
begin

text \<open>
  The functions of Go's \<^verbatim>\<open>strings\<close> and \<^verbatim>\<open>strconv\<close> packages that the server uses, on byte
  strings. White space is what \<^verbatim>\<open>unicode.IsSpace\<close> accepts, in its UTF-8 encodings. Case folding
  covers ASCII letters, the alphabet of every name and keyword the server folds.
\<close>

subsection \<open>Prefixes and suffixes\<close>

fun has_prefix :: "string \<Rightarrow> string \<Rightarrow> bool" where
  "has_prefix s [] = True"
| "has_prefix [] (p # ps) = False"
| "has_prefix (c # cs) (p # ps) = (c = p \<and> has_prefix cs ps)"

definition has_suffix :: "string \<Rightarrow> string \<Rightarrow> bool" where
  "has_suffix s p = has_prefix (rev s) (rev p)"

definition trim_prefix :: "string \<Rightarrow> string \<Rightarrow> string" where
  "trim_prefix s p = (if has_prefix s p then drop (length p) s else s)"

lemma has_prefix_iff [str_simps]: "has_prefix s p \<longleftrightarrow> (\<exists>t. s = p @ t)"
  by (induction s p rule: has_prefix.induct) auto

lemma has_prefix_append [simp]: "has_prefix (p @ t) p"
  by (auto simp: has_prefix_iff)

lemma has_suffix_iff [str_simps]: "has_suffix s p \<longleftrightarrow> (\<exists>t. s = t @ p)"
proof
  assume "has_suffix s p"
  then obtain t where "rev s = rev p @ t"
    by (auto simp: has_suffix_def has_prefix_iff)
  then have "s = rev t @ p"
    by (metis rev_append rev_rev_ident)
  then show "\<exists>t. s = t @ p" by blast
next
  assume "\<exists>t. s = t @ p"
  then show "has_suffix s p" by (auto simp: has_suffix_def has_prefix_iff)
qed

lemma trim_prefix_append [simp]: "trim_prefix (p @ t) p = t"
  by (simp add: trim_prefix_def)

subsection \<open>Searching and cutting\<close>

fun index_sub :: "string \<Rightarrow> string \<Rightarrow> nat option" where
  "index_sub sep [] = (if sep = [] then Some 0 else None)"
| "index_sub sep (c # cs) =
     (if has_prefix (c # cs) sep then Some 0 else map_option Suc (index_sub sep cs))"

definition str_contains :: "string \<Rightarrow> string \<Rightarrow> bool" where
  "str_contains s sub = (index_sub sub s \<noteq> None)"

definition str_cut :: "string \<Rightarrow> string \<Rightarrow> string \<times> string \<times> bool" where
  "str_cut s sep =
     (case index_sub sep s of
        None \<Rightarrow> (s, [], False)
      | Some i \<Rightarrow> (take i s, drop (i + length sep) s, True))"

lemma index_sub_Some:
  "index_sub sep s = Some i \<Longrightarrow> s = take i s @ sep @ drop (i + length sep) s"
proof (induction sep s arbitrary: i rule: index_sub.induct)
  case (1 sep)
  then show ?case by (auto split: if_splits)
next
  case (2 sep c cs)
  then show ?case by (auto simp: has_prefix_iff split: if_splits)
qed

lemma index_sub_None: "index_sub sep s = None \<Longrightarrow> s \<noteq> a @ sep @ b"
proof (induction sep s arbitrary: a rule: index_sub.induct)
  case (1 sep)
  then show ?case by (auto split: if_splits)
next
  case (2 sep c cs)
  then show ?case
    by (cases a) (auto simp: has_prefix_iff split: if_splits)
qed

lemma index_sub_take: "index_sub sep s = Some i \<Longrightarrow> j < i \<Longrightarrow> \<not> has_prefix (drop j s) sep"
proof (induction sep s arbitrary: i j rule: index_sub.induct)
  case (1 sep)
  then show ?case by (auto split: if_splits)
next
  case (2 sep c cs)
  then show ?case by (cases j) (auto split: if_splits)
qed

lemma str_cut_found:
  "str_cut s sep = (b, a, True) \<Longrightarrow> s = b @ sep @ a"
  by (auto simp: str_cut_def dest: index_sub_Some split: option.splits)

lemma str_cut_not_found:
  "str_cut s sep = (b, a, False) \<Longrightarrow> b = s \<and> a = [] \<and> \<not> str_contains s sep"
  by (auto simp: str_cut_def str_contains_def split: option.splits)

lemma index_sub_char: "c \<notin> set b \<Longrightarrow> index_sub [c] (b @ c # a) = Some (length b)"
  by (induction b) (auto simp: has_prefix_iff)

lemma str_cut_char: "c \<notin> set b \<Longrightarrow> str_cut (b @ c # a) [c] = (b, a, True)"
  by (simp add: str_cut_def index_sub_char)

lemma index_sub_char_None: "c \<notin> set s \<Longrightarrow> index_sub [c] s = None"
  by (induction s) (auto simp: has_prefix_iff)

lemma str_cut_char_None: "c \<notin> set s \<Longrightarrow> str_cut s [c] = (s, [], False)"
  by (simp add: str_cut_def index_sub_char_None)

lemma str_contains_char: "str_contains s [c] \<longleftrightarrow> c \<in> set s"
proof
  assume "str_contains s [c]"
  then obtain i where "index_sub [c] s = Some i" by (auto simp: str_contains_def)
  then have "s = take i s @ [c] @ drop (i + 1) s" by (auto dest: index_sub_Some)
  then show "c \<in> set s" by (metis append_Cons in_set_conv_decomp)
next
  assume "c \<in> set s"
  then obtain b a where "s = b @ c # a" "c \<notin> set b" by (metis split_list_first)
  then show "str_contains s [c]" by (simp add: str_contains_def index_sub_char)
qed

text \<open>\<^verbatim>\<open>strings.Split\<close> on a one-byte separator, and \<^verbatim>\<open>strings.Join\<close>.\<close>

fun split_char :: "char \<Rightarrow> string \<Rightarrow> string list" where
  "split_char sep [] = [[]]"
| "split_char sep (c # cs) =
     (if c = sep then [] # split_char sep cs
      else (case split_char sep cs of [] \<Rightarrow> [[c]] | w # ws \<Rightarrow> (c # w) # ws))"

text \<open>\<^verbatim>\<open>strings.SplitN\<close> on a one-byte separator: at most \<^term>\<open>n\<close> pieces, the last one whole.\<close>

fun splitn_char :: "char \<Rightarrow> nat \<Rightarrow> string \<Rightarrow> string list" where
  "splitn_char sep 0 s = []"
| "splitn_char sep (Suc 0) s = [s]"
| "splitn_char sep (Suc (Suc n)) s =
     (case str_cut s [sep] of
        (b, a, True) \<Rightarrow> b # splitn_char sep (Suc n) a
      | (b, a, False) \<Rightarrow> [s])"

fun str_join :: "string list \<Rightarrow> string \<Rightarrow> string" where
  "str_join [] sep = []"
| "str_join [x] sep = x"
| "str_join (x # y # xs) sep = x @ sep @ str_join (y # xs) sep"

lemma split_char_nonempty [simp]: "split_char sep s \<noteq> []"
  by (induction s) (auto split: list.splits)

lemma join_split_char: "str_join (split_char sep s) [sep] = s"
proof (induction s)
  case (Cons c cs)
  then show ?case
    by (cases "split_char sep cs"; cases "tl (split_char sep cs)") (auto simp: Cons)
qed simp

lemma split_char_no_sep: "w \<in> set (split_char sep s) \<Longrightarrow> sep \<notin> set w"
proof (induction s arbitrary: w)
  case (Cons c cs)
  then show ?case by (cases "split_char sep cs") (auto split: if_splits)
qed simp

lemma length_splitn_char: "length (splitn_char sep n s) \<le> n"
  by (induction sep n s rule: splitn_char.induct) (auto split: prod.splits bool.splits)

lemma splitn_char_nonempty: "0 < n \<Longrightarrow> splitn_char sep n s \<noteq> []"
  by (induction sep n s rule: splitn_char.induct) (auto split: prod.splits bool.splits)

subsection \<open>White space\<close>

definition space_runes :: "string list" where
  "space_runes =
     [[CHR 0x09], [CHR 0x0A], [CHR 0x0B], [CHR 0x0C], [CHR 0x0D], [CHR 0x20],
      [CHR 0xC2, CHR 0x85], [CHR 0xC2, CHR 0xA0], [CHR 0xE1, CHR 0x9A, CHR 0x80],
      [CHR 0xE2, CHR 0x80, CHR 0x80], [CHR 0xE2, CHR 0x80, CHR 0x81],
      [CHR 0xE2, CHR 0x80, CHR 0x82], [CHR 0xE2, CHR 0x80, CHR 0x83],
      [CHR 0xE2, CHR 0x80, CHR 0x84], [CHR 0xE2, CHR 0x80, CHR 0x85],
      [CHR 0xE2, CHR 0x80, CHR 0x86], [CHR 0xE2, CHR 0x80, CHR 0x87],
      [CHR 0xE2, CHR 0x80, CHR 0x88], [CHR 0xE2, CHR 0x80, CHR 0x89],
      [CHR 0xE2, CHR 0x80, CHR 0x8A], [CHR 0xE2, CHR 0x80, CHR 0xA8],
      [CHR 0xE2, CHR 0x80, CHR 0xA9], [CHR 0xE2, CHR 0x80, CHR 0xAF],
      [CHR 0xE2, CHR 0x81, CHR 0x9F], [CHR 0xE3, CHR 0x80, CHR 0x80]]"

definition drop_rune :: "string list \<Rightarrow> string \<Rightarrow> string option" where
  "drop_rune runes s = map_option (\<lambda>r. drop (length r) s) (find (has_prefix s) runes)"

lemma drop_rune_shorter:
  assumes "drop_rune runes s = Some t" and "[] \<notin> set runes"
  shows "length t < length s"
proof -
  from assms(1) obtain r where r: "find (has_prefix s) runes = Some r" "t = drop (length r) s"
    by (auto simp: drop_rune_def)
  then have "has_prefix s r" "r \<in> set runes" by (auto simp: find_Some_iff)
  with assms(2) have "r \<noteq> []" "\<exists>u. s = r @ u" by (auto simp: has_prefix_iff)
  with r(2) show ?thesis by auto
qed

lemma space_runes_nonempty: "[] \<notin> set space_runes" "[] \<notin> set (map rev space_runes)"
  by (simp_all add: space_runes_def)

function trim_runes :: "string list \<Rightarrow> string \<Rightarrow> string" where
  "trim_runes runes s =
     (if [] \<in> set runes then s
      else (case drop_rune runes s of None \<Rightarrow> s | Some t \<Rightarrow> trim_runes runes t))"
  by pat_completeness auto
termination
  by (relation "measure (\<lambda>(runes, s). length s)") (auto dest: drop_rune_shorter)

declare trim_runes.simps [simp del]

definition trim_left :: "string \<Rightarrow> string" where
  "trim_left s = trim_runes space_runes s"

definition trim_right :: "string \<Rightarrow> string" where
  "trim_right s = rev (trim_runes (map rev space_runes) (rev s))"

definition trim_space :: "string \<Rightarrow> string" where
  "trim_space s = trim_right (trim_left s)"

lemma trim_runes_fixed: "[] \<notin> set runes \<Longrightarrow> drop_rune runes (trim_runes runes s) = None"
proof (induction runes s rule: trim_runes.induct)
  case (1 runes s)
  then show ?case
    by (cases "drop_rune runes s") (simp_all add: trim_runes.simps [of runes s])
qed

lemma trim_runes_id: "drop_rune runes s = None \<Longrightarrow> trim_runes runes s = s"
  by (simp add: trim_runes.simps [of runes s])

lemma trim_runes_idem [simp]: "trim_runes runes (trim_runes runes s) = trim_runes runes s"
proof (cases "[] \<in> set runes")
  case True
  then show ?thesis by (simp add: trim_runes.simps)
next
  case False
  then show ?thesis by (simp add: trim_runes_id trim_runes_fixed)
qed

lemma trim_runes_suffix: "\<exists>p. s = p @ trim_runes runes s"
proof (induction runes s rule: trim_runes.induct)
  case (1 runes s)
  show ?case
  proof (cases "[] \<in> set runes \<or> drop_rune runes s = None")
    case True
    then show ?thesis by (auto simp: trim_runes.simps [of runes s])
  next
    case False
    then obtain t where t: "drop_rune runes s = Some t" by auto
    then obtain n where n: "t = drop n s" by (auto simp: drop_rune_def)
    from 1 False t obtain p where "t = p @ trim_runes runes t" by blast
    then have "s = (take n s @ p) @ trim_runes runes t" using n by (metis append_assoc append_take_drop_id)
    moreover have "trim_runes runes t = trim_runes runes s"
      using False t by (simp add: trim_runes.simps [of runes s])
    ultimately have "s = (take n s @ p) @ trim_runes runes s" by simp
    then show ?thesis ..
  qed
qed

lemma trim_space_sublist: "\<exists>p q. s = p @ trim_space s @ q"
proof -
  obtain p where p: "s = p @ trim_left s"
    using trim_runes_suffix [of s space_runes] by (auto simp: trim_left_def)
  obtain q where "rev (trim_left s) = q @ trim_runes (map rev space_runes) (rev (trim_left s))"
    using trim_runes_suffix by blast
  then have "trim_left s = trim_space s @ rev q"
    by (metis rev_append rev_rev_ident trim_space_def trim_right_def)
  with p show ?thesis by metis
qed

lemma trim_space_Nil [simp]: "trim_space [] = []"
  using trim_space_sublist [of "[]"] by simp

text \<open>\<^verbatim>\<open>strings.Fields\<close>: the maximal runs between white space.\<close>

function fields :: "string \<Rightarrow> string \<Rightarrow> string list" where
  "fields cur [] = (if cur = [] then [] else [rev cur])"
| "fields cur (c # cs) =
     (case drop_rune space_runes (c # cs) of
        Some t \<Rightarrow> (if cur = [] then fields [] t else rev cur # fields [] t)
      | None \<Rightarrow> fields (c # cur) cs)"
  by pat_completeness auto
termination
  by (relation "measure (\<lambda>(cur, s). length s)")
     (auto dest: drop_rune_shorter [OF _ space_runes_nonempty(1)])

definition str_Fields :: "string \<Rightarrow> string list" where
  "str_Fields s = fields [] s"

text \<open>\<^verbatim>\<open>strings.Trim\<close> with a one-character cut set.\<close>

definition trim_char :: "char \<Rightarrow> string \<Rightarrow> string" where
  "trim_char c s = rev (dropWhile (\<lambda>d. d = c) (rev (dropWhile (\<lambda>d. d = c) s)))"

subsection \<open>Case folding, for ASCII letters\<close>

definition ascii_lower :: "char \<Rightarrow> char" where
  "ascii_lower c =
     (let n = of_char c :: nat in if 65 \<le> n \<and> n \<le> 90 then char_of (n + 32) else c)"

definition ascii_upper :: "char \<Rightarrow> char" where
  "ascii_upper c =
     (let n = of_char c :: nat in if 97 \<le> n \<and> n \<le> 122 then char_of (n - 32) else c)"

definition to_lower :: "string \<Rightarrow> string" where
  "to_lower s = map ascii_lower s"

definition to_upper :: "string \<Rightarrow> string" where
  "to_upper s = map ascii_upper s"

definition equal_fold :: "string \<Rightarrow> string \<Rightarrow> bool" where
  "equal_fold s t = (to_lower s = to_lower t)"

lemma equal_fold_refl [simp]: "equal_fold s s"
  by (simp add: equal_fold_def)

lemma equal_fold_sym: "equal_fold s t \<longleftrightarrow> equal_fold t s"
  by (auto simp: equal_fold_def)

subsection \<open>Decimal numbers\<close>

fun show_nat :: "nat \<Rightarrow> string" where
  "show_nat n =
     (if n < 10 then [char_of (n + 48)] else show_nat (n div 10) @ [char_of (n mod 10 + 48)])"

declare show_nat.simps [simp del]

definition show_int :: "int \<Rightarrow> string" where
  "show_int i = (if i < 0 then CHR ''-'' # show_nat (nat (- i)) else show_nat (nat i))"

definition format_bool :: "bool \<Rightarrow> string" where
  "format_bool b = (if b then ''true'' else ''false'')"

text \<open>\<^verbatim>\<open>strconv.ParseBool\<close>: \<^term>\<open>None\<close> is the syntax error.\<close>

definition parse_bool :: "string \<Rightarrow> bool option" where
  "parse_bool s =
     (if s \<in> set [''1'', ''t'', ''T'', ''TRUE'', ''true'', ''True''] then Some True
      else if s \<in> set [''0'', ''f'', ''F'', ''FALSE'', ''false'', ''False''] then Some False
      else None)"

lemma parse_format_bool [simp]: "parse_bool (format_bool b) = Some b"
  by (cases b) (simp_all add: parse_bool_def format_bool_def)

text \<open>\<^verbatim>\<open>strconv.Atoi\<close>: an optional sign and decimal digits, within 64 bits.\<close>

definition is_digit :: "char \<Rightarrow> bool" where
  "is_digit c = (let n = of_char c :: nat in 48 \<le> n \<and> n \<le> 57)"

definition digits_value :: "string \<Rightarrow> int" where
  "digits_value s = foldl (\<lambda>n c. 10 * n + (of_char c - 48)) 0 s"

definition atoi :: "string \<Rightarrow> int option" where
  "atoi s =
     (let (neg, ds) = (case s of
            c # cs \<Rightarrow> if c = CHR ''-'' then (True, cs) else if c = CHR ''+'' then (False, cs) else (False, s)
          | [] \<Rightarrow> (False, s));
          n = (if neg then - digits_value ds else digits_value ds)
      in if ds \<noteq> [] \<and> list_all is_digit ds \<and> - (2 ^ 63) \<le> n \<and> n < 2 ^ 63 then Some n else None)"

end
