(* ===== verification/Go_Values.thy ===== *)
theory Go_Values
  imports Go_Strings Complex_Main
begin

text \<open>
  Values of type \<^verbatim>\<open>any\<close> with their dynamic type, and error values. A float64 is the rational it
  denotes (the server reads no NaN: its numbers come from decoded JSON). An error keeps its
  format literal and its operands instead of the rendered text, so that the classification
  functions (\<^verbatim>\<open>errors.Is\<close>, \<^verbatim>\<open>errors.As\<close>, \<^verbatim>\<open>apierrors.IsNotFound\<close>) walk the same chain of wrapped
  errors the program does.
\<close>

datatype goval =
    GNil
  | GBool bool
  | GInt int
  | GInt32 int
  | GInt64 int
  | GFloat32 rat
  | GFloat rat
  | GStr string
  | GArr "goval list"
  | GObj "(string \<times> goval) list"

text \<open>Type assertions in their two-value form.\<close>

fun as_str :: "goval \<Rightarrow> string option" where
  "as_str (GStr s) = Some s"
| "as_str _ = None"

fun as_bool :: "goval \<Rightarrow> bool option" where
  "as_bool (GBool b) = Some b"
| "as_bool _ = None"

fun as_obj :: "goval \<Rightarrow> goval gomap option" where
  "as_obj (GObj m) = Some m"
| "as_obj _ = None"

fun as_arr :: "goval \<Rightarrow> goval list option" where
  "as_arr (GArr xs) = Some xs"
| "as_arr _ = None"

text \<open>\<^verbatim>\<open>s, _ := m[key].(string)\<close>: a missing key and a value of another type both yield "".\<close>

definition str_at :: "goval gomap \<Rightarrow> string \<Rightarrow> string" where
  "str_at m k =
     (case mget m k of None \<Rightarrow> [] | Some v \<Rightarrow> (case as_str v of None \<Rightarrow> [] | Some s \<Rightarrow> s))"

lemma str_at_mput [simp]:
  "str_at (mput k v m) k' =
     (if k' = k then (case as_str v of None \<Rightarrow> [] | Some s \<Rightarrow> s) else str_at m k')"
  by (simp add: str_at_def)

lemma str_at_mdel [simp]: "str_at (mdel k m) k' = (if k' = k then [] else str_at m k')"
  by (simp add: str_at_def)

lemma str_at_cong: "mget m k = mget m' k \<Longrightarrow> str_at m k = str_at m' k"
  by (simp add: str_at_def)

lemma as_str_Some [simp]: "as_str v = Some s \<longleftrightarrow> v = GStr s"
  by (cases v) auto

lemma as_bool_Some [simp]: "as_bool v = Some b \<longleftrightarrow> v = GBool b"
  by (cases v) auto

lemma as_obj_Some [simp]: "as_obj v = Some m \<longleftrightarrow> v = GObj m"
  by (cases v) auto

lemma as_arr_Some [simp]: "as_arr v = Some xs \<longleftrightarrow> v = GArr xs"
  by (cases v) auto

text \<open>Conversion of a float64 to an integer type truncates towards zero.\<close>

definition trunc_rat :: "rat \<Rightarrow> int" where
  "trunc_rat q = (if q < 0 then - \<lfloor>- q\<rfloor> else \<lfloor>q\<rfloor>)"

lemma trunc_rat_of_int [simp]: "trunc_rat (of_int i) = i"
  by (simp add: trunc_rat_def)

lemma trunc_rat_numeral [simp]: "trunc_rat (numeral n) = numeral n" "trunc_rat 0 = 0" "trunc_rat 1 = 1"
  by (simp_all add: trunc_rat_def)

lemma trunc_rat_bounds:
  assumes "of_int a \<le> q" and "q \<le> of_int b" and "0 \<le> a"
  shows "a \<le> trunc_rat q \<and> trunc_rat q \<le> b"
proof -
  have "0 \<le> q" using assms(1,3) by (meson of_int_0_le_iff order_trans)
  then have "trunc_rat q = \<lfloor>q\<rfloor>" by (simp add: trunc_rat_def)
  with assms(1,2) show ?thesis by (metis le_floor_iff floor_mono floor_of_int)
qed

subsection \<open>Errors\<close>

text \<open>
  The status reasons of the Kubernetes API the server tells apart. An error of the API carries its
  message; one the server makes itself carries the name of the object.
\<close>

datatype kube_reason = NotFound | AlreadyExists | Conflict | Invalid | BadRequest | OtherReason

datatype farg =
    FStr string
  | FInt int
  | FNum rat
  | FStrs "string list"
  | FErr gerr
and gerr =
    KubeErr kube_reason string
  | Sentinel string
  | ValidationErr string "farg list"
  | TestFailure string string "farg list"
  | Errorf string "farg list"
  | Wrapf string "farg list" gerr

fun kube_reason_of :: "gerr \<Rightarrow> kube_reason option" where
  "kube_reason_of (KubeErr r n) = Some r"
| "kube_reason_of (Wrapf f as e) = kube_reason_of e"
| "kube_reason_of _ = None"

definition is_not_found :: "gerr \<Rightarrow> bool" where
  "is_not_found e = (kube_reason_of e = Some NotFound)"

definition is_already_exists :: "gerr \<Rightarrow> bool" where
  "is_already_exists e = (kube_reason_of e = Some AlreadyExists)"

definition is_conflict :: "gerr \<Rightarrow> bool" where
  "is_conflict e = (kube_reason_of e = Some Conflict)"

definition is_invalid :: "gerr \<Rightarrow> bool" where
  "is_invalid e = (kube_reason_of e = Some Invalid)"

definition is_bad_request :: "gerr \<Rightarrow> bool" where
  "is_bad_request e = (kube_reason_of e = Some BadRequest)"

fun errors_is :: "gerr \<Rightarrow> string \<Rightarrow> bool" where
  "errors_is (Sentinel s) t = (s = t)"
| "errors_is (Wrapf f as e) t = errors_is e t"
| "errors_is _ t = False"

fun is_validation :: "gerr \<Rightarrow> bool" where
  "is_validation (ValidationErr f as) = True"
| "is_validation (Wrapf f as e) = is_validation e"
| "is_validation _ = False"

fun as_test_failure :: "gerr \<Rightarrow> (string \<times> string \<times> farg list) option" where
  "as_test_failure (TestFailure r f as) = Some (r, f, as)"
| "as_test_failure (Wrapf f as e) = as_test_failure e"
| "as_test_failure _ = None"

lemma err_class_simps [simp, err_simps]:
  "is_not_found (KubeErr r n) \<longleftrightarrow> r = NotFound"
  "is_not_found (Wrapf f as e) \<longleftrightarrow> is_not_found e"
  "\<not> is_not_found (Sentinel s)"
  "\<not> is_not_found (ValidationErr f as)"
  "\<not> is_not_found (TestFailure c f as)"
  "\<not> is_not_found (Errorf f as)"
  "is_already_exists (KubeErr r n) \<longleftrightarrow> r = AlreadyExists"
  "is_already_exists (Wrapf f as e) \<longleftrightarrow> is_already_exists e"
  "\<not> is_already_exists (Sentinel s)"
  "\<not> is_already_exists (ValidationErr f as)"
  "\<not> is_already_exists (TestFailure c f as)"
  "\<not> is_already_exists (Errorf f as)"
  "is_conflict (KubeErr r n) \<longleftrightarrow> r = Conflict"
  "is_conflict (Wrapf f as e) \<longleftrightarrow> is_conflict e"
  "\<not> is_conflict (Sentinel s)"
  "\<not> is_conflict (ValidationErr f as)"
  "\<not> is_conflict (TestFailure c f as)"
  "\<not> is_conflict (Errorf f as)"
  by (simp_all add: is_not_found_def is_already_exists_def is_conflict_def)

lemma err_class_exclusive:
  "is_not_found e \<Longrightarrow> \<not> is_already_exists e"
  "is_not_found e \<Longrightarrow> \<not> is_validation e"
  "is_validation e \<Longrightarrow> \<not> errors_is e s"
  "is_not_found e \<Longrightarrow> \<not> errors_is e s"
  "is_already_exists e \<Longrightarrow> \<not> is_validation e"
proof -
  show "is_not_found e \<Longrightarrow> \<not> is_already_exists e"
    by (simp add: is_not_found_def is_already_exists_def)
  show "is_not_found e \<Longrightarrow> \<not> is_validation e"
    by (induction e rule: is_validation.induct) auto
  show "is_validation e \<Longrightarrow> \<not> errors_is e s"
    by (induction e rule: is_validation.induct) auto
  show "is_not_found e \<Longrightarrow> \<not> errors_is e s"
    by (induction e rule: is_validation.induct) auto
  show "is_already_exists e \<Longrightarrow> \<not> is_validation e"
    by (induction e rule: is_validation.induct) auto
qed

end
