(* ===== verification/Contract_Catalog.thy ===== *)
theory Contract_Catalog
  imports Go_Values
begin

text \<open>
  The contract descriptors and the embedded catalog
  (\<^verbatim>\<open>internal/models/connection.go\<close>, \<^verbatim>\<open>internal/service/contract_catalog.go\<close>,
  \<^verbatim>\<open>internal/service/contracts/*.json\<close>): loading, lookup, the normalisation of submitted
  values and their validation. The lemmas give the loop of \<^verbatim>\<open>Normalize\<close> and the two validators a
  declarative reading; the locale \<^verbatim>\<open>contract_catalog\<close> is the interface its clients rely on.
\<close>

subsection \<open>Descriptors\<close>

text \<open>The field types a descriptor may use.\<close>

definition FieldTypeString :: string where "FieldTypeString = ''string''"
definition FieldTypeNumber :: string where "FieldTypeNumber = ''number''"
definition FieldTypeBoolean :: string where "FieldTypeBoolean = ''boolean''"
definition FieldTypeEnum :: string where "FieldTypeEnum = ''enum''"

lemmas field_types = FieldTypeString_def FieldTypeNumber_def FieldTypeBoolean_def FieldTypeEnum_def

record field_condition =
  fc_Field :: string
  fc_Value :: string

record field_derivation =
  fd_From :: string
  fd_Map :: "string gomap"

record connection_field =
  cf_Name :: string
  cf_Label :: string
  cf_Type :: string
  cf_Required :: bool
  cf_Secret :: bool
  cf_Masked :: bool
  cf_Default :: goval
  cf_Options :: "string list"
  cf_Placeholder :: string
  cf_Help :: string
  cf_Min :: "rat option"
  cf_Max :: "rat option"
  cf_ShowWhen :: "field_condition option"
  cf_Derived :: "field_derivation option"

record contract_descriptor =
  cd_Name :: string
  cd_DisplayName :: string
  cd_Description :: string
  cd_Icon :: string
  cd_Category :: string
  cd_External :: bool
  cd_Fields :: "connection_field list"
  cd_EndpointFrom :: "string list"

definition Applies :: "connection_field \<Rightarrow> goval gomap \<Rightarrow> bool" where
  "Applies f values =
     (case cf_ShowWhen f of
        None \<Rightarrow> True
      | Some c \<Rightarrow> str_at values (fc_Field c) = fc_Value c)"

definition Field :: "contract_descriptor \<Rightarrow> string \<Rightarrow> connection_field option" where
  "Field t name = find (\<lambda>f. cf_Name f = name) (cd_Fields t)"

definition SecretFields :: "contract_descriptor \<Rightarrow> string list" where
  "SecretFields t = map cf_Name (filter cf_Secret (cd_Fields t))"

definition field_names :: "contract_descriptor \<Rightarrow> string list" where
  "field_names t = map cf_Name (cd_Fields t)"

lemma Field_None: "Field t n = None \<longleftrightarrow> n \<notin> set (field_names t)"
  by (auto simp: Field_def field_names_def find_None_iff)

lemma Field_Some: "Field t n = Some f \<Longrightarrow> f \<in> set (cd_Fields t) \<and> cf_Name f = n"
  by (auto simp: Field_def find_Some_iff)

lemma Field_unique:
  assumes "distinct (field_names t)" and "f \<in> set (cd_Fields t)"
  shows "Field t (cf_Name f) = Some f"
proof (cases "Field t (cf_Name f)")
  case None
  with assms(2) show ?thesis by (auto simp: Field_None field_names_def)
next
  case (Some g)
  then have "g \<in> set (cd_Fields t)" "cf_Name g = cf_Name f" by (auto dest: Field_Some)
  with assms have "g = f" by (auto simp: field_names_def distinct_map inj_on_def)
  with Some show ?thesis by simp
qed

subsection \<open>Checking a descriptor\<close>

definition check_descriptor_field :: "connection_field \<Rightarrow> gerr + unit" where
  "check_descriptor_field f =
     (if cf_Type f = FieldTypeString \<or> cf_Type f = FieldTypeNumber \<or> cf_Type f = FieldTypeBoolean
      then Inr ()
      else if cf_Type f = FieldTypeEnum then
        (if cf_Options f = [] then Inl (Errorf ''field %q is an enum with no options'' [FStr (cf_Name f)])
         else Inr ())
      else Inl (Errorf ''field %q has unsupported type %q'' [FStr (cf_Name f), FStr (cf_Type f)]))"

fun check_descriptor_fields :: "string list \<Rightarrow> connection_field list \<Rightarrow> gerr + unit" where
  "check_descriptor_fields seen [] = Inr ()"
| "check_descriptor_fields seen (f # fs) =
     (if cf_Name f = [] then Inl (Errorf ''a field has no name'' [])
      else if cf_Name f \<in> set seen then Inl (Errorf ''duplicate field %q'' [FStr (cf_Name f)])
      else sum_bind (check_descriptor_field f)
             (\<lambda>_. check_descriptor_fields (cf_Name f # seen) fs))"

definition validateTypeDescriptor :: "contract_descriptor \<Rightarrow> gerr + unit" where
  "validateTypeDescriptor ct =
     (if cd_Name ct = [] then Inl (Errorf ''name is required'' [])
      else if cd_Fields ct = [] then Inl (Errorf ''at least one field is required'' [])
      else check_descriptor_fields [] (cd_Fields ct))"

definition field_type_ok :: "connection_field \<Rightarrow> bool" where
  "field_type_ok f =
     (cf_Type f \<in> {FieldTypeString, FieldTypeNumber, FieldTypeBoolean} \<or>
      (cf_Type f = FieldTypeEnum \<and> cf_Options f \<noteq> []))"

lemma check_descriptor_field_Inr: "check_descriptor_field f = Inr u \<longleftrightarrow> field_type_ok f"
  by (auto simp: check_descriptor_field_def field_type_ok_def field_types)

lemma check_descriptor_fields_Inr:
  "check_descriptor_fields seen fs = Inr u \<longleftrightarrow>
     (\<forall>f\<in>set fs. cf_Name f \<noteq> [] \<and> field_type_ok f) \<and>
     distinct (map cf_Name fs) \<and> set (map cf_Name fs) \<inter> set seen = {}"
  by (induction seen fs rule: check_descriptor_fields.induct)
     (auto simp: sum_bind_Inr_iff check_descriptor_field_Inr)

definition descriptor_ok :: "contract_descriptor \<Rightarrow> bool" where
  "descriptor_ok ct =
     (cd_Name ct \<noteq> [] \<and> cd_Fields ct \<noteq> [] \<and>
      (\<forall>f\<in>set (cd_Fields ct). cf_Name f \<noteq> [] \<and> field_type_ok f) \<and> distinct (field_names ct))"

lemma validateTypeDescriptor_Inr: "validateTypeDescriptor ct = Inr u \<longleftrightarrow> descriptor_ok ct"
  by (auto simp: validateTypeDescriptor_def descriptor_ok_def check_descriptor_fields_Inr field_names_def)

subsection \<open>Loading the catalog\<close>

text \<open>
  An entry of the embedded directory: its name, whether it is a directory, and what reading and
  strictly decoding it yields.
\<close>

record contract_file =
  en_Name :: string
  en_IsDir :: bool
  en_Read :: "gerr + (gerr + contract_descriptor)"

record embedded_catalog =
  ec_types :: "contract_descriptor list"
  ec_byName :: "contract_descriptor gomap"

fun load_contracts :: "contract_file list \<Rightarrow> gerr + contract_descriptor list" where
  "load_contracts [] = Inr []"
| "load_contracts (en # ens) =
     (if en_IsDir en \<or> \<not> has_suffix (en_Name en) ''.json'' then load_contracts ens
      else case en_Read en of
        Inl e \<Rightarrow> Inl (Wrapf ''failed to read contract %s: %w'' [FStr (en_Name en)] e)
      | Inr (Inl e) \<Rightarrow> Inl (Wrapf ''failed to parse contract %s: %w'' [FStr (en_Name en)] e)
      | Inr (Inr ct) \<Rightarrow>
          (case validateTypeDescriptor ct of
             Inl e \<Rightarrow> Inl (Wrapf ''invalid contract %s: %w'' [FStr (en_Name en)] e)
           | Inr _ \<Rightarrow> sum_bind (load_contracts ens) (\<lambda>cts. Inr (ct # cts))))"

fun index_contracts ::
    "contract_descriptor list \<Rightarrow> contract_descriptor gomap \<Rightarrow> gerr + contract_descriptor gomap" where
  "index_contracts [] m = Inr m"
| "index_contracts (ct # cts) m =
     (if mget m (cd_Name ct) \<noteq> None then Inl (Errorf ''duplicate contract %q'' [FStr (cd_Name ct)])
      else index_contracts cts (mput (cd_Name ct) ct m))"

definition NewEmbeddedContractCatalog :: "gerr + contract_file list \<Rightarrow> gerr + embedded_catalog" where
  "NewEmbeddedContractCatalog dir =
     (case dir of
        Inl e \<Rightarrow> Inl (Wrapf ''failed to read embedded contracts: %w'' [] e)
      | Inr entries \<Rightarrow>
          sum_bind (load_contracts entries) (\<lambda>cts.
            let types = sort_by cd_Name cts in
            sum_bind (index_contracts types []) (\<lambda>m. Inr \<lparr>ec_types = types, ec_byName = m\<rparr>)))"

definition Catalog_List :: "embedded_catalog \<Rightarrow> contract_descriptor list" where
  "Catalog_List c = ec_types c"

definition Catalog_Get :: "embedded_catalog \<Rightarrow> string \<Rightarrow> contract_descriptor option" where
  "Catalog_Get c name = mget (ec_byName c) name"

definition catalog_ok :: "embedded_catalog \<Rightarrow> bool" where
  "catalog_ok c =
     ((\<forall>ct\<in>set (ec_types c). descriptor_ok ct) \<and> sorted (map cd_Name (ec_types c)) \<and>
      distinct (map cd_Name (ec_types c)) \<and>
      (\<forall>n. Catalog_Get c n = find (\<lambda>ct. cd_Name ct = n) (ec_types c)))"

lemma load_contracts_ok: "load_contracts ens = Inr cts \<Longrightarrow> \<forall>ct\<in>set cts. descriptor_ok ct"
proof (induction ens arbitrary: cts)
  case (Cons en ens)
  show ?case
  proof (cases "en_IsDir en \<or> \<not> has_suffix (en_Name en) ''.json''")
    case True
    with Cons show ?thesis by auto
  next
    case False
    with Cons.prems obtain ct rest where "en_Read en = Inr (Inr ct)"
        "validateTypeDescriptor ct = Inr ()" "load_contracts ens = Inr rest" "cts = ct # rest"
      by (auto simp: sum_bind_Inr_iff split: sum.splits)
    with Cons.IH show ?thesis by (simp add: validateTypeDescriptor_Inr)
  qed
qed simp

lemma index_contracts_ok:
  "index_contracts cts m = Inr m' \<Longrightarrow>
     distinct (map cd_Name cts) \<and> (\<forall>ct\<in>set cts. mget m (cd_Name ct) = None) \<and>
     (\<forall>n. mget m' n = (case find (\<lambda>ct. cd_Name ct = n) cts of None \<Rightarrow> mget m n | Some ct \<Rightarrow> Some ct))"
proof (induction cts arbitrary: m)
  case (Cons ct cts)
  from Cons.prems have new: "mget m (cd_Name ct) = None"
      and rest: "index_contracts cts (mput (cd_Name ct) ct m) = Inr m'" by (auto split: if_splits)
  note IH = Cons.IH [OF rest]
  then have fresh: "cd_Name x \<noteq> cd_Name ct \<and> mget m (cd_Name x) = None" if "x \<in> set cts" for x
    using that by (auto split: if_splits)
  have "cd_Name ct \<notin> set (map cd_Name cts)"
  proof
    assume "cd_Name ct \<in> set (map cd_Name cts)"
    then obtain x where "x \<in> set cts" "cd_Name x = cd_Name ct" by auto
    with fresh show False by blast
  qed
  then have "distinct (map cd_Name (ct # cts))" using IH by simp
  moreover have "\<forall>x\<in>set (ct # cts). mget m (cd_Name x) = None" using new fresh by auto
  moreover have "mget m' n = (case find (\<lambda>x. cd_Name x = n) (ct # cts) of
      None \<Rightarrow> mget m n | Some x \<Rightarrow> Some x)" for n
  proof (cases "cd_Name ct = n")
    case True
    with fresh have "find (\<lambda>x. cd_Name x = n) cts = None" by (auto simp: find_None_iff)
    with True IH show ?thesis by simp
  next
    case False
    with IH show ?thesis by (simp split: option.split)
  qed
  ultimately show ?case by blast
qed simp

lemma new_catalog_ok:
  assumes "NewEmbeddedContractCatalog dir = Inr c" shows "catalog_ok c"
proof -
  from assms obtain entries cts m where c: "load_contracts entries = Inr cts"
      "index_contracts (sort_by cd_Name cts) [] = Inr m"
      "c = \<lparr>ec_types = sort_by cd_Name cts, ec_byName = m\<rparr>"
    by (auto simp: NewEmbeddedContractCatalog_def sum_bind_Inr_iff Let_def split: sum.splits)
  from load_contracts_ok [OF c(1)] index_contracts_ok [OF c(2)] show ?thesis
    by (auto simp: catalog_ok_def c(3) sorted_sort_by Catalog_Get_def split: option.splits)
qed

lemma catalog_ok_Get:
  assumes "catalog_ok c" and "Catalog_Get c n = Some ct"
  shows "ct \<in> set (ec_types c)" and "cd_Name ct = n" and "descriptor_ok ct"
proof -
  from assms have "find (\<lambda>ct. cd_Name ct = n) (ec_types c) = Some ct" by (simp add: catalog_ok_def)
  then show 1: "ct \<in> set (ec_types c)" and "cd_Name ct = n" by (auto simp: find_Some_iff)
  with assms(1) show "descriptor_ok ct" by (simp add: catalog_ok_def)
qed

subsection \<open>Normalisation of submitted values\<close>

definition normalize_field :: "connection_field \<Rightarrow> goval gomap \<Rightarrow> goval gomap" where
  "normalize_field f out =
     (if \<not> Applies f out then mdel (cf_Name f) out
      else case cf_Derived f of
        Some d \<Rightarrow>
          (case mget (fd_Map d) (str_at out (fd_From d)) of
             Some derived \<Rightarrow> mput (cf_Name f) (GStr derived) out
           | None \<Rightarrow> out)
      | None \<Rightarrow>
          (if mget out (cf_Name f) = None \<and> cf_Default f \<noteq> GNil \<and> \<not> cf_Secret f
           then mput (cf_Name f) (cf_Default f) out
           else out))"

fun normalize_fields :: "connection_field list \<Rightarrow> goval gomap \<Rightarrow> goval gomap" where
  "normalize_fields [] out = out"
| "normalize_fields (f # fs) out = normalize_fields fs (normalize_field f out)"

definition Normalize :: "embedded_catalog \<Rightarrow> string \<Rightarrow> goval gomap \<Rightarrow> goval gomap" where
  "Normalize c typeName values =
     (case Catalog_Get c typeName of
        None \<Rightarrow> values
      | Some ct \<Rightarrow> normalize_fields (cd_Fields ct) values)"

text \<open>
  A descriptor is well ordered when a field is conditioned on, and derived from, fields that come
  before it. The loop then reads only settled values, and its result has a closed description,
  one equation per field.
\<close>

definition field_refs :: "connection_field \<Rightarrow> string set" where
  "field_refs f =
     (case cf_ShowWhen f of None \<Rightarrow> {} | Some c \<Rightarrow> {fc_Field c}) \<union>
     (case cf_Derived f of None \<Rightarrow> {} | Some d \<Rightarrow> {fd_From d})"

fun fields_ordered :: "connection_field list \<Rightarrow> bool" where
  "fields_ordered [] = True"
| "fields_ordered (f # fs) = (field_refs f \<inter> set (map cf_Name (f # fs)) = {} \<and> fields_ordered fs)"

definition well_ordered :: "contract_descriptor \<Rightarrow> bool" where
  "well_ordered ct = (distinct (field_names ct) \<and> fields_ordered (cd_Fields ct))"

text \<open>What the value of a field is after the loop, \<^term>\<open>r\<close> being the result and \<^term>\<open>v\<close> the input.\<close>

definition settled :: "connection_field \<Rightarrow> goval gomap \<Rightarrow> goval gomap \<Rightarrow> goval option" where
  "settled f r v =
     (if \<not> Applies f r then None
      else case cf_Derived f of
        Some d \<Rightarrow>
          (case mget (fd_Map d) (str_at r (fd_From d)) of
             Some derived \<Rightarrow> Some (GStr derived)
           | None \<Rightarrow> mget v (cf_Name f))
      | None \<Rightarrow>
          (if mget v (cf_Name f) = None \<and> cf_Default f \<noteq> GNil \<and> \<not> cf_Secret f
           then Some (cf_Default f) else mget v (cf_Name f)))"

lemma normalize_field_other:
  "k \<noteq> cf_Name f \<Longrightarrow> mget (normalize_field f out) k = mget out k"
  by (simp add: normalize_field_def split: option.split)

lemma normalize_field_same: "mget (normalize_field f out) (cf_Name f) = settled f out out"
  by (auto simp: normalize_field_def settled_def split: option.splits)

lemma normalize_fields_other:
  "k \<notin> set (map cf_Name fs) \<Longrightarrow> mget (normalize_fields fs out) k = mget out k"
  by (induction fs arbitrary: out) (auto simp: normalize_field_other)

lemma settled_cong:
  assumes "\<And>k. k \<in> field_refs f \<Longrightarrow> mget r k = mget r' k"
    and "mget v (cf_Name f) = mget v' (cf_Name f)"
  shows "settled f r v = settled f r' v'"
proof -
  have "str_at r (fc_Field c) = str_at r' (fc_Field c)" if "cf_ShowWhen f = Some c" for c
    using assms(1) that by (auto simp: field_refs_def intro: str_at_cong)
  then have "Applies f r = Applies f r'" by (auto simp: Applies_def split: option.splits)
  moreover have "str_at r (fd_From d) = str_at r' (fd_From d)" if "cf_Derived f = Some d" for d
    using assms(1) that by (auto simp: field_refs_def intro: str_at_cong)
  ultimately show ?thesis
    using assms(2) by (cases "cf_Derived f") (auto simp: settled_def split: option.split)
qed

lemma normalize_fields_settled:
  assumes "distinct (map cf_Name fs)" and "fields_ordered fs" and "f \<in> set fs"
  shows "mget (normalize_fields fs v) (cf_Name f) = settled f (normalize_fields fs v) v"
  using assms
proof (induction fs arbitrary: v)
  case (Cons g fs)
  let ?r = "normalize_fields fs (normalize_field g v)"
  show ?case
  proof (cases "f = g")
    case True
    have refs: "field_refs g \<inter> set (map cf_Name (g # fs)) = {}" using Cons.prems(2) by simp
    have "mget ?r (cf_Name g) = mget (normalize_field g v) (cf_Name g)"
      using Cons.prems(1) by (intro normalize_fields_other) simp
    also have "\<dots> = settled g v v" by (rule normalize_field_same)
    also have "\<dots> = settled g ?r v"
    proof (rule settled_cong)
      fix k assume "k \<in> field_refs g"
      with refs have "k \<noteq> cf_Name g" "k \<notin> set (map cf_Name fs)" by auto
      then show "mget v k = mget ?r k"
        by (simp add: normalize_fields_other normalize_field_other)
    qed simp
    finally show ?thesis using True by simp
  next
    case False
    with Cons.prems have "f \<in> set fs" by simp
    then have "cf_Name f \<in> set (map cf_Name fs)" by simp
    with Cons.prems(1) have "cf_Name f \<noteq> cf_Name g" by auto
    from Cons \<open>f \<in> set fs\<close> have "mget ?r (cf_Name f) = settled f ?r (normalize_field g v)" by simp
    also have "\<dots> = settled f ?r v"
      using \<open>cf_Name f \<noteq> cf_Name g\<close> by (intro settled_cong) (simp_all add: normalize_field_other)
    finally show ?thesis by simp
  qed
qed simp

lemma Normalize_known:
  "Catalog_Get c n = Some ct \<Longrightarrow> Normalize c n v = normalize_fields (cd_Fields ct) v"
  by (simp add: Normalize_def)

lemma Normalize_settled:
  assumes "Catalog_Get c n = Some ct" and "well_ordered ct" and "f \<in> set (cd_Fields ct)"
  shows "mget (Normalize c n v) (cf_Name f) = settled f (Normalize c n v) v"
  using assms by (simp add: Normalize_known well_ordered_def field_names_def normalize_fields_settled)

lemma Normalize_other:
  "Catalog_Get c n = Some ct \<Longrightarrow> k \<notin> set (field_names ct) \<Longrightarrow> mget (Normalize c n v) k = mget v k"
  by (simp add: Normalize_known field_names_def normalize_fields_other)

lemma settled_absent: "\<not> Applies f r \<Longrightarrow> settled f r v = None"
  by (simp add: settled_def)

lemma settled_derived:
  "Applies f r \<Longrightarrow> cf_Derived f = Some d \<Longrightarrow> mget (fd_Map d) (str_at r (fd_From d)) = Some x \<Longrightarrow>
   settled f r v = Some (GStr x)"
  by (simp add: settled_def)

text \<open>Normalising twice changes nothing more.\<close>

lemma settled_idem:
  assumes "mget r (cf_Name f) = settled f r v"
  shows "settled f r r = settled f r v"
  using assms by (auto simp: settled_def split: option.splits if_splits)

lemma normalize_fields_id:
  assumes "\<forall>f\<in>set fs. mget r (cf_Name f) = settled f r r"
  shows "mget (normalize_fields fs r) k = mget r k"
  using assms
proof (induction fs arbitrary: r)
  case (Cons g fs)
  have same: "mget (normalize_field g r) k = mget r k" for k
    using Cons.prems by (cases "k = cf_Name g") (simp_all add: normalize_field_same normalize_field_other)
  then have "settled f (normalize_field g r) (normalize_field g r) = settled f r r" for f
    by (intro settled_cong) simp_all
  with Cons.prems same have "\<forall>f\<in>set fs. mget (normalize_field g r) (cf_Name f) =
      settled f (normalize_field g r) (normalize_field g r)" by simp
  from Cons.IH [OF this] same show ?case by simp
qed simp

subsection \<open>Validation of values\<close>

definition fieldLabel :: "connection_field \<Rightarrow> string" where
  "fieldLabel f = (if cf_Label f \<noteq> [] then cf_Label f else cf_Name f)"

fun toFloat :: "goval \<Rightarrow> rat option" where
  "toFloat (GFloat n) = Some n"
| "toFloat (GFloat32 n) = Some n"
| "toFloat (GInt n) = Some (of_int n)"
| "toFloat (GInt32 n) = Some (of_int n)"
| "toFloat (GInt64 n) = Some (of_int n)"
| "toFloat _ = None"

definition validateFieldValue :: "connection_field \<Rightarrow> goval \<Rightarrow> gerr + unit" where
  "validateFieldValue f value =
     (if cf_Type f = FieldTypeString then
        (if as_str value = None then Inl (Errorf ''%s must be a string'' [FStr (fieldLabel f)])
         else Inr ())
      else if cf_Type f = FieldTypeBoolean then
        (if as_bool value = None then Inl (Errorf ''%s must be a boolean'' [FStr (fieldLabel f)])
         else Inr ())
      else if cf_Type f = FieldTypeNumber then
        (case toFloat value of
           None \<Rightarrow> Inl (Errorf ''%s must be a number'' [FStr (fieldLabel f)])
         | Some number \<Rightarrow>
             (case cf_Min f of
                Some lo \<Rightarrow>
                  if number < lo then Inl (Errorf ''%s must be at least %g'' [FStr (fieldLabel f), FNum lo])
                  else (case cf_Max f of
                     Some hi \<Rightarrow>
                       if number > hi then Inl (Errorf ''%s must be at most %g'' [FStr (fieldLabel f), FNum hi])
                       else Inr ()
                   | None \<Rightarrow> Inr ())
              | None \<Rightarrow> (case cf_Max f of
                     Some hi \<Rightarrow>
                       if number > hi then Inl (Errorf ''%s must be at most %g'' [FStr (fieldLabel f), FNum hi])
                       else Inr ()
                   | None \<Rightarrow> Inr ())))
      else if cf_Type f = FieldTypeEnum then
        (case as_str value of
           None \<Rightarrow> Inl (Errorf ''%s must be a string'' [FStr (fieldLabel f)])
         | Some str \<Rightarrow>
             (if str \<in> set (cf_Options f) then Inr ()
              else Inl (Errorf ''%s must be one of: %s''
                          [FStr (fieldLabel f), FStr (str_join (cf_Options f) '', '')])))
      else Inr ())"

text \<open>A value the validator counts as missing: no key, nil, or the empty string.\<close>

definition missing :: "goval gomap \<Rightarrow> string \<Rightarrow> bool" where
  "missing values k = (mget values k = None \<or> mget values k = Some GNil \<or> mget values k = Some (GStr []))"

definition validate_field :: "goval gomap \<Rightarrow> bool \<Rightarrow> connection_field \<Rightarrow> gerr + unit" where
  "validate_field values requireSecrets f =
     (if \<not> Applies f values then Inr ()
      else if missing values (cf_Name f) then
        (if cf_Required f \<and> (requireSecrets \<or> \<not> cf_Secret f)
         then Inl (Errorf ''%s is required'' [FStr (fieldLabel f)])
         else Inr ())
      else validateFieldValue f (the (mget values (cf_Name f))))"

definition validate :: "embedded_catalog \<Rightarrow> string \<Rightarrow> goval gomap \<Rightarrow> bool \<Rightarrow> gerr + unit" where
  "validate c typeName values requireSecrets =
     (case Catalog_Get c typeName of
        None \<Rightarrow> Inl (Errorf ''unknown contract %q'' [FStr typeName])
      | Some ct \<Rightarrow>
          sum_bind
            (each_ok (\<lambda>key.
               if Field ct key = None
               then Inl (Errorf ''unknown field %q for contract %q'' [FStr key, FStr typeName])
               else Inr ()) (mkeys values))
            (\<lambda>_. each_ok (validate_field values requireSecrets) (cd_Fields ct)))"

definition Validate :: "embedded_catalog \<Rightarrow> string \<Rightarrow> goval gomap \<Rightarrow> gerr + unit" where
  "Validate c typeName values = validate c typeName values True"

definition ValidateUpdate :: "embedded_catalog \<Rightarrow> string \<Rightarrow> goval gomap \<Rightarrow> gerr + unit" where
  "ValidateUpdate c typeName values = validate c typeName values False"

text \<open>The declarative reading of the two validators.\<close>

definition in_bounds :: "connection_field \<Rightarrow> rat \<Rightarrow> bool" where
  "in_bounds f n =
     ((case cf_Min f of None \<Rightarrow> True | Some lo \<Rightarrow> lo \<le> n) \<and>
      (case cf_Max f of None \<Rightarrow> True | Some hi \<Rightarrow> n \<le> hi))"

definition conforms :: "connection_field \<Rightarrow> goval \<Rightarrow> bool" where
  "conforms f v =
     ((cf_Type f = FieldTypeString \<longrightarrow> (\<exists>s. v = GStr s)) \<and>
      (cf_Type f = FieldTypeBoolean \<longrightarrow> (\<exists>b. v = GBool b)) \<and>
      (cf_Type f = FieldTypeNumber \<longrightarrow> (\<exists>n. toFloat v = Some n \<and> in_bounds f n)) \<and>
      (cf_Type f = FieldTypeEnum \<longrightarrow> (\<exists>s\<in>set (cf_Options f). v = GStr s)))"

definition accepted :: "contract_descriptor \<Rightarrow> goval gomap \<Rightarrow> bool" where
  "accepted ct values =
     (set (mkeys values) \<subseteq> set (field_names ct) \<and>
      (\<forall>f\<in>set (cd_Fields ct). Applies f values \<and> \<not> missing values (cf_Name f) \<longrightarrow>
         conforms f (the (mget values (cf_Name f)))) \<and>
      (\<forall>f\<in>set (cd_Fields ct). Applies f values \<and> cf_Required f \<and> \<not> cf_Secret f \<longrightarrow>
         \<not> missing values (cf_Name f)))"

definition secrets_present :: "contract_descriptor \<Rightarrow> goval gomap \<Rightarrow> bool" where
  "secrets_present ct values =
     (\<forall>f\<in>set (cd_Fields ct). Applies f values \<and> cf_Required f \<and> cf_Secret f \<longrightarrow>
        \<not> missing values (cf_Name f))"

lemma as_None_iff:
  "as_str v = None \<longleftrightarrow> (\<forall>s. v \<noteq> GStr s)" "as_bool v = None \<longleftrightarrow> (\<forall>b. v \<noteq> GBool b)"
  by (cases v; simp)+

lemma validateFieldValue_Inr: "validateFieldValue f v = Inr u \<longleftrightarrow> conforms f v"
proof -
  consider "cf_Type f = FieldTypeString" | "cf_Type f = FieldTypeBoolean"
    | "cf_Type f = FieldTypeNumber" | "cf_Type f = FieldTypeEnum"
    | "cf_Type f \<notin> {FieldTypeString, FieldTypeBoolean, FieldTypeNumber, FieldTypeEnum}" by auto
  then show ?thesis
  proof cases
    case 1
    then show ?thesis by (auto simp: validateFieldValue_def conforms_def as_None_iff field_types)
  next
    case 2
    then show ?thesis by (auto simp: validateFieldValue_def conforms_def as_None_iff field_types)
  next
    case 3
    then show ?thesis
      by (auto simp: validateFieldValue_def conforms_def in_bounds_def field_types not_less
            split: option.splits if_splits)
  next
    case 4
    then show ?thesis
      by (auto simp: validateFieldValue_def conforms_def field_types split: option.splits)
  next
    case 5
    then show ?thesis by (auto simp: validateFieldValue_def conforms_def)
  qed
qed

lemma validate_field_Inr:
  "validate_field values req f = Inr u \<longleftrightarrow>
     (Applies f values \<longrightarrow>
        (if missing values (cf_Name f) then \<not> (cf_Required f \<and> (req \<or> \<not> cf_Secret f))
         else conforms f (the (mget values (cf_Name f)))))"
  by (auto simp: validate_field_def validateFieldValue_Inr)

lemma validate_Inr:
  "validate c n values req = Inr u \<longleftrightarrow>
     (\<exists>ct. Catalog_Get c n = Some ct \<and> accepted ct values \<and> (req \<longrightarrow> secrets_present ct values))"
proof (cases "Catalog_Get c n")
  case None
  then show ?thesis by (simp add: validate_def)
next
  case (Some ct)
  have keys: "(\<forall>k\<in>set (mkeys values). Field ct k \<noteq> None) \<longleftrightarrow> set (mkeys values) \<subseteq> set (field_names ct)"
    by (auto simp: Field_None)
  have "validate c n values req = Inr u \<longleftrightarrow>
      (\<forall>k\<in>set (mkeys values). Field ct k \<noteq> None) \<and>
      (\<forall>f\<in>set (cd_Fields ct). validate_field values req f = Inr ())"
    by (auto simp: validate_def Some sum_bind_Inr_iff each_ok_Inr split: if_splits)
  also have "\<dots> \<longleftrightarrow> accepted ct values \<and> (req \<longrightarrow> secrets_present ct values)"
    unfolding keys validate_field_Inr accepted_def secrets_present_def by auto
  finally show ?thesis by (simp add: Some)
qed

lemma Validate_update: "Validate c n v = Inr () \<Longrightarrow> ValidateUpdate c n v = Inr ()"
  by (auto simp: Validate_def ValidateUpdate_def validate_Inr)

lemma accepted_conforms:
  assumes "accepted ct v" and "f \<in> set (cd_Fields ct)" and "Applies f v" and "\<not> missing v (cf_Name f)"
  shows "conforms f (the (mget v (cf_Name f)))"
  using assms by (auto simp: accepted_def)

lemma accepted_required:
  assumes "accepted ct v" and "f \<in> set (cd_Fields ct)" and "Applies f v" and "cf_Required f"
    and "\<not> cf_Secret f"
  shows "\<exists>x. mget v (cf_Name f) = Some x \<and> conforms f x"
proof -
  from assms have "\<not> missing v (cf_Name f)" by (auto simp: accepted_def)
  with accepted_conforms [OF assms(1-3) this] show ?thesis by (auto simp: missing_def)
qed

subsection \<open>The interface of a catalog\<close>

text \<open>
  The Go interface \<^verbatim>\<open>ContractCatalog\<close>, as a value that carries its methods, and the laws its
  clients rely on. A catalog backed by another source would have to satisfy the same laws.
\<close>

record catalog_iface =
  cc_List :: "contract_descriptor list"
  cc_Get :: "string \<Rightarrow> contract_descriptor option"
  cc_Validate :: "string \<Rightarrow> goval gomap \<Rightarrow> gerr + unit"
  cc_ValidateUpdate :: "string \<Rightarrow> goval gomap \<Rightarrow> gerr + unit"
  cc_Normalize :: "string \<Rightarrow> goval gomap \<Rightarrow> goval gomap"

definition embedded_iface :: "embedded_catalog \<Rightarrow> catalog_iface" where
  "embedded_iface c = \<lparr>cc_List = Catalog_List c, cc_Get = Catalog_Get c, cc_Validate = Validate c,
     cc_ValidateUpdate = ValidateUpdate c, cc_Normalize = Normalize c\<rparr>"

lemma embedded_iface_sel [simp]:
  "cc_List (embedded_iface c) = Catalog_List c" "cc_Get (embedded_iface c) = Catalog_Get c"
  "cc_Validate (embedded_iface c) = Validate c"
  "cc_ValidateUpdate (embedded_iface c) = ValidateUpdate c"
  "cc_Normalize (embedded_iface c) = Normalize c"
  by (simp_all add: embedded_iface_def)

locale contract_catalog =
  fixes K :: catalog_iface
  assumes Get_ok: "cc_Get K n = Some ct \<Longrightarrow> descriptor_ok ct \<and> cd_Name ct = n"
    and Get_listed: "cc_Get K n = Some ct \<Longrightarrow> ct \<in> set (cc_List K)"
    and ValidateUpdate_accepted:
      "cc_ValidateUpdate K n v = Inr () \<Longrightarrow> \<exists>ct. cc_Get K n = Some ct \<and> accepted ct v"
    and Validate_stronger: "cc_Validate K n v = Inr () \<Longrightarrow> cc_ValidateUpdate K n v = Inr ()"
begin

lemma Get_distinct: "cc_Get K n = Some ct \<Longrightarrow> distinct (field_names ct)"
  using Get_ok by (simp add: descriptor_ok_def)

lemma Get_name: "cc_Get K n = Some ct \<Longrightarrow> cd_Name ct = n"
  using Get_ok by simp

lemma validated:
  assumes "cc_Get K n = Some ct" and "cc_Validate K n v = Inr () \<or> cc_ValidateUpdate K n v = Inr ()"
  shows "accepted ct v"
proof -
  from assms(2) Validate_stronger have "cc_ValidateUpdate K n v = Inr ()" by blast
  from ValidateUpdate_accepted [OF this] assms(1) show ?thesis by auto
qed

end

lemma embedded_contract_catalog: "catalog_ok c \<Longrightarrow> contract_catalog (embedded_iface c)"
  by unfold_locales
     (auto simp: Catalog_List_def ValidateUpdate_def Validate_def validate_Inr catalog_ok_Get)

end
