(* ===== verification/Builtin_Contracts.thy ===== *)
theory Builtin_Contracts
  imports Contract_Catalog
begin

text \<open>
  The five descriptors embedded in the binary (\<^verbatim>\<open>internal/service/contracts/*.json\<close>), decoded, and
  the catalog they load into. Loading is evaluated here, so a malformed descriptor would fail
  this theory as it fails the start of the server.
\<close>

definition plain_field :: "string \<Rightarrow> string \<Rightarrow> string \<Rightarrow> bool \<Rightarrow> connection_field" where
  "plain_field name label type required =
     \<lparr>cf_Name = name, cf_Label = label, cf_Type = type, cf_Required = required, cf_Secret = False,
      cf_Masked = False, cf_Default = GNil, cf_Options = [], cf_Placeholder = [], cf_Help = [],
      cf_Min = None, cf_Max = None, cf_ShowWhen = None, cf_Derived = None\<rparr>"

definition database_server_contract :: contract_descriptor where
  "database_server_contract =
     \<lparr>cd_Name = ''database-server'', cd_DisplayName = ''SQL database'',
      cd_Description = ''SQL database server. The engine tells consuming packages how to address it.'',
      cd_Icon = ''pi pi-database'', cd_Category = ''database'', cd_External = True,
      cd_Fields =
       [(plain_field ''engine'' ''Engine'' ''enum'' True)
        \<lparr>cf_Default := GStr ''postgresql'', cf_Options := [''postgresql'', ''mysql''], 
          cf_Help := ''Read by consuming packages to build their JDBC URL.''\<rparr>,
        (plain_field ''driver'' ''JDBC driver'' ''string'' True)
        \<lparr>
          cf_Help := ''Driver class name read by packages configuring a JDBC datasource. Follows from the engine.'', 
          cf_Derived := Some \<lparr>fd_From = ''engine'',
            fd_Map = [(''postgresql'', ''org.postgresql.Driver''), (''mysql'', ''com.mysql.cj.jdbc.Driver'')]\<rparr>\<rparr>,
        (plain_field ''host'' ''Host'' ''string'' True)
        \<lparr>cf_Placeholder := ''postgres.example.com''\<rparr>,
        (plain_field ''port'' ''Port'' ''number'' True)
        \<lparr>cf_Default := GFloat 5432, 
          cf_Help := ''5432 for PostgreSQL, 3306 for MySQL and MariaDB.'', cf_Min := Some 1, cf_Max := Some 65535\<rparr>,
        (plain_field ''dbName'' ''Database'' ''string'' True)
        \<lparr>cf_Placeholder := ''analytics''\<rparr>,
        (plain_field ''username'' ''User'' ''string'' True)
        \<lparr>cf_Secret := True, 
          cf_Help := ''Stored in the credentials Secret, under the username key, as the database-server contract expects.''\<rparr>,
        (plain_field ''password'' ''Password'' ''string'' True)
        \<lparr>cf_Secret := True, cf_Masked := True\<rparr>,
        (plain_field ''sslMode'' ''TLS mode'' ''enum'' False)
        \<lparr>cf_Default := GStr ''prefer'', cf_Options := [''prefer'', ''require'', ''verify-ca'', ''verify-full'', ''disable''], 
          cf_Help := ([] @ [CHR 0x27] @ ''prefer'' @ [CHR 0x27] @ '' tries TLS and falls back to clear text if the server refuses, the safe default for a server you do not control. Use '' @ [CHR 0x27] @ ''verify-full'' @ [CHR 0x27] @ '' when the server presents a certificate your cluster trusts.''), cf_ShowWhen := Some \<lparr>fc_Field = ''engine'', fc_Value = ''postgresql''\<rparr>\<rparr>,
        (plain_field ''tls'' ''TLS mode'' ''enum'' False)
        \<lparr>cf_Options := [''false'', ''preferred'', ''true'', ''skip-verify''], 
          cf_Help := (''MySQL accepts a different set of values from PostgreSQL. '' @ [CHR 0x27] @ ''preferred'' @ [CHR 0x27] @ '' tries TLS and falls back to clear text.''), cf_ShowWhen := Some \<lparr>fc_Field = ''engine'', fc_Value = ''mysql''\<rparr>\<rparr>],
      cd_EndpointFrom = []\<rparr>"

definition hive_contract :: contract_descriptor where
  "hive_contract =
     \<lparr>cd_Name = ''hive'', cd_DisplayName = ''Hive metastore'',
      cd_Description = ''Hive metastore reached over thrift. Holds the table definitions a query engine reads.'',
      cd_Icon = ''pi pi-table'', cd_Category = ''catalog'', cd_External = True,
      cd_Fields =
       [(plain_field ''thriftUri'' ''Thrift URI'' ''string'' True)
        \<lparr>cf_Placeholder := ''thrift://metastore.example.com:9083'', 
          cf_Help := ''The only address the hive contract carries.''\<rparr>],
      cd_EndpointFrom = [''thriftUri'']\<rparr>"

definition iceberg_catalog_contract :: contract_descriptor where
  "iceberg_catalog_contract =
     \<lparr>cd_Name = ''iceberg-catalog'', cd_DisplayName = ''Iceberg REST catalog'',
      cd_Description = ''Iceberg REST catalog, Polaris or another implementation of the same API.'',
      cd_Icon = ''pi pi-database'', cd_Category = ''catalog'', cd_External = True,
      cd_Fields =
       [(plain_field ''uri'' ''Catalog URI'' ''string'' True)
        \<lparr>cf_Placeholder := ''https://polaris.example.com/api/catalog''\<rparr>,
        (plain_field ''internalUri'' ''In-cluster URI'' ''string'' False)
        \<lparr>
          cf_Help := ''Preferred by workloads running on this cluster. Leave empty for a catalog hosted elsewhere.''\<rparr>,
        plain_field ''realm'' ''Realm'' ''string'' False],
      cd_EndpointFrom = [''internalUri'', ''uri'']\<rparr>"

definition s3_contract :: contract_descriptor where
  "s3_contract =
     \<lparr>cd_Name = ''s3'', cd_DisplayName = ''S3 object storage'',
      cd_Description = ''S3-compatible object storage (AWS S3, MinIO, SeaweedFS, ...).'',
      cd_Icon = ''pi pi-box'', cd_Category = ''storage'', cd_External = True,
      cd_Fields =
       [(plain_field ''apiUrl'' ''API endpoint'' ''string'' True)
        \<lparr>cf_Placeholder := ''https://s3.example.com'', 
          cf_Help := ''Leave the AWS regional endpoint out for AWS S3 itself; set it for MinIO, SeaweedFS and other S3-compatible servers.''\<rparr>,
        (plain_field ''internalUrl'' ''Internal URL'' ''string'' False)
        \<lparr>cf_Placeholder := ''http://storage-s3.default.svc.cluster.local:8333'', 
          cf_Help := ''In-cluster address, used by workloads instead of going out through the ingress.''\<rparr>,
        plain_field ''consoleUrl'' ''Console URL'' ''string'' False,
        plain_field ''bucket'' ''Bucket'' ''string'' True,
        (plain_field ''region'' ''Region'' ''string'' False)
        \<lparr>cf_Default := GStr ''us-east-1''\<rparr>,
        (plain_field ''accessKey'' ''Access key ID'' ''string'' True)
        \<lparr>cf_Secret := True, 
          cf_Help := ''Stored in the credentials Secret alongside the secret key, as the s3 contract expects. An access key identifies a caller, it does not belong in a readable object.''\<rparr>,
        (plain_field ''secretKey'' ''Secret access key'' ''string'' True)
        \<lparr>cf_Secret := True, cf_Masked := True\<rparr>,
        (plain_field ''pathStyle'' ''Path-style addressing'' ''boolean'' False)
        \<lparr>cf_Default := GBool True, 
          cf_Help := ''Required by most self-hosted S3 servers. AWS S3 uses virtual-host style.''\<rparr>],
      cd_EndpointFrom = [''internalUrl'', ''apiUrl'']\<rparr>"

definition trino_contract :: contract_descriptor where
  "trino_contract =
     \<lparr>cd_Name = ''trino'', cd_DisplayName = ''Trino'',
      cd_Description = ''Trino distributed SQL query engine. Fields follow the trino ClusterContract, which publishes URIs rather than a host and a port.'',
      cd_Icon = ''pi pi-server'', cd_Category = ''query-engine'', cd_External = True,
      cd_Fields =
       [(plain_field ''url'' ''URL'' ''string'' True)
        \<lparr>cf_Placeholder := ''https://trino.example.com'', 
          cf_Help := ''Address a human opens in a browser or a BI tool.''\<rparr>,
        (plain_field ''uri'' ''JDBC URI'' ''string'' True)
        \<lparr>cf_Placeholder := ''jdbc:trino://trino.example.com:443'', 
          cf_Help := ''Read by packages configuring a JDBC datasource.''\<rparr>,
        (plain_field ''internalUri'' ''In-cluster URI'' ''string'' False)
        \<lparr>cf_Placeholder := ''jdbc:trino://trino.analytics.svc.cluster.local:8080'', 
          cf_Help := ''Preferred by workloads running on this cluster. Leave empty for a Trino hosted elsewhere.''\<rparr>],
      cd_EndpointFrom = [''internalUri'', ''uri'', ''url'']\<rparr>"

definition contractsFS :: "contract_file list" where
  "contractsFS =
     [\<lparr>en_Name = ''database-server.json'', en_IsDir = False, en_Read = Inr (Inr database_server_contract)\<rparr>,
      \<lparr>en_Name = ''hive.json'', en_IsDir = False, en_Read = Inr (Inr hive_contract)\<rparr>,
      \<lparr>en_Name = ''iceberg-catalog.json'', en_IsDir = False, en_Read = Inr (Inr iceberg_catalog_contract)\<rparr>,
      \<lparr>en_Name = ''s3.json'', en_IsDir = False, en_Read = Inr (Inr s3_contract)\<rparr>,
      \<lparr>en_Name = ''trino.json'', en_IsDir = False, en_Read = Inr (Inr trino_contract)\<rparr>]"

lemmas contract_defs = database_server_contract_def hive_contract_def iceberg_catalog_contract_def s3_contract_def trino_contract_def plain_field_def

definition builtin_catalog :: embedded_catalog where
  "builtin_catalog =
     (case NewEmbeddedContractCatalog (Inr contractsFS) of
        Inr c \<Rightarrow> c
      | Inl e \<Rightarrow> \<lparr>ec_types = [], ec_byName = []\<rparr>)"

lemma builtin_names [simp]:
  "cd_Name database_server_contract = ''database-server''" "cd_Name hive_contract = ''hive''"
  "cd_Name iceberg_catalog_contract = ''iceberg-catalog''" "cd_Name s3_contract = ''s3''"
  "cd_Name trino_contract = ''trino''"
  by (simp_all add: contract_defs)

lemma builtin_descriptors_ok:
  "descriptor_ok database_server_contract" "descriptor_ok hive_contract"
  "descriptor_ok iceberg_catalog_contract" "descriptor_ok s3_contract" "descriptor_ok trino_contract"
  by (simp_all add: contract_defs descriptor_ok_def field_names_def field_type_ok_def field_types)

lemma builtin_well_ordered:
  "well_ordered database_server_contract" "well_ordered hive_contract"
  "well_ordered iceberg_catalog_contract" "well_ordered s3_contract" "well_ordered trino_contract"
  by (simp_all add: contract_defs well_ordered_def field_names_def field_refs_def)

lemma contractsFS_load:
  "load_contracts contractsFS =
     Inr [database_server_contract, hive_contract, iceberg_catalog_contract, s3_contract, trino_contract]"
  using builtin_descriptors_ok [THEN validateTypeDescriptor_Inr [of _ "()", THEN iffD2]]
  by (simp add: contractsFS_def has_suffix_def)

lemma contractsFS_sorted:
  "sort_by cd_Name
     [database_server_contract, hive_contract, iceberg_catalog_contract, s3_contract, trino_contract] =
   [database_server_contract, hive_contract, iceberg_catalog_contract, s3_contract, trino_contract]"
  by (simp add: less_char_def less_eq_char_def)

lemma builtin_loads:
  "NewEmbeddedContractCatalog (Inr contractsFS) =
     Inr \<lparr>ec_types = [database_server_contract, hive_contract, iceberg_catalog_contract, s3_contract,
            trino_contract],
          ec_byName = [(''database-server'', database_server_contract), (''hive'', hive_contract),
            (''iceberg-catalog'', iceberg_catalog_contract), (''s3'', s3_contract),
            (''trino'', trino_contract)]\<rparr>"
  by (simp only: NewEmbeddedContractCatalog_def sum.case contractsFS_load sum_bind_simps Let_def
        contractsFS_sorted) simp

lemma builtin_catalog_eq: "NewEmbeddedContractCatalog (Inr contractsFS) = Inr builtin_catalog"
  by (simp add: builtin_catalog_def builtin_loads)

lemma builtin_catalog_ok: "catalog_ok builtin_catalog"
  by (rule new_catalog_ok [OF builtin_catalog_eq])

lemma builtin_Get [simp]:
  "Catalog_Get builtin_catalog ''database-server'' = Some database_server_contract"
  "Catalog_Get builtin_catalog ''hive'' = Some hive_contract"
  "Catalog_Get builtin_catalog ''iceberg-catalog'' = Some iceberg_catalog_contract"
  "Catalog_Get builtin_catalog ''s3'' = Some s3_contract"
  "Catalog_Get builtin_catalog ''trino'' = Some trino_contract"
  by (simp_all add: builtin_catalog_def builtin_loads Catalog_Get_def)

lemma builtin_Get_well_ordered: "Catalog_Get builtin_catalog n = Some ct \<Longrightarrow> well_ordered ct"
  using builtin_well_ordered
  by (auto simp: builtin_catalog_def builtin_loads Catalog_Get_def split: if_splits)

text \<open>The fields of the database-server contract, by position.\<close>

definition database_field :: "nat \<Rightarrow> connection_field" where
  "database_field i = cd_Fields database_server_contract ! i"

lemma database_field_in: "i < 9 \<Longrightarrow> database_field i \<in> set (cd_Fields database_server_contract)"
  unfolding database_field_def by (rule nth_mem) (simp add: contract_defs)

lemma database_engine:
  "database_field 0 \<in> set (cd_Fields database_server_contract)"
  "cf_Name (database_field 0) = ''engine''" "cf_Type (database_field 0) = FieldTypeEnum"
  "cf_Options (database_field 0) = [''postgresql'', ''mysql'']"
  "cf_ShowWhen (database_field 0) = None" "cf_Required (database_field 0)" "\<not> cf_Secret (database_field 0)"
  using database_field_in [of 0] by (simp_all add: database_field_def contract_defs field_types)

lemma database_driver:
  "database_field 1 \<in> set (cd_Fields database_server_contract)"
  "cf_Name (database_field 1) = ''driver''" "cf_ShowWhen (database_field 1) = None"
  "cf_Derived (database_field 1) = Some \<lparr>fd_From = ''engine'',
     fd_Map = [(''postgresql'', ''org.postgresql.Driver''), (''mysql'', ''com.mysql.cj.jdbc.Driver'')]\<rparr>"
  using database_field_in [of 1] by (simp_all add: database_field_def contract_defs)

lemma database_port:
  "database_field 3 \<in> set (cd_Fields database_server_contract)"
  "cf_Name (database_field 3) = ''port''" "cf_Type (database_field 3) = FieldTypeNumber"
  "cf_ShowWhen (database_field 3) = None" "cf_Required (database_field 3)" "\<not> cf_Secret (database_field 3)"
  "cf_Min (database_field 3) = Some 1" "cf_Max (database_field 3) = Some 65535"
  using database_field_in [of 3] by (simp_all add: database_field_def contract_defs field_types)

lemma database_sslMode:
  "database_field 7 \<in> set (cd_Fields database_server_contract)"
  "cf_Name (database_field 7) = ''sslMode''"
  "cf_ShowWhen (database_field 7) = Some \<lparr>fc_Field = ''engine'', fc_Value = ''postgresql''\<rparr>"
  using database_field_in [of 7] by (simp_all add: database_field_def contract_defs)

lemma database_tls:
  "database_field 8 \<in> set (cd_Fields database_server_contract)"
  "cf_Name (database_field 8) = ''tls''"
  "cf_ShowWhen (database_field 8) = Some \<lparr>fc_Field = ''engine'', fc_Value = ''mysql''\<rparr>"
  using database_field_in [of 8] by (simp_all add: database_field_def contract_defs)

lemma database_tls_type:
  "cf_Type (database_field 8) = FieldTypeEnum"
  "cf_Options (database_field 8) = [''false'', ''preferred'', ''true'', ''skip-verify'']"
  by (simp_all add: database_field_def contract_defs field_types)

interpretation builtin: contract_catalog "embedded_iface builtin_catalog"
  by (rule embedded_contract_catalog [OF builtin_catalog_ok])

end
