(* ===== verification/Catalog_Properties.thy ===== *)
theory Catalog_Properties
  imports Builtin_Contracts
begin

text \<open>
  What the catalog guarantees to whoever stores or reads the values of a connection.
\<close>

subsection \<open>Normalisation\<close>

text \<open>C1: for a contract whose fields refer only to earlier fields, the values
  \<^verbatim>\<open>Normalize\<close> returns are coherent whatever was submitted. A field whose condition is not met is
  absent; a field derived from a value its table knows carries the derived value, even against what
  was submitted; an omitted field that is neither derived nor secret carries its default; a
  secret field is never filled; and nothing outside the contract is touched.\<close>

theorem Normalize_settles:
  assumes "Catalog_Get c n = Some ct" and "well_ordered ct" and "r = Normalize c n v"
  shows "(\<forall>f\<in>set (cd_Fields ct).
            (\<not> Applies f r \<longrightarrow> mget r (cf_Name f) = None) \<and>
            (\<forall>d x. Applies f r \<and> cf_Derived f = Some d \<and>
               mget (fd_Map d) (str_at r (fd_From d)) = Some x \<longrightarrow> mget r (cf_Name f) = Some (GStr x)) \<and>
            (Applies f r \<and> cf_Derived f = None \<and> \<not> cf_Secret f \<and> cf_Default f \<noteq> GNil \<and>
               mget v (cf_Name f) = None \<longrightarrow> mget r (cf_Name f) = Some (cf_Default f)) \<and>
            (Applies f r \<and> cf_Derived f = None \<and> (cf_Secret f \<or> mget v (cf_Name f) \<noteq> None) \<longrightarrow>
               mget r (cf_Name f) = mget v (cf_Name f))) \<and>
         (\<forall>k. k \<notin> set (field_names ct) \<longrightarrow> mget r k = mget v k)"
  using Normalize_settled [OF assms(1,2), of _ v] Normalize_other [OF assms(1), of _ v]
  by (auto simp: assms(3) settled_def split: if_splits)

theorem Normalize_settles_witness:
  "mget (Normalize builtin_catalog ''database-server''
      [(''engine'', GStr ''mysql''), (''driver'', GStr ''wrong''), (''sslMode'', GStr ''prefer'')]) ''sslMode'' = None"
proof -
  let ?r = "Normalize builtin_catalog ''database-server''
      [(''engine'', GStr ''mysql''), (''driver'', GStr ''wrong''), (''sslMode'', GStr ''prefer'')]"
  let ?f = "cd_Fields database_server_contract ! 7"
  have f: "?f \<in> set (cd_Fields database_server_contract)" "cf_Name ?f = ''sslMode''"
    by (simp_all add: contract_defs)
  have "\<not> Applies ?f ?r"
    by (simp add: Normalize_def normalize_field_def Applies_def str_at_def contract_defs)
  with Normalize_settles [OF builtin_Get(1) builtin_well_ordered(1) refl] f
  show ?thesis by metis
qed

text \<open>Normalising the values a second time, as an edit of what was stored
  does, leaves every key as it is.\<close>

lemma Normalize_idempotent:
  assumes "Catalog_Get c n = Some ct" and "well_ordered ct"
  shows "mget (Normalize c n (Normalize c n v)) k = mget (Normalize c n v) k"
proof -
  have "mget r (cf_Name f) = settled f r r"
    if "r = Normalize c n v" "f \<in> set (cd_Fields ct)" for r f
    using Normalize_settled [OF assms that(2)] that(1) by (simp add: settled_idem)
  then show ?thesis
    using assms(1) by (simp add: Normalize_known normalize_fields_id)
qed

subsection \<open>Validation\<close>

text \<open>C2: \<^verbatim>\<open>Validate\<close> accepts exactly the values that name only fields of a known
  contract, whose values in play conform to their field's type and bounds, and that carry every
  required field in play; \<^verbatim>\<open>ValidateUpdate\<close> accepts exactly the same less the presence of the
  secret fields.\<close>

theorem Validate_iff:
  "(Validate c n v = Inr () \<longleftrightarrow>
      (\<exists>ct. Catalog_Get c n = Some ct \<and> accepted ct v \<and> secrets_present ct v)) \<and>
   (ValidateUpdate c n v = Inr () \<longleftrightarrow> (\<exists>ct. Catalog_Get c n = Some ct \<and> accepted ct v))"
  by (simp_all add: Validate_def ValidateUpdate_def validate_Inr)

subsection \<open>The built-in contracts\<close>

text \<open>The embedded descriptors load, so the server starts: the five
  contracts are listed in name order, each under its own name, each descriptor is well formed and
  refers only to earlier fields.\<close>

theorem builtin_contracts_load:
  "\<exists>c. NewEmbeddedContractCatalog (Inr contractsFS) = Inr c \<and>
       map cd_Name (Catalog_List c) =
         [''database-server'', ''hive'', ''iceberg-catalog'', ''s3'', ''trino''] \<and>
       list_all (\<lambda>ct. Catalog_Get c (cd_Name ct) = Some ct \<and> descriptor_ok ct \<and> well_ordered ct)
         (Catalog_List c)"
  using builtin_descriptors_ok builtin_well_ordered
  by (simp add: builtin_loads Catalog_List_def Catalog_Get_def)

lemma database_server_values:
  assumes "ValidateUpdate builtin_catalog ''database-server''
             (Normalize builtin_catalog ''database-server'' v) = Inr ()"
    and "r = Normalize builtin_catalog ''database-server'' v"
  shows "((mget r ''engine'' = Some (GStr ''postgresql'') \<and>
            mget r ''driver'' = Some (GStr ''org.postgresql.Driver'') \<and> mget r ''tls'' = None) \<or>
         (mget r ''engine'' = Some (GStr ''mysql'') \<and>
            mget r ''driver'' = Some (GStr ''com.mysql.cj.jdbc.Driver'') \<and> mget r ''sslMode'' = None)) \<and>
         (\<exists>q p. mget r ''port'' = Some q \<and> toFloat q = Some p \<and> 1 \<le> p \<and> p \<le> 65535)"
proof -
  have acc: "accepted database_server_contract r"
    using assms by (simp add: ValidateUpdate_def validate_Inr)
  have settled: "mget r (cf_Name f) = settled f r v" if "f \<in> set (cd_Fields database_server_contract)" for f
    unfolding assms(2) using that by (rule Normalize_settled [OF builtin_Get(1) builtin_well_ordered(1)])
  note engine = database_engine and driver = database_driver and port = database_port
    and ssl = database_sslMode and tls = database_tls
  have "Applies (database_field 0) r" by (simp add: Applies_def engine)
  from accepted_required [OF acc engine(1) this engine(6,7)]
  have e: "mget r ''engine'' = Some (GStr ''postgresql'') \<or> mget r ''engine'' = Some (GStr ''mysql'')"
    by (auto simp: conforms_def engine field_types)
  have "Applies (database_field 3) r" by (simp add: Applies_def port)
  from accepted_required [OF acc port(1) this port(5,6)]
  have "\<exists>q p. mget r ''port'' = Some q \<and> toFloat q = Some p \<and> 1 \<le> p \<and> p \<le> 65535"
    by (auto simp: conforms_def in_bounds_def port field_types)
  with e settled [OF driver(1)] settled [OF ssl(1)] settled [OF tls(1)]
  show ?thesis
    by (elim disjE) (simp_all add: settled_def Applies_def str_at_def driver [unfolded One_nat_def] ssl tls)
qed

text \<open>Whatever is submitted for a database server, the values that
  pass validation after normalisation describe one engine only: the JDBC driver is the engine's,
  the other engine's TLS mode is absent, and the port is between 1 and 65535.\<close>

lemma database_server_coherent:
  assumes "ValidateUpdate builtin_catalog ''database-server''
             (Normalize builtin_catalog ''database-server'' v) = Inr ()"
    and "r = Normalize builtin_catalog ''database-server'' v"
  shows "((mget r ''engine'' = Some (GStr ''postgresql'') \<and>
            mget r ''driver'' = Some (GStr ''org.postgresql.Driver'') \<and> mget r ''tls'' = None) \<or>
         (mget r ''engine'' = Some (GStr ''mysql'') \<and>
            mget r ''driver'' = Some (GStr ''com.mysql.cj.jdbc.Driver'') \<and> mget r ''sslMode'' = None)) \<and>
         (\<exists>q p. mget r ''port'' = Some q \<and> toFloat q = Some p \<and> 1 \<le> p \<and> p \<le> 65535)"
  using assms by (rule database_server_values)

definition sample_database :: "goval gomap" where
  "sample_database = [(''engine'', GStr ''mysql''), (''driver'', GStr ''wrong''), (''host'', GStr ''h''),
     (''port'', GFloat 3306), (''dbName'', GStr ''d''), (''sslMode'', GStr ''prefer'')]"

lemma sample_database_valid:
  "ValidateUpdate builtin_catalog ''database-server''
     (Normalize builtin_catalog ''database-server'' sample_database) = Inr ()"
  by (simp add: ValidateUpdate_def validate_def Field_def sample_database_def Normalize_def
        normalize_field_def validate_field_def validateFieldValue_def missing_def Applies_def
        str_at_def field_types contract_defs)

end
