(* ===== verification/Effects.thy ===== *)
theory Effects
  imports Go_Values
begin

text \<open>
  A function with effects is an interaction tree: it either returns, or issues a call to the
  outside world (the Kubernetes API server, a registry, the clock) and continues with whatever
  answer comes back. Nothing is assumed about the answers. The relation \<^verbatim>\<open>exec\<close> lists every
  execution, as the trace of calls with their answers and the value returned, so a theorem
  about all executions covers failures of the API server and changes made by anyone else
  between two calls.
\<close>

datatype ('c, 'r, 'a) prog = Ret 'a | Call 'c "'r \<Rightarrow> ('c, 'r, 'a) prog"

primrec prog_bind ::
    "('c, 'r, 'a) prog \<Rightarrow> ('a \<Rightarrow> ('c, 'r, 'b) prog) \<Rightarrow> ('c, 'r, 'b) prog" where
  "prog_bind (Ret a) f = f a"
| "prog_bind (Call c k) f = Call c (\<lambda>r. prog_bind (k r) f)"

text \<open>\<^verbatim>\<open>x, err := m; if err != nil { return err }\<close> and then the rest.\<close>

definition try_bind ::
    "('c, 'r, 'e + 'a) prog \<Rightarrow> ('a \<Rightarrow> ('c, 'r, 'e + 'b) prog) \<Rightarrow> ('c, 'r, 'e + 'b) prog" where
  "try_bind m f = prog_bind m (\<lambda>x. case x of Inl e \<Rightarrow> Ret (Inl e) | Inr a \<Rightarrow> f a)"

text \<open>A pure check in the middle of a function.\<close>

definition try_pure :: "'e + 'a \<Rightarrow> ('a \<Rightarrow> ('c, 'r, 'e + 'b) prog) \<Rightarrow> ('c, 'r, 'e + 'b) prog" where
  "try_pure x f = (case x of Inl e \<Rightarrow> Ret (Inl e) | Inr a \<Rightarrow> f a)"

lemma try_bind_simps [simp]:
  "try_bind (Ret (Inl e)) f = Ret (Inl e)"
  "try_bind (Ret (Inr a)) f = f a"
  "try_bind (Call c k) f = Call c (\<lambda>r. try_bind (k r) f)"
  by (simp_all add: try_bind_def)

lemma try_pure_simps [simp]:
  "try_pure (Inl e) f = Ret (Inl e)" "try_pure (Inr a) f = f a"
  by (simp_all add: try_pure_def)

lemma prog_bind_Ret [simp]: "prog_bind m Ret = m"
  by (induction m) auto

lemma prog_bind_assoc: "prog_bind (prog_bind m f) g = prog_bind m (\<lambda>a. prog_bind (f a) g)"
  by (induction m) auto

subsection \<open>Executions\<close>

inductive exec :: "('c, 'r, 'a) prog \<Rightarrow> ('c \<times> 'r) list \<Rightarrow> 'a \<Rightarrow> bool" where
  ret: "exec (Ret a) [] a"
| call: "exec (k r) tr a \<Longrightarrow> exec (Call c k) ((c, r) # tr) a"

inductive_cases exec_RetE [elim!]: "exec (Ret a) tr b"
inductive_cases exec_CallE: "exec (Call c k) tr b"
inductive_simps exec_Ret [simp]: "exec (Ret a) tr b"
inductive_simps exec_Call_raw: "exec (Call c k) tr b"

lemma exec_Call [simp]:
  "exec (Call c k) tr b \<longleftrightarrow> (\<exists>r tr'. tr = (c, r) # tr' \<and> exec (k r) tr' b)"
  by (auto simp: exec_Call_raw)

text \<open>The execution a given list of answers leads to.\<close>

primrec replay :: "('c, 'r, 'a) prog \<Rightarrow> 'r list \<Rightarrow> (('c \<times> 'r) list \<times> 'a) option" where
  "replay (Ret a) rs = (if rs = [] then Some ([], a) else None)"
| "replay (Call c k) rs =
     (case rs of [] \<Rightarrow> None
      | r # rs' \<Rightarrow> map_option (\<lambda>(tr, a). ((c, r) # tr, a)) (replay (k r) rs'))"

lemma replay_exec: "exec m tr a \<longleftrightarrow> replay m (map snd tr) = Some (tr, a)"
proof (induction m arbitrary: tr)
  case (Call c k)
  have IH: "exec (k r) tr a \<longleftrightarrow> replay (k r) (map snd tr) = Some (tr, a)" for r tr
    by (rule Call.IH [OF rangeI])
  show ?case by (cases tr) (auto simp: IH)
qed auto

lemma replay_answers: "replay m rs = Some (tr, a) \<Longrightarrow> map snd tr = rs"
proof (induction m arbitrary: rs tr)
  case (Call c k)
  have IH: "replay (k r) rs = Some (tr, a) \<Longrightarrow> map snd tr = rs" for r rs tr
    by (rule Call.IH [OF rangeI])
  from Call.prems show ?case by (auto split: list.splits dest: IH)
qed (auto split: if_splits)

lemma replay_Some: "replay m rs = Some (tr, a) \<Longrightarrow> exec m tr a"
  using replay_answers [of m rs tr a] by (simp add: replay_exec)

lemma exec_deterministic: "exec m tr a \<Longrightarrow> exec m tr b \<Longrightarrow> a = b"
  by (simp add: replay_exec)

lemma exec_bind:
  "exec (prog_bind m f) tr b \<longleftrightarrow> (\<exists>t1 a t2. tr = t1 @ t2 \<and> exec m t1 a \<and> exec (f a) t2 b)"
proof (induction m arbitrary: tr)
  case (Call c k)
  show ?case by (auto simp: Call) (metis append_Cons)+
qed auto

lemma exec_try_bind:
  "exec (try_bind m f) tr b \<longleftrightarrow>
     (\<exists>e. exec m tr (Inl e) \<and> b = Inl e) \<or>
     (\<exists>t1 a t2. tr = t1 @ t2 \<and> exec m t1 (Inr a) \<and> exec (f a) t2 b)"
proof
  assume "exec (try_bind m f) tr b"
  then obtain t1 x t2 where x: "tr = t1 @ t2" "exec m t1 x"
      "exec (case x of Inl e \<Rightarrow> Ret (Inl e) | Inr a \<Rightarrow> f a) t2 b"
    by (auto simp: try_bind_def exec_bind)
  then show "(\<exists>e. exec m tr (Inl e) \<and> b = Inl e) \<or>
     (\<exists>t1 a t2. tr = t1 @ t2 \<and> exec m t1 (Inr a) \<and> exec (f a) t2 b)"
    by (cases x) auto
next
  assume "(\<exists>e. exec m tr (Inl e) \<and> b = Inl e) \<or>
     (\<exists>t1 a t2. tr = t1 @ t2 \<and> exec m t1 (Inr a) \<and> exec (f a) t2 b)"
  then show "exec (try_bind m f) tr b"
    by (auto simp: try_bind_def exec_bind) force+
qed

lemma exec_try_pure:
  "exec (try_pure x f) tr b \<longleftrightarrow>
     (\<exists>e. x = Inl e \<and> tr = [] \<and> b = Inl e) \<or> (\<exists>a. x = Inr a \<and> exec (f a) tr b)"
  by (cases x) auto

subsection \<open>Reasoning about every execution\<close>

text \<open>
  \<^term>\<open>runs m Q\<close> says that every execution of \<^term>\<open>m\<close> satisfies \<^term>\<open>Q\<close>. Its equations, one
  per construct, make the verification of a handler a matter of rewriting.
\<close>

primrec runs :: "('c, 'r, 'a) prog \<Rightarrow> (('c \<times> 'r) list \<Rightarrow> 'a \<Rightarrow> bool) \<Rightarrow> bool" where
  "runs (Ret a) Q = Q [] a"
| "runs (Call c k) Q = (\<forall>r. runs (k r) (\<lambda>tr a. Q ((c, r) # tr) a))"

lemma runs_iff: "runs m Q \<longleftrightarrow> (\<forall>tr a. exec m tr a \<longrightarrow> Q tr a)"
proof (induction m arbitrary: Q)
  case (Call c k)
  have IH: "runs (k r) Q \<longleftrightarrow> (\<forall>tr a. exec (k r) tr a \<longrightarrow> Q tr a)" for r Q
    by (rule Call.IH [OF rangeI])
  show ?case by (auto simp: IH)
qed auto

lemma runsD: "runs m Q \<Longrightarrow> exec m tr a \<Longrightarrow> Q tr a"
  by (simp add: runs_iff)

lemma runs_mono: "runs m P \<Longrightarrow> (\<And>tr a. P tr a \<Longrightarrow> Q tr a) \<Longrightarrow> runs m Q"
  by (simp add: runs_iff)

lemma runs_bind [runs_simps]:
  "runs (prog_bind m f) Q = runs m (\<lambda>t1 a. runs (f a) (\<lambda>t2 b. Q (t1 @ t2) b))"
  by (induction m arbitrary: Q) auto

lemma runs_try_bind [runs_simps]:
  "runs (try_bind m f) Q =
     runs m (\<lambda>t1 x. case x of Inl e \<Rightarrow> Q t1 (Inl e)
                             | Inr a \<Rightarrow> runs (f a) (\<lambda>t2 b. Q (t1 @ t2) b))"
proof -
  have "runs (case x of Inl e \<Rightarrow> Ret (Inl e) | Inr a \<Rightarrow> f a) (\<lambda>t2 b. Q (t1 @ t2) b) =
      (case x of Inl e \<Rightarrow> Q t1 (Inl e) | Inr a \<Rightarrow> runs (f a) (\<lambda>t2 b. Q (t1 @ t2) b))" for t1 x
    by (cases x) auto
  then show ?thesis by (simp add: try_bind_def runs_bind)
qed

lemma runs_try_pure [runs_simps]:
  "runs (try_pure x f) Q =
     (case x of Inl e \<Rightarrow> Q [] (Inl e) | Inr a \<Rightarrow> runs (f a) Q)"
  by (cases x) auto

lemma runs_conj: "runs m (\<lambda>tr a. P tr a \<and> Q tr a) \<longleftrightarrow> runs m P \<and> runs m Q"
  by (auto simp: runs_iff)

lemma runs_True [simp]: "runs m (\<lambda>tr a. True)"
  by (simp add: runs_iff)

text \<open>The rules a proof about a sequence is built from: what the first part establishes, the rest may use.\<close>

lemma runs_seq:
  assumes "runs m P" and "\<And>t1 a. P t1 a \<Longrightarrow> runs (f a) (\<lambda>t2 b. Q (t1 @ t2) b)"
  shows "runs (prog_bind m f) Q"
  unfolding runs_bind by (rule runs_mono [OF assms(1)]) (rule assms(2))

lemma runs_try_seq:
  assumes "runs m P" and "\<And>t1 e. P t1 (Inl e) \<Longrightarrow> Q t1 (Inl e)"
    and "\<And>t1 a. P t1 (Inr a) \<Longrightarrow> runs (f a) (\<lambda>t2 b. Q (t1 @ t2) b)"
  shows "runs (try_bind m f) Q"
  unfolding runs_try_bind by (rule runs_mono [OF assms(1)]) (auto split: sum.split intro: assms(2,3))

text \<open>Every program can run: whatever the answers, an execution exists.\<close>

lemma exec_exists: "\<exists>tr a. exec m tr a"
proof (induction m)
  case (Call c k)
  then obtain tr a where "exec (k undefined) tr a" by (meson rangeI)
  then show ?case by (metis exec.call)
qed auto

text \<open>The calls of a trace.\<close>

definition calls :: "('c \<times> 'r) list \<Rightarrow> 'c list" where
  "calls tr = map fst tr"

lemma calls_simps [simp]:
  "calls [] = []" "calls ((c, r) # tr) = c # calls tr" "calls (t1 @ t2) = calls t1 @ calls t2"
  by (simp_all add: calls_def)

lemma in_calls: "c \<in> set (calls tr) \<longleftrightarrow> (\<exists>r. (c, r) \<in> set tr)"
  by (force simp: calls_def)

text \<open>A loop over a list whose body has effects and returns nothing the loop reads.\<close>

fun for_each :: "('x \<Rightarrow> ('c, 'r, unit) prog) \<Rightarrow> 'x list \<Rightarrow> ('c, 'r, unit) prog" where
  "for_each f [] = Ret ()"
| "for_each f (x # xs) = prog_bind (f x) (\<lambda>_. for_each f xs)"

text \<open>A loop over a list that returns at the first error.\<close>

fun for_try :: "('x \<Rightarrow> ('c, 'r, 'e + unit) prog) \<Rightarrow> 'x list \<Rightarrow> ('c, 'r, 'e + unit) prog" where
  "for_try f [] = Ret (Inr ())"
| "for_try f (x # xs) = try_bind (f x) (\<lambda>_. for_try f xs)"

text \<open>A predicate on single events that every iteration establishes holds of the loop.\<close>

lemma runs_for_each_all:
  assumes "\<And>x. x \<in> set xs \<Longrightarrow> runs (f x) (\<lambda>tr a. \<forall>e\<in>set tr. P e)"
  shows "runs (for_each f xs) (\<lambda>tr a. \<forall>e\<in>set tr. P e)"
  using assms
proof (induction xs)
  case (Cons x xs)
  then have x: "runs (f x) (\<lambda>tr a. \<forall>e\<in>set tr. P e)"
    and xs: "runs (for_each f xs) (\<lambda>tr a. \<forall>e\<in>set tr. P e)" by auto
  show ?case
    unfolding for_each.simps runs_bind by (rule runs_mono [OF x], rule runs_mono [OF xs]) auto
qed simp

lemma runs_for_try_all:
  assumes "\<And>x. x \<in> set xs \<Longrightarrow> runs (f x) (\<lambda>tr a. \<forall>e\<in>set tr. P e)"
  shows "runs (for_try f xs) (\<lambda>tr a. \<forall>e\<in>set tr. P e)"
  using assms
proof (induction xs)
  case (Cons x xs)
  then have x: "runs (f x) (\<lambda>tr a. \<forall>e\<in>set tr. P e)"
    and xs: "runs (for_try f xs) (\<lambda>tr a. \<forall>e\<in>set tr. P e)" by auto
  have "runs (for_try f xs) (\<lambda>t2 b. \<forall>e\<in>set (t1 @ t2). P e)" if "\<forall>e\<in>set t1. P e" for t1
    by (rule runs_mono [OF xs]) (use that in auto)
  then show ?case
    unfolding for_try.simps runs_try_bind
    by (intro runs_mono [OF x]) (simp split: sum.split)
qed simp

end
