(* ===== verification/Crd.thy ===== *)
theory Crd
  imports Effects
begin

text \<open>
  The Kubernetes objects the server reads and writes (\<^verbatim>\<open>internal/repository/crd\<close>): one record per
  struct, with the fields' names behind a short prefix. A pointer field is an option, and so is
  a map whose nil value the code distinguishes. A creation timestamp is its RFC 3339 text, or
  \<^term>\<open>None\<close> for the zero time. An object read without a Go type (\<^verbatim>\<open>unstructured.Unstructured\<close>)
  is the record of what the library's accessors answer on it, so nothing is assumed about them;
  its creation time comes as the text and the instant.
\<close>

type_synonym gvr = "string \<times> string \<times> string"

record object_meta =
  md_Name :: string
  md_Namespace :: string
  md_Labels :: "string gomap"
  md_Annotations :: "string gomap option"
  md_ResourceVersion :: string
  md_UID :: string
  md_CreationTimestamp :: "string option"

definition object_meta0 :: object_meta where
  "object_meta0 = \<lparr>md_Name = [], md_Namespace = [], md_Labels = [], md_Annotations = None,
     md_ResourceVersion = [], md_UID = [], md_CreationTimestamp = None\<rparr>"

text \<open>\<^verbatim>\<open>obj.Annotations[key]\<close>: reading a nil map yields "".\<close>

definition annot :: "object_meta \<Rightarrow> string \<Rightarrow> string" where
  "annot m k = (case md_Annotations m of None \<Rightarrow> [] | Some a \<Rightarrow> mstr a k)"

definition label_of :: "object_meta \<Rightarrow> string \<Rightarrow> string" where
  "label_of m k = mstr (md_Labels m) k"

subsection \<open>Connections\<close>

definition ConnectionAPIVersion :: string where
  "ConnectionAPIVersion = ''kubocd.kubotal.io/v1alpha1''"

definition ConnectionKind :: string where "ConnectionKind = ''Connection''"

definition ClusterConnectionKind :: string where "ClusterConnectionKind = ''ClusterConnection''"

definition LabelManagedBy :: string where "LabelManagedBy = ''app.kubernetes.io/managed-by''"

definition ManagedByValue :: string where "ManagedByValue = ''okdp-control-plane''"

definition GetConnectionGVR :: gvr where
  "GetConnectionGVR = (''kubocd.kubotal.io'', ''v1alpha1'', ''connections'')"

definition GetClusterConnectionGVR :: gvr where
  "GetClusterConnectionGVR = (''kubocd.kubotal.io'', ''v1alpha1'', ''clusterconnections'')"

record connection_spec =
  cs_Contract :: string
  cs_Priority :: int
  cs_Values :: "goval gomap option"
  cs_OutputName :: string
  cs_Description :: string

record connection_status =
  ct_Phase :: string
  ct_Parent :: string
  ct_Message :: string
  ct_ContractKind :: string
  ct_ContractDisplay :: string

record connection =
  cn_APIVersion :: string
  cn_Kind :: string
  cn_Meta :: object_meta
  cn_Spec :: connection_spec
  cn_Status :: connection_status

definition connection_status0 :: connection_status where
  "connection_status0 = \<lparr>ct_Phase = [], ct_Parent = [], ct_Message = [], ct_ContractKind = [],
     ct_ContractDisplay = []\<rparr>"

definition IsManaged :: "connection \<Rightarrow> bool" where
  "IsManaged c = (cs_OutputName (cn_Spec c) \<noteq> [])"

text \<open>A core/v1 Secret. The data values are byte strings.\<close>

record secret =
  se_Meta :: object_meta
  se_Type :: string
  se_Data :: "string gomap"

subsection \<open>Releases\<close>

definition ReleaseAPIVersion :: string where
  "ReleaseAPIVersion = ''kubocd.kubotal.io/v1alpha1''"

definition ReleaseKind :: string where "ReleaseKind = ''Release''"

definition LabelProject :: string where "LabelProject = ''okdp.io/project''"

definition LabelService :: string where "LabelService = ''okdp.io/service''"

definition LabelInstanceName :: string where "LabelInstanceName = ''okdp.io/instance-name''"

definition GetReleaseGVR :: gvr where
  "GetReleaseGVR = (''kubocd.kubotal.io'', ''v1alpha1'', ''releases'')"

definition GetHelmReleaseGVR :: gvr where
  "GetHelmReleaseGVR = (''helm.toolkit.fluxcd.io'', ''v2'', ''helmreleases'')"

record release_package =
  rp_Repository :: string
  rp_Tag :: string
  rp_Interval :: string
  rp_Timeout :: string
  rp_Insecure :: bool

record context_ref =
  cr_Name :: string
  cr_Namespace :: string

record release_spec =
  rs_Description :: string
  rs_Package :: release_package
  rs_Parameters :: "goval gomap option"
  rs_Contexts :: "context_ref list"
  rs_TargetNamespace :: string
  rs_CreateNamespace :: bool

record input_ref =
  ir_Kind :: string
  ir_Name :: string
  ir_Namespace :: string

record release_condition =
  rc_Type :: string
  rc_Status :: string
  rc_Reason :: string
  rc_Message :: string
  rc_LastTransitionTime :: string

record release_status =
  rt_Phase :: string
  rt_Roles :: "string list"
  rt_Conditions :: "release_condition list"
  rt_WatchedInputConnections :: "input_ref list"
  rt_EffectiveInputConnections :: "input_ref list"

record release =
  re_APIVersion :: string
  re_Kind :: string
  re_Meta :: object_meta
  re_Spec :: release_spec
  re_Status :: release_status

definition release_status0 :: release_status where
  "release_status0 = \<lparr>rt_Phase = [], rt_Roles = [], rt_Conditions = [],
     rt_WatchedInputConnections = [], rt_EffectiveInputConnections = []\<rparr>"

subsection \<open>External-secrets stores\<close>

definition SecretStoreAPIVersion :: string where
  "SecretStoreAPIVersion = ''external-secrets.io/v1beta1''"

definition SecretStoreKind :: string where "SecretStoreKind = ''SecretStore''"

definition LabelDefaultStore :: string where
  "LabelDefaultStore = ''okdp.io/default-secret-store''"

definition GetSecretStoreGVR :: gvr where
  "GetSecretStoreGVR = (''external-secrets.io'', ''v1beta1'', ''secretstores'')"

record eso_token_ref =
  tr_Name :: string
  tr_Key :: string

record eso_kube_auth =
  ka_MountPath :: string
  ka_Role :: string
  ka_ServiceAccountRef :: "string option"

record eso_vault_auth =
  va_TokenSecretRef :: "eso_token_ref option"
  va_Kubernetes :: "eso_kube_auth option"

record eso_vault =
  ev_Server :: string
  ev_Path :: string
  ev_Version :: string
  ev_CABundle :: string
  ev_Auth :: eso_vault_auth

record eso_provider =
  ep_Name :: string
  ep_Vault :: "eso_vault option"

record eso_condition =
  ec_Type :: string
  ec_Status :: string
  ec_Reason :: string
  ec_Message :: string
  ec_LastTransitionTime :: string

record eso_store =
  st_APIVersion :: string
  st_Kind :: string
  st_Meta :: object_meta
  st_Provider :: eso_provider
  st_Conditions :: "eso_condition list"

subsection \<open>External secrets\<close>

definition ExternalSecretAPIVersion :: string where
  "ExternalSecretAPIVersion = ''external-secrets.io/v1beta1''"

definition ExternalSecretKind :: string where "ExternalSecretKind = ''ExternalSecret''"

definition GetExternalSecretGVR :: gvr where
  "GetExternalSecretGVR = (''external-secrets.io'', ''v1beta1'', ''externalsecrets'')"

record eso_remote_ref =
  rr_Key :: string
  rr_Property :: string

record eso_data =
  ed_SecretKey :: string
  ed_RemoteRef :: eso_remote_ref

record eso_external_spec =
  es_RefreshInterval :: string
  es_StoreName :: string
  es_StoreKind :: string
  es_TargetName :: string
  es_CreationPolicy :: string
  es_Data :: "eso_data list"

record eso_external =
  ex_APIVersion :: string
  ex_Kind :: string
  ex_Meta :: object_meta
  ex_Spec :: eso_external_spec
  ex_Conditions :: "eso_condition list"
  ex_RefreshTime :: string

subsection \<open>Identity\<close>

record crd_user =
  cu_Meta :: object_meta
  cu_APIVersion :: string
  cu_Kind :: string
  cu_Name :: string
  cu_Emails :: "string list"
  cu_PasswordHash :: string
  cu_Uid :: "int option"
  cu_Comment :: string
  cu_Claims :: "goval option"
  cu_Disabled :: "bool option"

record crd_group =
  cg_Meta :: object_meta
  cg_APIVersion :: string
  cg_Kind :: string
  cg_Comment :: string
  cg_Claims :: "goval option"

record crd_binding =
  cb_Meta :: object_meta
  cb_APIVersion :: string
  cb_Kind :: string
  cb_User :: string
  cb_Group :: string

subsection \<open>Spark applications\<close>

definition SparkAppAPIVersion :: string where
  "SparkAppAPIVersion = ''sparkoperator.k8s.io/v1beta2''"

definition SparkAppKind :: string where "SparkAppKind = ''SparkApplication''"

definition GetSparkAppGVR :: gvr where
  "GetSparkAppGVR = (''sparkoperator.k8s.io'', ''v1beta2'', ''sparkapplications'')"

record spark_pod =
  sp_Cores :: "int option"
  sp_Memory :: string
  sp_ServiceAccount :: string
  sp_Labels :: "string gomap"

record spark_deps =
  sd_Jars :: "string list"
  sd_PyFiles :: "string list"
  sd_Files :: "string list"

record spark_spec =
  ss_Type :: string
  ss_Mode :: string
  ss_Image :: string
  ss_MainClass :: string
  ss_MainApplicationFile :: string
  ss_Arguments :: "string list"
  ss_SparkVersion :: string
  ss_SparkConf :: "string gomap"
  ss_Driver :: spark_pod
  ss_Executor :: spark_pod
  ss_ExecutorInstances :: "int option"
  ss_RestartPolicy :: string
  ss_Deps :: spark_deps
  ss_TimeToLiveSeconds :: "int option"

record spark_status =
  sa_State :: string
  sa_ErrorMessage :: string
  sa_ExecutorState :: "string gomap"
  sa_PodName :: string
  sa_WebUIAddress :: string
  sa_WebUIPort :: int
  sa_WebUIServiceName :: string
  sa_SparkApplicationID :: string

record spark_app =
  sk_APIVersion :: string
  sk_Kind :: string
  sk_Meta :: object_meta
  sk_Spec :: spark_spec
  sk_Status :: spark_status

subsection \<open>Objects read without a Go type\<close>

record uobj =
  u_APIVersion :: string
  u_Kind :: string
  u_Name :: string
  u_Labels :: "string gomap"
  u_Annotations :: "string gomap"
  u_CreatedAt :: "(string \<times> int) option"
  u_OwnerUIDs :: "string list"
  u_ResourceVersion :: string
  u_NestedString :: "string list \<Rightarrow> string"
  u_NestedBool :: "string list \<Rightarrow> bool"
  u_NestedSlice :: "string list \<Rightarrow> gerr + goval list option"
  u_NestedMap :: "string list \<Rightarrow> gerr + goval gomap option"
  u_NestedStringMap :: "string list \<Rightarrow> string gomap option"

text \<open>\<^verbatim>\<open>v, _, _ := unstructured.NestedSlice(...)\<close>: nil unless a slice was found.\<close>

definition nested_slice :: "uobj \<Rightarrow> string list \<Rightarrow> goval list" where
  "nested_slice u p = (case u_NestedSlice u p of Inr (Some xs) \<Rightarrow> xs | _ \<Rightarrow> [])"

end
