(* ===== verification/Kube.thy ===== *)
theory Kube
  imports Crd
begin

text \<open>
  The calls the server makes to the outside and the answers it may get. \<^term>\<open>OMap m\<close> is an object written as the document it
  is. The answer to a read of a typed object is the object after \<^verbatim>\<open>FromUnstructured\<close>: an object of another shape stands for
  one the converter rejects. A write call stands for the conversion of the typed object and the
  request: an error answer covers a failure of either. Calls that return an object the code
  ignores answer \<^term>\<open>ROk\<close>. \<^term>\<open>KAvailable g\<close> asks the API probe of a resource, a component
  with a state of its own, whether the cluster serves it; \<^term>\<open>KContext\<close> asks the context
  repository for the Control Plane Context, which may come from its cache, and \<^term>\<open>KInvalidate\<close>
  drops that cache; \<^term>\<open>KVerifyToken t\<close> asks the OIDC library to verify a token; \<^term>\<open>KCacheLoad k\<close> and \<^term>\<open>KCacheStore k e\<close> are the operations of the
  shared caches, which other requests use at the same time. \<^term>\<open>KWatch g ns sel\<close> opens a watch and
  \<^term>\<open>KLogs ns r\<close> the log of a pod; what they stream afterwards is no part of the answer. Instants are in nanoseconds.
\<close>

datatype kobj =
    OConn connection
  | OSecret secret
  | ORelease release
  | OStore eso_store
  | OExternal eso_external
  | OUser crd_user
  | OGroup crd_group
  | OBinding crd_binding
  | OSpark spark_app
  | ONamespace object_meta
  | ORaw uobj
  | OMap "goval gomap"

datatype http_auth = NoAuth | BasicAuth string string | BearerAuth string | VaultAuth string

record http_req =
  hq_Method :: string
  hq_URL :: string
  hq_Query :: "string gomap"
  hq_Auth :: http_auth
  hq_Payload :: "goval option"
  hq_SkipVerify :: bool

text \<open>A response with its body, and the body decoded as JSON when it is JSON.\<close>

record http_resp =
  hp_Status :: nat
  hp_WWWAuthenticate :: string
  hp_JSON :: "goval option"

text \<open>
  The entries of the shared caches (\<^verbatim>\<open>sync.Map\<close>) of the package schema service, with the instant
  they were fetched, and one connection a package declares it needs.
\<close>

record package_input =
  pk_Alias :: string
  pk_Contract :: string
  pk_Parameter :: string
  pk_Optional :: bool
  pk_Default :: string
  pk_Description :: string

datatype cache_entry =
    TagsEntry "string list" int
  | SchemaEntry "goval gomap" "package_input list" int

text \<open>One probed path of a connectivity test (\<^verbatim>\<open>models.ConnectionTestCheck\<close>).\<close>

record test_check =
  tk_Label :: string
  tk_Target :: string
  tk_Decisive :: bool
  tk_Success :: bool
  tk_Message :: "string \<times> farg list"
  tk_Reason :: string

text \<open>
  What a connectivity test asks of the database and storage drivers, and what \<^verbatim>\<open>errors.As\<close> and the
  context find in the error a driver returns.
\<close>

datatype pg_tls = TlsVerify string | TlsInsecure

record pg_config =
  pg_Host :: string
  pg_Port :: int
  pg_Database :: string
  pg_User :: string
  pg_Password :: string
  pg_TLS :: "pg_tls option"
  pg_PlainFallback :: bool

record mysql_config =
  my_Addr :: string
  my_DBName :: string
  my_User :: string
  my_Passwd :: string
  my_TLSConfig :: string

record s3_options =
  s3_Host :: string
  s3_Secure :: bool
  s3_AccessKey :: string
  s3_SecretKey :: string
  s3_Region :: string
  s3_PathStyle :: bool

datatype dial =
    PgDefaults
  | PgConnect pg_config
  | PgPing
  | MySQLOpen mysql_config
  | MySQLPing
  | S3New s3_options
  | S3BucketExists string

record drv_error =
  de_Pg :: "(string \<times> string) option"
  de_MySQL :: "(nat \<times> string) option"
  de_S3 :: "(string \<times> string) option"
  de_Deadline :: bool
  de_DNS :: "string option"
  de_Op :: "string option"
  de_TLS :: bool
  de_Text :: string

datatype drv_answer = DrvOk bool | DrvErr drv_error

text \<open>
  What the OIDC library knows of a verified token, and its claims decoded into a Go struct, which
  fails when one of them has another type.
\<close>

record id_claims =
  ci_Azp :: string
  ci_ClientID :: string
  ci_PreferredUsername :: string
  ci_Email :: string

record verified_token =
  vt_Subject :: string
  vt_Audience :: "string list"
  vt_Claims :: "gerr + id_claims"

text \<open>A request for the log of a container: no container is the default one of the pod.\<close>

record log_request =
  lr_Pod :: string
  lr_Container :: string
  lr_TailLines :: "int option"
  lr_Follow :: bool

datatype kcall =
    KGet gvr string string
  | KList gvr string string
  | KCreate gvr string kobj
  | KUpdate gvr string kobj
  | KDelete gvr string string
  | KDiscover string
  | KAvailable gvr
  | KContext
  | KInvalidate
  | KCacheLoad string
  | KCacheStore string cache_entry
  | KNow
  | KHttp http_req
  | KReadFile string
  | KBcrypt string
  | KDump string bool "string list"
  | KVerifyToken string
  | KDial dial
  | KWatch gvr string string
  | KLogs string log_request

datatype kresp =
    RErr gerr
  | ROk
  | RObj kobj
  | RItems "kobj list"
  | RNames "string list"
  | RBool bool
  | RCached "cache_entry option"
  | RDriver drv_answer
  | RTime int
  | RHttp http_resp
  | RText string
  | RDoc goval
  | RToken verified_token

type_synonym ktrace = "(kcall \<times> kresp) list"
type_synonym 'a kprog = "(kcall, kresp, 'a) prog"

text \<open>What a call that returns only an error yields.\<close>

fun unit_of :: "kresp \<Rightarrow> gerr + unit" where
  "unit_of (RErr e) = Inl e"
| "unit_of _ = Inr ()"

definition bad_answer :: gerr where
  "bad_answer = Errorf ''unexpected answer'' []"

fun obj_of :: "kresp \<Rightarrow> gerr + kobj" where
  "obj_of (RErr e) = Inl e"
| "obj_of (RObj x) = Inr x"
| "obj_of _ = Inl bad_answer"

fun items_of :: "kresp \<Rightarrow> gerr + kobj list" where
  "items_of (RErr e) = Inl e"
| "items_of (RItems xs) = Inr xs"
| "items_of _ = Inl bad_answer"

fun bool_of :: "kresp \<Rightarrow> bool" where
  "bool_of (RBool b) = b"
| "bool_of _ = False"

fun cached_of :: "kresp \<Rightarrow> cache_entry option" where
  "cached_of (RCached c) = c"
| "cached_of _ = None"

fun time_of :: "kresp \<Rightarrow> int" where
  "time_of (RTime t) = t"
| "time_of _ = 0"

fun driver_of :: "kresp \<Rightarrow> drv_answer" where
  "driver_of (RDriver a) = a"
| "driver_of _ = DrvErr \<lparr>de_Pg = None, de_MySQL = None, de_S3 = None, de_Deadline = False,
     de_DNS = None, de_Op = None, de_TLS = False, de_Text = ''unexpected answer''\<rparr>"

definition call_bool :: "kcall \<Rightarrow> bool kprog" where
  "call_bool c = Call c (\<lambda>r. Ret (bool_of r))"

definition call_unit :: "kcall \<Rightarrow> (gerr + unit) kprog" where
  "call_unit c = Call c (\<lambda>r. Ret (unit_of r))"

definition call_obj :: "kcall \<Rightarrow> (gerr + kobj) kprog" where
  "call_obj c = Call c (\<lambda>r. Ret (obj_of r))"

definition call_items :: "kcall \<Rightarrow> (gerr + kobj list) kprog" where
  "call_items c = Call c (\<lambda>r. Ret (items_of r))"

lemma runs_call_bool [runs_simps]:
  "runs (call_bool c) Q \<longleftrightarrow> (\<forall>r. Q [(c, r)] (bool_of r))"
  by (simp add: call_bool_def)

text \<open>
  Every answer to a call: an error, what was asked for, or something of another shape, which the
  client reports as an error.
\<close>

definition odd_obj :: "kresp \<Rightarrow> bool" where
  "odd_obj r = (\<forall>e x. r \<noteq> RErr e \<and> r \<noteq> RObj x)"

definition odd_items :: "kresp \<Rightarrow> bool" where
  "odd_items r = (\<forall>e xs. r \<noteq> RErr e \<and> r \<noteq> RItems xs)"

lemma odd_simps [simp]:
  "\<not> odd_obj (RErr e)" "\<not> odd_obj (RObj x)" "\<not> odd_items (RErr e)" "\<not> odd_items (RItems xs)"
  by (simp_all add: odd_obj_def odd_items_def)

definition answered_ok :: "kresp \<Rightarrow> bool" where
  "answered_ok r = (\<forall>e. r \<noteq> RErr e)"

lemma answered_ok_simps [simp]: "\<not> answered_ok (RErr e)" "answered_ok ROk"
  by (simp_all add: answered_ok_def)

lemma bad_answer_simps [simp]:
  "\<not> is_not_found bad_answer" "\<not> is_already_exists bad_answer" "\<not> is_conflict bad_answer"
  "\<not> errors_is bad_answer s" "\<not> is_validation bad_answer"
  by (simp_all add: bad_answer_def)

lemma runs_call_unit [runs_simps]:
  "runs (call_unit c) Q \<longleftrightarrow>
     (\<forall>e. Q [(c, RErr e)] (Inl e)) \<and> (\<forall>r. answered_ok r \<longrightarrow> Q [(c, r)] (Inr ()))"
proof -
  have "Q [(c, r)] (unit_of r)"
    if "\<forall>e. Q [(c, RErr e)] (Inl e)" "\<forall>r. answered_ok r \<longrightarrow> Q [(c, r)] (Inr ())" for r
    using that by (cases r) (auto simp: answered_ok_def)
  moreover have "unit_of r = Inr ()" if "answered_ok r" for r
    using that by (cases r) (auto simp: answered_ok_def)
  ultimately show ?thesis by (auto simp: call_unit_def) (metis unit_of.simps(1))+
qed

lemma runs_call_obj [runs_simps]:
  "runs (call_obj c) Q \<longleftrightarrow>
     (\<forall>e. Q [(c, RErr e)] (Inl e)) \<and> (\<forall>x. Q [(c, RObj x)] (Inr x)) \<and>
     (\<forall>r. odd_obj r \<longrightarrow> Q [(c, r)] (Inl bad_answer))"
proof -
  have "Q [(c, r)] (obj_of r)"
    if "\<forall>e. Q [(c, RErr e)] (Inl e)" "\<forall>x. Q [(c, RObj x)] (Inr x)"
      "\<forall>r. odd_obj r \<longrightarrow> Q [(c, r)] (Inl bad_answer)" for r
    using that by (cases r) (auto simp: odd_obj_def)
  moreover have "obj_of r = Inl bad_answer" if "odd_obj r" for r
    using that by (cases r) (auto simp: odd_obj_def)
  ultimately show ?thesis by (auto simp: call_obj_def) (metis obj_of.simps(1,2))+
qed

lemma runs_call_items [runs_simps]:
  "runs (call_items c) Q \<longleftrightarrow>
     (\<forall>e. Q [(c, RErr e)] (Inl e)) \<and> (\<forall>xs. Q [(c, RItems xs)] (Inr xs)) \<and>
     (\<forall>r. odd_items r \<longrightarrow> Q [(c, r)] (Inl bad_answer))"
proof -
  have "Q [(c, r)] (items_of r)"
    if "\<forall>e. Q [(c, RErr e)] (Inl e)" "\<forall>xs. Q [(c, RItems xs)] (Inr xs)"
      "\<forall>r. odd_items r \<longrightarrow> Q [(c, r)] (Inl bad_answer)" for r
    using that by (cases r) (auto simp: odd_items_def)
  moreover have "items_of r = Inl bad_answer" if "odd_items r" for r
    using that by (cases r) (auto simp: odd_items_def)
  ultimately show ?thesis by (auto simp: call_items_def) (metis items_of.simps(1,2))+
qed

lemma exec_call_bool [simp]:
  "exec (call_bool c) tr x \<longleftrightarrow> (\<exists>r. tr = [(c, r)] \<and> x = bool_of r)"
  by (auto simp: call_bool_def)

lemma exec_call_unit [simp]:
  "exec (call_unit c) tr x \<longleftrightarrow> (\<exists>r. tr = [(c, r)] \<and> x = unit_of r)"
  by (auto simp: call_unit_def)

lemma exec_call_obj [simp]:
  "exec (call_obj c) tr x \<longleftrightarrow> (\<exists>r. tr = [(c, r)] \<and> x = obj_of r)"
  by (auto simp: call_obj_def)

lemma exec_call_items [simp]:
  "exec (call_items c) tr x \<longleftrightarrow> (\<exists>r. tr = [(c, r)] \<and> x = items_of r)"
  by (auto simp: call_items_def)

lemma unit_of_Inr [simp]: "unit_of r = Inr u \<longleftrightarrow> (\<forall>e. r \<noteq> RErr e)"
  by (cases r) auto

lemma unit_of_Inl [simp]: "unit_of r = Inl e \<longleftrightarrow> r = RErr e"
  by (cases r) auto

lemma obj_of_Inr [simp]: "obj_of r = Inr x \<longleftrightarrow> r = RObj x"
  by (cases r) auto

lemma items_of_Inr [simp]: "items_of r = Inr xs \<longleftrightarrow> r = RItems xs"
  by (cases r) auto

text \<open>Typed reads: \<^verbatim>\<open>runtime.DefaultUnstructuredConverter.FromUnstructured\<close>.\<close>

definition convert_error :: gerr where
  "convert_error = Errorf ''unstructured conversion failed'' []"

definition from_unstructured :: "(kobj \<Rightarrow> 'a option) \<Rightarrow> kobj \<Rightarrow> gerr + 'a" where
  "from_unstructured f x =
     (case f x of
        None \<Rightarrow> Inl (Wrapf ''failed to convert from unstructured: %w'' [] convert_error)
      | Some a \<Rightarrow> Inr a)"

lemma from_unstructured_Inr [simp]: "from_unstructured f x = Inr a \<longleftrightarrow> f x = Some a"
  by (simp add: from_unstructured_def split: option.split)

fun is_conn :: "kobj \<Rightarrow> connection option" where
  "is_conn (OConn c) = Some c"
| "is_conn _ = None"

fun is_secret :: "kobj \<Rightarrow> secret option" where
  "is_secret (OSecret s) = Some s"
| "is_secret _ = None"

fun is_release :: "kobj \<Rightarrow> release option" where
  "is_release (ORelease s) = Some s"
| "is_release _ = None"

fun is_store :: "kobj \<Rightarrow> eso_store option" where
  "is_store (OStore s) = Some s"
| "is_store _ = None"

fun is_external :: "kobj \<Rightarrow> eso_external option" where
  "is_external (OExternal s) = Some s"
| "is_external _ = None"

fun is_user :: "kobj \<Rightarrow> crd_user option" where
  "is_user (OUser s) = Some s"
| "is_user _ = None"

fun is_group :: "kobj \<Rightarrow> crd_group option" where
  "is_group (OGroup s) = Some s"
| "is_group _ = None"

fun is_binding :: "kobj \<Rightarrow> crd_binding option" where
  "is_binding (OBinding s) = Some s"
| "is_binding _ = None"

fun is_spark :: "kobj \<Rightarrow> spark_app option" where
  "is_spark (OSpark s) = Some s"
| "is_spark _ = None"

fun is_raw :: "kobj \<Rightarrow> uobj option" where
  "is_raw (ORaw u) = Some u"
| "is_raw _ = None"

fun is_namespace :: "kobj \<Rightarrow> object_meta option" where
  "is_namespace (ONamespace m) = Some m"
| "is_namespace _ = None"

lemma kobj_case_Some [simp]:
  "is_conn x = Some c \<longleftrightarrow> x = OConn c"
  "is_secret x = Some s \<longleftrightarrow> x = OSecret s"
  "is_release x = Some r \<longleftrightarrow> x = ORelease r"
  "is_store x = Some t \<longleftrightarrow> x = OStore t"
  "is_external x = Some y \<longleftrightarrow> x = OExternal y"
  "is_user x = Some us \<longleftrightarrow> x = OUser us"
  "is_group x = Some g \<longleftrightarrow> x = OGroup g"
  "is_binding x = Some b \<longleftrightarrow> x = OBinding b"
  "is_spark x = Some sp \<longleftrightarrow> x = OSpark sp"
  "is_raw x = Some u \<longleftrightarrow> x = ORaw u"
  "is_namespace x = Some m \<longleftrightarrow> x = ONamespace m"
  by (cases x; simp)+

text \<open>Listing: an item the converter rejects is logged and skipped.\<close>

fun keep_some :: "('a \<Rightarrow> 'b option) \<Rightarrow> 'a list \<Rightarrow> 'b list" where
  "keep_some f [] = []"
| "keep_some f (x # xs) = (case f x of None \<Rightarrow> keep_some f xs | Some y \<Rightarrow> y # keep_some f xs)"

lemma set_keep_some: "set (keep_some f xs) = {y. \<exists>x\<in>set xs. f x = Some y}"
  by (induction xs) (auto split: option.splits)

lemma keep_some_map [simp]: "(\<And>x. x \<in> set xs \<Longrightarrow> f (g x) = Some x) \<Longrightarrow> keep_some f (map g xs) = xs"
  by (induction xs) auto

text \<open>The writes of a trace: what the program asked the cluster to change.\<close>

fun is_write :: "kcall \<Rightarrow> bool" where
  "is_write (KCreate g n x) = True"
| "is_write (KUpdate g n x) = True"
| "is_write (KDelete g n x) = True"
| "is_write _ = False"

definition read_only :: "ktrace \<Rightarrow> bool" where
  "read_only tr = (\<forall>e\<in>set tr. \<not> is_write (fst e))"

lemma read_only_simps [simp]:
  "read_only []"
  "read_only ((c, r) # tr) \<longleftrightarrow> \<not> is_write c \<and> read_only tr"
  "read_only (t1 @ t2) \<longleftrightarrow> read_only t1 \<and> read_only t2"
  by (auto simp: read_only_def)

definition writes :: "ktrace \<Rightarrow> kcall list" where
  "writes tr = filter is_write (calls tr)"

lemma writes_simps [simp]:
  "writes [] = []"
  "writes ((c, r) # tr) = (if is_write c then c # writes tr else writes tr)"
  "writes (t1 @ t2) = writes t1 @ writes t2"
  by (simp_all add: writes_def)

lemma read_only_writes: "read_only tr \<longleftrightarrow> writes tr = []"
  by (auto simp: read_only_def writes_def calls_def filter_empty_conv)

lemma in_writes: "c \<in> set (writes tr) \<longleftrightarrow> is_write c \<and> c \<in> set (calls tr)"
  by (auto simp: writes_def)

text \<open>
  The repositories of custom resources share one contract: reads write nothing, and each write
  operation asks for at most the one change it is named after.
\<close>

locale object_repository =
  fixes gvr_of :: "string \<Rightarrow> gvr"
    and obj :: "'a \<Rightarrow> kobj \<Rightarrow> bool"
    and repo_Get :: "string \<Rightarrow> string \<Rightarrow> (gerr + 'a) kprog"
    and repo_List :: "'l \<Rightarrow> (gerr + 'a list) kprog"
    and repo_Create :: "string \<Rightarrow> 'a \<Rightarrow> (gerr + unit) kprog"
    and repo_Update :: "string \<Rightarrow> 'a \<Rightarrow> (gerr + unit) kprog"
    and repo_Delete :: "string \<Rightarrow> string \<Rightarrow> (gerr + unit) kprog"
  assumes Get_reads: "runs (repo_Get ns n) (\<lambda>tr x. read_only tr)"
    and List_reads: "runs (repo_List l) (\<lambda>tr x. read_only tr)"
    and Create_writes: "runs (repo_Create ns a) (\<lambda>tr x. \<exists>y. obj a y \<and> writes tr = [KCreate (gvr_of ns) ns y])"
    and Update_writes: "runs (repo_Update ns a) (\<lambda>tr x.
          writes tr = [] \<and> x \<noteq> Inr () \<or> (\<exists>y. obj a y \<and> writes tr = [KUpdate (gvr_of ns) ns y]))"
    and Delete_writes: "runs (repo_Delete ns n) (\<lambda>tr x. writes tr = [KDelete (gvr_of ns) ns n])"
begin

text \<open>Read, modify, write back: at most one change, an update, and none unless the read worked.\<close>

lemma modify_writes:
  "runs (try_bind (repo_Get ns n) (\<lambda>a. case f a of Inl e \<Rightarrow> Ret (Inl e) | Inr b \<Rightarrow> repo_Update ns b))
     (\<lambda>tr x. writes tr = [] \<or> (\<exists>y a b. f a = Inr b \<and> obj b y \<and> writes tr = [KUpdate (gvr_of ns) ns y]))"
proof -
  have upd: "runs (case f a of Inl e \<Rightarrow> Ret (Inl e) | Inr b \<Rightarrow> repo_Update ns b)
      (\<lambda>tr x. writes tr = [] \<or> (\<exists>y b. f a = Inr b \<and> obj b y \<and> writes tr = [KUpdate (gvr_of ns) ns y]))" for a
  proof (cases "f a")
    case (Inr b)
    show ?thesis unfolding Inr sum.case by (rule runs_mono [OF Update_writes]) blast
  qed simp
  show ?thesis
  proof (rule runs_try_seq [OF Get_reads])
    fix t1 a
    assume "read_only t1"
    then show "runs (case f a of Inl e \<Rightarrow> Ret (Inl e) | Inr b \<Rightarrow> repo_Update ns b)
        (\<lambda>t2 b. writes (t1 @ t2) = [] \<or>
           (\<exists>y a b. f a = Inr b \<and> obj b y \<and> writes (t1 @ t2) = [KUpdate (gvr_of ns) ns y]))"
      by (intro runs_mono [OF upd [of a]]) (auto simp: read_only_writes)
  qed (simp add: read_only_writes)
qed

text \<open>What was listed or read can be read again: a read never changes what the cluster holds.\<close>

lemma reads_before_write:
  assumes "runs (k x) (\<lambda>tr b. P (writes tr))"
  shows "runs (prog_bind (repo_Get ns n) (\<lambda>_. k x)) (\<lambda>tr b. P (writes tr))"
  unfolding runs_bind
  by (rule runs_mono [OF Get_reads]) (rule runs_mono [OF assms], simp add: read_only_writes)

end

text \<open>A trace that neither changes the cluster nor drops the cached Context.\<close>

definition quiet :: "ktrace \<Rightarrow> bool" where
  "quiet tr = (writes tr = [] \<and> KInvalidate \<notin> set (calls tr))"

lemma quiet_simps [simp]:
  "quiet []" "quiet ((c, r) # tr) \<longleftrightarrow> \<not> is_write c \<and> c \<noteq> KInvalidate \<and> quiet tr"
  "quiet (t1 @ t2) \<longleftrightarrow> quiet t1 \<and> quiet t2"
  by (auto simp: quiet_def)

end
