(* ===== verification/Connection_Repository.thy ===== *)
theory Connection_Repository
  imports Kube
begin

text \<open>
  Access to the KuboCD connections and to the Secrets holding their credentials
  (\<^verbatim>\<open>internal/repository/connection_repository.go\<close>).
\<close>

definition SecretsGVR :: gvr where
  "SecretsGVR = ('''', ''v1'', ''secrets'')"

definition ConnectionRepository_resource :: "string \<Rightarrow> gvr" where
  "ConnectionRepository_resource ns = (if ns = [] then GetClusterConnectionGVR else GetConnectionGVR)"

definition ConnectionRepository_kind :: "string \<Rightarrow> string" where
  "ConnectionRepository_kind ns = (if ns = [] then ClusterConnectionKind else ConnectionKind)"

definition ConnectionRepository_Available :: "bool kprog" where
  "ConnectionRepository_Available = call_bool (KAvailable GetConnectionGVR)"

definition ConnectionRepository_List :: "string \<Rightarrow> (gerr + connection list) kprog" where
  "ConnectionRepository_List ns =
     try_bind (call_items (KList (ConnectionRepository_resource ns) ns []))
       (\<lambda>items. Ret (Inr (keep_some is_conn items)))"

definition ConnectionRepository_Get :: "string \<Rightarrow> string \<Rightarrow> (gerr + connection) kprog" where
  "ConnectionRepository_Get ns name =
     try_bind (call_obj (KGet (ConnectionRepository_resource ns) ns name))
       (\<lambda>u. Ret (from_unstructured is_conn u))"

definition ConnectionRepository_Create :: "string \<Rightarrow> connection \<Rightarrow> (gerr + unit) kprog" where
  "ConnectionRepository_Create ns c =
     call_unit (KCreate (ConnectionRepository_resource ns) ns
       (OConn (c\<lparr>cn_APIVersion := ConnectionAPIVersion, cn_Kind := ConnectionRepository_kind ns\<rparr>)))"

text \<open>The resource version an object read without a Go type carries.\<close>

fun resource_version :: "kobj \<Rightarrow> string" where
  "resource_version (OConn c) = md_ResourceVersion (cn_Meta c)"
| "resource_version (OSecret s) = md_ResourceVersion (se_Meta s)"
| "resource_version (ORelease r) = md_ResourceVersion (re_Meta r)"
| "resource_version (OStore s) = md_ResourceVersion (st_Meta s)"
| "resource_version (OExternal s) = md_ResourceVersion (ex_Meta s)"
| "resource_version (OUser u) = md_ResourceVersion (cu_Meta u)"
| "resource_version (OGroup g) = md_ResourceVersion (cg_Meta g)"
| "resource_version (OBinding b) = md_ResourceVersion (cb_Meta b)"
| "resource_version (OSpark s) = md_ResourceVersion (sk_Meta s)"
| "resource_version (ONamespace m) = md_ResourceVersion m"
| "resource_version (ORaw u) = u_ResourceVersion u"
| "resource_version (OMap m) = (case mget m ''metadata'' of
     Some (GObj meta) \<Rightarrow> str_at meta ''resourceVersion'' | _ \<Rightarrow> [])"

definition ConnectionRepository_Update :: "string \<Rightarrow> connection \<Rightarrow> (gerr + unit) kprog" where
  "ConnectionRepository_Update ns c =
     try_bind (call_obj (KGet (ConnectionRepository_resource ns) ns (md_Name (cn_Meta c)))) (\<lambda>existing.
       call_unit (KUpdate (ConnectionRepository_resource ns) ns
         (OConn (c\<lparr>cn_APIVersion := ConnectionAPIVersion, cn_Kind := ConnectionRepository_kind ns,
                   cn_Meta := (cn_Meta c)\<lparr>md_ResourceVersion := resource_version existing\<rparr>\<rparr>))))"

definition ConnectionRepository_Delete :: "string \<Rightarrow> string \<Rightarrow> (gerr + unit) kprog" where
  "ConnectionRepository_Delete ns name =
     call_unit (KDelete (ConnectionRepository_resource ns) ns name)"

subsection \<open>The Secrets holding the credentials\<close>

record secret_content =
  sc_Keys :: "string list"
  sc_Managed :: bool

definition secret_managed :: "secret \<Rightarrow> bool" where
  "secret_managed s = (label_of (se_Meta s) LabelManagedBy = ManagedByValue)"

text \<open>The Secret and whether it was found. The typed client answers a Secret or an error.\<close>

definition InspectSecret :: "string \<Rightarrow> string \<Rightarrow> (gerr + secret_content \<times> bool) kprog" where
  "InspectSecret ns name =
     (if ns = [] then Ret (Inl (Errorf ''a namespace is required to read credentials'' []))
      else prog_bind (call_obj (KGet SecretsGVR ns name)) (\<lambda>r. case r of
          Inl e \<Rightarrow>
            if is_not_found e then Ret (Inr (\<lparr>sc_Keys = [], sc_Managed = False\<rparr>, False))
            else Ret (Inl e)
        | Inr x \<Rightarrow>
            (case is_secret x of
               None \<Rightarrow> Ret (Inl bad_answer)
             | Some s \<Rightarrow>
                 Ret (Inr (\<lparr>sc_Keys = sort_by (\<lambda>k. k) (mkeys (se_Data s)),
                            sc_Managed = secret_managed s\<rparr>, True)))))"

definition ErrForeignSecret :: string where
  "ErrForeignSecret = ''the credentials secret already exists and is not managed by the control plane''"

definition credentials_secret :: "string \<Rightarrow> string \<Rightarrow> string gomap \<Rightarrow> secret" where
  "credentials_secret ns name data =
     \<lparr>se_Meta = object_meta0\<lparr>md_Name := name, md_Namespace := ns,
        md_Labels := [(LabelManagedBy, ManagedByValue)]\<rparr>, se_Type = ''Opaque'', se_Data = data\<rparr>"

definition CreateOrUpdateSecret :: "string \<Rightarrow> string \<Rightarrow> string gomap \<Rightarrow> (gerr + unit) kprog" where
  "CreateOrUpdateSecret ns name data =
     (if ns = [] then Ret (Inl (Errorf ''a namespace is required to store credentials'' []))
      else let secret = credentials_secret ns name data in
        prog_bind (call_obj (KGet SecretsGVR ns name)) (\<lambda>r. case r of
          Inl e \<Rightarrow>
            if is_not_found e then call_unit (KCreate SecretsGVR ns (OSecret secret))
            else Ret (Inl e)
        | Inr x \<Rightarrow>
            (case is_secret x of
               None \<Rightarrow> Ret (Inl bad_answer)
             | Some existing \<Rightarrow>
                 if \<not> secret_managed existing then
                   Ret (Inl (Wrapf ''%w: secret %q in namespace %q'' [FStr name, FStr ns]
                               (Sentinel ErrForeignSecret)))
                 else
                   call_unit (KUpdate SecretsGVR ns
                     (OSecret (secret\<lparr>se_Data := mmerge (se_Data existing) data,
                        se_Meta := (se_Meta secret)
                          \<lparr>md_ResourceVersion := md_ResourceVersion (se_Meta existing)\<rparr>\<rparr>))))))"

definition DeleteSecret :: "string \<Rightarrow> string \<Rightarrow> (gerr + unit) kprog" where
  "DeleteSecret ns name =
     prog_bind (call_unit (KDelete SecretsGVR ns name)) (\<lambda>r. case r of
         Inl e \<Rightarrow> if is_not_found e then Ret (Inr ()) else Ret (Inl e)
       | Inr _ \<Rightarrow> Ret (Inr ()))"

lemmas connection_repo_defs = ConnectionRepository_Available_def ConnectionRepository_List_def
  ConnectionRepository_Get_def ConnectionRepository_Create_def ConnectionRepository_Update_def
  ConnectionRepository_Delete_def

interpretation connections: object_repository ConnectionRepository_resource
  "\<lambda>c y. \<exists>c'. y = OConn c' \<and> cn_Spec c' = cn_Spec c \<and> md_Name (cn_Meta c') = md_Name (cn_Meta c)"
  ConnectionRepository_Get ConnectionRepository_List ConnectionRepository_Create
  ConnectionRepository_Update ConnectionRepository_Delete
proof
qed (auto simp: connection_repo_defs runs_simps split: sum.split)

end
