(* ===== verification/Extlib.thy ===== *)
theory Extlib
  imports Kube
begin

text \<open>
  The pure functions of third-party packages the server calls, as fields of a record that the
  definitions take as a parameter. Nothing is assumed about them. The URL parser is among them:
  it answers the scheme and the host of a URL, or nothing for a malformed one. So are the parsers
  of RFC 3339 instants, of durations (in nanoseconds), of floating-point numbers, of YAML documents and
  of PEM certificates, the decimal form of a number (\<^verbatim>\<open>%g\<close>), and the compiler of JSON schemas, which answers
  a validator, or nothing for a schema it rejects.
\<close>

record extlib =
  IsDNS1123Subdomain :: "string \<Rightarrow> string list"
  IsConfigMapKey :: "string \<Rightarrow> string list"
  url_Parse :: "string \<Rightarrow> (string \<times> string) option"
  time_Parse :: "string \<Rightarrow> int option"
  strconv_ParseFloat :: "string \<Rightarrow> goval option"
  SetNestedSlice :: "uobj \<Rightarrow> goval list \<Rightarrow> string list \<Rightarrow> gerr + uobj"
  ParseQuantity :: "string \<Rightarrow> gerr + rat"
  time_ParseDuration :: "string \<Rightarrow> int option"
  AppendCertsFromPEM :: "string \<Rightarrow> bool"
  fmt_g :: "rat \<Rightarrow> string"
  yaml_Unmarshal :: "string \<Rightarrow> gerr + goval gomap"
  jsonschema_Compile :: "goval \<Rightarrow> (goval gomap option \<Rightarrow> gerr + unit) option"

end
