(* ===== verification/Connection_Service.thy ===== *)
theory Connection_Service
  imports Connection_Repository Builtin_Contracts Extlib
begin

text \<open>
  The connections of a project (\<^verbatim>\<open>internal/service/connection_service.go\<close>): validation of a
  request, where the credentials go, creation with its rollback, edition, deletion, and the
  views. The catalog is a parameter \<^term>\<open>K\<close>, as in the code.
\<close>

definition ConnectionScopeProject :: string where "ConnectionScopeProject = ''project''"

definition AnnotationCredentialsSecret :: string where
  "AnnotationCredentialsSecret = ''okdp.io/credentials-secret''"

definition AnnotationCredentialsOwned :: string where
  "AnnotationCredentialsOwned = ''okdp.io/credentials-owned''"

definition credentialsSecretSuffix :: string where "credentialsSecretSuffix = ''-credentials''"

definition valueSecretRef :: string where "valueSecretRef = ''secretRef''"

lemmas connection_consts = AnnotationCredentialsSecret_def AnnotationCredentialsOwned_def
  credentialsSecretSuffix_def valueSecretRef_def

subsection \<open>Requests and responses\<close>

record connection_request =
  cq_Name :: string
  cq_Type :: string
  cq_Description :: string
  cq_Values :: "goval gomap"
  cq_ExistingSecret :: string

record connection_test_request =
  tq_Type :: string
  tq_Values :: "goval gomap"

record connection_test_result =
  ts_Success :: bool
  ts_Message :: "string \<times> farg list"
  ts_Reason :: string
  ts_DurationMs :: int
  ts_Checks :: "test_check list"

record credentials_secret_ref =
  cx_Name :: string
  cx_Namespace :: string
  cx_Keys :: "string list"
  cx_Owned :: bool

record connection_response =
  cp_Name :: string
  cp_Type :: string
  cp_Scope :: string
  cp_Namespace :: string
  cp_Description :: string
  cp_Status :: string
  cp_Message :: string
  cp_Values :: "goval gomap"
  cp_SecretFields :: "string list"
  cp_CredentialsSecret :: "credentials_secret_ref option"
  cp_CreatedAt :: string

record internal_connection =
  ic_Name :: string
  ic_Type :: string
  ic_TypeDisplay :: string
  ic_Icon :: string
  ic_Category :: string
  ic_Service :: string
  ic_ReleaseName :: string
  ic_Namespace :: string
  ic_Status :: string
  ic_Endpoint :: string
  ic_Host :: string
  ic_Port :: int
  ic_Values :: "goval gomap"
  ic_Managed :: bool
  ic_CreatedAt :: string

record selectable_connection =
  sl_Name :: string
  sl_Scope :: string
  sl_Type :: string
  sl_Status :: string
  sl_Description :: string
  sl_Managed :: bool
  sl_ProvidedBy :: string

record connection_consumer =
  cm_Service :: string
  cm_ReleaseName :: string
  cm_Status :: string
  cm_Effective :: bool

subsection \<open>Errors\<close>

definition ErrConnectionsUnavailable :: string where
  "ErrConnectionsUnavailable = ''the KuboCD connection CRDs are not installed on this cluster''"

abbreviation invalid :: "string \<Rightarrow> farg list \<Rightarrow> gerr" where
  "invalid fmt args \<equiv> ValidationErr fmt args"

definition storeCredentialsError :: "gerr \<Rightarrow> gerr" where
  "storeCredentialsError e =
     (if errors_is e ErrForeignSecret then invalid ''%v'' [FErr e]
      else Wrapf ''failed to store the credentials: %w'' [] e)"

subsection \<open>Where the credentials of a connection are\<close>

definition credentialsOwned :: "string gomap option \<Rightarrow> string \<Rightarrow> string \<Rightarrow> bool" where
  "credentialsOwned annotations connectionName secretName =
     (case (case annotations of None \<Rightarrow> None | Some a \<Rightarrow> mget a AnnotationCredentialsOwned) of
        Some raw \<Rightarrow> (parse_bool raw = Some True)
      | None \<Rightarrow> secretName = connectionName @ credentialsSecretSuffix)"

definition credentialsSecretOf :: "connection \<Rightarrow> string \<Rightarrow> string \<times> bool" where
  "credentialsSecretOf c name =
     (let dflt = name @ credentialsSecretSuffix;
          ref = annot (cn_Meta c) AnnotationCredentialsSecret;
          secretName =
            (if ref \<noteq> [] then
               (case str_cut ref ''/'' of (b, referenced, found) \<Rightarrow>
                  if found \<and> referenced \<noteq> [] then referenced else dflt)
             else dflt)
      in (secretName, credentialsOwned (md_Annotations (cn_Meta c)) name secretName))"

definition withCredentialsSecret :: "string gomap option \<Rightarrow> string \<Rightarrow> bool \<Rightarrow> string gomap option" where
  "withCredentialsSecret annotations reference owned =
     (let a = (case annotations of None \<Rightarrow> [] | Some a \<Rightarrow> a)
      in Some (mput AnnotationCredentialsOwned (format_bool owned)
                (mput AnnotationCredentialsSecret reference a)))"

fun splitValues :: "contract_descriptor \<Rightarrow> goval gomap \<Rightarrow> goval gomap \<times> string gomap" where
  "splitValues d [] = ([], [])"
| "splitValues d ((name, value) # vs) =
     (case splitValues d vs of (public, secrets) \<Rightarrow>
        (case Field d name of
           None \<Rightarrow> (public, secrets)
         | Some f \<Rightarrow>
             (if cf_Secret f then
                (case as_str value of
                   Some str \<Rightarrow> if str \<noteq> [] then (public, mput name str secrets) else (public, secrets)
                 | None \<Rightarrow> (public, secrets))
              else (mput name value public, secrets))))"

lemma splitValues_public:
  "mget (fst (splitValues d vs)) k =
     (case Field d k of
        None \<Rightarrow> None
      | Some f \<Rightarrow> if cf_Secret f then None else mget vs k)"
  by (induction vs) (auto split: prod.splits option.splits)

lemma splitValues_secrets:
  assumes "distinct (mkeys vs)"
  shows "mget (snd (splitValues d vs)) k = Some s \<longleftrightarrow>
     (\<exists>f. Field d k = Some f \<and> cf_Secret f) \<and> mget vs k = Some (GStr s) \<and> s \<noteq> []"
  using assms
proof (induction vs arbitrary: k s)
  case (Cons kv vs)
  obtain n v where kv: "kv = (n, v)" by force
  have new: "mget vs n = None" using Cons.prems by (auto simp: kv map_of_eq_None_iff)
  obtain p q where pq: "splitValues d vs = (p, q)" by force
  have IH: "mget q k = Some s \<longleftrightarrow> (\<exists>f. Field d k = Some f \<and> cf_Secret f) \<and> mget vs k = Some (GStr s) \<and> s \<noteq> []"
    for k s
    using Cons by (simp add: pq)
  have "mget q n = None" by (rule ccontr) (use IH [of n] new in auto)
  then show ?case
    by (cases "Field d n"; cases v) (auto simp: kv pq IH new)
qed simp

lemma splitValues_secret_keys:
  "set (mkeys (snd (splitValues d vs))) \<subseteq> set (SecretFields d)"
proof (induction vs)
  case (Cons kv vs)
  obtain n v where kv: "kv = (n, v)" by force
  obtain p q where pq: "splitValues d vs = (p, q)" by force
  show ?case
    using Cons by (cases "Field d n"; cases v)
      (auto simp: kv pq SecretFields_def dom_update dest: Field_Some)
qed simp

subsection \<open>Validation of a request\<close>

definition missing_keys :: "secret_content \<Rightarrow> contract_descriptor \<Rightarrow> string list" where
  "missing_keys content d = filter (\<lambda>field. field \<notin> set (sc_Keys content)) (SecretFields d)"

definition checkExistingSecret ::
    "string \<Rightarrow> connection_request \<Rightarrow> contract_descriptor \<Rightarrow> (gerr + unit) kprog" where
  "checkExistingSecret ns req d =
     prog_bind (InspectSecret ns (cq_ExistingSecret req)) (\<lambda>r. case r of
         Inl e \<Rightarrow> Ret (Inl (Wrapf ''failed to read the secret %q: %w'' [FStr (cq_ExistingSecret req)] e))
       | Inr (content, found) \<Rightarrow>
           if \<not> found then
             Ret (Inl (invalid ''no secret named %q in namespace %q''
                         [FStr (cq_ExistingSecret req), FStr ns]))
           else if sc_Managed content then
             Ret (Inl (invalid ''secret %q belongs to another connection, name one this server does not manage''
                         [FStr (cq_ExistingSecret req)]))
           else if missing_keys content d \<noteq> [] then
             Ret (Inl (invalid ''secret %q does not carry the keys the %s contract needs: %s''
                         [FStr (cq_ExistingSecret req), FStr (cd_Name d),
                          FStr (str_join (missing_keys content d) '', '')]))
           else Ret (Inr ()))"

definition validateRequest ::
    "extlib \<Rightarrow> catalog_iface \<Rightarrow> string \<Rightarrow> connection_request \<Rightarrow> bool \<Rightarrow>
       (gerr + contract_descriptor \<times> goval gomap) kprog" where
  "validateRequest L K ns req isUpdate =
     prog_bind ConnectionRepository_Available (\<lambda>available.
       if \<not> available then Ret (Inl (Sentinel ErrConnectionsUnavailable))
       else case IsDNS1123Subdomain L (cq_Name req) of
         err # _ \<Rightarrow> Ret (Inl (invalid ''invalid connection name %q: %s'' [FStr (cq_Name req), FStr err]))
       | [] \<Rightarrow>
         (case cc_Get K (cq_Type req) of
            None \<Rightarrow> Ret (Inl (invalid ''unknown contract %q'' [FStr (cq_Type req)]))
          | Some d \<Rightarrow>
              if \<not> cd_External d then
                Ret (Inl (invalid
                  ''connections of type %q come from a deployed service and cannot be declared by hand''
                  [FStr (cq_Type req)]))
              else
                let values = mdel valueSecretRef (cc_Normalize K (cq_Type req) (cq_Values req));
                    existing = (cq_ExistingSecret req \<noteq> []);
                    validateValues =
                      (if existing \<or> isUpdate then cc_ValidateUpdate K else cc_Validate K)
                in try_bind (if existing then checkExistingSecret ns req d else Ret (Inr ()))
                     (\<lambda>_. case validateValues (cq_Type req) values of
                        Inl e \<Rightarrow> Ret (Inl (invalid ''%s'' [FErr e]))
                      | Inr _ \<Rightarrow> Ret (Inr (d, values)))))"

subsection \<open>Views\<close>

definition connection_values :: "connection \<Rightarrow> goval gomap" where
  "connection_values c = (case cs_Values (cn_Spec c) of None \<Rightarrow> [] | Some v \<Rightarrow> v)"

definition created_at :: "object_meta \<Rightarrow> string" where
  "created_at m = (case md_CreationTimestamp m of None \<Rightarrow> [] | Some t \<Rightarrow> t)"

definition toResponse :: "catalog_iface \<Rightarrow> connection \<Rightarrow> string \<Rightarrow> connection_response" where
  "toResponse K c ns =
     (let contractName = cs_Contract (cn_Spec c);
          secretFields = (case cc_Get K contractName of None \<Rightarrow> [] | Some d \<Rightarrow> SecretFields d);
          ref = annot (cn_Meta c) AnnotationCredentialsSecret;
          credentials =
            (if cc_Get K contractName \<noteq> None \<and> ref \<noteq> [] \<and> secretFields \<noteq> [] then
               (case str_cut ref ''/'' of
                  (n, name, True) \<Rightarrow> Some \<lparr>cx_Name = name, cx_Namespace = n, cx_Keys = secretFields,
                     cx_Owned = credentialsOwned (md_Annotations (cn_Meta c)) (md_Name (cn_Meta c)) name\<rparr>
                | (_, _, False) \<Rightarrow> None)
             else None)
      in \<lparr>cp_Name = md_Name (cn_Meta c), cp_Type = contractName, cp_Scope = ConnectionScopeProject,
          cp_Namespace = ns, cp_Description = cs_Description (cn_Spec c),
          cp_Status = ct_Phase (cn_Status c), cp_Message = ct_Message (cn_Status c),
          cp_Values = connection_values c, cp_SecretFields = secretFields,
          cp_CredentialsSecret = credentials, cp_CreatedAt = created_at (cn_Meta c)\<rparr>)"

text \<open>Conversion of a float64 to int32: outside the range Go leaves the result to the platform.\<close>

definition to_int32 :: "rat \<Rightarrow> int" where
  "to_int32 q = trunc_rat q"

fun first_string :: "goval gomap \<Rightarrow> string list \<Rightarrow> string option" where
  "first_string values [] = None"
| "first_string values (key # keys) =
     (if str_at values key \<noteq> [] then Some (str_at values key) else first_string values keys)"

definition endpointFrom :: "goval gomap \<Rightarrow> catalog_iface \<Rightarrow> string \<Rightarrow> string" where
  "endpointFrom values K contractName =
     (case (case cc_Get K contractName of None \<Rightarrow> None
              | Some d \<Rightarrow> first_string values (cd_EndpointFrom d)) of
        Some address \<Rightarrow> address
      | None \<Rightarrow>
          let host = str_at values ''host'' in
          if host = [] then []
          else case (case mget values ''port'' of None \<Rightarrow> None | Some v \<Rightarrow> toFloat v) of
                 Some port \<Rightarrow> host @ '':'' @ show_int (to_int32 port)
               | None \<Rightarrow> host)"

definition managedToInternal :: "catalog_iface \<Rightarrow> connection \<Rightarrow> string \<Rightarrow> internal_connection" where
  "managedToInternal K c project =
     (let values = connection_values c;
          contract = cs_Contract (cn_Spec c);
          known = cc_Get K contract;
          display = (case known of None \<Rightarrow> ct_ContractDisplay (cn_Status c) | Some d \<Rightarrow> cd_DisplayName d);
          host = (case mget values ''host'' of Some (GStr h) \<Rightarrow> Some h | _ \<Rightarrow> None)
      in \<lparr>ic_Name = md_Name (cn_Meta c), ic_Type = contract,
          ic_TypeDisplay = (if display = [] then contract else display),
          ic_Icon = (case known of None \<Rightarrow> [] | Some d \<Rightarrow> cd_Icon d),
          ic_Category = (case known of None \<Rightarrow> [] | Some d \<Rightarrow> cd_Category d),
          ic_Service = label_of (cn_Meta c) LabelService,
          ic_ReleaseName = ct_Parent (cn_Status c), ic_Namespace = project,
          ic_Status = ct_Phase (cn_Status c), ic_Endpoint = endpointFrom values K contract,
          ic_Host = (case host of None \<Rightarrow> [] | Some h \<Rightarrow> h),
          ic_Port = (case host of None \<Rightarrow> 0 | Some _ \<Rightarrow>
             (case (case mget values ''port'' of None \<Rightarrow> None | Some v \<Rightarrow> toFloat v) of
                None \<Rightarrow> 0 | Some p \<Rightarrow> to_int32 p)),
          ic_Values = values, ic_Managed = True, ic_CreatedAt = created_at (cn_Meta c)\<rparr>)"

definition managedBy :: "connection \<Rightarrow> farg list" where
  "managedBy c =
     (if ct_Parent (cn_Status c) \<noteq> []
      then [FStr ''is provided by the deployed service %q'', FStr (ct_Parent (cn_Status c))]
      else [FStr ''is provided by a deployed service''])"

definition Connection_Catalog :: "catalog_iface \<Rightarrow> (contract_descriptor list \<times> bool) kprog" where
  "Connection_Catalog K = prog_bind ConnectionRepository_Available (\<lambda>b. Ret (cc_List K, b))"

definition Connection_List :: "catalog_iface \<Rightarrow> string \<Rightarrow> (gerr + connection_response list) kprog" where
  "Connection_List K ns =
     prog_bind ConnectionRepository_Available (\<lambda>available.
       if \<not> available then Ret (Inr [])
       else try_bind (ConnectionRepository_List ns) (\<lambda>cs.
         Ret (Inr (sort_by cp_Name (map (\<lambda>c. toResponse K c ns) (filter (\<lambda>c. \<not> IsManaged c) cs))))))"

definition Connection_ListInternal ::
    "catalog_iface \<Rightarrow> string \<Rightarrow> (gerr + internal_connection list) kprog" where
  "Connection_ListInternal K project =
     prog_bind ConnectionRepository_Available (\<lambda>available.
       if \<not> available then Ret (Inr [])
       else try_bind (ConnectionRepository_List project) (\<lambda>cs.
         Ret (Inr (sort_by ic_Name (map (\<lambda>c. managedToInternal K c project) (filter IsManaged cs))))))"

definition selectable :: "connection \<Rightarrow> selectable_connection" where
  "selectable c =
     \<lparr>sl_Name = md_Name (cn_Meta c), sl_Scope = ConnectionScopeProject, sl_Type = cs_Contract (cn_Spec c),
      sl_Status = ct_Phase (cn_Status c), sl_Description = cs_Description (cn_Spec c),
      sl_Managed = IsManaged c, sl_ProvidedBy = ct_Parent (cn_Status c)\<rparr>"

definition Connection_ListSelectable ::
    "string \<Rightarrow> string \<Rightarrow> (gerr + selectable_connection list) kprog" where
  "Connection_ListSelectable project contract =
     prog_bind ConnectionRepository_Available (\<lambda>available.
       if \<not> available then Ret (Inr [])
       else try_bind (ConnectionRepository_List project) (\<lambda>cs.
         Ret (Inr (sort_by sl_Name (map selectable
           (filter (\<lambda>c. contract = [] \<or> cs_Contract (cn_Spec c) = contract) cs))))))"

end
