(* ===== verification/Connection_Write.thy ===== *)
theory Connection_Write
  imports Connection_Service
begin

text \<open>
  The operations on connections that change the cluster: \<^verbatim>\<open>Create\<close>, \<^verbatim>\<open>Update\<close> and \<^verbatim>\<open>Delete\<close> of
  \<^verbatim>\<open>internal/service/connection_service.go\<close>. Every theorem here is
  about every execution: any answer of the API server, in any state.
\<close>

subsection \<open>Create\<close>

text \<open>
  Where the credentials of a new connection are stored: what the values say about them, the
  Secret's name, and the credentials this server wrote (none for a Secret somebody else owns).
\<close>

definition storeCredentials ::
    "string \<Rightarrow> connection_request \<Rightarrow> goval gomap \<Rightarrow> string gomap \<Rightarrow>
       (gerr + goval gomap \<times> string \<times> string gomap) kprog" where
  "storeCredentials ns req public secrets =
     (let own = cq_Name req @ credentialsSecretSuffix in
      if cq_ExistingSecret req \<noteq> [] then
        Ret (Inr (mput valueSecretRef (GStr (cq_ExistingSecret req)) public, cq_ExistingSecret req, []))
      else if secrets \<noteq> [] then
        prog_bind (CreateOrUpdateSecret ns own secrets) (\<lambda>r. case r of
            Inl e \<Rightarrow> Ret (Inl (storeCredentialsError e))
          | Inr _ \<Rightarrow> Ret (Inr (mput valueSecretRef (GStr own) public, own, secrets)))
      else Ret (Inr (public, own, secrets)))"

definition new_connection ::
    "string \<Rightarrow> connection_request \<Rightarrow> contract_descriptor \<Rightarrow> goval gomap \<Rightarrow> string \<Rightarrow> string gomap \<Rightarrow>
       connection" where
  "new_connection ns req d public secretName secrets =
     (let ownSecret = (cq_ExistingSecret req = []) in
      \<lparr>cn_APIVersion = [], cn_Kind = [],
       cn_Meta = object_meta0\<lparr>md_Name := cq_Name req, md_Namespace := ns,
         md_Labels := [(LabelManagedBy, ManagedByValue)],
         md_Annotations :=
           (if secrets \<noteq> [] \<or> \<not> ownSecret then
              Some [(AnnotationCredentialsSecret, ns @ ''/'' @ secretName),
                    (AnnotationCredentialsOwned, format_bool ownSecret)]
            else None)\<rparr>,
       cn_Spec = \<lparr>cs_Contract = cd_Name d, cs_Priority = 0, cs_Values = Some public,
         cs_OutputName = [], cs_Description = cq_Description req\<rparr>,
       cn_Status = connection_status0\<rparr>)"

definition create_connection ::
    "catalog_iface \<Rightarrow> string \<Rightarrow> connection_request \<Rightarrow> contract_descriptor \<Rightarrow> goval gomap \<Rightarrow> string \<Rightarrow>
       string gomap \<Rightarrow> (gerr + connection_response) kprog" where
  "create_connection K ns req d public secretName secrets =
     (let c = new_connection ns req d public secretName secrets in
      prog_bind (ConnectionRepository_Create ns c) (\<lambda>r. case r of
          Inr _ \<Rightarrow> Ret (Inr (toResponse K c ns))
        | Inl e \<Rightarrow>
            if cq_ExistingSecret req = [] \<and> secrets \<noteq> [] \<and> \<not> is_already_exists e then
              prog_bind (DeleteSecret ns secretName) (\<lambda>_. Ret (Inl e))
            else Ret (Inl e)))"

definition create_free ::
    "catalog_iface \<Rightarrow> string \<Rightarrow> connection_request \<Rightarrow> contract_descriptor \<Rightarrow> goval gomap \<Rightarrow>
       (gerr + connection_response) kprog" where
  "create_free K ns req d values =
     (case splitValues d values of (public0, secrets0) \<Rightarrow>
        try_bind (storeCredentials ns req public0 secrets0) (\<lambda>(public, secretName, secrets).
          create_connection K ns req d public secretName secrets))"

definition Connection_Create ::
    "extlib \<Rightarrow> catalog_iface \<Rightarrow> string \<Rightarrow> connection_request \<Rightarrow> (gerr + connection_response) kprog" where
  "Connection_Create L K ns req =
     try_bind (validateRequest L K ns req False) (\<lambda>(d, values).
       prog_bind (ConnectionRepository_Get ns (cq_Name req)) (\<lambda>g. case g of
           Inr _ \<Rightarrow> Ret (Inl (KubeErr AlreadyExists (cq_Name req)))
         | Inl e \<Rightarrow> if \<not> is_not_found e then Ret (Inl e) else create_free K ns req d values))"

subsection \<open>Update\<close>

text \<open>
  The credentials of an edited connection: the values, the annotations, and the Secret the
  connection moves off, if this server owns it.
\<close>

definition updateCredentials ::
    "string \<Rightarrow> connection_request \<Rightarrow> connection \<Rightarrow> goval gomap \<Rightarrow> string gomap \<Rightarrow>
       (gerr + goval gomap \<times> string gomap option \<times> string) kprog" where
  "updateCredentials ns req existing public secrets =
     (let name = cq_Name req;
          own = name @ credentialsSecretSuffix;
          annotations = md_Annotations (cn_Meta existing) in
      if cq_ExistingSecret req \<noteq> [] then
        (case credentialsSecretOf existing name of (previous, owned) \<Rightarrow>
           Ret (Inr (mput valueSecretRef (GStr (cq_ExistingSecret req)) public,
                     withCredentialsSecret annotations (ns @ ''/'' @ cq_ExistingSecret req) False,
                     if owned \<and> previous \<noteq> cq_ExistingSecret req then previous else [])))
      else if secrets \<noteq> [] then
        prog_bind (CreateOrUpdateSecret ns own secrets) (\<lambda>r. case r of
            Inl e \<Rightarrow> Ret (Inl (storeCredentialsError e))
          | Inr _ \<Rightarrow> Ret (Inr (mput valueSecretRef (GStr own) public,
                              withCredentialsSecret annotations (ns @ ''/'' @ own) True, [])))
      else
        Ret (Inr ((case mget (connection_values existing) valueSecretRef of
                     Some previous \<Rightarrow> mput valueSecretRef previous public
                   | None \<Rightarrow> public), annotations, [])))"

definition edited_connection ::
    "connection \<Rightarrow> contract_descriptor \<Rightarrow> connection_request \<Rightarrow> goval gomap \<Rightarrow> string gomap option \<Rightarrow>
       connection" where
  "edited_connection existing d req public annotations =
     existing\<lparr>cn_Meta := (cn_Meta existing)\<lparr>md_Annotations := annotations\<rparr>,
       cn_Spec := (cn_Spec existing)\<lparr>cs_Contract := cd_Name d, cs_Description := cq_Description req,
         cs_Values := Some public\<rparr>\<rparr>"

definition update_connection ::
    "catalog_iface \<Rightarrow> string \<Rightarrow> connection_request \<Rightarrow> connection \<Rightarrow> contract_descriptor \<Rightarrow> goval gomap \<Rightarrow>
       string gomap option \<Rightarrow> string \<Rightarrow> (gerr + connection_response) kprog" where
  "update_connection K ns req existing d public annotations orphanedSecret =
     (let c = edited_connection existing d req public annotations in
      try_bind (ConnectionRepository_Update ns c) (\<lambda>_.
        prog_bind (if orphanedSecret \<noteq> [] then DeleteSecret ns orphanedSecret else Ret (Inr ()))
          (\<lambda>_. Ret (Inr (toResponse K c ns)))))"

definition Connection_Update ::
    "extlib \<Rightarrow> catalog_iface \<Rightarrow> string \<Rightarrow> string \<Rightarrow> connection_request \<Rightarrow>
       (gerr + connection_response) kprog" where
  "Connection_Update L K ns name req0 =
     (let req = req0\<lparr>cq_Name := name\<rparr> in
      try_bind (validateRequest L K ns req True) (\<lambda>(d, values).
        try_bind (ConnectionRepository_Get ns name) (\<lambda>existing.
          if IsManaged existing then
            Ret (Inl (invalid ''connection %q %s and cannot be edited'' (FStr name # managedBy existing)))
          else case splitValues d values of (public0, secrets) \<Rightarrow>
            try_bind (updateCredentials ns req existing public0 secrets)
              (\<lambda>(public, annotations, orphanedSecret).
                update_connection K ns req existing d public annotations orphanedSecret))))"

subsection \<open>Delete\<close>

definition Connection_Delete :: "string \<Rightarrow> string \<Rightarrow> (gerr + unit) kprog" where
  "Connection_Delete ns name =
     prog_bind ConnectionRepository_Available (\<lambda>available.
       if \<not> available then Ret (Inl (Sentinel ErrConnectionsUnavailable))
       else try_bind (ConnectionRepository_Get ns name) (\<lambda>existing.
         if IsManaged existing then
           Ret (Inl (invalid
             ''connection %q %s and cannot be deleted; it exists as long as that service does''
             (FStr name # managedBy existing)))
         else try_bind (ConnectionRepository_Delete ns name) (\<lambda>_.
           case credentialsSecretOf existing name of (secretName, owned) \<Rightarrow>
             if \<not> owned then Ret (Inr ())
             else prog_bind (DeleteSecret ns secretName) (\<lambda>_. Ret (Inr ())))))"

end
