(* ===== verification/Connection_Testers.thy ===== *)
theory Connection_Testers
  imports Connection_Service
begin

text \<open>
  The connectivity test of a connection (\<^verbatim>\<open>internal/service/connection_testers.go\<close> and \<^verbatim>\<open>Test\<close> of
  \<^verbatim>\<open>connection_service.go\<close>): the settings built from the values, the probes, and the
  classification of what the drivers answer. A driver is a call, its answer arbitrary.
\<close>

definition TestReasonUnreachable :: string where "TestReasonUnreachable = ''unreachable''"
definition TestReasonAuthFailed :: string where "TestReasonAuthFailed = ''auth-failed''"
definition TestReasonNotFound :: string where "TestReasonNotFound = ''not-found''"
definition TestReasonTimeout :: string where "TestReasonTimeout = ''timeout''"
definition TestReasonInvalidConfig :: string where "TestReasonInvalidConfig = ''invalid-config''"
definition TestReasonUnknown :: string where "TestReasonUnknown = ''unknown''"

definition test_check_of :: "string \<Rightarrow> string \<Rightarrow> bool \<Rightarrow> gerr + unit \<Rightarrow> test_check" where
  "test_check_of label target decisive err =
     (let result = \<lparr>tk_Label = label, tk_Target = target, tk_Decisive = decisive, tk_Success = False,
                    tk_Message = ([], []), tk_Reason = []\<rparr>
      in case err of
           Inr _ \<Rightarrow> result\<lparr>tk_Success := True, tk_Message := (''Connection successful.'', [])\<rparr>
         | Inl e \<Rightarrow>
             (case as_test_failure e of
                Some (reason, fmt, args) \<Rightarrow> result\<lparr>tk_Message := (fmt, args), tk_Reason := reason\<rparr>
              | None \<Rightarrow> result\<lparr>tk_Message := (''%s'', [FErr e]), tk_Reason := TestReasonUnknown\<rparr>))"

subsection \<open>Reading the values\<close>

definition values_String :: "goval gomap \<Rightarrow> string \<Rightarrow> string" where
  "values_String v name = str_at v name"

definition values_Int :: "goval gomap \<Rightarrow> string \<Rightarrow> int \<Rightarrow> int" where
  "values_Int v name fallback =
     (case (case mget v name of None \<Rightarrow> None | Some x \<Rightarrow> toFloat x) of
        Some n \<Rightarrow> trunc_rat n
      | None \<Rightarrow> fallback)"

definition values_Bool :: "goval gomap \<Rightarrow> string \<Rightarrow> bool \<Rightarrow> bool" where
  "values_Bool v name fallback =
     (case (case mget v name of None \<Rightarrow> None | Some x \<Rightarrow> as_bool x) of
        Some b \<Rightarrow> b
      | None \<Rightarrow> fallback)"

text \<open>\<^verbatim>\<open>net.JoinHostPort\<close>: an address with a colon is bracketed.\<close>

definition JoinHostPort :: "string \<Rightarrow> string \<Rightarrow> string" where
  "JoinHostPort host port =
     (if CHR '':'' \<in> set host then ''['' @ host @ '']:'' @ port else host @ '':'' @ port)"

subsection \<open>What went wrong\<close>

definition classifyNetworkError :: "drv_error \<Rightarrow> gerr" where
  "classifyNetworkError e =
     (if de_Deadline e then
        TestFailure TestReasonTimeout ''The server did not answer within %s.'' [FStr ''10s'']
      else case de_DNS e of
        Some name \<Rightarrow>
          TestFailure TestReasonUnreachable ''The host %q could not be resolved.'' [FStr name]
      | None \<Rightarrow> (case de_Op e of
          Some inner \<Rightarrow>
            TestFailure TestReasonUnreachable ''The server could not be reached: %v'' [FStr inner]
        | None \<Rightarrow>
            if de_TLS e then
              TestFailure TestReasonInvalidConfig
                ''The server certificate could not be verified. Relax the TLS setting, or make the issuing CA trusted by the cluster.'' []
            else TestFailure TestReasonUnknown ''The connection failed: %v'' [FStr (de_Text e)]))"

definition classifyPostgresError :: "drv_error \<Rightarrow> gerr" where
  "classifyPostgresError e =
     (case de_Pg e of
        Some (code, message) \<Rightarrow>
          (if code \<in> {''28P01'', ''28000''} then
             TestFailure TestReasonAuthFailed ''The server refused these credentials.'' []
           else if code = ''3D000'' then
             TestFailure TestReasonNotFound ''The database does not exist on this server.'' []
           else TestFailure TestReasonUnknown ''The server rejected the connection: %s'' [FStr message])
      | None \<Rightarrow> classifyNetworkError e)"

definition classifyMySQLError :: "drv_error \<Rightarrow> gerr" where
  "classifyMySQLError e =
     (case de_MySQL e of
        Some (number, message) \<Rightarrow>
          (if number \<in> {1045, 1044, 1698} then
             TestFailure TestReasonAuthFailed ''The server refused these credentials.'' []
           else if number = 1049 then
             TestFailure TestReasonNotFound ''The database does not exist on this server.'' []
           else TestFailure TestReasonUnknown ''The server rejected the connection: %s'' [FStr message])
      | None \<Rightarrow> classifyNetworkError e)"

definition classifyS3Error :: "drv_error \<Rightarrow> gerr" where
  "classifyS3Error e =
     (case de_S3 e of
        Some (code, message) \<Rightarrow>
          (if code \<in> {''InvalidAccessKeyId'', ''SignatureDoesNotMatch'', ''AccessDenied''} then
             TestFailure TestReasonAuthFailed ''The server refused these credentials.'' []
           else if code = ''NoSuchBucket'' then
             TestFailure TestReasonNotFound ''The bucket does not exist on this server.'' []
           else if message \<noteq> [] then
             TestFailure TestReasonUnknown ''The server rejected the request: %s'' [FStr message]
           else classifyNetworkError e)
      | None \<Rightarrow> classifyNetworkError e)"

subsection \<open>PostgreSQL\<close>

definition postgresConfig :: "goval gomap \<Rightarrow> pg_config" where
  "postgresConfig values =
     (let mode = values_String values ''sslMode'';
          host = values_String values ''host''
      in \<lparr>pg_Host = host, pg_Port = values_Int values ''port'' 5432 mod 65536,
          pg_Database = values_String values ''dbName'', pg_User = values_String values ''username'',
          pg_Password = values_String values ''password'',
          pg_TLS =
            (if mode = ''disable'' then None
             else if mode = ''verify-ca'' \<or> mode = ''verify-full'' then Some (TlsVerify host)
             else Some TlsInsecure),
          pg_PlainFallback = (mode = ''prefer'')\<rparr>)"

definition dial :: "dial \<Rightarrow> (drv_error + bool) kprog" where
  "dial d = Call (KDial d) (\<lambda>r. Ret (case driver_of r of DrvErr e \<Rightarrow> Inl e | DrvOk b \<Rightarrow> Inr b))"

definition testPostgreSQLAt :: "goval gomap \<Rightarrow> (gerr + unit) kprog" where
  "testPostgreSQLAt values =
     prog_bind (dial PgDefaults) (\<lambda>d. case d of
       Inl e \<Rightarrow> Ret (Inl (TestFailure TestReasonInvalidConfig
                 ''Could not build the connection settings: %v'' [FStr (de_Text e)]))
     | Inr _ \<Rightarrow> prog_bind (dial (PgConnect (postgresConfig values))) (\<lambda>c. case c of
         Inl e \<Rightarrow> Ret (Inl (classifyPostgresError e))
       | Inr _ \<Rightarrow> prog_bind (dial PgPing) (\<lambda>p. case p of
           Inl e \<Rightarrow> Ret (Inl (classifyPostgresError e))
         | Inr _ \<Rightarrow> Ret (Inr ()))))"

subsection \<open>MySQL and MariaDB\<close>

definition mysqlConfig :: "goval gomap \<Rightarrow> gerr + mysql_config" where
  "mysqlConfig values =
     (let tlsMode = values_String values ''tls'';
          config = \<lparr>my_Addr = JoinHostPort (values_String values ''host'')
                       (show_int (values_Int values ''port'' 3306)),
                    my_DBName = values_String values ''dbName'',
                    my_User = values_String values ''username'',
                    my_Passwd = values_String values ''password'', my_TLSConfig = []\<rparr>
      in if tlsMode = [] \<or> tlsMode = ''false'' then Inr (config\<lparr>my_TLSConfig := ''false''\<rparr>)
         else if tlsMode \<in> {''preferred'', ''true'', ''skip-verify''} then
           Inr (config\<lparr>my_TLSConfig := tlsMode\<rparr>)
         else Inl (TestFailure TestReasonInvalidConfig ''Unsupported TLS mode %q.'' [FStr tlsMode]))"

definition testMySQLAt :: "goval gomap \<Rightarrow> (gerr + unit) kprog" where
  "testMySQLAt values =
     try_pure (mysqlConfig values) (\<lambda>config.
       prog_bind (dial (MySQLOpen config)) (\<lambda>d. case d of
         Inl e \<Rightarrow> Ret (Inl (TestFailure TestReasonInvalidConfig
                   ''Could not build the connection settings: %v'' [FStr (de_Text e)]))
       | Inr _ \<Rightarrow> prog_bind (dial MySQLPing) (\<lambda>p. case p of
           Inl e \<Rightarrow> Ret (Inl (classifyMySQLError e))
         | Inr _ \<Rightarrow> Ret (Inr ()))))"

definition testDatabaseServer :: "goval gomap \<Rightarrow> test_check list kprog" where
  "testDatabaseServer values =
     (let target = JoinHostPort (values_String values ''host'') (show_int (values_Int values ''port'' 0));
          engine = values_String values ''engine''
      in prog_bind
           (if engine = ''postgresql'' then testPostgreSQLAt values
            else if engine = ''mysql'' then testMySQLAt values
            else Ret (Inl (TestFailure TestReasonInvalidConfig ''Unknown database engine %q'' [FStr engine])))
           (\<lambda>err. Ret [test_check_of ''Database'' target True err]))"

subsection \<open>S3-compatible object storage\<close>

definition parseS3Endpoint :: "extlib \<Rightarrow> string \<Rightarrow> gerr + string \<times> bool" where
  "parseS3Endpoint L endpoint =
     (if endpoint = [] then Inl (TestFailure TestReasonInvalidConfig ''Endpoint is required.'' [])
      else if \<not> str_contains endpoint ''://'' then Inr (endpoint, True)
      else case url_Parse L endpoint of
        None \<Rightarrow> Inl (TestFailure TestReasonInvalidConfig ''Endpoint %q is not a valid URL.'' [FStr endpoint])
      | Some (scheme, host) \<Rightarrow>
          (if host = [] then
             Inl (TestFailure TestReasonInvalidConfig ''Endpoint %q is not a valid URL.'' [FStr endpoint])
           else if scheme = ''https'' then Inr (host, True)
           else if scheme = ''http'' then Inr (host, False)
           else Inl (TestFailure TestReasonInvalidConfig ''Endpoint scheme %q is not supported.'' [FStr scheme])))"

definition testS3At :: "extlib \<Rightarrow> goval gomap \<Rightarrow> string \<Rightarrow> (gerr + unit) kprog" where
  "testS3At L values endpoint =
     try_pure (parseS3Endpoint L endpoint) (\<lambda>(host, secure).
       let bucket = values_String values ''bucket'' in
       prog_bind (dial (S3New \<lparr>s3_Host = host, s3_Secure = secure,
           s3_AccessKey = values_String values ''accessKey'',
           s3_SecretKey = values_String values ''secretKey'',
           s3_Region = values_String values ''region'',
           s3_PathStyle = values_Bool values ''pathStyle'' True\<rparr>)) (\<lambda>d. case d of
         Inl e \<Rightarrow> Ret (Inl (TestFailure TestReasonInvalidConfig
                   ''Could not build the S3 client: %v'' [FStr (de_Text e)]))
       | Inr _ \<Rightarrow> prog_bind (dial (S3BucketExists bucket)) (\<lambda>p. case p of
           Inl e \<Rightarrow> Ret (Inl (classifyS3Error e))
         | Inr exists \<Rightarrow>
             if \<not> exists then
               Ret (Inl (TestFailure TestReasonNotFound
                 ''The bucket %q does not exist, or these credentials cannot see it.'' [FStr bucket]))
             else Ret (Inr ()))))"

definition testS3 :: "extlib \<Rightarrow> goval gomap \<Rightarrow> test_check list kprog" where
  "testS3 L values =
     (let internal = values_String values ''internalUrl'';
          public = values_String values ''apiUrl''
      in prog_bind
           (if internal \<noteq> [] then
              prog_bind (testS3At L values internal)
                (\<lambda>err. Ret [test_check_of ''In-cluster URL'' internal True err])
            else Ret []) (\<lambda>checks1.
         prog_bind
           (if public \<noteq> [] then
              prog_bind (testS3At L values public)
                (\<lambda>err. Ret [test_check_of ''Public URL'' public (internal = []) err])
            else Ret []) (\<lambda>checks2.
         let checks = checks1 @ checks2 in
         Ret (if checks = [] then
                [test_check_of ''S3 endpoint'' [] True
                   (Inl (TestFailure TestReasonInvalidConfig ''Endpoint is required.'' []))]
              else checks))))"

definition connectionTesters :: "extlib \<Rightarrow> (goval gomap \<Rightarrow> test_check list kprog) gomap" where
  "connectionTesters L = [(''database-server'', testDatabaseServer), (''s3'', testS3 L)]"

subsection \<open>The test\<close>

text \<open>The last decisive check sets the verdict.\<close>

fun decisive_outcome :: "test_check list \<Rightarrow> connection_test_result \<Rightarrow> connection_test_result" where
  "decisive_outcome [] r = r"
| "decisive_outcome (c # cs) r =
     decisive_outcome cs
       (if \<not> tk_Decisive c then r
        else r\<lparr>ts_Success := tk_Success c, ts_Message := tk_Message c, ts_Reason := tk_Reason c\<rparr>)"

definition test_result :: "int \<Rightarrow> bool \<Rightarrow> string \<Rightarrow> string \<times> farg list \<Rightarrow> connection_test_result kprog" where
  "test_result started success reason message =
     Call KNow (\<lambda>r. Ret \<lparr>ts_Success = success, ts_Message = message, ts_Reason = reason,
       ts_DurationMs = (time_of r - started) div 1000000, ts_Checks = []\<rparr>)"

definition Connection_Test ::
    "extlib \<Rightarrow> catalog_iface \<Rightarrow> connection_test_request \<Rightarrow> connection_test_result kprog" where
  "Connection_Test L K req =
     Call KNow (\<lambda>t.
       if cc_Get K (tq_Type req) = None then
         test_result (time_of t) False TestReasonInvalidConfig (''Unknown contract %q.'', [FStr (tq_Type req)])
       else
         let values = cc_Normalize K (tq_Type req) (tq_Values req) in
         case cc_Validate K (tq_Type req) values of
           Inl e \<Rightarrow> test_result (time_of t) False TestReasonInvalidConfig (''%s'', [FErr e])
         | Inr _ \<Rightarrow>
             (case mget (connectionTesters L) (tq_Type req) of
                None \<Rightarrow> test_result (time_of t) False TestReasonInvalidConfig
                         (''This contract cannot be tested.'', [])
              | Some tester \<Rightarrow>
                  prog_bind (tester values) (\<lambda>checks.
                  prog_bind (test_result (time_of t) True [] (''Connection successful.'', [])) (\<lambda>outcome.
                    Ret (decisive_outcome checks (outcome\<lparr>ts_Checks := checks\<rparr>))))))"

end
