(* ===== verification/Connection_Properties.thy ===== *)
theory Connection_Properties
  imports Connection_Write Connection_Testers Catalog_Properties
begin

text \<open>
  What the operations on connections do to the cluster, for every answer it may give: which
  Secrets are written or removed and when, what a stored connection may hold, and that the
  settings of a connectivity test are those that were validated.
\<close>

subsection \<open>The credentials Secret\<close>

text \<open>A write of the credentials Secret \<^term>\<open>n\<close>, marked as the control plane's.\<close>

definition writes_secret :: "string \<Rightarrow> string \<Rightarrow> kcall \<Rightarrow> bool" where
  "writes_secret ns n c =
     (\<exists>s. (c = KCreate SecretsGVR ns (OSecret s) \<or> c = KUpdate SecretsGVR ns (OSecret s)) \<and>
          md_Name (se_Meta s) = n \<and> secret_managed s)"

lemma secret_managed_own [simp]: "secret_managed (credentials_secret ns n data)"
  by (simp add: secret_managed_def credentials_secret_def label_of_def mstr_def)

lemma secret_managed_data [simp]: "secret_managed (s\<lparr>se_Data := d\<rparr>) = secret_managed s"
  by (simp add: secret_managed_def label_of_def)

lemma secret_managed_version [simp]:
  "secret_managed (s\<lparr>se_Meta := (se_Meta s')\<lparr>md_ResourceVersion := v\<rparr>\<rparr>) =
   secret_managed (s\<lparr>se_Meta := se_Meta s'\<rparr>)"
  by (simp add: secret_managed_def label_of_def)

lemma credentials_secret_sel [simp]:
  "md_Name (se_Meta (credentials_secret ns n data)) = n"
  "se_Data (credentials_secret ns n data) = data"
  by (simp_all add: credentials_secret_def)

lemma runs_CreateOrUpdateSecret:
  "runs (CreateOrUpdateSecret ns n data) (\<lambda>tr x.
     (writes tr = [] \<and> (\<exists>e. x = Inl e)) \<or> (\<exists>c. writes tr = [c] \<and> writes_secret ns n c))"
  by (auto simp: CreateOrUpdateSecret_def runs_simps Let_def writes_secret_def
        split: sum.split option.split)

text \<open>Storing credentials writes at most the named Secret. A
  Secret of that name the control plane does not manage is never written, and the caller gets the
  foreign-Secret error; one it manages keeps every key the new credentials do not mention, and is
  written at the version that was read.\<close>

lemma CreateOrUpdateSecret_adopts_nothing:
  "runs (CreateOrUpdateSecret ns n data) (\<lambda>tr x.
     (writes tr = [] \<and> (\<exists>e. x = Inl e) \<and> (\<forall>old. (KGet SecretsGVR ns n, RObj (OSecret old)) \<notin> set tr)) \<or>
     (\<exists>old e. tr = [(KGet SecretsGVR ns n, RObj (OSecret old))] \<and> \<not> secret_managed old \<and>
        x = Inl e \<and> errors_is e ErrForeignSecret) \<or>
     (\<exists>e s r. tr = [(KGet SecretsGVR ns n, RErr e), (KCreate SecretsGVR ns (OSecret s), r)] \<and>
        is_not_found e \<and> secret_managed s \<and> md_Name (se_Meta s) = n \<and> se_Data s = data) \<or>
     (\<exists>old s r. tr = [(KGet SecretsGVR ns n, RObj (OSecret old)), (KUpdate SecretsGVR ns (OSecret s), r)] \<and>
        secret_managed old \<and> secret_managed s \<and> md_Name (se_Meta s) = n \<and>
        md_ResourceVersion (se_Meta s) = md_ResourceVersion (se_Meta old) \<and>
        (\<forall>k. mget (se_Data s) k =
           (case mget data k of None \<Rightarrow> mget (se_Data old) k | Some v \<Rightarrow> Some v))))"
  by (auto simp: CreateOrUpdateSecret_def Let_def runs_simps odd_obj_def split: option.split)

subsection \<open>Deletion\<close>


subsection \<open>Creation\<close>

lemma runs_InspectSecret: "runs (InspectSecret ns n) (\<lambda>tr x. read_only tr)"
  by (simp add: InspectSecret_def runs_simps split: option.split)

lemma runs_checkExistingSecret: "runs (checkExistingSecret ns req d) (\<lambda>tr x. read_only tr)"
  unfolding checkExistingSecret_def runs_bind
  by (rule runs_mono [OF runs_InspectSecret]) (auto split: sum.split)

text \<open>What a request that passes validation satisfies; validating it changes nothing.\<close>

definition validated ::
    "catalog_iface \<Rightarrow> connection_request \<Rightarrow> contract_descriptor \<Rightarrow> goval gomap \<Rightarrow> bool" where
  "validated K req d v =
     (cc_Get K (cq_Type req) = Some d \<and> cd_External d \<and>
      v = mdel valueSecretRef (cc_Normalize K (cq_Type req) (cq_Values req)) \<and>
      (cc_Validate K (cq_Type req) v = Inr () \<or> cc_ValidateUpdate K (cq_Type req) v = Inr ()))"

lemma runs_validateRequest:
  "runs (validateRequest L K ns req u) (\<lambda>tr x.
     read_only tr \<and> (\<forall>d v. x = Inr (d, v) \<longrightarrow> validated K req d v))"
proof -
  have check: "runs (if cq_ExistingSecret req \<noteq> [] then checkExistingSecret ns req d else Ret (Inr ()))
      (\<lambda>tr x. read_only tr)" for d
    using runs_checkExistingSecret by simp
  have rest: "runs (try_bind
       (if cq_ExistingSecret req \<noteq> [] then checkExistingSecret ns req d else Ret (Inr ()))
       (\<lambda>_. case (if cq_ExistingSecret req \<noteq> [] \<or> u then cc_ValidateUpdate K else cc_Validate K)
                   (cq_Type req) (mdel valueSecretRef (cc_Normalize K (cq_Type req) (cq_Values req))) of
          Inl e \<Rightarrow> Ret (Inl (invalid ''%s'' [FErr e]))
        | Inr _ \<Rightarrow> Ret (Inr (d, mdel valueSecretRef (cc_Normalize K (cq_Type req) (cq_Values req))))))
     (\<lambda>tr x. read_only tr \<and> (\<forall>d v. x = Inr (d, v) \<longrightarrow> validated K req d v))"
    if "cc_Get K (cq_Type req) = Some d" "cd_External d" for d
    unfolding runs_try_bind
    by (rule runs_mono [OF check [of d]])
       (use that in \<open>auto simp: validated_def split: sum.split if_splits\<close>)
  show ?thesis
    unfolding validateRequest_def ConnectionRepository_Available_def runs_bind runs_call_bool Let_def
    using rest by (auto split: list.split option.split)
qed

definition own_secret :: "connection_request \<Rightarrow> string" where
  "own_secret req = cq_Name req @ credentialsSecretSuffix"

text \<open>
  What \<^verbatim>\<open>storeCredentials\<close> writes, \<^term>\<open>S\<close> being the writes: nothing for a Secret somebody else
  owns, at most this connection's own Secret otherwise.
\<close>

definition own_secret_only :: "string \<Rightarrow> connection_request \<Rightarrow> kcall list \<Rightarrow> bool" where
  "own_secret_only ns req S =
     (S = [] \<or> (cq_ExistingSecret req = [] \<and> (\<exists>w. S = [w] \<and> writes_secret ns (own_secret req) w)))"

lemma runs_storeCredentials:
  "runs (storeCredentials ns req p s) (\<lambda>tr x.
     own_secret_only ns req (writes tr) \<and>
     (\<forall>p' n' s'. x = Inr (p', n', s') \<longrightarrow>
        (p' = p \<and> s' = [] \<and> s = [] \<or>
         (\<exists>n. p' = mput valueSecretRef (GStr n) p \<and>
            (n = cq_ExistingSecret req \<or> n = own_secret req))) \<and>
        ((writes tr \<noteq> []) = (cq_ExistingSecret req = [] \<and> s' \<noteq> [])) \<and>
        (cq_ExistingSecret req = [] \<longrightarrow> n' = own_secret req)))"
proof -
  have "runs (CreateOrUpdateSecret ns (own_secret req) s) (\<lambda>tr x.
      (case x of Inl e \<Rightarrow> writes tr = [] \<or> (\<exists>w. writes tr = [w] \<and> writes_secret ns (own_secret req) w)
       | Inr _ \<Rightarrow> (\<exists>w. writes tr = [w] \<and> writes_secret ns (own_secret req) w)))"
    by (rule runs_mono [OF runs_CreateOrUpdateSecret]) (auto split: sum.split)
  note store = runs_mono [OF this]
  show ?thesis
  proof (cases "cq_ExistingSecret req = [] \<and> s \<noteq> []")
    case True
    then show ?thesis
      by (simp add: storeCredentials_def Let_def runs_bind flip: own_secret_def)
         (rule store, auto simp: own_secret_only_def split: sum.splits)
  next
    case False
    then show ?thesis
      by (auto simp: storeCredentials_def Let_def own_secret_only_def own_secret_def)
  qed
qed

text \<open>
  The values a stored connection may hold: fields of its contract that are not secret, and the
  reference to a Secret.
\<close>

definition discloses_nothing :: "contract_descriptor \<Rightarrow> connection \<Rightarrow> bool" where
  "discloses_nothing d c =
     (\<forall>k x. mget (connection_values c) k = Some x \<longrightarrow>
        k = valueSecretRef \<or> (\<exists>f. Field d k = Some f \<and> \<not> cf_Secret f))"

lemma splitValues_fst_field:
  "splitValues d v = (p, s) \<Longrightarrow> mget p k = Some x \<Longrightarrow> \<exists>f. Field d k = Some f \<and> \<not> cf_Secret f"
  using splitValues_public [of d v k] by (auto split: option.splits if_splits)

lemma new_connection_discloses_nothing:
  assumes "splitValues d v = (p, s)" and "p' = p \<or> (\<exists>n. p' = mput valueSecretRef (GStr n) p)"
  shows "discloses_nothing d (new_connection ns req d p' n' s')"
proof -
  have "k = valueSecretRef \<or> mget p k = mget p' k" for k using assms(2) by (auto split: if_splits)
  with splitValues_fst_field [OF assms(1)] show ?thesis
    by (force simp: discloses_nothing_def new_connection_def Let_def connection_values_def)
qed

text \<open>
  The ways a creation may go once the name is free: \<^term>\<open>S\<close> is what storing the credentials wrote.
\<close>

definition create_steps ::
    "string \<Rightarrow> connection_request \<Rightarrow> contract_descriptor \<Rightarrow> ktrace \<Rightarrow> gerr + connection_response \<Rightarrow> bool" where
  "create_steps ns req d tr x =
     (let conns = ConnectionRepository_resource ns in
      \<exists>S. own_secret_only ns req S \<and>
        ((writes tr = S \<and> (\<exists>e. x = Inl e)) \<or>
         (\<exists>c r. (KCreate conns ns (OConn c), r) \<in> set tr \<and>
            md_Name (cn_Meta c) = cq_Name req \<and> cs_Contract (cn_Spec c) = cd_Name d \<and>
            discloses_nothing d c \<and>
            ((writes tr = S @ [KCreate conns ns (OConn c)] \<and>
                ((\<exists>y. answered_ok r \<and> x = Inr y) \<or>
                 (\<exists>e. r = RErr e \<and> x = Inl e \<and> (S = [] \<or> is_already_exists e)))) \<or>
             (\<exists>e. writes tr = S @ [KCreate conns ns (OConn c), KDelete SecretsGVR ns (own_secret req)] \<and>
                S \<noteq> [] \<and> r = RErr e \<and> \<not> is_already_exists e \<and> x = Inl e)))))"

lemma discloses_nothing_version [simp]:
  "discloses_nothing d (c\<lparr>cn_APIVersion := a, cn_Kind := k\<rparr>) = discloses_nothing d c"
  by (simp add: discloses_nothing_def connection_values_def)

lemma new_connection_sel [simp]:
  "md_Name (cn_Meta (new_connection ns req d p n s)) = cq_Name req"
  "cs_Contract (cn_Spec (new_connection ns req d p n s)) = cd_Name d"
  by (simp_all add: new_connection_def Let_def)

lemma runs_create_connection:
  assumes "own_secret_only ns req (writes t1)" and "discloses_nothing d (new_connection ns req d p n s)"
    and "(writes t1 \<noteq> []) = (cq_ExistingSecret req = [] \<and> s \<noteq> [])"
    and "cq_ExistingSecret req = [] \<longrightarrow> n = own_secret req"
  shows "runs (create_connection K ns req d p n s) (\<lambda>t2 b. create_steps ns req d (t1 @ t2) b)"
  using assms
  by (auto simp: create_connection_def ConnectionRepository_Create_def DeleteSecret_def runs_simps
        create_steps_def Let_def split: sum.split)

lemma runs_create_free: "runs (create_free K ns req d v) (create_steps ns req d)"
proof -
  obtain p s where ps: "splitValues d v = (p, s)" by force
  show ?thesis
    unfolding create_free_def ps prod.case
  proof (rule runs_try_seq [OF runs_storeCredentials], goal_cases)
    case (1 t1 e)
    then show ?case by (auto simp: create_steps_def Let_def)
  next
    case (2 t1 a)
    obtain p' n' s' where a: "a = (p', n', s')" by (cases a) auto
    from 2 show ?case
      unfolding a prod.case
      by (intro runs_create_connection new_connection_discloses_nothing [OF ps]) auto
  qed
qed

lemma create_steps_prefix:
  assumes "create_steps ns req d t2 b" and "writes t1 = []"
  shows "create_steps ns req d (t1 @ t2) b"
  using assms unfolding create_steps_def Let_def by (elim exE conjE disjE) auto

lemma runs_ConnectionRepository_Get:
  "runs (ConnectionRepository_Get ns n) (\<lambda>t g. read_only t \<and>
     (\<forall>e. g = Inl e \<and> is_not_found e \<longrightarrow> t = [(KGet (ConnectionRepository_resource ns) ns n, RErr e)]) \<and>
     (\<forall>c. g = Inr c \<longrightarrow> t = [(KGet (ConnectionRepository_resource ns) ns n, RObj (OConn c))]))"
  by (auto simp: ConnectionRepository_Get_def runs_simps from_unstructured_def convert_error_def
        split: option.split)

text \<open>C3: a creation writes nothing unless the name was read and found
  free. It then writes at most its own credentials Secret and one connection, whose values hold no
  secret field of the contract. When the connection is refused after the Secret was written, the
  Secret is removed, except when the refusal says a concurrent creation took the name; success is
  reported exactly when the connection was accepted.\<close>

theorem Connection_Create_protocol:
  "runs (Connection_Create L K ns req) (\<lambda>tr x.
     (writes tr = [] \<and> (\<exists>e. x = Inl e)) \<or>
     (\<exists>e d. (KGet (ConnectionRepository_resource ns) ns (cq_Name req), RErr e) \<in> set tr \<and>
        is_not_found e \<and> cc_Get K (cq_Type req) = Some d \<and> create_steps ns req d tr x))"
  unfolding Connection_Create_def
proof (rule runs_try_seq [OF runs_validateRequest], goal_cases)
  case (1 t1 e)
  then show ?case by (simp add: read_only_writes)
next
  case (2 t1 a)
  obtain d v where a: "a = (d, v)" by force
  with 2 have t1: "writes t1 = []" and d: "cc_Get K (cq_Type req) = Some d"
    by (auto simp: read_only_writes validated_def)
  show ?case
    unfolding a prod.case
  proof (rule runs_seq [OF runs_ConnectionRepository_Get], goal_cases)
    case (1 t2 g)
    show ?case
    proof (cases "\<exists>e. g = Inl e \<and> is_not_found e")
      case True
      then obtain e where e: "g = Inl e" "is_not_found e" by blast
      with 1 have t2: "t2 = [(KGet (ConnectionRepository_resource ns) ns (cq_Name req), RErr e)]" by simp
      have pre: "create_steps ns req d (t1 @ t2 @ t3) b" if "create_steps ns req d t3 b" for t3 b
        using create_steps_prefix [OF that, of "t1 @ t2"] t1 t2 by simp
      show ?thesis
        unfolding e(1) sum.case
        by (simp add: e(2), rule runs_mono [OF runs_create_free], rule disjI2)
           (intro exI [of _ e] exI [of _ d], use d e pre in \<open>auto simp: t2\<close>)
    next
      case False
      with t1 1 show ?thesis by (auto simp: read_only_writes split: sum.split)
    qed
  qed
qed

subsection \<open>Edition\<close>

text \<open>The Secret an edition leaves behind: the one the connection owned, when it moves to another.\<close>

definition left_behind :: "connection_request \<Rightarrow> connection \<Rightarrow> string \<Rightarrow> bool" where
  "left_behind req old s =
     (cq_ExistingSecret req \<noteq> [] \<and> cq_ExistingSecret req \<noteq> s \<and>
      credentialsSecretOf old (cq_Name req) = (s, True))"

lemma runs_updateCredentials:
  "runs (updateCredentials ns req old p s) (\<lambda>tr x.
     own_secret_only ns req (writes tr) \<and>
     (\<forall>p' a o'. x = Inr (p', a, o') \<longrightarrow>
        (p' = p \<or> (\<exists>v. p' = mput valueSecretRef v p)) \<and> (o' = [] \<or> left_behind req old o')))"
proof -
  have "runs (CreateOrUpdateSecret ns (own_secret req) s) (\<lambda>tr x.
      writes tr = [] \<or> (\<exists>w. writes tr = [w] \<and> writes_secret ns (own_secret req) w))"
    by (rule runs_mono [OF runs_CreateOrUpdateSecret]) auto
  note store = runs_mono [OF this]
  show ?thesis
  proof (cases "cq_ExistingSecret req = [] \<and> s \<noteq> []")
    case True
    then show ?thesis
      by (simp add: updateCredentials_def Let_def runs_bind flip: own_secret_def)
         (rule store, auto simp: own_secret_only_def split: sum.splits)
  next
    case False
    then show ?thesis
      by (auto simp: updateCredentials_def Let_def own_secret_only_def left_behind_def
            split: prod.split option.split)
  qed
qed

text \<open>The ways an edition may go once the connection was read and may be edited.\<close>

definition update_steps ::
    "string \<Rightarrow> connection_request \<Rightarrow> connection \<Rightarrow> contract_descriptor \<Rightarrow> ktrace \<Rightarrow>
       gerr + connection_response \<Rightarrow> bool" where
  "update_steps ns req old d tr x =
     (let conns = ConnectionRepository_resource ns in
      \<exists>S. own_secret_only ns req S \<and>
        ((writes tr = S \<and> (\<exists>e. x = Inl e)) \<or>
         (\<exists>c r. (KUpdate conns ns (OConn c), r) \<in> set tr \<and>
            md_Name (cn_Meta c) = md_Name (cn_Meta old) \<and> \<not> IsManaged c \<and>
            cs_Contract (cn_Spec c) = cd_Name d \<and> discloses_nothing d c \<and>
            ((writes tr = S @ [KUpdate conns ns (OConn c)] \<and>
                ((\<exists>y. answered_ok r \<and> x = Inr y) \<or> (\<exists>e. r = RErr e \<and> x = Inl e))) \<or>
             (\<exists>s y. writes tr = S @ [KUpdate conns ns (OConn c), KDelete SecretsGVR ns s] \<and>
                left_behind req old s \<and> answered_ok r \<and> x = Inr y)))))"

lemma edited_connection_discloses_nothing:
  assumes "splitValues d v = (p, s)" and "p' = p \<or> (\<exists>v. p' = mput valueSecretRef v p)"
  shows "discloses_nothing d (edited_connection old d req p' a)"
proof -
  have "k = valueSecretRef \<or> mget p k = mget p' k" for k using assms(2) by (auto split: if_splits)
  with splitValues_fst_field [OF assms(1)] show ?thesis
    by (force simp: discloses_nothing_def edited_connection_def connection_values_def)
qed

lemma discloses_nothing_meta [simp]:
  "discloses_nothing d (c\<lparr>cn_APIVersion := a, cn_Kind := k, cn_Meta := m\<rparr>) = discloses_nothing d c"
  by (simp add: discloses_nothing_def connection_values_def)

lemma runs_update_connection:
  assumes "own_secret_only ns req (writes t1)" and "o' = [] \<or> left_behind req old o'"
    and "discloses_nothing d (edited_connection old d req p a)" and "\<not> IsManaged old"
  shows "runs (update_connection K ns req old d p a o') (\<lambda>t2 b. update_steps ns req old d (t1 @ t2) b)"
proof -
  have e: "md_Name (cn_Meta (edited_connection old d req p a)) = md_Name (cn_Meta old)"
      "cs_Contract (cn_Spec (edited_connection old d req p a)) = cd_Name d"
      "\<not> IsManaged (edited_connection old d req p a)"
    using assms(4) by (simp_all add: edited_connection_def IsManaged_def)
  then have "\<not> IsManaged ((edited_connection old d req p a)\<lparr>cn_APIVersion := x, cn_Kind := y, cn_Meta := m\<rparr>)"
    for x y m by (simp add: IsManaged_def)
  with assms e show ?thesis
    by (auto simp: update_connection_def ConnectionRepository_Update_def DeleteSecret_def runs_simps
          update_steps_def Let_def split: sum.split)
qed

lemma update_steps_prefix:
  assumes "update_steps ns req old d t2 b" and "writes t1 = []"
  shows "update_steps ns req old d (t1 @ t2) b"
  using assms unfolding update_steps_def Let_def by (elim exE conjE disjE) auto

lemma runs_update_stored:
  assumes "\<not> IsManaged old"
  shows "runs (case splitValues d v of (public0, secrets) \<Rightarrow>
            try_bind (updateCredentials ns req old public0 secrets) (\<lambda>(public, annotations, orphanedSecret).
              update_connection K ns req old d public annotations orphanedSecret))
           (update_steps ns req old d)"
proof -
  obtain p s where ps: "splitValues d v = (p, s)" by force
  show ?thesis
    unfolding ps prod.case
  proof (rule runs_try_seq [OF runs_updateCredentials], goal_cases)
    case (1 t1 e)
    then show ?case by (auto simp: update_steps_def Let_def)
  next
    case (2 t1 a)
    obtain p' n' o' where a: "a = (p', n', o')" by (cases a) auto
    from 2 show ?case
      unfolding a prod.case
      by (intro runs_update_connection edited_connection_discloses_nothing [OF ps] assms) auto
  qed
qed

text \<open>C4: an edition writes nothing unless the connection was read and is
  not managed by a release. It then writes at most the connection's own credentials Secret and the
  connection, which keeps its name, stays a user's connection and holds no secret field; a Secret is
  removed only after the connection was successfully stored, and only the one this server owned and
  the request moves away from.\<close>

theorem Connection_Update_protocol:
  "runs (Connection_Update L K ns name req) (\<lambda>tr x.
     (writes tr = [] \<and> (\<exists>e. x = Inl e)) \<or>
     (\<exists>old d. (KGet (ConnectionRepository_resource ns) ns name, RObj (OConn old)) \<in> set tr \<and>
        \<not> IsManaged old \<and> cc_Get K (cq_Type req) = Some d \<and>
        update_steps ns (req\<lparr>cq_Name := name\<rparr>) old d tr x))"
  unfolding Connection_Update_def Let_def
proof (rule runs_try_seq [OF runs_validateRequest], goal_cases)
  case (1 t1 e)
  then show ?case by (simp add: read_only_writes)
next
  case (2 t1 a)
  obtain d v where a: "a = (d, v)" by force
  with 2 have t1: "writes t1 = []" and d: "cc_Get K (cq_Type req) = Some d"
    by (auto simp: read_only_writes validated_def)
  show ?case
    unfolding a prod.case
  proof (rule runs_try_seq [OF runs_ConnectionRepository_Get], goal_cases)
    case (1 t2 e)
    with t1 show ?case by (simp add: read_only_writes)
  next
    case (2 t2 old)
    then have t2: "t2 = [(KGet (ConnectionRepository_resource ns) ns name, RObj (OConn old))]" by simp
    show ?case
    proof (cases "IsManaged old")
      case True
      with t1 t2 show ?thesis by simp
    next
      case False
      have pre: "update_steps ns (req\<lparr>cq_Name := name\<rparr>) old d (t1 @ t2 @ t3) b"
        if "update_steps ns (req\<lparr>cq_Name := name\<rparr>) old d t3 b" for t3 b
        using update_steps_prefix [OF that, of "t1 @ t2"] t1 t2 by simp
      show ?thesis
        by (simp only: False if_False, rule runs_mono [OF runs_update_stored [OF False]], rule disjI2)
           (intro exI [of _ old] exI [of _ d], use d pre False in \<open>auto simp: t2\<close>)
    qed
  qed
qed

subsection \<open>Ownership of the credentials Secret\<close>

text \<open>What a creation or an edition records about the credentials is what a
  deletion or a later edition reads back, in a namespace whose name holds no slash. A connection
  pointed at somebody else's Secret never owns it, even one that follows the naming convention; a
  connection whose credentials this server stored owns exactly the Secret they were stored in.\<close>

lemma credentials_ownership:
  assumes "CHR ''/'' \<notin> set ns" and "cq_ExistingSecret req \<noteq> []"
  shows "credentialsSecretOf (new_connection ns req d p (cq_ExistingSecret req) s) name =
           (cq_ExistingSecret req, False) \<and>
         credentialsSecretOf (edited_connection old d req' p
            (withCredentialsSecret a (ns @ ''/'' @ cq_ExistingSecret req) False)) name =
           (cq_ExistingSecret req, False) \<and>
         credentialsSecretOf (edited_connection old d req' p
            (withCredentialsSecret a (ns @ ''/'' @ name @ credentialsSecretSuffix) True)) name =
           (name @ credentialsSecretSuffix, True)"
  using assms str_cut_char [OF assms(1)]
  by (simp add: credentialsSecretOf_def new_connection_def edited_connection_def Let_def annot_def
        mstr_def withCredentialsSecret_def credentialsOwned_def connection_consts)

definition hive_request :: connection_request where
  "hive_request = \<lparr>cq_Name = ''m'', cq_Type = ''hive'', cq_Description = [],
     cq_Values = [(''thriftUri'', GStr ''thrift://h:9083'')], cq_ExistingSecret = []\<rparr>"

definition hive_connection :: connection where
  "hive_connection =
     new_connection ''p'' hive_request hive_contract (cq_Values hive_request) ''m-credentials'' []
       \<lparr>cn_APIVersion := ConnectionAPIVersion, cn_Kind := ConnectionKind\<rparr>"

lemma hive_values:
  "Normalize builtin_catalog ''hive'' (cq_Values hive_request) = cq_Values hive_request"
  "Validate builtin_catalog ''hive'' (cq_Values hive_request) = Inr ()"
  "splitValues hive_contract (cq_Values hive_request) = (cq_Values hive_request, [])"
  "mdel valueSecretRef (cq_Values hive_request) = cq_Values hive_request"
  by (simp_all add: hive_request_def Normalize_def normalize_field_def Validate_def validate_def Field_def
        validate_field_def validateFieldValue_def missing_def Applies_def field_types valueSecretRef_def
        contract_defs)

lemma hive_request_sel [simp]:
  "cq_Name hive_request = ''m''" "cq_Type hive_request = ''hive''" "cq_ExistingSecret hive_request = []"
  by (simp_all add: hive_request_def)

lemma hive_external: "cd_External hive_contract"
  by (simp add: contract_defs)

lemmas create_eval = Connection_Create_def validateRequest_def create_free_def storeCredentials_def
  create_connection_def connection_repo_defs call_bool_def call_obj_def call_unit_def Let_def
  ConnectionRepository_resource_def ConnectionRepository_kind_def credentialsSecretSuffix_def


text \<open>A library that finds no fault with any name, for concrete runs.\<close>

definition lenient_lib :: extlib where
  "lenient_lib = \<lparr>IsDNS1123Subdomain = (\<lambda>s. []), IsConfigMapKey = (\<lambda>s. []), url_Parse = (\<lambda>s. None),
     time_Parse = (\<lambda>s. None), strconv_ParseFloat = (\<lambda>s. None),
     SetNestedSlice = (\<lambda>u xs p. Inr u), ParseQuantity = (\<lambda>s. Inr 0),
     time_ParseDuration = (\<lambda>s. Some 0), AppendCertsFromPEM = (\<lambda>s. True), fmt_g = (\<lambda>r. ''''), yaml_Unmarshal = (\<lambda>s. Inr []),
     jsonschema_Compile = (\<lambda>d. None)\<rparr>"


subsection \<open>The settings of a connectivity test\<close>

text \<open>C6: the driver settings of a test are the validated values. For values of a
  database server that pass validation after normalisation, the 16-bit port handed to the PostgreSQL
  driver is the port itself, without wrap-around, and the MySQL settings never run into an
  unsupported TLS mode: the options the contract offers are those the driver code knows.\<close>

theorem tester_settings_exact:
  assumes "Validate builtin_catalog ''database-server''
             (Normalize builtin_catalog ''database-server'' v) = Inr ()"
    and "r = Normalize builtin_catalog ''database-server'' v"
  shows "(mget r ''engine'' = Some (GStr ''postgresql'') \<and>
            pg_Port (postgresConfig r) = values_Int r ''port'' 5432 \<and>
            1 \<le> values_Int r ''port'' 5432 \<and> values_Int r ''port'' 5432 \<le> 65535) \<or>
         (mget r ''engine'' = Some (GStr ''mysql'') \<and> (\<exists>config. mysqlConfig r = Inr config))"
proof -
  have upd: "ValidateUpdate builtin_catalog ''database-server''
      (Normalize builtin_catalog ''database-server'' v) = Inr ()"
    by (rule Validate_update [OF assms(1)])
  then have acc: "accepted database_server_contract r"
    using assms(2) by (simp add: ValidateUpdate_def validate_Inr)
  obtain q p where p: "mget r ''port'' = Some q" "toFloat q = Some p" "1 \<le> p" "p \<le> 65535"
      and engine: "mget r ''engine'' = Some (GStr ''postgresql'') \<or> mget r ''engine'' = Some (GStr ''mysql'')"
    using database_server_values [OF upd assms(2)] by blast
  have int: "values_Int r ''port'' 5432 = trunc_rat p" by (simp add: values_Int_def p)
  have bounds: "1 \<le> trunc_rat p \<and> trunc_rat p \<le> 65535"
    by (rule trunc_rat_bounds) (use p in simp_all)
  from engine show ?thesis
  proof
    assume "mget r ''engine'' = Some (GStr ''postgresql'')"
    with int bounds show ?thesis by (simp add: postgresConfig_def Let_def)
  next
    assume mysql: "mget r ''engine'' = Some (GStr ''mysql'')"
    note tls = database_tls
    have "Applies (database_field 8) r" by (simp add: Applies_def tls str_at_def mysql)
    from accepted_conforms [OF acc tls(1) this]
    have "str_at r ''tls'' \<in> {[], ''false'', ''preferred'', ''true'', ''skip-verify''}"
      by (auto simp: tls missing_def str_at_def conforms_def field_types database_tls_type split: option.split)
    then have "\<exists>config. mysqlConfig r = Inr config"
      by (auto simp: mysqlConfig_def Let_def values_String_def)
    with mysql show ?thesis by simp
  qed
qed

theorem tester_settings_exact_witness:
  "\<exists>config. mysqlConfig (Normalize builtin_catalog ''database-server''
     (sample_database @ [(''username'', GStr ''u''), (''password'', GStr ''p'')])) = Inr config"
proof -
  let ?v = "sample_database @ [(''username'', GStr ''u''), (''password'', GStr ''p'')]"
  have "Validate builtin_catalog ''database-server'' (Normalize builtin_catalog ''database-server'' ?v) = Inr ()"
    by (simp add: Validate_def validate_def Field_def sample_database_def Normalize_def
        normalize_field_def validate_field_def validateFieldValue_def missing_def Applies_def
        str_at_def field_types contract_defs)
  from tester_settings_exact [OF this refl]
  show ?thesis
    by (auto simp: sample_database_def Normalize_def normalize_field_def Applies_def str_at_def contract_defs)
qed

text \<open>Every failure a tester reports carries a reason.\<close>

definition reasoned :: "gerr + unit \<Rightarrow> bool" where
  "reasoned x = (\<forall>e r f a. x = Inl e \<longrightarrow> as_test_failure e = Some (r, f, a) \<longrightarrow> r \<noteq> [])"

lemmas reasons = TestReasonUnreachable_def TestReasonAuthFailed_def TestReasonNotFound_def
  TestReasonTimeout_def TestReasonInvalidConfig_def TestReasonUnknown_def

lemma reasoned_simps [simp]:
  "reasoned (Inr u)" "reasoned (Inl (TestFailure r f a)) \<longleftrightarrow> r \<noteq> []"
  "reasoned (Inl (classifyNetworkError e))" "reasoned (Inl (classifyPostgresError e))"
  "reasoned (Inl (classifyMySQLError e))" "reasoned (Inl (classifyS3Error e))"
  by (auto simp: reasoned_def classifyNetworkError_def classifyPostgresError_def classifyMySQLError_def
        classifyS3Error_def reasons split: option.splits if_splits)

lemma test_check_of_reason:
  "reasoned x \<Longrightarrow> tk_Success (test_check_of l t d x) \<or> tk_Reason (test_check_of l t d x) \<noteq> []"
  by (auto simp: test_check_of_def Let_def reasoned_def reasons split: sum.splits option.splits)

lemma test_check_of_reason' [simp]:
  "reasoned x \<Longrightarrow> \<not> tk_Success (test_check_of l t d x) \<Longrightarrow> tk_Reason (test_check_of l t d x) \<noteq> []"
  using test_check_of_reason by blast

lemma test_check_of_decisive [simp]: "tk_Decisive (test_check_of l t d x) = d"
  by (simp add: test_check_of_def Let_def split: sum.split option.split)

lemma runs_dial [runs_simps]:
  "runs (dial d) Q \<longleftrightarrow> (\<forall>r. Q [(KDial d, r)] (case driver_of r of DrvErr e \<Rightarrow> Inl e | DrvOk b \<Rightarrow> Inr b))"
  by (simp add: dial_def)

lemma runs_testPostgreSQLAt: "runs (testPostgreSQLAt v) (\<lambda>tr x. writes tr = [] \<and> reasoned x)"
  by (auto simp: testPostgreSQLAt_def runs_simps reasons split: sum.split)

lemma runs_testMySQLAt: "runs (testMySQLAt v) (\<lambda>tr x. writes tr = [] \<and> reasoned x)"
  by (auto simp: testMySQLAt_def mysqlConfig_def Let_def runs_simps reasons split: sum.split)

lemma runs_testS3At: "runs (testS3At L v a) (\<lambda>tr x. writes tr = [] \<and> reasoned x)"
  by (auto simp: testS3At_def parseS3Endpoint_def Let_def runs_simps reasons
        split: sum.split option.split)

text \<open>Every tester writes nothing, reports a decisive check, and a reason with every failure.\<close>

definition tester_ok :: "ktrace \<Rightarrow> test_check list \<Rightarrow> bool" where
  "tester_ok tr cs =
     (writes tr = [] \<and> (\<exists>c\<in>set cs. tk_Decisive c) \<and> (\<forall>c\<in>set cs. tk_Success c \<or> tk_Reason c \<noteq> []))"

lemma runs_testDatabaseServer: "runs (testDatabaseServer v) tester_ok"
  unfolding testDatabaseServer_def Let_def
  by (rule runs_seq [where P = "\<lambda>tr x. writes tr = [] \<and> reasoned x"])
     (auto simp: runs_testPostgreSQLAt runs_testMySQLAt reasons tester_ok_def test_check_of_reason)

lemma runs_testS3: "runs (testS3 L v) tester_ok"
proof -
  let ?P = "\<lambda>b l t d tr cs. writes tr = [] \<and>
      (if b then \<exists>x. cs = [test_check_of l t d x] \<and> reasoned x else cs = [])"
  have one: "runs (if b then prog_bind (testS3At L v t) (\<lambda>err. Ret [test_check_of l t d err]) else Ret [])
      (?P b l t d)" for b l t d
    using runs_testS3At [of L v t]
    by (auto simp: runs_bind elim!: runs_mono)
  show ?thesis
    unfolding testS3_def Let_def
  proof (rule runs_seq [OF one [where d = True]], rule runs_seq [OF one], goal_cases)
    case (1 t1 cs1 t2 cs2)
    then show ?case
      by (auto simp: tester_ok_def test_check_of_reason reasons split: if_splits)
  qed
qed

lemma decisive_success:
  "ts_Success (decisive_outcome cs r) \<Longrightarrow>
     ts_Success r \<and> (\<forall>c\<in>set cs. \<not> tk_Decisive c) \<or> (\<exists>c\<in>set cs. tk_Decisive c \<and> tk_Success c)"
  by (induction cs arbitrary: r) (fastforce split: if_splits)+

lemma decisive_failure:
  assumes "\<forall>c\<in>set cs. tk_Success c \<or> tk_Reason c \<noteq> []" and "ts_Success r \<or> ts_Reason r \<noteq> []"
  shows "ts_Success (decisive_outcome cs r) \<or> ts_Reason (decisive_outcome cs r) \<noteq> []"
  using assms by (induction cs arbitrary: r) auto

lemma decisive_checks [simp]: "ts_Checks (decisive_outcome cs r) = ts_Checks r"
  by (induction cs arbitrary: r) auto

lemma decisive_verdict:
  assumes "tester_ok tr cs" and "ts_Success r"
  shows "if ts_Success (decisive_outcome cs r) then \<exists>c\<in>set cs. tk_Decisive c \<and> tk_Success c
         else ts_Reason (decisive_outcome cs r) \<noteq> []"
  using assms decisive_success [of cs r] decisive_failure [of cs r] by (auto simp: tester_ok_def)

lemma Connection_Test_runs:
  "runs (Connection_Test L K req) (\<lambda>tr x.
     writes tr = [] \<and>
     (if ts_Success x
      then cc_Get K (tq_Type req) \<noteq> None \<and>
           cc_Validate K (tq_Type req) (cc_Normalize K (tq_Type req) (tq_Values req)) = Inr () \<and>
           (\<exists>c\<in>set (ts_Checks x). tk_Decisive c \<and> tk_Success c)
      else ts_Reason x \<noteq> []))"
proof -
  have tester: "runs (t v) tester_ok" if "mget (connectionTesters L) n = Some t" for n t v
    using that runs_testDatabaseServer runs_testS3
    by (auto simp: connectionTesters_def split: if_splits)
  have rest: "runs (prog_bind (t v) (\<lambda>checks.
        prog_bind (test_result s True [] m) (\<lambda>outcome.
          Ret (decisive_outcome checks (outcome\<lparr>ts_Checks := checks\<rparr>)))))
      (\<lambda>tr x. writes tr = [] \<and>
        (if ts_Success x then \<exists>c\<in>set (ts_Checks x). tk_Decisive c \<and> tk_Success c else ts_Reason x \<noteq> []))"
    if "mget (connectionTesters L) n = Some t" for n t v s m
  proof (rule runs_seq [OF tester [OF that]], goal_cases)
    case (1 t1 cs)
    then have "writes t1 = []" by (simp add: tester_ok_def)
    moreover have "\<exists>c\<in>set cs. tk_Decisive c \<and> tk_Success c"
      if "ts_Success (decisive_outcome cs r)" "ts_Success r" for r
      using decisive_verdict [OF 1 that(2)] that(1) by simp
    moreover have "ts_Reason (decisive_outcome cs r) \<noteq> []"
      if "\<not> ts_Success (decisive_outcome cs r)" "ts_Success r" for r
      using decisive_verdict [OF 1 that(2)] that(1) by simp
    ultimately show ?case by (auto simp: test_result_def)
  qed
  show ?thesis
    unfolding Connection_Test_def Let_def
    by (auto simp: test_result_def [of _ False] reasons split: sum.split option.split
          intro: runs_mono [OF rest])
qed

text \<open>C7: a connectivity test changes nothing in the cluster. It succeeds only
  for a contract of the catalog whose normalised values pass validation, and only when a decisive
  check succeeded; when it fails it says why.\<close>

theorem Connection_Test_verdict:
  "runs (Connection_Test L K req) (\<lambda>tr x.
     writes tr = [] \<and>
     (if ts_Success x
      then cc_Get K (tq_Type req) \<noteq> None \<and>
           cc_Validate K (tq_Type req) (cc_Normalize K (tq_Type req) (tq_Values req)) = Inr () \<and>
           (\<exists>c\<in>set (ts_Checks x). tk_Decisive c \<and> tk_Success c)
      else ts_Reason x \<noteq> []))"
  by (rule Connection_Test_runs)

end
