(* ===== verification/Context_Repository.thy ===== *)
theory Context_Repository
  imports Kube Extlib
begin

text \<open>
  The Control Plane Context (\<^verbatim>\<open>internal/repository/context_repository.go\<close>,
  \<^verbatim>\<open>internal/models/service.go\<close>, \<^verbatim>\<open>internal/models/platform_identity.go\<close>): its cache, and what is
  read from it, the service catalog, the ingress suffix, the identity configuration, the images
  and the Spark settings. A reader is a pure function of the Context; \<^verbatim>\<open>reading\<close> composes it with
  the call that fetches the Context.
\<close>

definition contextGVR :: gvr where
  "contextGVR = (''kubocd.kubotal.io'', ''v1alpha1'', ''contexts'')"

subsection \<open>The cache\<close>

record context_repo =
  xr_name :: string
  xr_namespace :: string
  xr_cached :: "uobj option"
  xr_cachedAt :: int

definition contextCacheTTL :: int where "contextCacheTTL = 5 * 1000000000"

text \<open>\<^verbatim>\<open>getContext\<close>: the receiver is passed and returned; the clock is a call.\<close>

definition fetchContext :: "context_repo \<Rightarrow> ((gerr + uobj) \<times> context_repo) kprog" where
  "fetchContext r =
     Call (KGet contextGVR (xr_namespace r) (xr_name r)) (\<lambda>a.
       case sum_bind (obj_of a) (from_unstructured is_raw) of
         Inl e \<Rightarrow> Ret (Inl e, r)
       | Inr u \<Rightarrow> Call KNow (\<lambda>t. Ret (Inr u, r\<lparr>xr_cached := Some u, xr_cachedAt := time_of t\<rparr>)))"

definition getContext :: "context_repo \<Rightarrow> ((gerr + uobj) \<times> context_repo) kprog" where
  "getContext r =
     (case xr_cached r of
        None \<Rightarrow> fetchContext r
      | Some u \<Rightarrow>
          Call KNow (\<lambda>t.
            if time_of t - xr_cachedAt r < contextCacheTTL then Ret (Inr u, r) else fetchContext r))"

definition Invalidate :: "context_repo \<Rightarrow> context_repo" where
  "Invalidate r = r\<lparr>xr_cached := None\<rparr>"

subsection \<open>Reading the Context\<close>

record platform_service =
  pv_Name :: string
  pv_Versions :: "string list"
  pv_DefaultVersion :: string
  pv_Description :: string
  pv_Icon :: string
  pv_Category :: string
  pv_Repository :: string
  pv_Label :: string
  pv_ExposesUI :: "bool option"

record menu_category =
  mc_Key :: string
  mc_Label :: string
  mc_Icon :: string
  mc_Order :: nat

record profile_image =
  pi_Label :: string
  pi_Image :: string

definition getString :: "goval gomap \<Rightarrow> string \<Rightarrow> string" where
  "getString m key = str_at m key"

definition getBoolPtr :: "goval gomap \<Rightarrow> string \<Rightarrow> bool option" where
  "getBoolPtr m key = (case mget m key of None \<Rightarrow> None | Some v \<Rightarrow> as_bool v)"

definition getInt :: "goval gomap \<Rightarrow> string \<Rightarrow> int" where
  "getInt m key =
     (case mget m key of
        Some (GInt64 n) \<Rightarrow> n
      | Some (GFloat q) \<Rightarrow> trunc_rat q
      | Some (GInt n) \<Rightarrow> n
      | _ \<Rightarrow> 0)"

definition catalog_path :: "string list" where
  "catalog_path = [''spec'', ''context'', ''serviceCatalog'', ''categories'']"

definition catalogCategories :: "uobj \<Rightarrow> gerr + goval gomap list option" where
  "catalogCategories u =
     (case u_NestedSlice u catalog_path of
        Inl e \<Rightarrow> Inl (Wrapf ''failed to read serviceCatalog.categories from Context: %w'' [] e)
      | Inr None \<Rightarrow> Inr None
      | Inr (Some raw) \<Rightarrow> Inr (Some (keep_some as_obj raw)))"

definition platformServiceFromMap :: "goval gomap \<Rightarrow> string \<Rightarrow> platform_service" where
  "platformServiceFromMap m category =
     (let default0 = getString m ''default'';
          defaultVersion = (if default0 = [] then getString m ''tag'' else default0);
          versions = (case mget m ''versions'' of Some (GArr vs) \<Rightarrow> keep_some as_str vs | _ \<Rightarrow> [])
      in \<lparr>pv_Name = getString m ''name'',
          pv_Versions =
            (if versions = [] \<and> defaultVersion \<noteq> [] then [defaultVersion] else versions),
          pv_DefaultVersion = defaultVersion, pv_Description = getString m ''description'',
          pv_Icon = [], pv_Category = category, pv_Repository = getString m ''repository'',
          pv_Label = getString m ''label'', pv_ExposesUI = getBoolPtr m ''exposesUI''\<rparr>)"

text \<open>The services of a section, always as a list, and the ones that decode.\<close>

definition categoryServices :: "goval gomap \<Rightarrow> goval list" where
  "categoryServices cat = (case mget cat ''services'' of Some (GArr xs) \<Rightarrow> xs | _ \<Rightarrow> [])"

definition section_services :: "goval gomap \<Rightarrow> platform_service list" where
  "section_services cat =
     map (\<lambda>m. platformServiceFromMap m (getString cat ''title'')) (keep_some as_obj (categoryServices cat))"

definition services_in :: "goval gomap list \<Rightarrow> platform_service list" where
  "services_in cats = concat (map section_services cats)"

definition GetPlatformServices_of :: "uobj \<Rightarrow> gerr + platform_service list" where
  "GetPlatformServices_of u =
     sum_bind (catalogCategories u) (\<lambda>cats.
       Inr (case cats of None \<Rightarrow> [] | Some cs \<Rightarrow> services_in cs))"

fun menu_of :: "nat \<Rightarrow> goval gomap list \<Rightarrow> menu_category list" where
  "menu_of i [] = []"
| "menu_of i (cat # cats) =
     \<lparr>mc_Key = getString cat ''title'', mc_Label = getString cat ''title'',
      mc_Icon = getString cat ''icon'', mc_Order = i + 1\<rparr> # menu_of (i + 1) cats"

definition GetMenuCategories_of :: "uobj \<Rightarrow> gerr + menu_category list" where
  "GetMenuCategories_of u =
     sum_bind (catalogCategories u) (\<lambda>cats. Inr (case cats of None \<Rightarrow> [] | Some cs \<Rightarrow> menu_of 0 cs))"

text \<open>\<^verbatim>\<open>reading\<close>: fetch the Context, then read; the receiver's name and namespace are for messages.\<close>

definition reading :: "(uobj \<Rightarrow> gerr + 'a) \<Rightarrow> (gerr + 'a) kprog" where
  "reading f = try_bind (call_obj KContext) (\<lambda>x. try_pure (from_unstructured is_raw x) (\<lambda>u. Ret (f u)))"

definition ContextRepository_GetPlatformServices :: "(gerr + platform_service list) kprog" where
  "ContextRepository_GetPlatformServices = reading GetPlatformServices_of"

definition ContextRepository_GetMenuCategories :: "(gerr + menu_category list) kprog" where
  "ContextRepository_GetMenuCategories = reading GetMenuCategories_of"

abbreviation ctx_string :: "uobj \<Rightarrow> string list \<Rightarrow> string" where
  "ctx_string u path \<equiv> u_NestedString u (''spec'' # ''context'' # path)"

definition required_string :: "string list \<Rightarrow> string \<Rightarrow> uobj \<Rightarrow> gerr + string" where
  "required_string path fmt u =
     (if ctx_string u path = [] then Inl (Errorf fmt []) else Inr (ctx_string u path))"

definition GetPackageRepository :: "(gerr + string) kprog" where
  "GetPackageRepository =
     reading (required_string [''serviceCatalog'', ''defaultRepository'']
       ''serviceCatalog.defaultRepository not found in Context %s/%s'')"

definition GetIngressSuffix :: "(gerr + string) kprog" where
  "GetIngressSuffix =
     reading (required_string [''ingress'', ''suffix''] ''ingress.suffix not found in Context %s/%s'')"

subsection \<open>The identity configuration\<close>

definition ClientProvisioningExisting :: string where "ClientProvisioningExisting = ''existing''"
definition ClientProvisioningKubauth :: string where "ClientProvisioningKubauth = ''kubauth''"
definition ClientProvisioningDcr :: string where "ClientProvisioningDcr = ''dcr''"
definition ProviderNone :: string where "ProviderNone = ''none''"
definition ProviderKubauth :: string where "ProviderKubauth = ''kubauth''"
definition ProviderKeycloak :: string where "ProviderKeycloak = ''keycloak''"

lemmas provisioning_consts = ClientProvisioningExisting_def ClientProvisioningKubauth_def
  ClientProvisioningDcr_def ProviderNone_def ProviderKubauth_def ProviderKeycloak_def

record platform_identity =
  pl_ClientProvisioning :: string
  pl_KubauthNamespace :: string

definition PlatformIdentity_Validate :: "platform_identity \<Rightarrow> gerr + unit" where
  "PlatformIdentity_Validate i =
     (let p = pl_ClientProvisioning i in
      if p = ClientProvisioningExisting \<or> p = ClientProvisioningDcr then Inr ()
      else if p = ClientProvisioningKubauth then
        (if pl_KubauthNamespace i = [] then
           Inl (Errorf ''oidc.kubauth.namespace is required when clientProvisioning is %q''
                  [FStr ClientProvisioningKubauth])
         else Inr ())
      else Inl (Errorf ''oidc.clientProvisioning must be %q, %q or %q, got %q''
             [FStr ClientProvisioningExisting, FStr ClientProvisioningKubauth,
              FStr ClientProvisioningDcr, FStr p]))"

definition ProvisionsWithKubauth :: "platform_identity \<Rightarrow> bool" where
  "ProvisionsWithKubauth i = (pl_ClientProvisioning i = ClientProvisioningKubauth)"

fun first_nonempty :: "uobj \<Rightarrow> string list list \<Rightarrow> string" where
  "first_nonempty u [] = []"
| "first_nonempty u (path # paths) =
     (if ctx_string u path \<noteq> [] then ctx_string u path else first_nonempty u paths)"

definition kubauthNamespaceOf :: "uobj \<Rightarrow> string" where
  "kubauthNamespaceOf u =
     first_nonempty u [[''identity'', ''kubauth'', ''namespace''], [''oidc'', ''kubauth'', ''namespace''],
       [''identity'', ''kubauthNamespace'']]"

definition GetIdentity_of :: "uobj \<Rightarrow> gerr + platform_identity" where
  "GetIdentity_of u =
     (let p = first_nonempty u [[''oidc'', ''clientProvisioning''], [''identity'', ''clientProvisioning'']];
          identity = \<lparr>pl_ClientProvisioning = (if p = [] then ClientProvisioningExisting else p),
                      pl_KubauthNamespace = kubauthNamespaceOf u\<rparr>
      in sum_bind (PlatformIdentity_Validate identity) (\<lambda>_. Inr identity))"

definition GetIdentity :: "(gerr + platform_identity) kprog" where
  "GetIdentity = reading GetIdentity_of"

definition GetKubauthNamespace :: "(gerr + string) kprog" where
  "GetKubauthNamespace =
     reading (\<lambda>u. if kubauthNamespaceOf u = []
                  then Inl (Errorf ''identity.kubauth.namespace not found in Context %s/%s'' [])
                  else Inr (kubauthNamespaceOf u))"

definition GetIdentityProvider :: "(gerr + string) kprog" where
  "GetIdentityProvider = reading (\<lambda>u. Inr (ctx_string u [''identity'', ''provider'']))"

record identity_oidc_config =
  io_Authority :: string
  io_ClientID :: string
  io_Scope :: string

definition GetIdentityOidcConfig :: "(gerr + identity_oidc_config option) kprog" where
  "GetIdentityOidcConfig = reading (\<lambda>u.
     let authority = ctx_string u [''identity'', ''oidc'', ''authority''];
         clientID = ctx_string u [''identity'', ''oidc'', ''clientId'']
     in Inr (if authority = [] \<or> clientID = [] then None
             else Some \<lparr>io_Authority = authority, io_ClientID = clientID,
                        io_Scope = ctx_string u [''identity'', ''oidc'', ''scope'']\<rparr>))"

definition GetOidcIssuer :: "(gerr + string) kprog" where
  "GetOidcIssuer = reading (\<lambda>u.
     Inr (first_nonempty u [[''identity'', ''oidc'', ''authority''], [''oidc'', ''issuerUri'']]))"

definition GetOidcClientID :: "(gerr + string) kprog" where
  "GetOidcClientID = reading (\<lambda>u.
     Inr (first_nonempty u [[''oidc'', ''clientId''], [''identity'', ''oidc'', ''clientId'']]))"

definition GetOidcInsecureSkipVerify :: "(gerr + bool) kprog" where
  "GetOidcInsecureSkipVerify = reading (\<lambda>u.
     Inr (u_NestedBool u [''spec'', ''context'', ''oidc'', ''insecureSkipVerify'']))"

text \<open>Two reads of the Context when the provider is not set: the second goes through the cache again.\<close>

definition GetIdentityProvisioningProvider :: "(gerr + string) kprog" where
  "GetIdentityProvisioningProvider =
     try_bind (reading (\<lambda>u. Inr (ctx_string u [''identity'', ''provisioning'', ''provider'']))) (\<lambda>provider.
       if provider \<noteq> [] then Ret (Inr provider)
       else try_bind GetIdentity (\<lambda>identity.
         Ret (Inr (if ProvisionsWithKubauth identity then ProviderKubauth else ProviderNone))))"

record keycloak_secret_ref =
  ks_Namespace :: string
  ks_Name :: string
  ks_ClientIDKey :: string
  ks_ClientSecretKey :: string

record keycloak_config =
  kc_IssuerURI :: string
  kc_CredentialsSecret :: keycloak_secret_ref
  kc_InsecureSkipTLSVerify :: bool

definition GetKeycloakProvisioningConfig :: "(gerr + keycloak_config) kprog" where
  "GetKeycloakProvisioningConfig = reading (\<lambda>u.
     let kc = (\<lambda>path. ctx_string u ([''identity'', ''provisioning'', ''keycloak''] @ path));
         dflt = (\<lambda>v d. if v = [] then d else v) in
     if kc [''issuerUri''] = [] then
       Inl (Errorf ''identity.provisioning.keycloak.issuerUri not found in Context %s/%s'' [])
     else if kc [''credentialsSecret'', ''name''] = [] then
       Inl (Errorf ''identity.provisioning.keycloak.credentialsSecret.name not found in Context %s/%s'' [])
     else Inr \<lparr>kc_IssuerURI = kc [''issuerUri''],
       kc_CredentialsSecret =
         \<lparr>ks_Namespace = kc [''credentialsSecret'', ''namespace''],
          ks_Name = kc [''credentialsSecret'', ''name''],
          ks_ClientIDKey = dflt (kc [''credentialsSecret'', ''clientIdKey'']) ''client_id'',
          ks_ClientSecretKey = dflt (kc [''credentialsSecret'', ''clientSecretKey'']) ''client_secret''\<rparr>,
       kc_InsecureSkipTLSVerify =
         u_NestedBool u [''spec'', ''context'', ''identity'', ''provisioning'', ''keycloak'',
           ''insecureSkipTLSVerify'']\<rparr>)"

subsection \<open>Images and Spark settings\<close>

definition images_of :: "goval list \<Rightarrow> profile_image list" where
  "images_of raw = map (\<lambda>m. \<lparr>pi_Label = getString m ''label'', pi_Image = getString m ''image''\<rparr>)
     (keep_some as_obj raw)"

definition GetProfileImages :: "(gerr + profile_image list gomap) kprog" where
  "GetProfileImages = reading (\<lambda>u.
     Inr (filter (\<lambda>(t, images). images \<noteq> [])
       (map (\<lambda>t. (t, images_of (nested_slice u
              [''spec'', ''context'', ''jupyter'', ''profiles'', t, ''images''])))
         [''jupyterlab'', ''vscode'', ''rstudio''])))"

record resource_defaults =
  rd_Cores :: int
  rd_Memory :: string
  rd_Instances :: int

record spark_config =
  sf_Registry :: string
  sf_Repository :: string
  sf_Tag :: string
  sf_DefaultVersion :: string
  sf_Images :: "profile_image list"
  sf_Driver :: resource_defaults
  sf_Executor :: resource_defaults

text \<open>\<^verbatim>\<open>m[key].(map[string]any)\<close>: an object, or no entry at all.\<close>

definition sub_map :: "goval gomap \<Rightarrow> string \<Rightarrow> goval gomap" where
  "sub_map m key = (case mget m key of Some (GObj o') \<Rightarrow> o' | _ \<Rightarrow> [])"

definition spark_config_of :: "goval gomap \<Rightarrow> spark_config" where
  "spark_config_of sparkOp =
     (let img = sub_map sparkOp ''image''; spark = sub_map sparkOp ''spark'';
          defaults = sub_map spark ''defaults'';
          driver = sub_map defaults ''driver''; executor = sub_map defaults ''executor''
      in \<lparr>sf_Registry = getString img ''registry'', sf_Repository = getString img ''repository'',
          sf_Tag = getString img ''tag'', sf_DefaultVersion = getString spark ''defaultVersion'',
          sf_Images = images_of (case mget spark ''images'' of Some (GArr xs) \<Rightarrow> xs | _ \<Rightarrow> []),
          sf_Driver = \<lparr>rd_Cores = getInt driver ''cores'', rd_Memory = getString driver ''memory'',
             rd_Instances = 0\<rparr>,
          sf_Executor = \<lparr>rd_Cores = getInt executor ''cores'', rd_Memory = getString executor ''memory'',
             rd_Instances = getInt executor ''instances''\<rparr>\<rparr>)"

definition GetSparkConfig :: "(gerr + spark_config) kprog" where
  "GetSparkConfig = reading (\<lambda>u.
     case u_NestedMap u [''spec'', ''context'', ''sparkOperator''] of
       Inl e \<Rightarrow> Inl (Wrapf ''failed to read sparkOperator from Context: %w'' [] e)
     | Inr None \<Rightarrow> Inl (Errorf ''sparkOperator not found in Context %s/%s'' [])
     | Inr (Some sparkOp) \<Rightarrow> Inr (spark_config_of sparkOp))"

end
