(* ===== verification/Context_Writer.thy ===== *)
theory Context_Writer
  imports Context_Repository
begin

text \<open>
  The service catalog on the Context (\<^verbatim>\<open>internal/repository/context_writer_repository.go\<close>): the
  read-modify-write with its retries, and the three edits of the list of sections. The list is
  mutated in place in the code; here an edit returns the new list.
\<close>

text \<open>\<^verbatim>\<open>unstructured.SetNestedSlice\<close> on the catalog path is the library's: \<^term>\<open>SetNestedSlice L\<close>.\<close>

definition mutate_once ::
    "extlib \<Rightarrow> string \<Rightarrow> string \<Rightarrow> (goval list \<Rightarrow> gerr + goval list) \<Rightarrow> (gerr + unit) kprog" where
  "mutate_once L ns name fn =
     prog_bind (call_obj (KGet contextGVR ns name)) (\<lambda>a.
       case sum_bind a (from_unstructured is_raw) of
         Inl e \<Rightarrow> Ret (Inl (Wrapf ''failed to read default context %s/%s: %w'' [FStr ns, FStr name] e))
       | Inr cur \<Rightarrow>
           (case u_NestedSlice cur catalog_path of
              Inl e \<Rightarrow> Ret (Inl (Wrapf ''failed to read serviceCatalog.categories: %w'' [] e))
            | Inr categories \<Rightarrow>
                (case fn (case categories of None \<Rightarrow> [] | Some cs \<Rightarrow> cs) of
                   Inl e \<Rightarrow> Ret (Inl e)
                 | Inr updated \<Rightarrow>
                     (case SetNestedSlice L cur updated catalog_path of
                        Inl e \<Rightarrow> Ret (Inl (Wrapf ''failed to set serviceCatalog.categories: %w'' [] e))
                      | Inr cur' \<Rightarrow> call_unit (KUpdate contextGVR ns (ORaw cur'))))))"

text \<open>
  \<^verbatim>\<open>retry.RetryOnConflict(retry.DefaultRetry, ...)\<close>: at most five attempts, another one only after
  a conflict, and the last error when they are exhausted.
\<close>

definition DefaultRetrySteps :: nat where "DefaultRetrySteps = 5"

primrec RetryOnConflict :: "nat \<Rightarrow> (gerr + unit) kprog \<Rightarrow> (gerr + unit) kprog" where
  "RetryOnConflict 0 m = m"
| "RetryOnConflict (Suc n) m =
     prog_bind m (\<lambda>r. case r of
       Inr _ \<Rightarrow> Ret (Inr ())
     | Inl e \<Rightarrow> if is_conflict e then RetryOnConflict n m else Ret (Inl e))"

definition mutateCategories ::
    "extlib \<Rightarrow> string \<Rightarrow> string \<Rightarrow> (goval list \<Rightarrow> gerr + goval list) \<Rightarrow> (gerr + unit) kprog" where
  "mutateCategories L ns name fn = RetryOnConflict (DefaultRetrySteps - 1) (mutate_once L ns name fn)"

subsection \<open>Editing the sections\<close>

definition is_service_named :: "string \<Rightarrow> goval \<Rightarrow> bool" where
  "is_service_named name s = (case as_obj s of Some m \<Rightarrow> getString m ''name'' = name | None \<Rightarrow> False)"

fun removeServiceFromCategories :: "goval list \<Rightarrow> string \<Rightarrow> goval list \<times> bool" where
  "removeServiceFromCategories [] name = ([], False)"
| "removeServiceFromCategories (raw # cats) name =
     (case removeServiceFromCategories cats name of (rest, found) \<Rightarrow>
        (case as_obj raw of
           None \<Rightarrow> (raw # rest, found)
         | Some cat \<Rightarrow>
             (let services = categoryServices cat;
                  kept = filter (\<lambda>s. \<not> is_service_named name s) services
              in (GObj (mput ''services'' (GArr kept) cat) # rest,
                  (\<exists>s\<in>set services. is_service_named name s) \<or> found))))"

fun appendServiceToCategory :: "goval list \<Rightarrow> string \<Rightarrow> goval gomap \<Rightarrow> goval list" where
  "appendServiceToCategory [] title svc =
     [GObj [(''title'', GStr title), (''services'', GArr [GObj svc])]]"
| "appendServiceToCategory (raw # cats) title svc =
     (case as_obj raw of
        None \<Rightarrow> raw # appendServiceToCategory cats title svc
      | Some cat \<Rightarrow>
          if getString cat ''title'' \<noteq> title then raw # appendServiceToCategory cats title svc
          else GObj (mput ''services'' (GArr (categoryServices cat @ [GObj svc])) cat) # cats)"

definition put_nonempty :: "string \<Rightarrow> string \<Rightarrow> goval gomap \<Rightarrow> goval gomap" where
  "put_nonempty k v m = (if v \<noteq> [] then mput k (GStr v) m else m)"

definition platformServiceToMap :: "platform_service \<Rightarrow> goval gomap" where
  "platformServiceToMap svc =
     (let m0 = [(''name'', GStr (pv_Name svc)), (''versions'', GArr (map GStr (pv_Versions svc))),
                (''default'', GStr (pv_DefaultVersion svc))];
          m1 = put_nonempty ''description'' (pv_Description svc) m0;
          m2 = put_nonempty ''repository'' (pv_Repository svc) m1;
          m3 = put_nonempty ''label'' (pv_Label svc) m2
      in case pv_ExposesUI svc of None \<Rightarrow> m3 | Some b \<Rightarrow> mput ''exposesUI'' (GBool b) m3)"

definition add_edit :: "platform_service \<Rightarrow> goval list \<Rightarrow> gerr + goval list" where
  "add_edit svc categories =
     Inr (appendServiceToCategory categories (pv_Category svc) (platformServiceToMap svc))"

definition update_edit :: "string \<Rightarrow> platform_service \<Rightarrow> goval list \<Rightarrow> gerr + goval list" where
  "update_edit name svc categories =
     (case removeServiceFromCategories categories name of (rest, found) \<Rightarrow>
        if \<not> found then Inr rest
        else Inr (appendServiceToCategory rest (pv_Category svc) (platformServiceToMap svc)))"

definition remove_edit :: "string \<Rightarrow> goval list \<Rightarrow> gerr + goval list" where
  "remove_edit name categories = Inr (fst (removeServiceFromCategories categories name))"

definition Writer_AddPlatformService ::
    "extlib \<Rightarrow> string \<Rightarrow> string \<Rightarrow> platform_service \<Rightarrow> (gerr + unit) kprog" where
  "Writer_AddPlatformService L ns ctx svc = mutateCategories L ns ctx (add_edit svc)"

definition Writer_UpdatePlatformService ::
    "extlib \<Rightarrow> string \<Rightarrow> string \<Rightarrow> string \<Rightarrow> platform_service \<Rightarrow> (gerr + unit) kprog" where
  "Writer_UpdatePlatformService L ns ctx name svc = mutateCategories L ns ctx (update_edit name svc)"

definition Writer_RemovePlatformService ::
    "extlib \<Rightarrow> string \<Rightarrow> string \<Rightarrow> string \<Rightarrow> (gerr + unit) kprog" where
  "Writer_RemovePlatformService L ns ctx name = mutateCategories L ns ctx (remove_edit name)"

subsection \<open>What the edits do to the catalog\<close>

text \<open>The services a list of sections holds, as the reader sees them.\<close>

definition catalog_of :: "goval list \<Rightarrow> platform_service list" where
  "catalog_of raw = services_in (keep_some as_obj raw)"

lemma catalog_of_simps [simp]:
  "catalog_of [] = []"
  "catalog_of (raw # cats) =
     (case as_obj raw of None \<Rightarrow> catalog_of cats | Some cat \<Rightarrow> section_services cat @ catalog_of cats)"
  by (simp_all add: catalog_of_def services_in_def split: option.split)

lemma keep_some_append: "keep_some f (xs @ ys) = keep_some f xs @ keep_some f ys"
  by (induction xs) (auto split: option.split)

lemma categoryServices_put [simp]: "categoryServices (mput ''services'' (GArr xs) cat) = xs"
  by (simp add: categoryServices_def)

lemma getString_put [simp]:
  "getString (mput k v m) k' =
     (if k' = k then (case as_str v of None \<Rightarrow> [] | Some s \<Rightarrow> s) else getString m k')"
  by (simp add: getString_def)

lemma platformServiceFromMap_Name [simp]: "pv_Name (platformServiceFromMap m c) = getString m ''name''"
  by (simp add: platformServiceFromMap_def Let_def)

lemma keep_some_filter_named:
  "map (\<lambda>m. platformServiceFromMap m t)
     (keep_some as_obj (filter (\<lambda>s. \<not> is_service_named n s) xs)) =
   filter (\<lambda>s. pv_Name s \<noteq> n) (map (\<lambda>m. platformServiceFromMap m t) (keep_some as_obj xs))"
  by (induction xs) (auto simp: is_service_named_def split: option.splits)

lemma exists_named:
  "(\<exists>s\<in>set xs. is_service_named n s) \<longleftrightarrow>
     n \<in> pv_Name ` set (map (\<lambda>m. platformServiceFromMap m t) (keep_some as_obj xs))"
  by (induction xs) (auto simp: is_service_named_def split: option.splits)

lemma remove_catalog:
  "catalog_of (fst (removeServiceFromCategories cats n)) = filter (\<lambda>s. pv_Name s \<noteq> n) (catalog_of cats)"
proof (induction cats)
  case (Cons raw cats)
  then show ?case
    by (cases "as_obj raw")
       (auto simp: Let_def section_services_def keep_some_filter_named
         split: prod.splits)
qed simp

lemma remove_found:
  "snd (removeServiceFromCategories cats n) \<longleftrightarrow> n \<in> pv_Name ` set (catalog_of cats)"
proof (induction cats)
  case (Cons raw cats)
  have "(\<exists>s\<in>set (categoryServices cat). is_service_named n s) \<longleftrightarrow> n \<in> pv_Name ` set (section_services cat)"
    for cat
    unfolding section_services_def by (rule exists_named)
  with Cons show ?case
    by (cases "as_obj raw") (auto simp: Let_def split: prod.splits)
qed simp

lemma append_catalog:
  "\<exists>a b. catalog_of cats = a @ b \<and>
     catalog_of (appendServiceToCategory cats t m) = a @ platformServiceFromMap m t # b"
proof (induction cats)
  case Nil
  show ?case by (simp add: section_services_def categoryServices_def getString_def str_at_def)
next
  case (Cons raw cats)
  then obtain a b where ab: "catalog_of cats = a @ b"
      "catalog_of (appendServiceToCategory cats t m) = a @ platformServiceFromMap m t # b" by blast
  show ?case
  proof (cases "as_obj raw")
    case None
    with ab show ?thesis by auto
  next
    case (Some cat)
    show ?thesis
    proof (cases "getString cat ''title'' = t")
      case True
      have s: "section_services (mput ''services'' (GArr (categoryServices cat @ [GObj m])) cat) =
          section_services cat @ [platformServiceFromMap m t]"
        using True by (simp add: section_services_def keep_some_append)
      show ?thesis
        using Some True s by (intro exI [of _ "section_services cat"] exI [of _ "catalog_of cats"]) simp
    next
      case False
      show ?thesis
        using Some False ab by (intro exI [of _ "section_services cat @ a"] exI [of _ b]) simp
    qed
  qed
qed

text \<open>Writing a service and reading it back.\<close>

lemma keep_some_GStr [simp]: "keep_some as_str (map GStr vs) = vs"
  by (rule keep_some_map) simp

lemma mget_put_nonempty [simp]:
  "mget (put_nonempty k v m) k' = (if k' = k \<and> v \<noteq> [] then Some (GStr v) else mget m k')"
  by (simp add: put_nonempty_def)

lemma getString_put_nonempty [simp]:
  "getString (put_nonempty k v m) k' = (if k' = k \<and> v \<noteq> [] then v else getString m k')"
  by (simp add: put_nonempty_def)

lemma getString_Cons [simp]:
  "getString ((k, v) # m) k' = (if k' = k then (case as_str v of None \<Rightarrow> [] | Some s \<Rightarrow> s) else getString m k')"
  "getString [] k' = []"
  by (simp_all add: getString_def str_at_def)

lemma platformServiceToMap_get:
  "getString (platformServiceToMap s) ''name'' = pv_Name s"
  "getString (platformServiceToMap s) ''default'' = pv_DefaultVersion s"
  "getString (platformServiceToMap s) ''tag'' = []"
  "getString (platformServiceToMap s) ''description'' = pv_Description s"
  "getString (platformServiceToMap s) ''repository'' = pv_Repository s"
  "getString (platformServiceToMap s) ''label'' = pv_Label s"
  "mget (platformServiceToMap s) ''versions'' = Some (GArr (map GStr (pv_Versions s)))"
  "getBoolPtr (platformServiceToMap s) ''exposesUI'' = pv_ExposesUI s"
  by (cases "pv_ExposesUI s"; simp add: platformServiceToMap_def getBoolPtr_def Let_def)+

lemma service_roundtrip:
  assumes "pv_Icon s = []" and "pv_Versions s \<noteq> [] \<or> pv_DefaultVersion s = []"
  shows "platformServiceFromMap (platformServiceToMap s) (pv_Category s) = s"
  using assms by (cases s) (auto simp: platformServiceFromMap_def platformServiceToMap_get Let_def)

end
