(* ===== verification/Service_Catalog.thy ===== *)
theory Service_Catalog
  imports Context_Writer
begin

text \<open>
  Management of the service catalog (the catalog part of \<^verbatim>\<open>internal/service/service_service.go\<close>):
  the rules an entry must satisfy, the check of its versions against the registry, and the three
  operations with the invalidation of the cached Context. The package schema service is an
  interface; the write paths tolerate its absence, hence the option (the listing would panic).
\<close>

definition ErrCatalogValidation :: string where "ErrCatalogValidation = ''invalid catalog service''"

definition ErrCatalogServiceExists :: string where
  "ErrCatalogServiceExists = ''service already exists in the catalog''"

definition ErrCatalogServiceNotFound :: string where
  "ErrCatalogServiceNotFound = ''service not found in the catalog''"

text \<open>What this service asks of the package schema service.\<close>

record schema_iface =
  ps_GetParameterSchema :: "string \<Rightarrow> string \<Rightarrow> (gerr + goval) kprog"
  ps_ListVersions :: "platform_service list \<Rightarrow> string list gomap kprog"
  ps_ListPackageTags :: "string \<Rightarrow> string \<Rightarrow> (gerr + string list) kprog"

text \<open>The fixed settings of the service.\<close>

record service_config =
  sv_contextName :: string
  sv_contextNamespace :: string
  sv_releaseInterval :: string
  sv_releaseTimeout :: string
  sv_sidecarPrefixes :: "string list"
  sv_insecureRegistries :: "string list"
  sv_schema :: "schema_iface option"
  sv_writable :: bool

text \<open>\<^verbatim>\<open>^[a-z0-9]([-a-z0-9]*[a-z0-9])?$\<close>\<close>

definition is_alnum_char :: "char \<Rightarrow> bool" where
  "is_alnum_char c =
     (let n = of_char c :: nat in (97 \<le> n \<and> n \<le> 122) \<or> (48 \<le> n \<and> n \<le> 57))"

definition serviceNameRe :: "string \<Rightarrow> bool" where
  "serviceNameRe s =
     (s \<noteq> [] \<and> is_alnum_char (hd s) \<and> is_alnum_char (last s) \<and>
      list_all (\<lambda>c. is_alnum_char c \<or> c = CHR ''-'') s)"

fun check_versions :: "string list \<Rightarrow> string list \<Rightarrow> gerr + unit" where
  "check_versions seen [] = Inr ()"
| "check_versions seen (v # vs) =
     (if trim_space v = [] then
        Inl (Wrapf ''%w: version cannot be empty'' [] (Sentinel ErrCatalogValidation))
      else if v \<in> set seen then
        Inl (Wrapf ''%w: duplicate version %q'' [FStr v] (Sentinel ErrCatalogValidation))
      else check_versions (v # seen) vs)"

definition normalizeAndValidateCatalogService :: "platform_service \<Rightarrow> gerr + platform_service" where
  "normalizeAndValidateCatalogService svc0 =
     (let bad = (\<lambda>fmt args. Inl (Wrapf fmt args (Sentinel ErrCatalogValidation)));
          svc = svc0\<lparr>pv_Name := trim_space (pv_Name svc0)\<rparr> in
      if pv_Name svc = [] then bad ''%w: name is required'' []
      else if \<not> serviceNameRe (pv_Name svc) then
        bad ''%w: name %q must be a lowercase DNS-style identifier'' [FStr (pv_Name svc)]
      else
        let svc = svc\<lparr>pv_Category := trim_space (pv_Category svc)\<rparr> in
        if pv_Category svc = [] then
          bad ''%w: category is required, it names the console section the service belongs to'' []
        else if pv_Versions svc = [] then bad ''%w: at least one version is required'' []
        else sum_bind (check_versions [] (pv_Versions svc)) (\<lambda>_.
          if pv_DefaultVersion svc = [] then Inr (svc\<lparr>pv_DefaultVersion := hd (pv_Versions svc)\<rparr>)
          else if pv_DefaultVersion svc \<notin> set (pv_Versions svc) then
            bad ''%w: default version %q must be one of the listed versions'' [FStr (pv_DefaultVersion svc)]
          else Inr svc))"

definition Service_GetPlatformServices :: "service_config \<Rightarrow> (gerr + platform_service list) kprog" where
  "Service_GetPlatformServices C =
     try_bind ContextRepository_GetPlatformServices (\<lambda>services.
       case sv_schema C of
         None \<Rightarrow> Ret (Inl (Errorf ''panic: nil schema service'' []))
       | Some S \<Rightarrow> prog_bind (ps_ListVersions S services) (\<lambda>versions.
           Ret (Inr (map (\<lambda>svc. case mget versions (pv_Name svc) of
                            Some tags \<Rightarrow> svc\<lparr>pv_Versions := tags\<rparr> | None \<Rightarrow> svc) services))))"

definition findCatalogService :: "string \<Rightarrow> (gerr + platform_service) kprog" where
  "findCatalogService name =
     prog_bind ContextRepository_GetPlatformServices (\<lambda>r. case r of
         Inl e \<Rightarrow> Ret (Inl (Wrapf ''failed to read catalog: %w'' [] e))
       | Inr existing \<Rightarrow>
           (case find (\<lambda>s. pv_Name s = name) existing of
              Some s \<Rightarrow> Ret (Inr s)
            | None \<Rightarrow> Ret (Inl (Wrapf ''%w: %q'' [FStr name] (Sentinel ErrCatalogServiceNotFound)))))"

definition validateVersionsInRegistry :: "service_config \<Rightarrow> platform_service \<Rightarrow> (gerr + unit) kprog" where
  "validateVersionsInRegistry C svc =
     (case sv_schema C of
        None \<Rightarrow> Ret (Inr ())
      | Some S \<Rightarrow>
          prog_bind (ps_ListPackageTags S (pv_Name svc) (pv_Repository svc)) (\<lambda>r. case r of
              Inl e \<Rightarrow>
                Ret (Inl (Wrapf ''%w: could not verify package %q in the registry (%v)''
                            [FStr (pv_Name svc), FErr e] (Sentinel ErrCatalogValidation)))
            | Inr tags \<Rightarrow>
                (let missing = filter (\<lambda>v. v \<notin> set tags) (pv_Versions svc) in
                 if missing \<noteq> [] then
                   Ret (Inl (Wrapf ''%w: version(s) %v not found in the registry for %q (available: %v)''
                               [FStrs missing, FStr (pv_Name svc), FStrs tags] (Sentinel ErrCatalogValidation)))
                 else Ret (Inr ()))))"

definition unavailable :: gerr where
  "unavailable = Errorf ''catalog management is not available'' []"

text \<open>A write to the catalog, then the cached Context is dropped.\<close>

definition then_invalidate :: "(gerr + unit) kprog \<Rightarrow> 'a \<Rightarrow> (gerr + 'a) kprog" where
  "then_invalidate w a = try_bind w (\<lambda>_. Call KInvalidate (\<lambda>_. Ret (Inr a)))"

definition Service_AddPlatformService ::
    "extlib \<Rightarrow> service_config \<Rightarrow> platform_service \<Rightarrow> (gerr + platform_service) kprog" where
  "Service_AddPlatformService L C svc0 =
     (if \<not> sv_writable C then Ret (Inl unavailable)
      else try_pure (normalizeAndValidateCatalogService svc0) (\<lambda>svc.
        prog_bind ContextRepository_GetPlatformServices (\<lambda>r. case r of
            Inl e \<Rightarrow> Ret (Inl (Wrapf ''failed to read catalog: %w'' [] e))
          | Inr existing \<Rightarrow>
              if \<exists>e\<in>set existing. pv_Name e = pv_Name svc then
                Ret (Inl (Wrapf ''%w: %q'' [FStr (pv_Name svc)] (Sentinel ErrCatalogServiceExists)))
              else try_bind (validateVersionsInRegistry C svc) (\<lambda>_.
                then_invalidate
                  (Writer_AddPlatformService L (sv_contextNamespace C) (sv_contextName C) svc) svc))))"

definition Service_UpdatePlatformService ::
    "extlib \<Rightarrow> service_config \<Rightarrow> string \<Rightarrow> platform_service \<Rightarrow> (gerr + platform_service) kprog" where
  "Service_UpdatePlatformService L C name svc0 =
     (if \<not> sv_writable C then Ret (Inl unavailable)
      else try_pure (normalizeAndValidateCatalogService (svc0\<lparr>pv_Name := name\<rparr>)) (\<lambda>svc.
        try_bind (findCatalogService name) (\<lambda>_.
        try_bind (validateVersionsInRegistry C svc) (\<lambda>_.
          then_invalidate
            (Writer_UpdatePlatformService L (sv_contextNamespace C) (sv_contextName C) name svc) svc))))"

definition Service_RemovePlatformService ::
    "extlib \<Rightarrow> service_config \<Rightarrow> string \<Rightarrow> (gerr + unit) kprog" where
  "Service_RemovePlatformService L C name =
     (if \<not> sv_writable C then Ret (Inl unavailable)
      else try_bind (findCatalogService name) (\<lambda>_.
        then_invalidate
          (Writer_RemovePlatformService L (sv_contextNamespace C) (sv_contextName C) name) ()))"

subsection \<open>What an accepted entry satisfies\<close>

lemma check_versions_Inr:
  "check_versions seen vs = Inr u \<longleftrightarrow>
     distinct vs \<and> set vs \<inter> set seen = {} \<and> (\<forall>v\<in>set vs. trim_space v \<noteq> [])"
  by (induction seen vs rule: check_versions.induct) auto

lemma check_versions_Inl: "check_versions seen vs = Inl e \<Longrightarrow> errors_is e ErrCatalogValidation"
  by (induction seen vs rule: check_versions.induct) (auto split: if_splits)

definition catalog_entry_ok :: "platform_service \<Rightarrow> bool" where
  "catalog_entry_ok s =
     (serviceNameRe (pv_Name s) \<and> pv_Category s \<noteq> [] \<and> pv_Versions s \<noteq> [] \<and> distinct (pv_Versions s) \<and>
      pv_DefaultVersion s \<in> set (pv_Versions s) \<and> (\<forall>v\<in>set (pv_Versions s). trim_space v \<noteq> []))"

lemma normalize_ok:
  assumes "normalizeAndValidateCatalogService s0 = Inr s"
  shows "catalog_entry_ok s \<and> pv_Name s = trim_space (pv_Name s0) \<and> pv_Versions s = pv_Versions s0 \<and>
         pv_Icon s = pv_Icon s0"
proof -
  let ?s = "s0\<lparr>pv_Name := trim_space (pv_Name s0), pv_Category := trim_space (pv_Category s0)\<rparr>"
  from assms have vs: "check_versions [] (pv_Versions s0) = Inr ()"
    and s: "s = ?s\<lparr>pv_DefaultVersion := hd (pv_Versions s0)\<rparr> \<and> pv_DefaultVersion s0 = [] \<or>
            s = ?s \<and> pv_DefaultVersion s0 \<in> set (pv_Versions s0)"
    and ok: "serviceNameRe (trim_space (pv_Name s0))" "trim_space (pv_Category s0) \<noteq> []" "pv_Versions s0 \<noteq> []"
    by (auto simp: normalizeAndValidateCatalogService_def Let_def sum_bind_Inr_iff split: if_splits)
  from vs ok s show ?thesis
    by (elim disjE) (auto simp: catalog_entry_ok_def check_versions_Inr)
qed

lemma normalize_error:
  "normalizeAndValidateCatalogService s0 = Inl e \<Longrightarrow> errors_is e ErrCatalogValidation"
  by (auto simp: normalizeAndValidateCatalogService_def Let_def sum_bind_Inl_iff dest: check_versions_Inl
        split: if_splits)

end
