(* ===== verification/Registry.thy ===== *)
theory Registry
  imports Service_Catalog
begin

text \<open>
  The OCI registry client (\<^verbatim>\<open>internal/service/registry_credentials.go\<close>,
  \<^verbatim>\<open>internal/service/insecure_registries.go\<close> and the registry part of
  \<^verbatim>\<open>internal/service/package_schema_service.go\<close>): plain-HTTP hosts, credentials, the bearer
  challenge, and the tag listing with its cache. A request the HTTP client refuses to build is an
  error answer.
\<close>

definition insecureOCIHost :: "string \<Rightarrow> string list \<Rightarrow> bool" where
  "insecureOCIHost repository insecureHosts =
     (let host = (case index_sub ''/'' repository of None \<Rightarrow> repository | Some i \<Rightarrow> take i repository)
      in \<exists>c\<in>set insecureHosts. trim_space c = host)"

subsection \<open>Credentials\<close>

record registry_credential =
  rg_username :: string
  rg_password :: string

definition registryHostOf :: "string \<Rightarrow> string" where
  "registryHostOf key =
     (let k = trim_prefix (trim_prefix key ''https://'') ''http://'' in fst (str_cut k ''/''))"

text \<open>\<^verbatim>\<open>base64.StdEncoding.DecodeString\<close>: line breaks are skipped, padding closes the last group.\<close>

definition b64_value :: "char \<Rightarrow> nat option" where
  "b64_value c =
     (let n = of_char c :: nat in
      if 65 \<le> n \<and> n \<le> 90 then Some (n - 65)
      else if 97 \<le> n \<and> n \<le> 122 then Some (n - 71)
      else if 48 \<le> n \<and> n \<le> 57 then Some (n + 4)
      else if n = 43 then Some 62 else if n = 47 then Some 63 else None)"

definition b64_bytes :: "nat \<Rightarrow> nat \<Rightarrow> nat \<Rightarrow> nat \<Rightarrow> string" where
  "b64_bytes a b c d =
     (let n = ((a * 64 + b) * 64 + c) * 64 + d
      in [char_of (n div 65536), char_of (n div 256 mod 256), char_of (n mod 256)])"

fun b64_quads :: "string \<Rightarrow> string option" where
  "b64_quads [] = Some []"
| "b64_quads (a # b # c # d # rest) =
     (case (b64_value a, b64_value b) of
        (Some x, Some y) \<Rightarrow>
          (if rest = [] \<and> d = CHR ''='' then
             (if c = CHR ''='' then Some (take 1 (b64_bytes x y 0 0))
              else (case b64_value c of None \<Rightarrow> None | Some z \<Rightarrow> Some (take 2 (b64_bytes x y z 0))))
           else (case (b64_value c, b64_value d) of
               (Some z, Some w) \<Rightarrow> map_option (\<lambda>t. b64_bytes x y z w @ t) (b64_quads rest)
             | _ \<Rightarrow> None))
      | _ \<Rightarrow> None)"
| "b64_quads _ = None"

definition b64_decode :: "string \<Rightarrow> string option" where
  "b64_decode s = b64_quads (filter (\<lambda>c. c \<noteq> CHR 0x0A \<and> c \<noteq> CHR 0x0D) s)"

record auth_entry =
  au_Auth :: string
  au_Username :: string
  au_Password :: string

definition decode_auth :: "string \<Rightarrow> auth_entry \<Rightarrow> gerr + registry_credential" where
  "decode_auth host entry =
     (if au_Username entry \<noteq> [] \<and> au_Password entry \<noteq> [] then
        Inr \<lparr>rg_username = au_Username entry, rg_password = au_Password entry\<rparr>
      else case b64_decode (au_Auth entry) of
        None \<Rightarrow> Inl (Wrapf ''invalid auth entry for %s: %w'' [FStr host] (Errorf ''illegal base64 data'' []))
      | Some decoded \<Rightarrow>
          (case str_cut decoded '':'' of
             (username, password, True) \<Rightarrow> Inr \<lparr>rg_username = username, rg_password = password\<rparr>
           | (_, _, False) \<Rightarrow>
               Inl (Errorf ''invalid auth entry for %s: expected username:password'' [FStr host])))"

text \<open>The credentials of a host among the entries of the file, in the map's iteration order.\<close>

fun find_credential :: "(string \<times> auth_entry) list \<Rightarrow> string \<Rightarrow> gerr + registry_credential option" where
  "find_credential [] host = Inr None"
| "find_credential ((key, entry) # es) host =
     (if registryHostOf key \<noteq> host then find_credential es host
      else sum_bind (decode_auth host entry) (\<lambda>c. Inr (Some c)))"

definition auth_entry_of :: "goval \<Rightarrow> gerr + auth_entry" where
  "auth_entry_of v =
     (case v of
        GObj m \<Rightarrow>
          (if (\<exists>k\<in>{''auth'', ''username'', ''password''}.
                 case mget m k of None \<Rightarrow> False | Some x \<Rightarrow> x \<noteq> GNil \<and> as_str x = None)
           then Inl (Errorf ''cannot unmarshal'' [])
           else Inr \<lparr>au_Auth = str_at m ''auth'', au_Username = str_at m ''username'',
                     au_Password = str_at m ''password''\<rparr>)
      | GNil \<Rightarrow> Inr \<lparr>au_Auth = [], au_Username = [], au_Password = []\<rparr>
      | _ \<Rightarrow> Inl (Errorf ''cannot unmarshal'' []))"

fun auth_entries :: "goval gomap \<Rightarrow> gerr + (string \<times> auth_entry) list" where
  "auth_entries [] = Inr []"
| "auth_entries ((k, v) # m) =
     sum_bind (auth_entry_of v) (\<lambda>e. sum_bind (auth_entries m) (\<lambda>es. Inr ((k, e) # es)))"

definition parse_auths :: "goval \<Rightarrow> gerr + (string \<times> auth_entry) list" where
  "parse_auths doc =
     (case doc of
        GObj m \<Rightarrow> (case mget m ''auths'' of
            None \<Rightarrow> Inr [] | Some GNil \<Rightarrow> Inr []
          | Some (GObj a) \<Rightarrow> auth_entries a
          | Some _ \<Rightarrow> Inl (Errorf ''cannot unmarshal'' []))
      | GNil \<Rightarrow> Inr []
      | _ \<Rightarrow> Inl (Errorf ''cannot unmarshal'' []))"

text \<open>Reading the file answers its decoded JSON, some other text, or an error.\<close>

definition registryCredentialFor :: "string \<Rightarrow> string \<Rightarrow> (gerr + registry_credential option) kprog" where
  "registryCredentialFor authFile host =
     Call (KReadFile authFile) (\<lambda>r. Ret (case r of
         RErr e \<Rightarrow> Inl (Wrapf ''failed to read registry credentials: %w'' [] e)
       | RDoc d \<Rightarrow>
           (case parse_auths d of
              Inl e \<Rightarrow> Inl (Wrapf ''failed to parse registry credentials %s: %w'' [FStr authFile] e)
            | Inr es \<Rightarrow> find_credential es host)
       | _ \<Rightarrow> Inl (Wrapf ''failed to parse registry credentials %s: %w'' [FStr authFile]
                    (Errorf ''invalid character'' []))))"

definition kubocdCredentialEnv :: "string \<Rightarrow> registry_credential \<Rightarrow> string list" where
  "kubocdCredentialEnv host cred =
     (let tag = to_upper (map (\<lambda>c. if c \<in> set '':/-.'' then CHR ''_'' else c) host)
      in [''KCD_OCI_'' @ tag @ ''_USER='' @ rg_username cred,
          ''KCD_OCI_'' @ tag @ ''_SECRET='' @ rg_password cred])"

text \<open>The settings of the package schema service.\<close>

record schema_config =
  sg_insecureRegistries :: "string list"
  sg_registryAuthFile :: string

definition credentialFor :: "schema_config \<Rightarrow> string \<Rightarrow> (gerr + registry_credential option) kprog" where
  "credentialFor G host =
     (if sg_registryAuthFile G = [] then Ret (Inr None)
      else registryCredentialFor (sg_registryAuthFile G) host)"

subsection \<open>Requests to a registry\<close>

definition http_get :: "string \<Rightarrow> string gomap \<Rightarrow> http_auth \<Rightarrow> http_req" where
  "http_get url query auth =
     \<lparr>hq_Method = ''GET'', hq_URL = url, hq_Query = query, hq_Auth = auth, hq_Payload = None,
      hq_SkipVerify = False\<rparr>"

definition http_do :: "http_req \<Rightarrow> (gerr + http_resp) kprog" where
  "http_do q = Call (KHttp q) (\<lambda>r. Ret (case r of
       RHttp p \<Rightarrow> Inr p | RErr e \<Rightarrow> Inl e | _ \<Rightarrow> Inl bad_answer))"

fun challenge_params :: "string list \<Rightarrow> string \<Rightarrow> string gomap \<Rightarrow> string \<times> string gomap" where
  "challenge_params [] realm params = (realm, params)"
| "challenge_params (part # parts) realm params =
     (case str_cut (trim_space part) ''='' of
        (key, value, True) \<Rightarrow>
          (let v = trim_char (CHR 0x22) value in
           if key = ''realm'' then challenge_params parts v params
           else challenge_params parts realm (mput key v params))
      | (_, _, False) \<Rightarrow> challenge_params parts realm params)"

definition parseBearerChallenge :: "string \<Rightarrow> gerr + string \<times> string gomap" where
  "parseBearerChallenge header =
     (case str_cut (trim_space header) '' '' of (scheme, rest, _) \<Rightarrow>
        if \<not> equal_fold scheme ''Bearer'' then
          Inl (Errorf ''unsupported auth challenge %q'' [FStr header])
        else case challenge_params (split_char (CHR '','') rest) [] [] of (realm, params) \<Rightarrow>
          if realm = [] then Inl (Errorf ''no realm in auth challenge %q'' [FStr header])
          else Inr (realm, params))"

definition basic_auth :: "registry_credential option \<Rightarrow> http_auth" where
  "basic_auth cred =
     (case cred of None \<Rightarrow> NoAuth | Some c \<Rightarrow> BasicAuth (rg_username c) (rg_password c))"

text \<open>A string field of a decoded JSON object; another shape does not decode.\<close>

definition json_string :: "goval gomap \<Rightarrow> string \<Rightarrow> gerr + string" where
  "json_string m k =
     (case mget m k of
        None \<Rightarrow> Inr [] | Some GNil \<Rightarrow> Inr [] | Some (GStr s) \<Rightarrow> Inr s
      | Some _ \<Rightarrow> Inl (Errorf ''cannot unmarshal'' []))"

definition token_of :: "string \<Rightarrow> http_resp \<Rightarrow> gerr + string" where
  "token_of realm resp =
     (if hp_Status resp \<noteq> 200 then
        Inl (Errorf ''token endpoint %s returned status %d'' [FStr realm, FInt (int (hp_Status resp))])
      else
        let decoded = (case hp_JSON resp of
               Some (GObj m) \<Rightarrow> sum_bind (json_string m ''token'') (\<lambda>t.
                  sum_bind (json_string m ''access_token'') (\<lambda>a. Inr (t, a)))
             | Some GNil \<Rightarrow> Inr ([], [])
             | _ \<Rightarrow> Inl (Errorf ''cannot unmarshal'' []))
        in case decoded of
             Inl e \<Rightarrow> Inl (Wrapf ''failed to parse token response: %w'' [] e)
           | Inr (token, access) \<Rightarrow>
               (if token \<noteq> [] then Inr token
                else if access \<noteq> [] then Inr access
                else Inl (Errorf ''token endpoint %s returned no token'' [FStr realm])))"

definition fetchToken :: "string \<Rightarrow> registry_credential option \<Rightarrow> (gerr + string) kprog" where
  "fetchToken challenge cred =
     try_pure (parseBearerChallenge challenge) (\<lambda>(realm, params).
       try_bind (http_do (http_get realm params (basic_auth cred))) (\<lambda>resp.
         Ret (token_of realm resp)))"

definition registryGet :: "string \<Rightarrow> registry_credential option \<Rightarrow> (gerr + http_resp) kprog" where
  "registryGet url cred =
     try_bind (http_do (http_get url [] NoAuth)) (\<lambda>resp.
       if hp_Status resp \<noteq> 401 then Ret (Inr resp)
       else
         let challenge = hp_WWWAuthenticate resp;
             scheme = fst (str_cut (trim_space challenge) '' '') in
         if equal_fold scheme ''Basic'' then
           (if cred = None then
              Ret (Inl (Errorf
                ''registry requires authentication and no credentials are configured for it'' []))
            else http_do (http_get url [] (basic_auth cred)))
         else prog_bind (fetchToken challenge cred) (\<lambda>t. case t of
             Inl e \<Rightarrow>
               (if cred = None then
                  Ret (Inl (Wrapf ''registry requires authentication and the anonymous token flow failed (private package? configure registry credentials): %w'' [] e))
                else Ret (Inl (Wrapf ''registry token request with the configured credentials failed: %w'' [] e)))
           | Inr token \<Rightarrow> http_do (http_get url [] (BearerAuth token))))"

subsection \<open>Tags\<close>

fun json_strings :: "goval list \<Rightarrow> gerr + string list" where
  "json_strings [] = Inr []"
| "json_strings (v # vs) =
     (case v of
        GStr s \<Rightarrow> sum_bind (json_strings vs) (\<lambda>ss. Inr (s # ss))
      | GNil \<Rightarrow> sum_bind (json_strings vs) (\<lambda>ss. Inr ([] # ss))
      | _ \<Rightarrow> Inl (Errorf ''cannot unmarshal'' []))"

definition tags_of :: "http_resp \<Rightarrow> gerr + string list" where
  "tags_of resp =
     (case hp_JSON resp of
        Some (GObj m) \<Rightarrow>
          (case mget m ''tags'' of
             None \<Rightarrow> Inr [] | Some GNil \<Rightarrow> Inr []
           | Some (GArr vs) \<Rightarrow> json_strings vs
           | Some _ \<Rightarrow> Inl (Errorf ''cannot unmarshal'' []))
      | Some GNil \<Rightarrow> Inr []
      | _ \<Rightarrow> Inl (Errorf ''cannot unmarshal'' []))"

definition listOCITags :: "schema_config \<Rightarrow> string \<Rightarrow> string \<Rightarrow> (gerr + string list) kprog" where
  "listOCITags G packageRepo serviceName =
     (let scheme = (if insecureOCIHost packageRepo (sg_insecureRegistries G) then ''http'' else ''https'') in
      case str_cut packageRepo ''/'' of (host, path, found) \<Rightarrow>
        if \<not> found \<or> path = [] then
          Ret (Inl (Errorf ''package repository %q carries no path, it must be like registry/namespace''
                      [FStr packageRepo]))
        else
          let url = scheme @ ''://'' @ host @ ''/v2/'' @ path @ ''/'' @ serviceName @ ''/tags/list'' in
          try_bind (credentialFor G host) (\<lambda>cred.
            prog_bind (registryGet url cred) (\<lambda>r. case r of
                Inl e \<Rightarrow> Ret (Inl (Wrapf ''failed to fetch tags from %s: %w'' [FStr url] e))
              | Inr resp \<Rightarrow>
                  if hp_Status resp \<noteq> 200 then
                    Ret (Inl (Errorf ''registry returned status %d for %s''
                                [FInt (int (hp_Status resp)), FStr url]))
                  else (case tags_of resp of
                      Inl e \<Rightarrow> Ret (Inl (Wrapf ''failed to parse registry response: %w'' [] e))
                    | Inr tags \<Rightarrow> Ret (Inr (rev (sort_by (\<lambda>t. t) tags)))))))"

definition tagsCacheTTL :: int where "tagsCacheTTL = 5 * 60 * 1000000000"

definition cachedTags :: "string \<Rightarrow> string \<Rightarrow> string list option kprog" where
  "cachedTags repo name =
     Call (KCacheLoad (''tags:'' @ repo @ ''/'' @ name)) (\<lambda>r. case cached_of r of
         Some (TagsEntry tags fetched) \<Rightarrow>
           Call KNow (\<lambda>t. Ret (if time_of t - fetched < tagsCacheTTL then Some tags else None))
       | _ \<Rightarrow> Ret None)"

definition listOCITagsCached :: "schema_config \<Rightarrow> string \<Rightarrow> string \<Rightarrow> (gerr + string list) kprog" where
  "listOCITagsCached G repo name =
     prog_bind (cachedTags repo name) (\<lambda>c. case c of
         Some tags \<Rightarrow> Ret (Inr tags)
       | None \<Rightarrow> try_bind (listOCITags G repo name) (\<lambda>tags.
           Call KNow (\<lambda>t. Call (KCacheStore (''tags:'' @ repo @ ''/'' @ name) (TagsEntry tags (time_of t)))
             (\<lambda>_. Ret (Inr tags)))))"

definition ListPackageTags :: "schema_config \<Rightarrow> string \<Rightarrow> string \<Rightarrow> (gerr + string list) kprog" where
  "ListPackageTags G serviceName repositoryOverride =
     prog_bind GetPackageRepository (\<lambda>r. case r of
         Inl e \<Rightarrow> Ret (Inl (Wrapf ''failed to get package repository: %w'' [] e))
       | Inr packageRepo \<Rightarrow>
           listOCITags G (if repositoryOverride \<noteq> [] then repositoryOverride else packageRepo) serviceName)"

text \<open>
  The versions of several services. The code queries the registries concurrently and collects the
  answers in a map; the model runs the queries in list order, which for a map keyed by the
  services' distinct names yields the same contents.
\<close>

definition versions_for :: "schema_config \<Rightarrow> string \<Rightarrow> platform_service \<Rightarrow> string list option kprog" where
  "versions_for G defaultRepo svc =
     prog_bind (listOCITagsCached G (if pv_Repository svc \<noteq> [] then pv_Repository svc else defaultRepo)
                  (pv_Name svc)) (\<lambda>r. case r of
         Inr tags \<Rightarrow> Ret (Some tags)
       | Inl _ \<Rightarrow> Ret (if pv_DefaultVersion svc \<noteq> [] then Some [pv_DefaultVersion svc] else None))"

fun collect_versions ::
    "schema_config \<Rightarrow> string \<Rightarrow> platform_service list \<Rightarrow> string list gomap \<Rightarrow> string list gomap kprog" where
  "collect_versions G repo [] m = Ret m"
| "collect_versions G repo (svc # svcs) m =
     prog_bind (versions_for G repo svc) (\<lambda>v. collect_versions G repo svcs
       (case v of None \<Rightarrow> m | Some tags \<Rightarrow> mput (pv_Name svc) tags m))"

definition ListVersionsForServices ::
    "schema_config \<Rightarrow> platform_service list \<Rightarrow> string list gomap kprog" where
  "ListVersionsForServices G services =
     prog_bind GetPackageRepository (\<lambda>r. case r of
         Inl _ \<Rightarrow> Ret []
       | Inr defaultRepo \<Rightarrow> collect_versions G defaultRepo services [])"

definition GetServiceVersions ::
    "schema_config \<Rightarrow> string \<Rightarrow> (gerr + string list \<times> string) kprog" where
  "GetServiceVersions G serviceName =
     prog_bind ContextRepository_GetPlatformServices (\<lambda>r. case r of
         Inl e \<Rightarrow> Ret (Inl (Wrapf ''failed to get platform services: %w'' [] e))
       | Inr services \<Rightarrow>
           (case find (\<lambda>s. pv_Name s = serviceName) services of
              None \<Rightarrow> Ret (Inl (Errorf ''service %q not found in platform services'' [FStr serviceName]))
            | Some svc \<Rightarrow>
                prog_bind GetPackageRepository (\<lambda>p. case p of
                    Inl e \<Rightarrow> Ret (Inl (Wrapf ''failed to get package repository: %w'' [] e))
                  | Inr packageRepo \<Rightarrow>
                      prog_bind (listOCITagsCached G
                          (if pv_Repository svc \<noteq> [] then pv_Repository svc else packageRepo) serviceName)
                        (\<lambda>v. Ret (Inr (case v of
                             Inr versions \<Rightarrow> versions
                           | Inl _ \<Rightarrow> (if pv_DefaultVersion svc \<noteq> [] then [pv_DefaultVersion svc] else []),
                           pv_DefaultVersion svc))))))"

end
