(* ===== verification/Package_Schema.thy ===== *)
theory Package_Schema
  imports Registry
begin

text \<open>
  What a package declares (\<^verbatim>\<open>internal/service/package_schema_service.go\<close>): the dump of a package
  and its cache, the expansion of title metadata into interface hints, and the connections a
  package needs. The \<^verbatim>\<open>kubocd\<close> command is a call: it answers the decoded document, its output when
  it failed, or another error. Coalescing of concurrent fetches is left to the answers.
\<close>

subsection \<open>Options and values in titles\<close>

text \<open>Options are cut on spaces, except inside double quotes.\<close>

fun split_loop :: "string \<Rightarrow> bool \<Rightarrow> string \<Rightarrow> string list" where
  "split_loop cur inQuotes [] = (if cur = [] then [] else [rev cur])"
| "split_loop cur inQuotes (r # rs) =
     (if r = CHR 0x22 then split_loop (r # cur) (\<not> inQuotes) rs
      else if r = CHR '' '' \<and> \<not> inQuotes then
        (if cur = [] then split_loop [] inQuotes rs else rev cur # split_loop [] inQuotes rs)
      else split_loop (r # cur) inQuotes rs)"

definition splitOptions :: "string \<Rightarrow> string list" where
  "splitOptions segment =
     (if odd (length (filter (\<lambda>c. c = CHR 0x22) segment)) then str_Fields segment
      else split_loop [] False segment)"

definition parseValue :: "extlib \<Rightarrow> string \<Rightarrow> goval" where
  "parseValue L s =
     (if s = ''true'' then GBool True
      else if s = ''false'' then GBool False
      else case atoi s of
        Some i \<Rightarrow> GInt i
      | None \<Rightarrow> (case strconv_ParseFloat L s of Some f \<Rightarrow> f | None \<Rightarrow> GStr s))"

definition apply_option :: "extlib \<Rightarrow> string \<Rightarrow> goval gomap \<Rightarrow> goval gomap" where
  "apply_option L kv propMap =
     (case str_cut kv '':'' of
        (_, _, False) \<Rightarrow> propMap
      | (key, rest, True) \<Rightarrow>
          (let val = trim_char (CHR 0x22) rest in
           if key = ''condition'' then
             (case splitn_char (CHR ''='') 2 val of
                [field, condition] \<Rightarrow>
                  mput ''x-ui-condition''
                    (GObj [(''field'', GStr field), (''value'', parseValue L condition)]) propMap
              | _ \<Rightarrow> propMap)
           else mput (''x-ui-'' @ key) (parseValue L val) propMap))"

definition expand_title :: "extlib \<Rightarrow> string \<Rightarrow> goval gomap \<Rightarrow> goval gomap" where
  "expand_title L title propMap =
     (let parts = map trim_space (splitn_char (CHR ''|'') 4 title);
          part = (\<lambda>i. if i < length parts then parts ! i else []);
          m1 = (if part 0 \<noteq> [] then mput ''x-ui-group'' (GStr (part 0)) propMap else propMap);
          m2 = (if part 1 \<noteq> [] then mput ''title'' (GStr (part 1)) m1 else mdel ''title'' m1);
          m3 = (if part 2 \<noteq> [] then mput ''x-ui-widget'' (GStr (part 2)) m2 else m2)
      in if part 3 \<noteq> [] then foldl (\<lambda>m kv. apply_option L kv m) m3 (splitOptions (part 3)) else m3)"

definition expand_property :: "extlib \<Rightarrow> goval \<Rightarrow> goval" where
  "expand_property L propDef =
     (case propDef of
        GObj propMap \<Rightarrow>
          (case mget propMap ''title'' of
             Some (GStr title) \<Rightarrow>
               (if str_contains title ''|'' then GObj (expand_title L title propMap) else propDef)
           | _ \<Rightarrow> propDef)
      | _ \<Rightarrow> propDef)"

text \<open>
  The copy through JSON turns every number into a float64 (exactly, for integers below 2^53).
\<close>

fun json_copy :: "goval \<Rightarrow> goval" where
  "json_copy (GInt n) = GFloat (of_int n)"
| "json_copy (GInt32 n) = GFloat (of_int n)"
| "json_copy (GInt64 n) = GFloat (of_int n)"
| "json_copy (GFloat32 q) = GFloat q"
| "json_copy (GArr xs) = GArr (map json_copy xs)"
| "json_copy (GObj m) = GObj (map (\<lambda>(k, v). (k, json_copy v)) m)"
| "json_copy v = v"

definition parseTitleMetadata :: "extlib \<Rightarrow> goval gomap \<Rightarrow> goval gomap" where
  "parseTitleMetadata L schema =
     (let result = map (\<lambda>(k, v). (k, json_copy v)) schema in
      case mget result ''properties'' of
        Some (GObj props) \<Rightarrow>
          mput ''properties'' (GObj (map (\<lambda>(k, v). (k, expand_property L v)) props)) result
      | _ \<Rightarrow> result)"

subsection \<open>What a package declares\<close>

definition parametersOf :: "goval gomap \<Rightarrow> gerr + goval gomap" where
  "parametersOf doc =
     (case mget doc ''schema'' of
        Some (GObj s) \<Rightarrow>
          (case mget s ''parameters'' of
             Some (GObj p) \<Rightarrow> Inr p
           | _ \<Rightarrow> Inl (Errorf ''no 'schema.parameters' in groomed output'' []))
      | _ \<Rightarrow> Inl (Errorf ''no 'schema' section in groomed output'' []))"

text \<open>\<^verbatim>\<open>\.Parameters\.([A-Za-z_][A-Za-z0-9_]*)\<close>, the first match.\<close>

definition is_ident_start :: "char \<Rightarrow> bool" where
  "is_ident_start c =
     (let n = of_char c :: nat in (65 \<le> n \<and> n \<le> 90) \<or> (97 \<le> n \<and> n \<le> 122) \<or> n = 95)"

definition is_ident_char :: "char \<Rightarrow> bool" where
  "is_ident_char c = (is_ident_start c \<or> is_digit c)"

fun namedConnectionParameter :: "string \<Rightarrow> string option" where
  "namedConnectionParameter [] = None"
| "namedConnectionParameter (c # cs) =
     (let rest = drop 12 (c # cs) in
      if has_prefix (c # cs) ''.Parameters.'' \<and> rest \<noteq> [] \<and> is_ident_start (hd rest)
      then Some (takeWhile is_ident_char rest)
      else namedConnectionParameter cs)"

definition input_of :: "goval \<Rightarrow> package_input option" where
  "input_of item =
     (case item of
        GObj entry \<Rightarrow>
          (let contract = str_at entry ''contract'';
               alias = str_at entry ''alias'';
               name = (case mget entry ''namedConnection'' of
                         Some (GObj named) \<Rightarrow> str_at named ''name'' | _ \<Rightarrow> [])
           in if contract = [] then None
              else Some \<lparr>pk_Alias = (if alias \<noteq> [] then alias else contract), pk_Contract = contract,
                pk_Parameter = (case namedConnectionParameter name of Some p \<Rightarrow> p | None \<Rightarrow> []),
                pk_Optional = (case mget entry ''optional'' of
                    Some (GBool b) \<Rightarrow> b
                  | Some (GStr s) \<Rightarrow> equal_fold (trim_space s) ''true''
                  | _ \<Rightarrow> False),
                pk_Default = [], pk_Description = str_at entry ''description''\<rparr>)
      | _ \<Rightarrow> None)"

definition inputsOf :: "goval gomap \<Rightarrow> package_input list" where
  "inputsOf doc =
     (case mget doc ''inputs'' of Some (GArr raw) \<Rightarrow> keep_some input_of raw | _ \<Rightarrow> [])"

definition marker_input :: "string list \<Rightarrow> string \<times> goval \<Rightarrow> package_input option" where
  "marker_input required p =
     (case p of (name, raw) \<Rightarrow>
        (case raw of
           GObj property \<Rightarrow>
             (case mget property ''x-kubocd-connection-ref'' of
                Some (GObj marker) \<Rightarrow>
                  (if str_at marker ''contract'' = [] then None
                   else Some \<lparr>pk_Alias = name, pk_Contract = str_at marker ''contract'',
                     pk_Parameter = name, pk_Optional = (name \<notin> set required),
                     pk_Default = str_at property ''default'',
                     pk_Description = str_at property ''description''\<rparr>)
              | _ \<Rightarrow> None)
         | _ \<Rightarrow> None))"

definition inputsFromMarkers :: "goval gomap \<Rightarrow> package_input list" where
  "inputsFromMarkers doc =
     (case parametersOf doc of
        Inl _ \<Rightarrow> []
      | Inr parameters \<Rightarrow>
          (case mget parameters ''properties'' of
             Some (GObj properties) \<Rightarrow>
               (let required = (case mget parameters ''required'' of
                      Some (GArr xs) \<Rightarrow> keep_some as_str xs | _ \<Rightarrow> [])
                in sort_by pk_Parameter (keep_some (marker_input required) properties))
           | _ \<Rightarrow> []))"

definition staleKubocd :: "string \<Rightarrow> string" where
  "staleKubocd output =
     (let prefix = ''the kubocd binary shipped with this server is older than the package it reads ('';
          suffix = ''). Rebuild the server image against a kubocd that supports the unified connections model.'';
          u1 = ''unknown type '' @ [CHR 0x27] @ ''connectionRef'' @ [CHR 0x27];
          u2 = ''unknown field '' @ [CHR 0x22] @ ''outputs'' @ [CHR 0x22]
      in if str_contains output u1 then prefix @ u1 @ suffix
         else if str_contains output u2 then prefix @ u2 @ suffix
         else [])"

subsection \<open>Fetching and caching a package document\<close>

definition fetchGroomedDoc :: "string \<Rightarrow> bool \<Rightarrow> string list \<Rightarrow> (gerr + goval gomap) kprog" where
  "fetchGroomedDoc ociRef insecure credEnv =
     Call (KDump ociRef insecure credEnv) (\<lambda>r. Ret (case r of
         RDoc (GObj d) \<Rightarrow> Inr d
       | RDoc GNil \<Rightarrow> Inr []
       | RText output \<Rightarrow>
           (if staleKubocd output \<noteq> [] then Inl (Errorf (staleKubocd output) [])
            else Inl (Errorf ''kubocd dump failed: %s'' [FStr output]))
       | RErr e \<Rightarrow> Inl e
       | _ \<Rightarrow> Inl (Errorf ''failed to parse groomed.yaml: %w'' [])))"

definition cacheTTL :: int where "cacheTTL = 15 * 60 * 1000000000"

definition cache_key :: "string \<Rightarrow> string \<Rightarrow> string" where
  "cache_key serviceName tag = serviceName @ '':'' @ tag"

text \<open>A cache lookup: the entry, while it is fresh.\<close>

definition cached_schema :: "string \<Rightarrow> (goval gomap \<times> package_input list) option kprog" where
  "cached_schema key =
     Call (KCacheLoad (''schema:'' @ key)) (\<lambda>r. case cached_of r of
         Some (SchemaEntry schema inputs fetched) \<Rightarrow>
           Call KNow (\<lambda>t. Ret (if time_of t - fetched < cacheTTL then Some (schema, inputs) else None))
       | _ \<Rightarrow> Ret None)"

definition fetchAndCache ::
    "extlib \<Rightarrow> schema_config \<Rightarrow> string \<Rightarrow> string \<Rightarrow> string \<Rightarrow> string \<Rightarrow>
       (gerr + goval gomap \<times> package_input list) kprog" where
  "fetchAndCache L G serviceName tag packageRepo key =
     prog_bind (cached_schema key) (\<lambda>c. case c of
         Some e \<Rightarrow> Ret (Inr e)
       | None \<Rightarrow>
           let ociRef = ''oci://'' @ packageRepo @ ''/'' @ serviceName @ '':'' @ tag;
               host = fst (str_cut packageRepo ''/'');
               failed = (\<lambda>e. Inl (Wrapf ''failed to fetch schema for %s: %w'' [FStr ociRef] e)) in
           try_bind (credentialFor G host) (\<lambda>cred.
             prog_bind (fetchGroomedDoc ociRef (insecureOCIHost packageRepo (sg_insecureRegistries G))
                 (case cred of None \<Rightarrow> [] | Some c \<Rightarrow> kubocdCredentialEnv host c)) (\<lambda>d. case d of
               Inl e \<Rightarrow> Ret (failed e)
             | Inr doc \<Rightarrow>
                 (case parametersOf doc of
                    Inl e \<Rightarrow> Ret (failed e)
                  | Inr schema \<Rightarrow>
                      let entry = (parseTitleMetadata L schema, inputsFromMarkers doc @ inputsOf doc) in
                      Call KNow (\<lambda>t.
                        Call (KCacheStore (''schema:'' @ key)
                                (SchemaEntry (fst entry) (snd entry) (time_of t)))
                          (\<lambda>_. Ret (Inr entry)))))))"

definition load ::
    "extlib \<Rightarrow> schema_config \<Rightarrow> string \<Rightarrow> string \<Rightarrow> string \<Rightarrow>
       (gerr + goval gomap \<times> package_input list) kprog" where
  "load L G serviceName tag packageRepo =
     (let key = cache_key serviceName tag in
      prog_bind (cached_schema key) (\<lambda>c. case c of
          Some e \<Rightarrow> Ret (Inr e)
        | None \<Rightarrow> fetchAndCache L G serviceName tag packageRepo key))"

definition resolvePackage :: "string \<Rightarrow> string \<Rightarrow> (gerr + string \<times> string) kprog" where
  "resolvePackage serviceName tag0 =
     prog_bind ContextRepository_GetPlatformServices (\<lambda>r. case r of
         Inl e \<Rightarrow> Ret (Inl (Wrapf ''failed to get platform services: %w'' [] e))
       | Inr services \<Rightarrow>
           let svc = find (\<lambda>s. pv_Name s = serviceName) services;
               tag = (if tag0 = [] then (case svc of None \<Rightarrow> [] | Some s \<Rightarrow> pv_DefaultVersion s) else tag0);
               svcRepository = (case svc of None \<Rightarrow> [] | Some s \<Rightarrow> pv_Repository s) in
           if tag = [] then
             Ret (Inl (Errorf ''service %q not found in platform services'' [FStr serviceName]))
           else prog_bind GetPackageRepository (\<lambda>p. case p of
               Inl e \<Rightarrow> Ret (Inl (Wrapf ''failed to get package repository: %w'' [] e))
             | Inr packageRepo \<Rightarrow>
                 Ret (Inr (if svcRepository \<noteq> [] then svcRepository else packageRepo, tag))))"

definition GetParameterSchema ::
    "extlib \<Rightarrow> schema_config \<Rightarrow> string \<Rightarrow> string \<Rightarrow> (gerr + goval gomap) kprog" where
  "GetParameterSchema L G serviceName tag =
     try_bind (resolvePackage serviceName tag) (\<lambda>(packageRepo, tag).
       try_bind (load L G serviceName tag packageRepo) (\<lambda>(schema, inputs). Ret (Inr schema)))"

definition GetPackageInputs ::
    "extlib \<Rightarrow> schema_config \<Rightarrow> string \<Rightarrow> string \<Rightarrow> (gerr + package_input list) kprog" where
  "GetPackageInputs L G serviceName tag =
     try_bind (resolvePackage serviceName tag) (\<lambda>(packageRepo, tag).
       try_bind (load L G serviceName tag packageRepo) (\<lambda>(schema, inputs). Ret (Inr inputs)))"

definition schema_iface_of :: "extlib \<Rightarrow> schema_config \<Rightarrow> schema_iface" where
  "schema_iface_of L G =
     \<lparr>ps_GetParameterSchema = (\<lambda>n t. try_bind (GetParameterSchema L G n t) (\<lambda>s. Ret (Inr (GObj s)))),
      ps_ListVersions = ListVersionsForServices G,
      ps_ListPackageTags = ListPackageTags G\<rparr>"

subsection \<open>The interface\<close>

text \<open>What the services rely on: the package schema service reads, it changes nothing.\<close>

locale package_schema =
  fixes S :: schema_iface
  assumes schema_quiet: "runs (ps_GetParameterSchema S n t) (\<lambda>tr x. quiet tr)"
    and versions_quiet: "runs (ps_ListVersions S svcs) (\<lambda>tr x. quiet tr)"
    and tags_quiet: "runs (ps_ListPackageTags S n r) (\<lambda>tr x. quiet tr)"

text \<open>Every part of the package schema service is quiet.\<close>

named_theorems quiet_intros \<open>programs that change nothing\<close>

lemma quiet_bind [quiet_intros]:
  assumes "runs m (\<lambda>tr x. quiet tr)" and "\<And>a. runs (f a) (\<lambda>tr x. quiet tr)"
  shows "runs (prog_bind m f) (\<lambda>tr x. quiet tr)"
  by (rule runs_seq [OF assms(1)], rule runs_mono [OF assms(2)]) simp

lemma quiet_try_bind [quiet_intros]:
  assumes "runs m (\<lambda>tr x. quiet tr)" and "\<And>a. runs (f a) (\<lambda>tr x. quiet tr)"
  shows "runs (try_bind m f) (\<lambda>tr x. quiet tr)"
  by (rule runs_try_seq [OF assms(1)], simp, rule runs_mono [OF assms(2)]) simp

lemma quiet_try_pure [quiet_intros]:
  assumes "\<And>a. runs (f a) (\<lambda>tr x. quiet tr)"
  shows "runs (try_pure x f) (\<lambda>tr x. quiet tr)"
  using assms by (simp add: runs_try_pure split: sum.split)

lemma quiet_Ret [quiet_intros]: "runs (Ret a) (\<lambda>tr x. quiet tr)"
  by simp

lemma quiet_Call [quiet_intros]:
  assumes "\<not> is_write c" and "c \<noteq> KInvalidate" and "\<And>r. runs (k r) (\<lambda>tr x. quiet tr)"
  shows "runs (Call c k) (\<lambda>tr x. quiet tr)"
  using assms by simp

lemma quiet_reading [quiet_intros]: "runs (reading f) (\<lambda>tr x. quiet tr)"
  by (simp add: reading_def runs_simps split: sum.split)

lemma quiet_services [quiet_intros]: "runs ContextRepository_GetPlatformServices (\<lambda>tr x. quiet tr)"
  unfolding ContextRepository_GetPlatformServices_def by (rule quiet_reading)

lemma quiet_repository [quiet_intros]: "runs GetPackageRepository (\<lambda>tr x. quiet tr)"
  unfolding GetPackageRepository_def by (rule quiet_reading)

lemma quiet_http [quiet_intros]: "runs (http_do q) (\<lambda>tr x. quiet tr)"
  by (simp add: http_do_def)

lemma quiet_credential [quiet_intros]: "runs (credentialFor G host) (\<lambda>tr x. quiet tr)"
  by (simp add: credentialFor_def registryCredentialFor_def)

lemma quiet_fetchToken [quiet_intros]: "runs (fetchToken c cred) (\<lambda>tr x. quiet tr)"
  unfolding fetchToken_def by (auto intro!: quiet_intros split: prod.split)

lemma quiet_registryGet [quiet_intros]: "runs (registryGet url cred) (\<lambda>tr x. quiet tr)"
  unfolding registryGet_def Let_def by (auto intro!: quiet_intros split: sum.split)

lemma quiet_tags [quiet_intros]: "runs (listOCITags G r n) (\<lambda>tr x. quiet tr)"
  unfolding listOCITags_def Let_def by (auto intro!: quiet_intros split: prod.split sum.split)

lemma quiet_cachedTags [quiet_intros]: "runs (cachedTags r n) (\<lambda>tr x. quiet tr)"
  unfolding cachedTags_def
  by (auto intro!: quiet_intros split: option.split cache_entry.split)

lemma quiet_tagsCached [quiet_intros]: "runs (listOCITagsCached G r n) (\<lambda>tr x. quiet tr)"
  unfolding listOCITagsCached_def by (auto intro!: quiet_intros split: option.split)

lemma quiet_ListPackageTags [quiet_intros]: "runs (ListPackageTags G n r) (\<lambda>tr x. quiet tr)"
  unfolding ListPackageTags_def by (auto intro!: quiet_intros split: sum.split)

lemma quiet_versions_for [quiet_intros]: "runs (versions_for G r s) (\<lambda>tr x. quiet tr)"
  unfolding versions_for_def by (auto intro!: quiet_intros split: sum.split)

lemma quiet_collect [quiet_intros]: "runs (collect_versions G r svcs m) (\<lambda>tr x. quiet tr)"
  by (induction svcs arbitrary: m) (auto intro!: quiet_intros)

lemma quiet_ListVersions [quiet_intros]: "runs (ListVersionsForServices G svcs) (\<lambda>tr x. quiet tr)"
  unfolding ListVersionsForServices_def by (auto intro!: quiet_intros split: sum.split)

lemma quiet_fetchGroomed [quiet_intros]: "runs (fetchGroomedDoc r i c) (\<lambda>tr x. quiet tr)"
  by (simp add: fetchGroomedDoc_def)

lemma quiet_cached_schema [quiet_intros]: "runs (cached_schema k) (\<lambda>tr x. quiet tr)"
  unfolding cached_schema_def
  by (auto intro!: quiet_intros split: option.split cache_entry.split)

lemma quiet_fetchAndCache [quiet_intros]: "runs (fetchAndCache L G s t r k) (\<lambda>tr x. quiet tr)"
  unfolding fetchAndCache_def Let_def by (auto intro!: quiet_intros split: option.split sum.split)

lemma quiet_load [quiet_intros]: "runs (load L G s t r) (\<lambda>tr x. quiet tr)"
  unfolding load_def Let_def by (auto intro!: quiet_intros split: option.split)

lemma quiet_resolvePackage [quiet_intros]: "runs (resolvePackage s t) (\<lambda>tr x. quiet tr)"
  unfolding resolvePackage_def Let_def by (auto intro!: quiet_intros split: sum.split)

lemma quiet_GetParameterSchema [quiet_intros]: "runs (GetParameterSchema L G s t) (\<lambda>tr x. quiet tr)"
  unfolding GetParameterSchema_def by (auto intro!: quiet_intros split: prod.split)

interpretation packages: package_schema "schema_iface_of L G"
  by unfold_locales (auto simp: schema_iface_of_def intro!: quiet_intros)

end
