(* ===== verification/Service_Catalog_Properties.thy ===== *)
theory Service_Catalog_Properties
  imports Package_Schema
begin

text \<open>
  What the catalog of services guarantees: the cache of the Context, the edits and their retries,
  and the three management operations.
\<close>

subsection \<open>The cached Context\<close>

lemma runs_fetchContext:
  "runs (fetchContext r) (\<lambda>tr (x, r').
     (\<exists>u t. tr = [(KGet contextGVR (xr_namespace r) (xr_name r), RObj (ORaw u)), (KNow, t)] \<and>
        x = Inr u \<and> r' = r\<lparr>xr_cached := Some u, xr_cachedAt := time_of t\<rparr>) \<or>
     (\<exists>a e. tr = [(KGet contextGVR (xr_namespace r) (xr_name r), a)] \<and> x = Inl e \<and> r' = r))"
  by (auto simp: fetchContext_def sum_bind_Inr_iff split: sum.split)

text \<open>The Context handed out was read from the cluster during the call, or was
  cached less than the time to live before the call's own clock reading; a failed read leaves the
  cache as it was, and after an invalidation the next read goes to the cluster.\<close>

lemma getContext_fresh:
  "runs (getContext r) (\<lambda>tr (x, r').
     (\<exists>u t. tr = [(KNow, t)] \<and> xr_cached r = Some u \<and> time_of t - xr_cachedAt r < contextCacheTTL \<and>
        x = Inr u \<and> r' = r) \<or>
     (\<exists>pre u t. tr = pre @ [(KGet contextGVR (xr_namespace r) (xr_name r), RObj (ORaw u)), (KNow, t)] \<and>
        x = Inr u \<and> r' = r\<lparr>xr_cached := Some u, xr_cachedAt := time_of t\<rparr>) \<or>
     (\<exists>pre a e. tr = pre @ [(KGet contextGVR (xr_namespace r) (xr_name r), a)] \<and> x = Inl e \<and> r' = r)) \<and>
   runs (getContext (Invalidate r)) (\<lambda>tr (x, r').
     \<exists>a rest. tr = (KGet contextGVR (xr_namespace r) (xr_name r), a) # rest)"
proof
  show "runs (getContext r) (\<lambda>tr (x, r').
     (\<exists>u t. tr = [(KNow, t)] \<and> xr_cached r = Some u \<and> time_of t - xr_cachedAt r < contextCacheTTL \<and>
        x = Inr u \<and> r' = r) \<or>
     (\<exists>pre u t. tr = pre @ [(KGet contextGVR (xr_namespace r) (xr_name r), RObj (ORaw u)), (KNow, t)] \<and>
        x = Inr u \<and> r' = r\<lparr>xr_cached := Some u, xr_cachedAt := time_of t\<rparr>) \<or>
     (\<exists>pre a e. tr = pre @ [(KGet contextGVR (xr_namespace r) (xr_name r), a)] \<and> x = Inl e \<and> r' = r))"
    unfolding getContext_def
    by (cases "xr_cached r"; simp) (intro allI conjI impI | rule runs_mono [OF runs_fetchContext] | fastforce)+
  show "runs (getContext (Invalidate r)) (\<lambda>tr (x, r').
     \<exists>a rest. tr = (KGet contextGVR (xr_namespace r) (xr_name r), a) # rest)"
    by (simp add: getContext_def Invalidate_def, rule runs_mono [OF runs_fetchContext]) fastforce
qed

subsection \<open>The read-modify-write and its retries\<close>

text \<open>
  One attempt: it stops before the write, or it writes what the edit yields on the very object it
  read, once.
\<close>

definition attempt ::
    "extlib \<Rightarrow> string \<Rightarrow> string \<Rightarrow> (goval list \<Rightarrow> gerr + goval list) \<Rightarrow> ktrace \<Rightarrow> gerr + unit \<Rightarrow> bool" where
  "attempt L ns ctx fn t x =
     ((\<exists>r e. t = [(KGet contextGVR ns ctx, r)] \<and> x = Inl e) \<or>
      (\<exists>cur cats updated cur' r.
         t = [(KGet contextGVR ns ctx, RObj (ORaw cur)), (KUpdate contextGVR ns (ORaw cur'), r)] \<and>
         u_NestedSlice cur catalog_path = Inr cats \<and>
         fn (case cats of None \<Rightarrow> [] | Some cs \<Rightarrow> cs) = Inr updated \<and>
         SetNestedSlice L cur updated catalog_path = Inr cur' \<and> x = unit_of r))"

lemma unit_of_answered [simp]: "answered_ok r \<Longrightarrow> unit_of r = Inr ()"
  by (simp add: answered_ok_def)

lemma runs_mutate_once: "runs (mutate_once L ns ctx fn) (attempt L ns ctx fn)"
  by (auto simp: mutate_once_def runs_simps attempt_def from_unstructured_def sum_bind_def
        split: sum.split option.split)

lemma runs_RetryOnConflict:
  assumes "runs m P"
  shows "runs (RetryOnConflict n m) (\<lambda>tr x.
     \<exists>ts t. length ts \<le> n \<and> tr = concat ts @ t \<and> P t x \<and> (\<forall>t'\<in>set ts. \<exists>e. P t' (Inl e) \<and> is_conflict e))"
proof (induction n)
  case 0
  show ?case using assms by (auto elim!: runs_mono)
next
  case (Suc n)
  show ?case
    unfolding RetryOnConflict.simps
  proof (rule runs_seq [OF assms], goal_cases)
    case (1 t1 x)
    show ?case
    proof (cases "\<exists>e. x = Inl e \<and> is_conflict e")
      case True
      then obtain e where e: "x = Inl e" "is_conflict e" by blast
      show ?thesis
        unfolding e(1) sum.case
        by (simp add: e(2), rule runs_mono [OF Suc.IH], clarify, intro exI [of _ "t1 # _"] exI)
           (use 1 e in auto)
    next
      case False
      with 1 have "\<exists>ts t. length ts \<le> Suc n \<and> t1 = concat ts @ t \<and> P t x \<and>
          (\<forall>t'\<in>set ts. \<exists>e. P t' (Inl e) \<and> is_conflict e)"
        by (intro exI [of _ "[]"] exI [of _ t1]) simp
      with False show ?thesis by (auto split: sum.split)
    qed
  qed
qed

text \<open>An edit of the catalog is a sequence of at most five
  attempts, all but the last ended by a conflict. Every attempt computes its write from the object
  it has just read, so an edit made by somebody else between two attempts is never overwritten by
  stale data, and the outcome is that of the last attempt: success exactly when its write was
  accepted.\<close>

theorem mutateCategories_no_lost_update:
  "runs (mutateCategories L ns ctx fn) (\<lambda>tr x.
     \<exists>ts t. length ts < 5 \<and> tr = concat ts @ t \<and> attempt L ns ctx fn t x \<and>
       list_all (\<lambda>t'. \<exists>e. attempt L ns ctx fn t' (Inl e) \<and> is_conflict e) ts)"
proof -
  have steps: "DefaultRetrySteps - 1 = 4" by (simp add: DefaultRetrySteps_def)
  show ?thesis
    unfolding mutateCategories_def steps
  proof (rule runs_mono [OF runs_RetryOnConflict [OF runs_mutate_once]], elim exE conjE, goal_cases)
    case (1 tr x ts t)
    then show ?case by (intro exI [of _ ts] exI [of _ t]) (simp add: list_all_iff)
  qed
qed

subsection \<open>The edits\<close>

text \<open>C11: seen through the reader, adding a service inserts it and changes nothing
  else; removing a name drops exactly the services of that name; updating a name replaces them by
  one entry, and leaves the catalog alone when there is none.\<close>

theorem catalog_edits_exact:
  "(\<exists>a b cats'. add_edit svc cats = Inr cats' \<and> catalog_of cats = a @ b \<and>
      catalog_of cats' = a @ platformServiceFromMap (platformServiceToMap svc) (pv_Category svc) # b) \<and>
   (\<exists>cats'. remove_edit n cats = Inr cats' \<and>
      catalog_of cats' = filter (\<lambda>s. pv_Name s \<noteq> n) (catalog_of cats)) \<and>
   (\<exists>cats'. update_edit n svc cats = Inr cats' \<and>
      (if n \<in> pv_Name ` set (catalog_of cats)
       then \<exists>a b. filter (\<lambda>s. pv_Name s \<noteq> n) (catalog_of cats) = a @ b \<and>
              catalog_of cats' = a @ platformServiceFromMap (platformServiceToMap svc) (pv_Category svc) # b
       else catalog_of cats' = catalog_of cats))"
proof (intro conjI)
  show "\<exists>a b cats'. add_edit svc cats = Inr cats' \<and> catalog_of cats = a @ b \<and>
      catalog_of cats' = a @ platformServiceFromMap (platformServiceToMap svc) (pv_Category svc) # b"
    unfolding add_edit_def using append_catalog [of cats "pv_Category svc" "platformServiceToMap svc"] by blast
  show "\<exists>cats'. remove_edit n cats = Inr cats' \<and>
      catalog_of cats' = filter (\<lambda>s. pv_Name s \<noteq> n) (catalog_of cats)"
    by (simp add: remove_edit_def remove_catalog)
  obtain rest found where rf: "removeServiceFromCategories cats n = (rest, found)" by force
  have rest: "catalog_of rest = filter (\<lambda>s. pv_Name s \<noteq> n) (catalog_of cats)"
    using remove_catalog [of cats n] by (simp add: rf)
  have found: "found \<longleftrightarrow> n \<in> pv_Name ` set (catalog_of cats)"
    using remove_found [of cats n] by (simp add: rf)
  have "catalog_of rest = catalog_of cats" if "\<not> found"
    using that found rest by (auto simp: filter_id_conv)
  then show "\<exists>cats'. update_edit n svc cats = Inr cats' \<and>
      (if n \<in> pv_Name ` set (catalog_of cats)
       then \<exists>a b. filter (\<lambda>s. pv_Name s \<noteq> n) (catalog_of cats) = a @ b \<and>
              catalog_of cats' = a @ platformServiceFromMap (platformServiceToMap svc) (pv_Category svc) # b
       else catalog_of cats' = catalog_of cats)"
    using append_catalog [of rest "pv_Category svc" "platformServiceToMap svc"] rest found
    by (auto simp: update_edit_def rf)
qed

text \<open>C12: an entry that passes the catalog's rules is read back from the
  Context exactly as it was accepted, its icon aside, which the Context does not carry.\<close>

theorem catalog_entry_roundtrip:
  assumes "normalizeAndValidateCatalogService s0 = Inr s"
  shows "platformServiceFromMap (platformServiceToMap s) (pv_Category s) = s\<lparr>pv_Icon := []\<rparr> \<and>
         catalog_entry_ok s"
proof -
  have ok: "catalog_entry_ok s" using normalize_ok [OF assms] by simp
  have "platformServiceToMap (s\<lparr>pv_Icon := []\<rparr>) = platformServiceToMap s"
    by (simp add: platformServiceToMap_def)
  with service_roundtrip [of "s\<lparr>pv_Icon := []\<rparr>"] ok show ?thesis
    by (simp add: catalog_entry_ok_def)
qed

definition sample_service :: platform_service where
  "sample_service = \<lparr>pv_Name = ''trino'', pv_Versions = [''480'', ''479''], pv_DefaultVersion = [],
     pv_Description = ''SQL'', pv_Icon = [], pv_Category = ''Query'', pv_Repository = [], pv_Label = [],
     pv_ExposesUI = Some True\<rparr>"

lemma trim_space_plain:
  "trim_space ''trino'' = ''trino''" "trim_space ''Query'' = ''Query''" "trim_space ''480'' = ''480''"
  "trim_space ''479'' = ''479''"
  by (simp_all add: trim_space_def trim_left_def trim_right_def trim_runes_id drop_rune_def space_runes_def)

lemma sample_service_valid:
  "normalizeAndValidateCatalogService sample_service = Inr (sample_service\<lparr>pv_DefaultVersion := ''480''\<rparr>)"
  by (simp add: normalizeAndValidateCatalogService_def sample_service_def trim_space_plain serviceNameRe_def
        is_alnum_char_def Let_def)

theorem catalog_entry_roundtrip_witness:
  "pv_Versions (platformServiceFromMap
     (platformServiceToMap (sample_service\<lparr>pv_DefaultVersion := ''480''\<rparr>)) ''Query'') = [''480'', ''479'']"
  using catalog_entry_roundtrip [OF sample_service_valid] by (simp add: sample_service_def)

subsection \<open>The management operations\<close>

text \<open>How a write to the catalog ends: with an error, or accepted and followed by the invalidation.\<close>

definition written_then_invalidated :: "service_config \<Rightarrow> ktrace \<Rightarrow> gerr + 'a \<Rightarrow> 'a \<Rightarrow> bool" where
  "written_then_invalidated C t x a =
     ((KInvalidate \<notin> set (calls t) \<and> (\<exists>e. x = Inl e)) \<or>
      (\<exists>t' cur r i. t = t' @ [(KUpdate contextGVR (sv_contextNamespace C) (ORaw cur), r), (KInvalidate, i)] \<and>
         KInvalidate \<notin> set (calls t') \<and> answered_ok r \<and> x = Inr a))"

lemma attempt_calls: "attempt L ns ctx fn t x \<Longrightarrow> KInvalidate \<notin> set (calls t)"
  by (auto simp: attempt_def)

lemma attempt_success:
  "attempt L ns ctx fn t (Inr u) \<Longrightarrow>
     \<exists>cur' r. t = [hd t, (KUpdate contextGVR ns (ORaw cur'), r)] \<and> answered_ok r"
  by (auto simp: attempt_def answered_ok_def)

lemma runs_mutate:
  "runs (mutateCategories L ns ctx fn) (\<lambda>tr x. KInvalidate \<notin> set (calls tr) \<and>
     (\<forall>u. x = Inr u \<longrightarrow> (\<exists>t cur' r. tr = t @ [(KUpdate contextGVR ns (ORaw cur'), r)] \<and> answered_ok r)))"
  unfolding mutateCategories_def
proof (rule runs_mono [OF runs_RetryOnConflict [OF runs_mutate_once]], elim exE conjE, goal_cases)
  case (1 tr x ts t)
  have "KInvalidate \<notin> set (calls t')" if "t' \<in> set ts" for t'
    using 1 that attempt_calls by blast
  then have "KInvalidate \<notin> set (calls (concat ts))"
    by (auto simp: in_calls)
  moreover have "KInvalidate \<notin> set (calls t)" using 1 attempt_calls by blast
  moreover have "\<exists>t' cur' r. tr = t' @ [(KUpdate contextGVR ns (ORaw cur'), r)] \<and> answered_ok r"
    if "x = Inr u" for u
  proof -
    from attempt_success 1(3) that obtain cur' r where
      "t = [hd t, (KUpdate contextGVR ns (ORaw cur'), r)]" "answered_ok r" by blast
    with 1(2) have "tr = (concat ts @ [hd t]) @ [(KUpdate contextGVR ns (ORaw cur'), r)] \<and> answered_ok r"
      by (metis append.assoc append_Cons append_Nil)
    then show ?thesis by blast
  qed
  ultimately show ?case using 1(2) by auto
qed

lemma runs_then_invalidate:
  "runs (then_invalidate (mutateCategories L (sv_contextNamespace C) ctx fn) a)
     (\<lambda>tr x. written_then_invalidated C tr x a)"
  unfolding then_invalidate_def
  by (rule runs_try_seq [OF runs_mutate]) (auto simp: written_then_invalidated_def)

lemma written_prefix:
  assumes "written_then_invalidated C t2 x a" and "KInvalidate \<notin> set (calls t1)"
  shows "written_then_invalidated C (t1 @ t2) x a"
proof -
  have "\<exists>t'' cur r i. t1 @ t2 = t'' @ [(KUpdate contextGVR (sv_contextNamespace C) (ORaw cur), r), (KInvalidate, i)] \<and>
        KInvalidate \<notin> set (calls t'') \<and> answered_ok r"
    if "t2 = t' @ [(KUpdate contextGVR (sv_contextNamespace C) (ORaw cur), r), (KInvalidate, i)]"
      "KInvalidate \<notin> set (calls t')" "answered_ok r" for t' cur r i
    using that assms(2) by (intro exI [of _ "t1 @ t'"] exI [of _ cur] exI [of _ r] exI [of _ i]) auto
  with assms show ?thesis unfolding written_then_invalidated_def by fastforce
qed

lemma runs_exec: "runs m (\<lambda>tr a. exec m tr a)"
  by (simp add: runs_iff)

text \<open>The catalog was read during the trace, and it held these services.\<close>

definition catalog_read :: "ktrace \<Rightarrow> platform_service list \<Rightarrow> bool" where
  "catalog_read tr existing =
     (\<exists>u. (KContext, RObj (ORaw u)) \<in> set tr \<and> GetPlatformServices_of u = Inr existing)"

lemma runs_reading:
  "runs (reading f) (\<lambda>tr x. quiet tr \<and>
     (\<forall>a. x = Inr a \<longrightarrow> (\<exists>u. (KContext, RObj (ORaw u)) \<in> set tr \<and> f u = Inr a)))"
  by (auto simp: reading_def runs_simps split: sum.split)

lemma runs_GetPlatformServices:
  "runs ContextRepository_GetPlatformServices (\<lambda>tr x. quiet tr \<and> (\<forall>a. x = Inr a \<longrightarrow> catalog_read tr a))"
  unfolding ContextRepository_GetPlatformServices_def catalog_read_def by (rule runs_reading)

lemma runs_findCatalogService:
  "runs (findCatalogService n) (\<lambda>tr x. quiet tr \<and>
     (\<forall>s. x = Inr s \<longrightarrow> (\<exists>existing. catalog_read tr existing \<and> n \<in> pv_Name ` set existing)))"
  unfolding findCatalogService_def
  by (rule runs_seq [OF runs_GetPlatformServices])
     (auto simp: find_Some_iff split: sum.split option.split)

text \<open>The registry listed the tags of the package during the trace, and every version is among them.\<close>

definition versions_published :: "schema_iface \<Rightarrow> platform_service \<Rightarrow> ktrace \<Rightarrow> bool" where
  "versions_published S svc tr =
     (\<exists>t1 t2 t3 tags. tr = t1 @ t2 @ t3 \<and>
        exec (ps_ListPackageTags S (pv_Name svc) (pv_Repository svc)) t2 (Inr tags) \<and>
        set (pv_Versions svc) \<subseteq> set tags)"

lemma versions_published_append:
  "versions_published S svc t \<Longrightarrow> versions_published S svc (a @ t @ b)"
  unfolding versions_published_def by (metis append.assoc)

context package_schema
begin

lemma runs_validateVersions:
  assumes "sv_schema C = Some S"
  shows "runs (validateVersionsInRegistry C svc) (\<lambda>tr x. quiet tr \<and>
     (\<forall>u. x = Inr u \<longrightarrow> versions_published S svc tr))"
proof -
  have "runs (ps_ListPackageTags S (pv_Name svc) (pv_Repository svc))
      (\<lambda>tr x. quiet tr \<and> exec (ps_ListPackageTags S (pv_Name svc) (pv_Repository svc)) tr x)"
    unfolding runs_conj using tags_quiet runs_exec by blast
  note tags = runs_seq [OF this]
  show ?thesis
    unfolding validateVersionsInRegistry_def assms option.case
  proof (rule tags, goal_cases)
    case (1 t1 a)
    have "versions_published S svc t1" if "a = Inr tags" "filter (\<lambda>v. v \<notin> set tags) (pv_Versions svc) = []" for tags
      unfolding versions_published_def
      using 1 that by (intro exI [of _ "[]"] exI [of _ t1] exI [of _ tags]) (auto simp: filter_empty_conv)
    with 1 show ?case by (cases a) (simp_all add: Let_def)
  qed
qed

lemma runs_checked_write:
  assumes "sv_schema C = Some S"
  shows "runs (try_bind (validateVersionsInRegistry C svc) (\<lambda>_.
           then_invalidate (mutateCategories L (sv_contextNamespace C) ctx fn) a))
         (\<lambda>tr x. quiet tr \<and> (\<exists>e. x = Inl e) \<or>
                 versions_published S svc tr \<and> written_then_invalidated C tr x a)"
proof (rule runs_try_seq [OF runs_validateVersions [OF assms]], simp, goal_cases)
  case (1 t1 u)
  then have t1: "KInvalidate \<notin> set (calls t1)" "versions_published S svc t1" by (simp_all add: quiet_def)
  show ?case
  proof (rule runs_mono [OF runs_then_invalidate], rule disjI2, rule conjI)
    fix t2 x assume w: "written_then_invalidated C t2 x a"
    show "written_then_invalidated C (t1 @ t2) x a" by (rule written_prefix [OF w t1(1)])
    show "versions_published S svc (t1 @ t2)"
      using versions_published_append [OF t1(2), of "[]" t2] by simp
  qed
qed

end

text \<open>
  An addition or an update to the catalog: it stops before any change, or the entry passed the
  catalog's rules, the catalog was read and allowed its name, the versions were published, and the
  edit was made.
\<close>

definition managed ::
    "service_config \<Rightarrow> schema_iface \<Rightarrow> gerr + platform_service \<Rightarrow> (string set \<Rightarrow> string \<Rightarrow> bool) \<Rightarrow> ktrace \<Rightarrow>
       gerr + platform_service \<Rightarrow> bool" where
  "managed C S entry allowed tr x =
     ((quiet tr \<and> (\<exists>e. x = Inl e)) \<or>
      (\<exists>svc existing. entry = Inr svc \<and> sv_writable C \<and> catalog_read tr existing \<and>
         allowed (pv_Name ` set existing) (pv_Name svc) \<and> versions_published S svc tr \<and>
         written_then_invalidated C tr x svc))"

lemma managedI:
  assumes "entry = Inr svc" and "sv_writable C" and "quiet t1" and "catalog_read t1 existing"
    and "allowed (pv_Name ` set existing) (pv_Name svc)"
    and "quiet t2 \<and> (\<exists>e. x = Inl e) \<or> versions_published S svc t2 \<and> written_then_invalidated C t2 x svc"
  shows "managed C S entry allowed (t1 @ t2) x"
proof -
  have cr: "catalog_read (t1 @ t2) existing" using assms(4) by (auto simp: catalog_read_def)
  have inv: "KInvalidate \<notin> set (calls t1)" using assms(3) by (simp add: quiet_def)
  from assms(6) show ?thesis
  proof
    assume "quiet t2 \<and> (\<exists>e. x = Inl e)"
    with assms(3) show ?thesis unfolding managed_def by (intro disjI1) simp
  next
    assume w: "versions_published S svc t2 \<and> written_then_invalidated C t2 x svc"
    then have "versions_published S svc t2" ..
    from versions_published_append [OF this, of t1 "[]"] have "versions_published S svc (t1 @ t2)"
      by (simp only: append_Nil2)
    moreover from w have "written_then_invalidated C t2 x svc" ..
    then have "written_then_invalidated C (t1 @ t2) x svc" by (rule written_prefix [OF _ inv])
    ultimately show ?thesis
      unfolding managed_def using assms(1,2,5) cr
      by (intro disjI2 exI [of _ svc] exI [of _ existing] conjI) simp_all
  qed
qed

context package_schema
begin

lemma add_managed:
  assumes "sv_schema C = Some S"
  shows "runs (Service_AddPlatformService L C svc0)
     (managed C S (normalizeAndValidateCatalogService svc0) (\<lambda>names n. n \<notin> names))"
proof (cases "sv_writable C \<and> (\<exists>svc. normalizeAndValidateCatalogService svc0 = Inr svc)")
  case False
  then show ?thesis
    by (auto simp: Service_AddPlatformService_def runs_simps managed_def split: sum.split)
next
  case True
  then obtain svc where svc: "normalizeAndValidateCatalogService svc0 = Inr svc" and w: "sv_writable C" by blast
  show ?thesis
    unfolding Service_AddPlatformService_def Writer_AddPlatformService_def svc
  proof (simp add: w, rule runs_seq [OF runs_GetPlatformServices], goal_cases)
    case (1 t1 r)
    show ?case
    proof (cases "\<exists>existing. r = Inr existing \<and> pv_Name svc \<notin> pv_Name ` set existing")
      case False
      show ?thesis
      proof (cases r)
        case (Inl e)
        with 1 show ?thesis by (simp add: managed_def)
      next
        case (Inr existing)
        with False have "\<exists>e\<in>set existing. pv_Name e = pv_Name svc" by auto
        with 1 Inr show ?thesis by (simp add: managed_def)
      qed
    next
      case True
      then obtain existing where r: "r = Inr existing" "pv_Name svc \<notin> pv_Name ` set existing" by blast
      with 1 have t1: "quiet t1" "catalog_read t1 existing" by auto
      have "\<not> (\<exists>e\<in>set existing. pv_Name e = pv_Name svc)"
      proof
        assume "\<exists>e\<in>set existing. pv_Name e = pv_Name svc"
        then have "pv_Name svc \<in> pv_Name ` set existing" by (metis imageI)
        with r(2) show False ..
      qed
      then show ?thesis
        unfolding r(1) sum.case
        by (simp only: if_False)
           (rule runs_mono [OF runs_checked_write [OF assms]], rule managedI [OF refl w t1], simp_all add: r(2))
    qed
  qed
qed

lemma update_managed:
  assumes "sv_schema C = Some S"
  shows "runs (Service_UpdatePlatformService L C name svc0)
     (managed C S (normalizeAndValidateCatalogService (svc0\<lparr>pv_Name := name\<rparr>)) (\<lambda>names n. name \<in> names))"
proof (cases "sv_writable C \<and> (\<exists>svc. normalizeAndValidateCatalogService (svc0\<lparr>pv_Name := name\<rparr>) = Inr svc)")
  case False
  then show ?thesis
    by (auto simp: Service_UpdatePlatformService_def runs_simps managed_def split: sum.split)
next
  case True
  then obtain svc where svc: "normalizeAndValidateCatalogService (svc0\<lparr>pv_Name := name\<rparr>) = Inr svc"
    and w: "sv_writable C" by blast
  show ?thesis
    unfolding Service_UpdatePlatformService_def Writer_UpdatePlatformService_def svc
  proof (simp add: w, rule runs_try_seq [OF runs_findCatalogService], goal_cases)
    case (1 t1 e)
    then show ?case by (simp add: managed_def)
  next
    case (2 t1 s)
    then obtain existing where t1: "quiet t1" "catalog_read t1 existing" "name \<in> pv_Name ` set existing" by blast
    show ?case
      by (rule runs_mono [OF runs_checked_write [OF assms]], rule managedI [OF refl w t1(1,2)], simp_all add: t1(3))
  qed
qed

end

text \<open>C9: an entry is added only when it passes the catalog's rules,
  the catalog that was read holds no service of its name, and the registry lists all its versions;
  success means that the Context was written and that the cached Context was then dropped. Any other
  outcome is an error, without a change unless the write itself was attempted.\<close>

theorem Service_AddPlatformService_checked:
  "runs (Service_AddPlatformService L (C\<lparr>sv_schema := Some (schema_iface_of L G)\<rparr>) svc)
     (managed (C\<lparr>sv_schema := Some (schema_iface_of L G)\<rparr>) (schema_iface_of L G)
        (normalizeAndValidateCatalogService svc) (\<lambda>names n. n \<notin> names))"
  by (rule packages.add_managed) simp

text \<open>C10: an entry is replaced only when the new one passes the
  catalog's rules under the name of the path, the catalog that was read holds that name, and the
  registry lists all its versions; success means that the Context was written and that the cached
  Context was then dropped.\<close>

theorem Service_UpdatePlatformService_checked:
  "runs (Service_UpdatePlatformService L (C\<lparr>sv_schema := Some (schema_iface_of L G)\<rparr>) name svc)
     (managed (C\<lparr>sv_schema := Some (schema_iface_of L G)\<rparr>) (schema_iface_of L G)
        (normalizeAndValidateCatalogService (svc\<lparr>pv_Name := name\<rparr>)) (\<lambda>names n. name \<in> names))"
  by (rule packages.update_managed) simp

end
