(* ===== verification/Package_Properties.thy ===== *)
theory Package_Properties
  imports Package_Schema Connection_Properties "HOL-Library.Multiset"
begin

text \<open>
  What the package schema service guarantees: the options of a title, the validation rules of a
  schema under the expansion of its titles, the inputs a package declares, the use of registry
  credentials, the order of tags, and what the cache of package documents is keyed by.
\<close>

subsection \<open>Options of a title\<close>

text \<open>The text with the spaces outside double quotes removed, and its quotes in pairs.\<close>

fun unquoted :: "bool \<Rightarrow> string \<Rightarrow> string" where
  "unquoted q [] = []"
| "unquoted q (c # cs) =
     (if c = CHR 0x22 then c # unquoted (\<not> q) cs
      else if c = CHR '' '' \<and> \<not> q then unquoted q cs
      else c # unquoted q cs)"

definition balanced :: "string \<Rightarrow> bool" where
  "balanced s = even (length (filter (\<lambda>c. c = CHR 0x22) s))"

definition title_option :: "string \<Rightarrow> bool" where
  "title_option o' = (o' \<noteq> [] \<and> balanced o' \<and> unquoted False o' = o')"

lemma length_unquoted: "length (unquoted q s) \<le> length s"
  by (induction q s rule: unquoted.induct) auto

lemma unquoted_append:
  "unquoted q (s @ t) = unquoted q s @ unquoted (q \<noteq> odd (length (filter (\<lambda>c. c = CHR 0x22) s))) t"
  by (induction q s rule: unquoted.induct) auto

lemma unquoted_append_fixed:
  "unquoted q (s @ t) = s @ t \<longleftrightarrow>
     unquoted q s = s \<and> unquoted (q \<noteq> odd (length (filter (\<lambda>c. c = CHR 0x22) s))) t = t"
proof
  assume a: "unquoted q (s @ t) = s @ t"
  let ?q' = "q \<noteq> odd (length (filter (\<lambda>c. c = CHR 0x22) s))"
  from a have eq: "unquoted q s @ unquoted ?q' t = s @ t" by (simp add: unquoted_append)
  then have "length (unquoted q s) + length (unquoted ?q' t) = length s + length t"
    by (metis length_append)
  then have "length (unquoted q s) = length s"
    using length_unquoted [of q s] length_unquoted [of ?q' t] by simp
  with eq show "unquoted q s = s \<and> unquoted ?q' t = t" by (simp add: append_eq_append_conv)
qed (simp add: unquoted_append)

lemma concat_split_loop: "concat (split_loop cur q s) = rev cur @ unquoted q s"
  by (induction cur q s rule: split_loop.induct) auto

lemma split_loop_options:
  assumes "unquoted False (rev cur) = rev cur" and "q \<longleftrightarrow> \<not> balanced (rev cur)"
    and "balanced (rev cur @ s)"
  shows "list_all title_option (split_loop cur q s)"
  using assms
proof (induction cur q s rule: split_loop.induct)
  case (1 cur q)
  then show ?case by (auto simp: title_option_def)
next
  case (2 cur q r rs)
  show ?case
  proof (cases "r = CHR 0x22 \<or> \<not> (r = CHR '' '' \<and> \<not> q)")
    case True
    with 2 show ?thesis by (auto simp: unquoted_append balanced_def)
  next
    case False
    with 2 show ?thesis by (auto simp: title_option_def balanced_def)
  qed
qed

lemma split_loop_word:
  assumes "unquoted q w = w"
  shows "split_loop cur q (w @ s) =
     split_loop (rev w @ cur) (q \<noteq> odd (length (filter (\<lambda>c. c = CHR 0x22) w))) s"
  using assms
proof (induction w arbitrary: cur q)
  case (Cons c w)
  have "length (unquoted q w) \<le> length w" by (rule length_unquoted)
  moreover have "unquoted q (c # w) = c # w" by (rule Cons.prems)
  ultimately have ns: "\<not> (c = CHR '' '' \<and> \<not> q)" by (intro notI) simp
  with Cons.prems have "unquoted (if c = CHR 0x22 then \<not> q else q) w = w" by (auto split: if_splits)
  from Cons.IH [OF this] ns show ?case by (cases q) auto
qed simp

lemma split_loop_join:
  "list_all title_option opts \<Longrightarrow> split_loop [] False (str_join opts '' '') = opts"
proof (induction opts rule: induct_list012)
  case (2 x)
  then show ?case
    using split_loop_word [of False x "[]" "[]"] by (auto simp: title_option_def balanced_def)
next
  case (3 x y zs)
  then show ?case
    using split_loop_word [of False x "[]" "'' '' @ str_join (y # zs) '' ''"]
    by (auto simp: title_option_def balanced_def)
qed simp

lemma balanced_join: "list_all title_option opts \<Longrightarrow> balanced (str_join opts '' '')"
  by (induction opts rule: induct_list012) (auto simp: title_option_def balanced_def)

lemma splitOptions_balanced: "balanced s \<Longrightarrow> splitOptions s = split_loop [] False s"
  by (simp add: splitOptions_def balanced_def)

text \<open>C14: options separated by one space are recovered as they were written, spaces
  inside double quotes included; from any text with paired quotes no character is lost but the
  separating spaces, and every option is non-empty with its quotes closed; a text with an unpaired
  quote is cut on white space alone.\<close>

theorem splitOptions_exact:
  assumes "list_all title_option opts"
  shows "splitOptions (str_join opts '' '') = opts \<and>
    (if balanced segment
     then concat (splitOptions segment) = unquoted False segment \<and>
          list_all title_option (splitOptions segment)
     else splitOptions segment = str_Fields segment)"
proof (intro conjI)
  show "splitOptions (str_join opts '' '') = opts"
    using assms by (simp add: splitOptions_balanced balanced_join split_loop_join)
  show "if balanced segment
     then concat (splitOptions segment) = unquoted False segment \<and>
          list_all title_option (splitOptions segment)
     else splitOptions segment = str_Fields segment"
    using split_loop_options [of "[]" False segment]
    by (auto simp: splitOptions_balanced concat_split_loop)
       (simp_all add: splitOptions_def balanced_def)
qed

definition sample_option :: string where
  "sample_option = ''hint:'' @ [CHR 0x22] @ ''e.g. 10Gi'' @ [CHR 0x22]"

theorem splitOptions_exact_witness:
  "splitOptions (''min:1 '' @ sample_option) = [''min:1'', sample_option]"
  using splitOptions_exact [of "[''min:1'', sample_option]" "[]"]
  by (simp add: title_option_def balanced_def sample_option_def)

subsection \<open>Titles and validation rules\<close>

text \<open>The keys of a property that only tell the console how to show it.\<close>

definition hint_key :: "string \<Rightarrow> bool" where
  "hint_key k = (k = ''title'' \<or> has_prefix k ''x-ui-'')"

lemma hint_key_simps [simp]:
  "hint_key ''title''" "hint_key (''x-ui-'' @ k)" "hint_key ''x-ui-group''" "hint_key ''x-ui-widget''"
  "hint_key ''x-ui-condition''"
  by (auto simp: hint_key_def)

lemma hint_key_prefixed [simp]:
  "hint_key (CHR ''x'' # CHR ''-'' # CHR ''u'' # CHR ''i'' # CHR ''-'' # k)"
  by (simp add: hint_key_def str_simps)

lemma apply_option_keeps: "\<not> hint_key k \<Longrightarrow> mget (apply_option L kv m) k = mget m k"
  by (auto simp: apply_option_def Let_def split: prod.split bool.split list.split)

lemma apply_options_keep: "\<not> hint_key k \<Longrightarrow> mget (foldl (\<lambda>m kv. apply_option L kv m) m kvs) k = mget m k"
  by (induction kvs arbitrary: m) (auto simp: apply_option_keeps)

lemma expand_title_keeps:
  assumes "\<not> hint_key k"
  shows "mget (expand_title L title m) k = mget m k"
proof -
  from assms have "k \<noteq> ''title''" "k \<noteq> ''x-ui-group''" "k \<noteq> ''x-ui-widget''" by auto
  with assms show ?thesis by (simp add: expand_title_def Let_def apply_options_keep del: list.inject)
qed

text \<open>A property after the expansion, compared with the property before.\<close>

definition plain_title :: "goval \<Rightarrow> bool" where
  "plain_title v = (case v of
       GObj m \<Rightarrow> (case mget m ''title'' of Some (GStr s) \<Rightarrow> \<not> str_contains s ''|'' | _ \<Rightarrow> True)
     | _ \<Rightarrow> True)"

definition same_rules :: "goval \<Rightarrow> goval \<Rightarrow> bool" where
  "same_rules v w =
     (if plain_title v then w = v
      else \<exists>m m'. v = GObj m \<and> w = GObj m' \<and> (\<forall>k. \<not> hint_key k \<longrightarrow> mget m' k = mget m k))"

lemma expand_property_same_rules: "same_rules v (expand_property L v)"
proof (cases "plain_title v")
  case True
  then show ?thesis
    by (auto simp: same_rules_def expand_property_def plain_title_def
          split: goval.splits option.splits if_splits)
next
  case False
  then obtain m s where v: "v = GObj m" "mget m ''title'' = Some (GStr s)" "str_contains s ''|''"
    by (auto simp: plain_title_def split: goval.splits option.splits)
  then have "expand_property L v = GObj (expand_title L s m)" by (simp add: expand_property_def)
  with False v(1) show ?thesis by (simp add: same_rules_def expand_title_keeps)
qed

definition schema_property :: "goval gomap \<Rightarrow> string \<Rightarrow> goval option" where
  "schema_property schema name =
     (case mget schema ''properties'' of Some (GObj ps) \<Rightarrow> mget ps name | _ \<Rightarrow> None)"

lemma mget_map_values: "mget (map (\<lambda>(k, v). (k, f v)) m) k = map_option f (mget m k)"
  by (induction m) auto

lemma json_copy_obj: "json_copy v = GObj m \<longleftrightarrow> (\<exists>m0. v = GObj m0 \<and> m = map (\<lambda>(k, v). (k, json_copy v)) m0)"
  by (cases v) auto

lemma schema_property_copy:
  "schema_property (map (\<lambda>(k, v). (k, json_copy v)) s) n = map_option json_copy (schema_property s n)"
proof (cases "mget s ''properties''")
  case (Some v)
  then show ?thesis by (cases v) (simp_all add: schema_property_def mget_map_values)
qed (simp add: schema_property_def mget_map_values)

lemma expand_all:
  fixes r :: "goval gomap" and L :: extlib
  defines "w \<equiv> (case mget r ''properties'' of
      Some (GObj props) \<Rightarrow> mput ''properties'' (GObj (map (\<lambda>(k, v). (k, expand_property L v)) props)) r
    | _ \<Rightarrow> r)"
  shows "k = ''properties'' \<or> mget w k = mget r k"
    and "schema_property w name = map_option (expand_property L) (schema_property r name)"
proof -
  show "k = ''properties'' \<or> mget w k = mget r k"
    by (simp add: w_def split: option.split goval.split)
  show "schema_property w name = map_option (expand_property L) (schema_property r name)"
    by (simp add: w_def schema_property_def mget_map_values split: option.split goval.split)
qed


subsection \<open>The registry protocol\<close>

definition http_answer :: "kresp \<Rightarrow> gerr + http_resp" where
  "http_answer r = (case r of RHttp p \<Rightarrow> Inr p | RErr e \<Rightarrow> Inl e | _ \<Rightarrow> Inl bad_answer)"

lemma http_do_answer: "http_do q = Call (KHttp q) (\<lambda>r. Ret (http_answer r))"
  by (simp add: http_do_def http_answer_def)

lemma http_answer_RHttp [simp]: "http_answer (RHttp p) = Inr p"
  by (simp add: http_answer_def)

lemma http_answer_Inr [simp]: "http_answer r = Inr p \<longleftrightarrow> r = RHttp p" "Inr p = http_answer r \<longleftrightarrow> r = RHttp p"
  by (auto simp: http_answer_def split: kresp.split)

definition basic_challenge :: "string \<Rightarrow> bool" where
  "basic_challenge challenge = equal_fold (fst (str_cut (trim_space challenge) '' '')) ''Basic''"

text \<open>
  One exchange with a registry: an anonymous request; after a 401, either the same request with
  the configured credential when the registry asks for Basic, or a token request to the realm it
  names followed by the same request with the token; nothing else.
\<close>

definition registry_exchange ::
    "string \<Rightarrow> registry_credential option \<Rightarrow> ktrace \<Rightarrow> gerr + http_resp \<Rightarrow> bool" where
  "registry_exchange url cred tr x =
     (let anonymous = KHttp (http_get url [] NoAuth) in
      (\<exists>r. tr = [(anonymous, r)] \<and> x = http_answer r \<and> (\<forall>p. r = RHttp p \<longrightarrow> hp_Status p \<noteq> 401)) \<or>
      (\<exists>p. hp_Status p = 401 \<and>
         (tr = [(anonymous, RHttp p)] \<and> (\<exists>e. x = Inl e) \<or>
          (\<exists>c r. cred = Some c \<and> basic_challenge (hp_WWWAuthenticate p) \<and>
             tr = [(anonymous, RHttp p),
                   (KHttp (http_get url [] (BasicAuth (rg_username c) (rg_password c))), r)] \<and>
             x = http_answer r) \<or>
          (\<exists>realm params r. parseBearerChallenge (hp_WWWAuthenticate p) = Inr (realm, params) \<and>
             tr = [(anonymous, RHttp p), (KHttp (http_get realm params (basic_auth cred)), r)] \<and>
             (\<exists>e. x = Inl e)) \<or>
          (\<exists>realm params q token r.
             parseBearerChallenge (hp_WWWAuthenticate p) = Inr (realm, params) \<and>
             token_of realm q = Inr token \<and>
             tr = [(anonymous, RHttp p), (KHttp (http_get realm params (basic_auth cred)), RHttp q),
                   (KHttp (http_get url [] (BearerAuth token)), r)] \<and>
             x = http_answer r))))"

lemma runs_http_do [runs_simps]:
  "runs (http_do q) Q \<longleftrightarrow> (\<forall>r. Q [(KHttp q, r)] (http_answer r))"
  by (simp add: http_do_answer)

definition token_exchange ::
    "string \<Rightarrow> registry_credential option \<Rightarrow> ktrace \<Rightarrow> gerr + string \<Rightarrow> bool" where
  "token_exchange challenge cred tr x =
     ((tr = [] \<and> (\<exists>e. x = Inl e)) \<or>
      (\<exists>realm params. parseBearerChallenge challenge = Inr (realm, params) \<and>
         ((\<exists>r. tr = [(KHttp (http_get realm params (basic_auth cred)), r)] \<and> (\<exists>e. x = Inl e)) \<or>
          (\<exists>q token. tr = [(KHttp (http_get realm params (basic_auth cred)), RHttp q)] \<and>
             token_of realm q = Inr token \<and> x = Inr token))))"

lemma runs_fetchToken: "runs (fetchToken challenge cred) (token_exchange challenge cred)"
proof (cases "parseBearerChallenge challenge")
  case (Inl e)
  then show ?thesis by (simp add: fetchToken_def runs_simps token_exchange_def)
next
  case (Inr rp)
  obtain realm params where rp: "rp = (realm, params)" by (cases rp)
  let ?call = "KHttp (http_get realm params (basic_auth cred))"
  have "token_exchange challenge cred [(?call, r)] (Inl e)" for r e
    by (simp add: token_exchange_def Inr rp)
  moreover have "token_exchange challenge cred [(?call, RHttp q)] (token_of realm q)" for q
    by (cases "token_of realm q") (auto simp: token_exchange_def Inr rp)
  ultimately show ?thesis
    by (auto simp: fetchToken_def runs_simps Inr rp split: sum.split)
qed

lemma registry_protocol: "runs (registryGet url cred) (registry_exchange url cred)"
  unfolding registryGet_def
proof (rule runs_try_seq [where P = "\<lambda>tr x. \<exists>r. tr = [(KHttp (http_get url [] NoAuth), r)] \<and> x = http_answer r"],
    goal_cases)
  case 1
  show ?case by (simp add: runs_simps)
next
  case (2 t e)
  then obtain r where "t = [(KHttp (http_get url [] NoAuth), r)]" "http_answer r = Inl e" by auto
  then show ?case by (auto simp: registry_exchange_def Let_def)
next
  case (3 t p)
  then have t: "t = [(KHttp (http_get url [] NoAuth), RHttp p)]" by auto
  show ?case
  proof (cases "hp_Status p = 401 \<and> \<not> basic_challenge (hp_WWWAuthenticate p)")
    case False
    then show ?thesis
      by (cases cred)
         (auto simp: t registry_exchange_def basic_challenge_def Let_def runs_simps basic_auth_def)
  next
    case True
    then show ?thesis
      unfolding t basic_challenge_def Let_def
    proof (simp, rule_tac runs_seq [OF runs_fetchToken], goal_cases)
      case (1 t2 a)
      show ?case
      proof (cases a)
        case (Inl e)
        with 1 show ?thesis
          by (auto simp: token_exchange_def registry_exchange_def Let_def runs_simps)
      next
        case (Inr token)
        with 1 obtain realm params q where
          "parseBearerChallenge (hp_WWWAuthenticate p) = Inr (realm, params)"
          "t2 = [(KHttp (http_get realm params (basic_auth cred)), RHttp q)]"
          "token_of realm q = Inr token"
          by (auto simp: token_exchange_def)
        with 1 Inr show ?thesis
          by (auto simp: registry_exchange_def Let_def runs_simps)
      qed
    qed
  qed
qed

text \<open>C13: the first request to a registry is always anonymous; the configured
  credential is sent only after a 401, to the registry itself when it asks for Basic and otherwise
  only to the realm its challenge names; the token obtained there goes only to the registry; and
  there are at most three requests.\<close>

theorem registryGet_protocol: "runs (registryGet url cred) (registry_exchange url cred)"
  by (rule registry_protocol)

subsection \<open>The tags of a package\<close>

text \<open>
  The tags a listing answers: the registry named by the repository was asked for them over TLS,
  unless its host is declared insecure, it answered 200, and the answer's tags were sorted.
\<close>

definition tags_url :: "schema_config \<Rightarrow> string \<Rightarrow> string \<Rightarrow> string \<Rightarrow> string \<Rightarrow> string" where
  "tags_url G repo host path name =
     (if insecureOCIHost repo (sg_insecureRegistries G) then ''http'' else ''https'') @ ''://'' @ host @
     ''/v2/'' @ path @ ''/'' @ name @ ''/tags/list''"

definition tags_listed ::
    "schema_config \<Rightarrow> string \<Rightarrow> string \<Rightarrow> string list \<Rightarrow> ktrace \<Rightarrow> bool" where
  "tags_listed G repo name tags tr =
     (\<exists>host path cred t0 t1 p raw.
        repo = host @ ''/'' @ path \<and> path \<noteq> [] \<and> tr = t0 @ t1 \<and>
        exec (credentialFor G host) t0 (Inr cred) \<and>
        registry_exchange (tags_url G repo host path name) cred t1 (Inr p) \<and>
        hp_Status p = 200 \<and> tags_of p = Inr raw \<and> mset tags = mset raw \<and> sorted (rev tags))"

lemma runs_exec_self: "runs m (\<lambda>tr a. exec m tr a)"
  by (simp add: runs_iff)

lemma mset_sort_by [simp]: "mset (sort_by f xs) = mset xs"
  by (simp add: sort_by_def)

lemma sort_by_id_sorted: "sorted (sort_by (\<lambda>s. s) xs)"
  using sorted_sort_by [of "\<lambda>s. s" xs] by simp

lemma listed:
  "runs (listOCITags G repo name)
     (\<lambda>tr x. (\<exists>e. x = Inl e) \<or> (\<exists>tags. x = Inr tags \<and> tags_listed G repo name tags tr))"
proof -
  obtain host path found where cut: "str_cut repo ''/'' = (host, path, found)" by (cases "str_cut repo ''/''")
  show ?thesis
  proof (cases "found \<and> path \<noteq> []")
    case False
    then show ?thesis by (simp add: listOCITags_def cut)
  next
    case True
    with cut have repo: "repo = host @ ''/'' @ path" by (metis (full_types) str_cut_found)
    have url: "(if insecureOCIHost repo (sg_insecureRegistries G) then ''http'' else ''https'') @ ''://'' @
        host @ ''/v2/'' @ path @ ''/'' @ name @ ''/tags/list'' = tags_url G repo host path name"
      by (simp add: tags_url_def)
    from True show ?thesis
      unfolding listOCITags_def Let_def cut url prod.case
    proof (simp, rule_tac runs_try_seq [OF runs_exec_self], goal_cases)
      case (2 t0 cred)
      show ?case
      proof (rule runs_seq [OF registry_protocol], goal_cases)
        case (1 t1 x)
        show ?case
        proof (cases "\<exists>p raw. x = Inr p \<and> hp_Status p = 200 \<and> tags_of p = Inr raw")
          case True
          then obtain p raw where x: "x = Inr p" "hp_Status p = 200" "tags_of p = Inr raw" by blast
          have "tags_listed G repo name (rev (sort_by (\<lambda>t. t) raw)) (t0 @ t1)"
            unfolding tags_listed_def
            using repo 2 1 x \<open>found \<and> path \<noteq> []\<close> sort_by_id_sorted [of raw]
            by (intro exI [of _ host] exI [of _ path] exI [of _ cred] exI [of _ t0] exI [of _ t1]
                exI [of _ p] exI [of _ raw]) simp
          with x show ?thesis by simp
        next
          case False
          then show ?thesis by (auto split: sum.split)
        qed
      qed
    qed simp
  qed
qed

text \<open>A listing that succeeds answers exactly the tags of a 200 answer of the
  registry the repository names, in descending order; the registry is asked over TLS unless its host
  is declared insecure, with the credential the file holds for that host, under the exchange above.\<close>

lemma listOCITags_sorted:
  "runs (listOCITags G repo name)
     (\<lambda>tr x. (\<exists>e. x = Inl e) \<or> (\<exists>tags. x = Inr tags \<and> tags_listed G repo name tags tr))"
  by (rule listed)

subsection \<open>What the cache of documents is keyed by\<close>

lemma cached_schema_stores: "runs (cached_schema key) (\<lambda>tr x. \<forall>k e. KCacheStore k e \<notin> set (calls tr))"
  by (auto simp: cached_schema_def runs_simps split: option.split cache_entry.split)

lemma credentialFor_stores: "runs (credentialFor G host) (\<lambda>tr x. \<forall>k e. KCacheStore k e \<notin> set (calls tr))"
  by (auto simp: credentialFor_def registryCredentialFor_def)

definition stores_only :: "string \<Rightarrow> ktrace \<Rightarrow> gerr + goval gomap \<times> package_input list \<Rightarrow> bool" where
  "stores_only key tr x =
     (\<forall>k e. KCacheStore k e \<in> set (calls tr) \<longrightarrow>
        k = ''schema:'' @ key \<and> (\<exists>s i f. e = SchemaEntry s i f \<and> x = Inr (s, i)))"

lemma fetchAndCache_stores: "runs (fetchAndCache L G name tag repo key) (stores_only key)"
  unfolding fetchAndCache_def Let_def
proof (rule runs_seq [OF cached_schema_stores], goal_cases)
  case (1 t1 c)
  show ?case
  proof (cases c)
    case (Some e)
    with 1 show ?thesis by (simp add: stores_only_def)
  next
    case None
    with 1 show ?thesis
    proof (simp, rule_tac runs_try_seq [OF credentialFor_stores], goal_cases)
      case (1 t2 e)
      then show ?case by (simp add: stores_only_def)
    next
      case (2 t2 cred)
      then show ?case
        by (auto simp: fetchGroomedDoc_def stores_only_def runs_simps split: sum.split)
    qed
  qed
qed

lemma load_stores: "runs (load L G name tag repo) (stores_only (cache_key name tag))"
  unfolding load_def Let_def
proof (rule runs_seq [OF cached_schema_stores], goal_cases)
  case (1 t1 c)
  show ?case
  proof (cases c)
    case (Some e)
    with 1 show ?thesis by (simp add: stores_only_def)
  next
    case None
    with 1 show ?thesis
      by simp (rule runs_mono [OF fetchAndCache_stores], auto simp: stores_only_def)
  qed
qed

text \<open>A document fetched and cached for a service and tag from one
  repository is answered, while it is fresh, to a request for the same service and tag in any other
  repository, without any call to a registry: the key of the cache leaves the repository out.\<close>

theorem schema_cache_ignores_repository:
  assumes "exec (load L G name tag repo) tr x"
    and "KCacheStore k (SchemaEntry schema inputs fetched) \<in> set (calls tr)"
    and "now - fetched < cacheTTL"
  shows "x = Inr (schema, inputs) \<and>
    exec (load L G name tag other)
      [(KCacheLoad k, RCached (Some (SchemaEntry schema inputs fetched))), (KNow, RTime now)] x"
proof -
  from runsD [OF load_stores assms(1)] assms(2)
  have "k = ''schema:'' @ cache_key name tag" "x = Inr (schema, inputs)"
    by (auto simp: stores_only_def)
  with assms(3) show ?thesis
    by (simp add: load_def cached_schema_def replay_exec Let_def)
qed

definition sample_package :: "goval gomap" where
  "sample_package = [(''schema'', GObj [(''parameters'', GObj [(''type'', GStr ''object'')])])]"

definition anonymous_config :: schema_config where
  "anonymous_config = \<lparr>sg_insecureRegistries = [], sg_registryAuthFile = []\<rparr>"

lemma load_sample:
  "replay (load lenient_lib anonymous_config ''trino'' ''1.0'' ''quay.io/a'')
     [RCached None, RCached None, RDoc (GObj sample_package), RTime 0, ROk] =
   Some ([(KCacheLoad ''schema:trino:1.0'', RCached None), (KCacheLoad ''schema:trino:1.0'', RCached None),
          (KDump ''oci://quay.io/a/trino:1.0'' False [], RDoc (GObj sample_package)), (KNow, RTime 0),
          (KCacheStore ''schema:trino:1.0'' (SchemaEntry [(''type'', GStr ''object'')] [] 0), ROk)],
      Inr ([(''type'', GStr ''object'')], []))"
  by (simp add: load_def cached_schema_def fetchAndCache_def credentialFor_def anonymous_config_def
      fetchGroomedDoc_def sample_package_def parametersOf_def parseTitleMetadata_def inputsFromMarkers_def
      inputsOf_def insecureOCIHost_def cache_key_def Let_def)

theorem schema_cache_ignores_repository_witness:
  "\<exists>tr k. exec (load lenient_lib anonymous_config ''trino'' ''1.0'' ''quay.io/a'') tr
       (Inr ([(''type'', GStr ''object'')], [])) \<and>
     exec (load lenient_lib anonymous_config ''trino'' ''1.0'' ''ghcr.io/b'')
       [(KCacheLoad k, RCached (Some (SchemaEntry [(''type'', GStr ''object'')] [] 0))), (KNow, RTime 60)]
       (Inr ([(''type'', GStr ''object'')], []))"
  using schema_cache_ignores_repository [OF replay_Some [OF load_sample],
      of "''schema:trino:1.0''" "[(''type'', GStr ''object'')]" "[]" 0 60 "''ghcr.io/b''"]
    replay_Some [OF load_sample]
  by (auto simp: cacheTTL_def)

end
