(* ===== verification/Releases.thy ===== *)
theory Releases
  imports Connection_Repository Context_Repository
begin

text \<open>
  The releases behind the deployed services: their repository
  (\<^verbatim>\<open>internal/repository/service_repository.go\<close>), and the conversions to the instances the API
  answers (\<^verbatim>\<open>releaseToInstance\<close>, \<^verbatim>\<open>boundConnections\<close> of \<^verbatim>\<open>internal/service/service_service.go\<close>, and
  \<^verbatim>\<open>internal/models/mapper.go\<close> for the watched objects).
\<close>

definition label_selector :: "string \<Rightarrow> string" where
  "label_selector project = LabelProject @ ''='' @ project"

definition ServiceRepository_Create :: "string \<Rightarrow> release \<Rightarrow> (gerr + unit) kprog" where
  "ServiceRepository_Create ns r = call_unit (KCreate GetReleaseGVR ns (ORelease r))"

definition ServiceRepository_Get :: "string \<Rightarrow> string \<Rightarrow> (gerr + release) kprog" where
  "ServiceRepository_Get ns name =
     try_bind (call_obj (KGet GetReleaseGVR ns name)) (\<lambda>u. Ret (from_unstructured is_release u))"

text \<open>An item the converter rejects is logged and skipped.\<close>

definition ServiceRepository_List :: "string \<times> string \<Rightarrow> (gerr + release list) kprog" where
  "ServiceRepository_List l =
     try_bind (call_items (KList GetReleaseGVR (fst l) (label_selector (snd l))))
       (\<lambda>items. Ret (Inr (keep_some is_release items)))"

definition ServiceRepository_Delete :: "string \<Rightarrow> string \<Rightarrow> (gerr + unit) kprog" where
  "ServiceRepository_Delete ns name = call_unit (KDelete GetReleaseGVR ns name)"

definition ServiceRepository_Update :: "string \<Rightarrow> release \<Rightarrow> (gerr + unit) kprog" where
  "ServiceRepository_Update ns r =
     try_bind (call_obj (KGet GetReleaseGVR ns (md_Name (re_Meta r)))) (\<lambda>existing.
       call_unit (KUpdate GetReleaseGVR ns
         (ORelease (r\<lparr>re_Meta := (re_Meta r)\<lparr>md_ResourceVersion := resource_version existing\<rparr>\<rparr>))))"

definition ServiceRepository_Watch :: "string \<Rightarrow> string \<Rightarrow> (gerr + unit) kprog" where
  "ServiceRepository_Watch ns project = call_unit (KWatch GetReleaseGVR ns (label_selector project))"

lemmas release_repo_defs = ServiceRepository_Create_def ServiceRepository_Get_def ServiceRepository_List_def
  ServiceRepository_Delete_def ServiceRepository_Update_def

interpretation releases: object_repository "\<lambda>_. GetReleaseGVR"
  "\<lambda>r y. \<exists>r'. y = ORelease r' \<and> re_Spec r' = re_Spec r \<and> md_Name (re_Meta r') = md_Name (re_Meta r) \<and>
     md_Labels (re_Meta r') = md_Labels (re_Meta r)"
  ServiceRepository_Get ServiceRepository_List ServiceRepository_Create
  ServiceRepository_Update ServiceRepository_Delete
proof
qed (auto simp: release_repo_defs runs_simps split: sum.split)

subsection \<open>Instances\<close>

record service_connection =
  sn_Name :: string
  sn_Namespace :: string
  sn_Kind :: string
  sn_Resolved :: bool

record service_instance =
  si_Name :: string
  si_ReleaseName :: string
  si_Service :: string
  si_ServiceTag :: string
  si_Status :: string
  si_StatusMessage :: string
  si_TargetNamespace :: string
  si_URL :: string
  si_Roles :: "string list"
  si_Parameters :: "goval gomap option"
  si_Connections :: "service_connection list"
  si_CreatedAt :: string

definition MapPhaseToStatus :: "string \<Rightarrow> string" where
  "MapPhaseToStatus phase =
     (if phase = ''READY'' then ''Ready''
      else if phase = ''ERROR'' \<or> phase = ''FAILED'' then ''Error''
      else if phase = ''UPGRADING'' then ''Updating''
      else ''Installing'')"

text \<open>The candidates gathered so far, by name, and the order they were first seen in.\<close>

definition remember ::
    "bool \<Rightarrow> input_ref \<Rightarrow> service_connection gomap \<times> string list \<Rightarrow> service_connection gomap \<times> string list" where
  "remember resolved ref st =
     (case st of (byName, order) \<Rightarrow>
        let current = mget byName (ir_Name ref);
            order' = (if current = None then order @ [ir_Name ref] else order);
            entry = \<lparr>sn_Name = ir_Name ref, sn_Namespace = ir_Namespace ref, sn_Kind = ir_Kind ref,
                     sn_Resolved = resolved\<rparr>
        in case current of
             Some c \<Rightarrow> if sn_Resolved c then (byName, order') else (mput (ir_Name ref) entry byName, order')
           | None \<Rightarrow> (mput (ir_Name ref) entry byName, order'))"

definition boundConnections :: "release \<Rightarrow> service_connection list" where
  "boundConnections r =
     (let st1 = foldl (\<lambda>st ref. remember True ref st) ([], []) (rt_EffectiveInputConnections (re_Status r));
          (byName, order) = foldl (\<lambda>st ref. remember False ref st) st1
                              (rt_WatchedInputConnections (re_Status r))
      in map (\<lambda>name. the (mget byName name)) (sort_by (\<lambda>n. n) order))"

definition releaseToInstance :: "release \<Rightarrow> service_instance" where
  "releaseToInstance r =
     (let serviceName = label_of (re_Meta r) LabelService;
          instanceName = label_of (re_Meta r) LabelInstanceName
      in \<lparr>si_Name = (if instanceName = [] then serviceName else instanceName),
          si_ReleaseName = md_Name (re_Meta r), si_Service = serviceName,
          si_ServiceTag = rp_Tag (rs_Package (re_Spec r)),
          si_Status = MapPhaseToStatus (rt_Phase (re_Status r)), si_StatusMessage = [],
          si_TargetNamespace = rs_TargetNamespace (re_Spec r), si_URL = [],
          si_Roles = rt_Roles (re_Status r), si_Parameters = rs_Parameters (re_Spec r),
          si_Connections = boundConnections r,
          si_CreatedAt = (case md_CreationTimestamp (re_Meta r) of None \<Rightarrow> [] | Some t \<Rightarrow> t)\<rparr>)"

text \<open>
  The watched object. A slice of strings is decoded as one: another element makes it unreadable.
\<close>

definition nested_strings :: "uobj \<Rightarrow> string list \<Rightarrow> string list" where
  "nested_strings u p =
     (case u_NestedSlice u p of
        Inr (Some xs) \<Rightarrow> (if list_all (\<lambda>v. as_str v \<noteq> None) xs then keep_some as_str xs else [])
      | _ \<Rightarrow> [])"

definition FromUnstructuredToServiceInstance :: "uobj \<Rightarrow> service_instance" where
  "FromUnstructuredToServiceInstance u =
     (let serviceName = mstr (u_Labels u) ''okdp.io/service'';
          instanceName = mstr (u_Labels u) ''okdp.io/instance-name''
      in \<lparr>si_Name = (if instanceName = [] then serviceName else instanceName),
          si_ReleaseName = u_Name u, si_Service = serviceName,
          si_ServiceTag = u_NestedString u [''spec'', ''package'', ''tag''],
          si_Status = MapPhaseToStatus (u_NestedString u [''status'', ''phase'']), si_StatusMessage = [],
          si_TargetNamespace = u_NestedString u [''spec'', ''targetNamespace''], si_URL = [],
          si_Roles = nested_strings u [''status'', ''roles''],
          si_Parameters = Some (case u_NestedMap u [''spec'', ''parameters''] of
                                  Inr (Some m) \<Rightarrow> m | _ \<Rightarrow> []),
          si_Connections = [],
          si_CreatedAt = (case u_CreatedAt u of None \<Rightarrow> [] | Some (t, _) \<Rightarrow> t)\<rparr>)"

end
