(* ===== verification/Provisioning.thy ===== *)
theory Provisioning
  imports Registry
begin

text \<open>
  Provisioning of OIDC clients (\<^verbatim>\<open>internal/repository/provisioning\<close>): the backends behind one
  interface and the selection of a backend from the Context. The kubauth backend deletes a custom
  resource; the Keycloak backend talks to the admin API with a token of its own.
\<close>

record oidc_client_spec =
  oc_Name :: string
  oc_RedirectURIs :: "string list"

record oidc_provisioner =
  op_EnsureClient :: "oidc_client_spec \<Rightarrow> (gerr + unit) kprog"
  op_DeleteClient :: "string \<Rightarrow> (gerr + unit) kprog"

definition noneProvisioner :: oidc_provisioner where
  "noneProvisioner = \<lparr>op_EnsureClient = (\<lambda>spec. Ret (Inr ())), op_DeleteClient = (\<lambda>name. Ret (Inr ()))\<rparr>"

subsection \<open>The kubauth backend\<close>

definition oidcClientGVR :: gvr where
  "oidcClientGVR = (''kubauth.kubotal.io'', ''v1alpha1'', ''oidcclients'')"

definition ErrUnsupported :: string where "ErrUnsupported = ''unsupported operation''"

definition kubauth_DeleteClient :: "string \<Rightarrow> (gerr + unit) kprog" where
  "kubauth_DeleteClient name =
     prog_bind GetKubauthNamespace (\<lambda>r. case r of
         Inl e \<Rightarrow> Ret (Inl (Wrapf ''resolving kubauth namespace: %w'' [] e))
       | Inr ns \<Rightarrow> call_unit (KDelete oidcClientGVR ns name))"

definition kubauthProvisioner :: oidc_provisioner where
  "kubauthProvisioner =
     \<lparr>op_EnsureClient = (\<lambda>spec. Ret (Inl (Sentinel ErrUnsupported))),
      op_DeleteClient = kubauth_DeleteClient\<rparr>"

subsection \<open>The Keycloak backend\<close>

definition secretGVR :: gvr where "secretGVR = ('''', ''v1'', ''secrets'')"

definition decodeSecretKey :: "string gomap \<Rightarrow> string \<Rightarrow> gerr + string" where
  "decodeSecretKey data key =
     (case mget data key of
        None \<Rightarrow> Inl (Errorf ''missing key %q'' [FStr key])
      | Some raw \<Rightarrow>
          (case b64_decode raw of
             None \<Rightarrow> Inl (Wrapf ''decoding key %q: %w'' [FStr key] (Errorf ''illegal base64 data'' []))
           | Some decoded \<Rightarrow> Inr decoded))"

definition readSecretCredentials :: "keycloak_secret_ref \<Rightarrow> (gerr + string \<times> string) kprog" where
  "readSecretCredentials ref =
     (let place = [FStr (ks_Namespace ref), FStr (ks_Name ref)];
          bad = (\<lambda>e. Inl (Wrapf ''secret %s/%s: %w'' place e)) in
      prog_bind (call_obj (KGet secretGVR (ks_Namespace ref) (ks_Name ref))) (\<lambda>a.
        case sum_bind a (from_unstructured is_raw) of
          Inl e \<Rightarrow> Ret (Inl (Wrapf ''reading credentials secret %s/%s: %w'' place e))
        | Inr u \<Rightarrow>
            let data = (case u_NestedStringMap u [''data''] of None \<Rightarrow> [] | Some d \<Rightarrow> d) in
            Ret (case decodeSecretKey data (ks_ClientIDKey ref) of
                Inl e \<Rightarrow> bad e
              | Inr cid \<Rightarrow> (case decodeSecretKey data (ks_ClientSecretKey ref) of
                    Inl e \<Rightarrow> bad e | Inr csec \<Rightarrow> Inr (cid, csec)))))"

definition adminBaseURL :: "string \<Rightarrow> gerr + string" where
  "adminBaseURL issuer =
     (case str_cut issuer ''/realms/'' of (base, realm, found) \<Rightarrow>
        if \<not> found \<or> realm = [] then
          Inl (Errorf ''keycloak issuerUri %q does not match .../realms/{realm}'' [FStr issuer])
        else Inr (base @ ''/admin/realms/'' @ realm))"

record keycloak_session =
  kz_AdminBase :: string
  kz_Token :: string
  kz_SkipVerify :: bool

definition token_request :: "keycloak_config \<Rightarrow> string \<Rightarrow> string \<Rightarrow> http_req" where
  "token_request cfg cid csec =
     \<lparr>hq_Method = ''POST'', hq_URL = kc_IssuerURI cfg @ ''/protocol/openid-connect/token'',
      hq_Query = [], hq_Auth = NoAuth,
      hq_Payload = Some (GObj [(''grant_type'', GStr ''client_credentials''), (''client_id'', GStr cid),
                               (''client_secret'', GStr csec)]),
      hq_SkipVerify = kc_InsecureSkipTLSVerify cfg\<rparr>"

definition access_token_of :: "http_resp \<Rightarrow> gerr + string" where
  "access_token_of resp =
     (if hp_Status resp \<noteq> 200 then
        Inl (Errorf ''keycloak token endpoint returned %d: %s'' [FInt (int (hp_Status resp))])
      else case (case hp_JSON resp of
                   Some (GObj m) \<Rightarrow> json_string m ''access_token''
                 | Some GNil \<Rightarrow> Inr []
                 | _ \<Rightarrow> Inl (Errorf ''cannot unmarshal'' [])) of
          Inl e \<Rightarrow> Inl (Wrapf ''decoding keycloak token response: %w'' [] e)
        | Inr token \<Rightarrow> Inr token)"

definition connect :: "(gerr + keycloak_config \<times> keycloak_session) kprog" where
  "connect =
     try_bind GetKeycloakProvisioningConfig (\<lambda>cfg.
       try_pure (adminBaseURL (kc_IssuerURI cfg)) (\<lambda>adminBase.
       try_bind (readSecretCredentials (kc_CredentialsSecret cfg)) (\<lambda>(cid, csec).
       prog_bind (http_do (token_request cfg cid csec)) (\<lambda>r. case r of
           Inl e \<Rightarrow> Ret (Inl (Wrapf ''requesting keycloak admin token: %w'' [] e))
         | Inr resp \<Rightarrow>
             Ret (case access_token_of resp of
                 Inl e \<Rightarrow> Inl e
               | Inr token \<Rightarrow>
                   Inr (cfg, \<lparr>kz_AdminBase = adminBase, kz_Token = token,
                              kz_SkipVerify = kc_InsecureSkipTLSVerify cfg\<rparr>))))))"

definition session_request ::
    "keycloak_session \<Rightarrow> string \<Rightarrow> string \<Rightarrow> string gomap \<Rightarrow> goval option \<Rightarrow> http_req" where
  "session_request s method url query payload =
     \<lparr>hq_Method = method, hq_URL = url, hq_Query = query, hq_Auth = BearerAuth (kz_Token s),
      hq_Payload = payload, hq_SkipVerify = kz_SkipVerify s\<rparr>"

fun client_maps :: "goval list \<Rightarrow> (goval gomap list) option" where
  "client_maps [] = Some []"
| "client_maps (v # vs) =
     (case v of
        GObj m \<Rightarrow> map_option ((#) m) (client_maps vs)
      | GNil \<Rightarrow> map_option ((#) []) (client_maps vs)
      | _ \<Rightarrow> None)"

definition clients_of :: "http_resp \<Rightarrow> gerr + goval gomap list" where
  "clients_of resp =
     (if hp_Status resp \<noteq> 200 then
        Inl (Errorf ''keycloak clients lookup returned %d: %s'' [FInt (int (hp_Status resp))])
      else case (case hp_JSON resp of
                   Some (GArr vs) \<Rightarrow> client_maps vs | Some GNil \<Rightarrow> Some [] | _ \<Rightarrow> None) of
          None \<Rightarrow> Inl (Wrapf ''decoding keycloak clients response: %w'' []
                        (Errorf ''cannot unmarshal'' []))
        | Some clients \<Rightarrow> Inr clients)"

definition findClient :: "keycloak_session \<Rightarrow> string \<Rightarrow> (gerr + goval gomap option) kprog" where
  "findClient s clientID =
     prog_bind (http_do (session_request s ''GET'' (kz_AdminBase s @ ''/clients'')
         [(''clientId'', clientID)] None)) (\<lambda>r. case r of
         Inl e \<Rightarrow> Ret (Inl (Wrapf ''looking up keycloak client %q: %w'' [FStr clientID] e))
       | Inr resp \<Rightarrow>
           Ret (case clients_of resp of
               Inl e \<Rightarrow> Inl e
             | Inr clients \<Rightarrow> Inr (find (\<lambda>c. str_at c ''clientId'' = clientID) clients)))"

definition session_do ::
    "keycloak_session \<Rightarrow> string \<Rightarrow> string \<Rightarrow> goval option \<Rightarrow> nat \<Rightarrow> (gerr + unit) kprog" where
  "session_do s method url payload expected =
     prog_bind (http_do (session_request s method url [] payload)) (\<lambda>r. case r of
         Inl e \<Rightarrow> Ret (Inl (Wrapf ''%s %s: %w'' [FStr method, FStr url] e))
       | Inr resp \<Rightarrow>
           if hp_Status resp \<noteq> expected then
             Ret (Inl (Errorf ''%s %s returned %d (expected %d): %s''
                         [FStr method, FStr url, FInt (int (hp_Status resp)), FInt (int expected)]))
           else Ret (Inr ()))"

definition new_client :: "oidc_client_spec \<Rightarrow> goval gomap" where
  "new_client spec =
     [(''clientId'', GStr (oc_Name spec)), (''enabled'', GBool True),
      (''protocol'', GStr ''openid-connect''), (''redirectUris'', GArr (map GStr (oc_RedirectURIs spec)))]"

definition keycloak_EnsureClient :: "oidc_client_spec \<Rightarrow> (gerr + unit) kprog" where
  "keycloak_EnsureClient spec =
     try_bind connect (\<lambda>(cfg, session).
       try_bind (findClient session (oc_Name spec)) (\<lambda>existing. case existing of
           None \<Rightarrow> session_do session ''POST'' (kz_AdminBase session @ ''/clients'')
                    (Some (GObj (new_client spec))) 201
         | Some c \<Rightarrow>
             let c' = mput ''redirectUris'' (GArr (map GStr (oc_RedirectURIs spec))) c;
                 uuid = str_at c' ''id'' in
             if uuid = [] then
               Ret (Inl (Errorf ''keycloak client %q has no id in its representation (issuer %s)''
                           [FStr (oc_Name spec), FStr (kc_IssuerURI cfg)]))
             else session_do session ''PUT'' (kz_AdminBase session @ ''/clients/'' @ uuid)
                    (Some (GObj c')) 204))"

definition keycloak_DeleteClient :: "string \<Rightarrow> (gerr + unit) kprog" where
  "keycloak_DeleteClient name =
     try_bind connect (\<lambda>(cfg, session).
       try_bind (findClient session name) (\<lambda>existing. case existing of
           None \<Rightarrow> Ret (Inr ())
         | Some c \<Rightarrow> session_do session ''DELETE''
                      (kz_AdminBase session @ ''/clients/'' @ str_at c ''id'') None 204))"

definition keycloakProvisioner :: oidc_provisioner where
  "keycloakProvisioner =
     \<lparr>op_EnsureClient = keycloak_EnsureClient, op_DeleteClient = keycloak_DeleteClient\<rparr>"

subsection \<open>Selection\<close>

definition resolve :: "(gerr + oidc_provisioner) kprog" where
  "resolve =
     try_bind GetIdentityProvisioningProvider (\<lambda>provider.
       Ret (if provider = [] \<or> provider = ProviderNone then Inr noneProvisioner
            else if provider = ProviderKubauth then Inr kubauthProvisioner
            else if provider = ProviderKeycloak then Inr keycloakProvisioner
            else Inl (Errorf ''identity.provisioning.provider %q is not supported'' [FStr provider])))"

definition contextSelector :: oidc_provisioner where
  "contextSelector =
     \<lparr>op_EnsureClient = (\<lambda>spec. try_bind resolve (\<lambda>p. op_EnsureClient p spec)),
      op_DeleteClient = (\<lambda>name. try_bind resolve (\<lambda>p. op_DeleteClient p name))\<rparr>"

end
