(* ===== verification/Services.thy ===== *)
theory Services
  imports Releases Service_Catalog Provisioning "HOL-Library.Word"
begin

text \<open>
  Deployed services (\<^verbatim>\<open>internal/service/service_service.go\<close>): deployment, parameters, deletion with
  the clean-up of what a release leaves behind, the address and the health of an instance, its pods.
  Usage metrics are in a theory of their own.
\<close>

record service_request =
  sq_Service :: string
  sq_Tag :: string
  sq_InstanceName :: string
  sq_Parameters :: "goval gomap option"

record service_update_request =
  sw_Tag :: string
  sw_Parameters :: "goval gomap option"

definition releaseName_of :: "string \<Rightarrow> string \<Rightarrow> string" where
  "releaseName_of project name = project @ ''-'' @ name"

subsection \<open>Parameters\<close>

definition resolvePlatformService :: "string \<Rightarrow> (gerr + platform_service) kprog" where
  "resolvePlatformService name =
     prog_bind ContextRepository_GetPlatformServices (\<lambda>r. case r of
         Inl e \<Rightarrow> Ret (Inl (Wrapf ''failed to read platform services: %w'' [] e))
       | Inr services \<Rightarrow>
           (case find (\<lambda>s. pv_Name s = name) services of
              Some s \<Rightarrow> Ret (Inr s)
            | None \<Rightarrow> Ret (Inl (Errorf ''service %q is not available in the platform'' [FStr name]))))"

text \<open>A schema that does not compile is skipped with a warning.\<close>

definition validateParameters ::
    "extlib \<Rightarrow> service_config \<Rightarrow> string \<Rightarrow> string \<Rightarrow> goval gomap option \<Rightarrow> (gerr + unit) kprog" where
  "validateParameters L C serviceName tag params =
     (case sv_schema C of
        None \<Rightarrow> Ret (Inr ())
      | Some S \<Rightarrow>
          prog_bind (ps_GetParameterSchema S serviceName tag) (\<lambda>r. case r of
              Inl e \<Rightarrow> Ret (Inl (Wrapf ''could not fetch schema for %s@%s: %w''
                                  [FStr serviceName, FStr tag] e))
            | Inr schema \<Rightarrow>
                Ret (case jsonschema_Compile L schema of
                    None \<Rightarrow> Inr ()
                  | Some validate \<Rightarrow>
                      (case validate params of
                         Inl e \<Rightarrow> Inl (Wrapf ''invalid parameters: %w'' [] e)
                       | Inr _ \<Rightarrow> Inr ()))))"

subsection \<open>Deployment\<close>

definition new_release ::
    "service_config \<Rightarrow> string \<Rightarrow> service_request \<Rightarrow> string \<Rightarrow> string \<Rightarrow> release" where
  "new_release C project req deployTag packageRepo =
     (let instanceName = (if sq_InstanceName req = [] then sq_Service req else sq_InstanceName req)
      in \<lparr>re_APIVersion = ReleaseAPIVersion, re_Kind = ReleaseKind,
          re_Meta = object_meta0\<lparr>md_Name := releaseName_of project instanceName, md_Namespace := project,
            md_Labels := [(LabelProject, project), (LabelService, sq_Service req),
                          (LabelInstanceName, instanceName)]\<rparr>,
          re_Spec = \<lparr>rs_Description = sq_Service req @ '' for project '' @ project,
            rs_Package = \<lparr>rp_Repository = packageRepo @ ''/'' @ sq_Service req, rp_Tag = deployTag,
              rp_Interval = sv_releaseInterval C, rp_Timeout = sv_releaseTimeout C,
              rp_Insecure = insecureOCIHost packageRepo (sv_insecureRegistries C)\<rparr>,
            rs_Parameters = sq_Parameters req, rs_Contexts = [], rs_TargetNamespace = project,
            rs_CreateNamespace = False\<rparr>,
          re_Status = release_status0\<rparr>)"

definition DeployService ::
    "extlib \<Rightarrow> service_config \<Rightarrow> string \<Rightarrow> service_request \<Rightarrow> (gerr + service_instance) kprog" where
  "DeployService L C project req =
     (if sq_Service req = [] then Ret (Inl (Errorf ''service name is required'' []))
      else try_bind (resolvePlatformService (sq_Service req)) (\<lambda>svc.
        let deployTag = (if sq_Tag req = [] then pv_DefaultVersion svc else sq_Tag req) in
        prog_bind (validateParameters L C (sq_Service req) deployTag (sq_Parameters req)) (\<lambda>v. case v of
            Inl e \<Rightarrow> Ret (Inl (Wrapf ''parameter validation failed: %w'' [] e))
          | Inr _ \<Rightarrow>
        prog_bind GetPackageRepository (\<lambda>p. case p of
            Inl e \<Rightarrow> Ret (Inl (Wrapf ''failed to resolve package repository: %w'' [] e))
          | Inr defaultRepo \<Rightarrow>
              let packageRepo = (if pv_Repository svc \<noteq> [] then pv_Repository svc else defaultRepo) in
        prog_bind GetIngressSuffix (\<lambda>s. case s of
            Inl e \<Rightarrow> Ret (Inl (Wrapf ''failed to resolve ingress suffix: %w'' [] e))
          | Inr suffix \<Rightarrow>
              let release = new_release C project req deployTag packageRepo in
              try_bind (ServiceRepository_Create project release) (\<lambda>_.
                Ret (Inr ((releaseToInstance release)
                       \<lparr>si_URL := ''https://'' @ md_Name (re_Meta release) @ ''.'' @ suffix\<rparr>)))))))) "

subsection \<open>The Helm releases of an instance\<close>

definition releaseInstanceNames :: "string \<Rightarrow> string \<Rightarrow> (gerr + string list) kprog" where
  "releaseInstanceNames project releaseName =
     prog_bind (ServiceRepository_Get project releaseName) (\<lambda>r. case r of
         Inl e \<Rightarrow> Ret (Inl (Wrapf ''failed to get release: %w'' [] e))
       | Inr release \<Rightarrow>
     prog_bind (call_items (KList GetHelmReleaseGVR project [])) (\<lambda>h. case h of
         Inl e \<Rightarrow> Ret (Inl (Wrapf ''failed to list helm releases: %w'' [] e))
       | Inr items \<Rightarrow>
           let names = map u_Name (filter (\<lambda>hr. md_UID (re_Meta release) \<in> set (u_OwnerUIDs hr))
                                     (keep_some is_raw items)) in
           if names = [] then
             Ret (Inl (Errorf ''no helm release owned by %s'' [FStr releaseName]))
           else Ret (Inr names)))"

definition releaseInstanceSelector :: "string \<Rightarrow> string \<Rightarrow> (gerr + string) kprog" where
  "releaseInstanceSelector project releaseName =
     try_bind (releaseInstanceNames project releaseName) (\<lambda>names.
       Ret (Inr (''app.kubernetes.io/instance in ('' @ str_join names '','' @ '')'')))"

definition matchesInstance :: "string \<Rightarrow> string list \<Rightarrow> bool" where
  "matchesInstance name instanceNames =
     (\<exists>n\<in>set instanceNames. name = n \<or> has_prefix name (n @ ''-''))"

subsection \<open>The address of an instance\<close>

definition roleHost :: "string \<Rightarrow> string \<Rightarrow> string option" where
  "roleHost role ns =
     (if role = ''storage'' then Some (''storage-'' @ ns)
      else if role = ''spark'' then Some (''spark-web-proxy-'' @ ns)
      else None)"

definition candidateHosts :: "service_instance \<Rightarrow> string \<Rightarrow> string list" where
  "candidateHosts i suffix =
     (let host = (\<lambda>n. n @ ''.'' @ suffix); ns = si_TargetNamespace i;
          conventional = (\<lambda>n. [host (n @ ''-console-'' @ ns), host (n @ ''-'' @ ns)])
      in [host (si_ReleaseName i)] @
         keep_some (\<lambda>role. map_option host (roleHost role ns)) (si_Roles i) @
         (if si_Name i \<noteq> [] \<and> si_Name i \<noteq> si_Service i then conventional (si_Name i) else []) @
         (if si_Service i \<noteq> [] then conventional (si_Service i) else []))"

definition ingress_rule_host :: "goval \<Rightarrow> string option" where
  "ingress_rule_host r =
     (case r of
        GObj rm \<Rightarrow> (case mget rm ''host'' of Some (GStr h) \<Rightarrow> (if h \<noteq> [] then Some h else None) | _ \<Rightarrow> None)
      | _ \<Rightarrow> None)"

definition add_ingress :: "string gomap \<Rightarrow> uobj \<Rightarrow> string gomap" where
  "add_ingress hosts item =
     (let owner = mstr (u_Labels item) ''helm.toolkit.fluxcd.io/name'' in
      if owner = [] then hosts
      else foldl (\<lambda>m h. mput h owner m) hosts
             (keep_some ingress_rule_host (nested_slice item [''spec'', ''rules''])))"

definition ingressHostsFromItems :: "uobj list \<Rightarrow> string gomap" where
  "ingressHostsFromItems items = foldl add_ingress [] items"

definition IngressGVR :: gvr where "IngressGVR = (''networking.k8s.io'', ''v1'', ''ingresses'')"

definition namespaceIngressHosts :: "string \<Rightarrow> string gomap kprog" where
  "namespaceIngressHosts ns =
     prog_bind (call_items (KList IngressGVR ns [])) (\<lambda>r. Ret (case r of
         Inl e \<Rightarrow> []
       | Inr items \<Rightarrow> ingressHostsFromItems (keep_some is_raw items)))"

text \<open>The first candidate an Ingress of one of the instance's own Helm releases serves.\<close>

definition exposed_host :: "string gomap \<Rightarrow> string list \<Rightarrow> string list \<Rightarrow> string option" where
  "exposed_host hosts names cands =
     find (\<lambda>h. case mget hosts h of Some owner \<Rightarrow> owner \<in> set names | None \<Rightarrow> False) cands"

definition with_url :: "service_instance \<Rightarrow> string option \<Rightarrow> service_instance" where
  "with_url i h = (case h of None \<Rightarrow> i | Some host \<Rightarrow> i\<lparr>si_URL := ''https://'' @ host\<rparr>)"

definition setURLIfExposed :: "service_instance \<Rightarrow> service_instance kprog" where
  "setURLIfExposed i =
     prog_bind GetIngressSuffix (\<lambda>s. case s of
         Inl _ \<Rightarrow> Ret i
       | Inr suffix \<Rightarrow>
           if si_TargetNamespace i = [] then Ret i
           else prog_bind (releaseInstanceNames (si_TargetNamespace i) (si_ReleaseName i)) (\<lambda>n. case n of
               Inl _ \<Rightarrow> Ret i
             | Inr names \<Rightarrow>
                 prog_bind (namespaceIngressHosts (si_TargetNamespace i)) (\<lambda>hosts.
                   Ret (with_url i (exposed_host hosts names (candidateHosts i suffix))))))"

text \<open>The same for a list, loading the Ingresses of a namespace once.\<close>

fun enrich_urls ::
    "string \<Rightarrow> string gomap gomap \<Rightarrow> service_instance list \<Rightarrow> service_instance list kprog" where
  "enrich_urls suffix hostsByNS [] = Ret []"
| "enrich_urls suffix hostsByNS (i # is) =
     (if si_TargetNamespace i = [] then
        prog_bind (enrich_urls suffix hostsByNS is) (\<lambda>rest. Ret (i # rest))
      else let ns = si_TargetNamespace i in
        prog_bind (case mget hostsByNS ns of Some hosts \<Rightarrow> Ret hosts | None \<Rightarrow> namespaceIngressHosts ns)
          (\<lambda>hosts.
            prog_bind (releaseInstanceNames ns (si_ReleaseName i)) (\<lambda>n.
              let i' = (case n of Inl _ \<Rightarrow> i
                        | Inr names \<Rightarrow> with_url i (exposed_host hosts names (candidateHosts i suffix)))
              in prog_bind (enrich_urls suffix (mput ns hosts hostsByNS) is) (\<lambda>rest. Ret (i' # rest)))))"

definition enrichWithURL :: "service_instance list \<Rightarrow> service_instance list kprog" where
  "enrichWithURL instances =
     prog_bind GetIngressSuffix (\<lambda>s. case s of
         Inl _ \<Rightarrow> Ret instances
       | Inr suffix \<Rightarrow> enrich_urls suffix [] instances)"

subsection \<open>The health of an instance\<close>

definition PodGVR :: gvr where "PodGVR = ('''', ''v1'', ''pods'')"

definition isInfraSidecar :: "service_config \<Rightarrow> string \<Rightarrow> bool" where
  "isInfraSidecar C containerName = (\<exists>p\<in>set (sv_sidecarPrefixes C). has_prefix containerName p)"

definition failing_reasons :: "string list" where
  "failing_reasons = [''CrashLoopBackOff'', ''Error'', ''ImagePullBackOff'', ''ErrImagePull'']"

text \<open>A container status that turns a ready release into an error.\<close>

definition failing_container :: "service_config \<Rightarrow> goval \<Rightarrow> bool" where
  "failing_container C cs =
     (case cs of
        GObj m \<Rightarrow>
          \<not> (case mget m ''name'' of Some (GStr name) \<Rightarrow> isInfraSidecar C name | _ \<Rightarrow> False) \<and>
          mget m ''ready'' \<noteq> Some (GBool True) \<and>
          (str_at (sub_map (sub_map m ''state'') ''waiting'') ''reason'' \<in> set failing_reasons \<or>
           str_at (sub_map (sub_map m ''state'') ''terminated'') ''reason'' = ''Error'')
      | _ \<Rightarrow> False)"

definition checkPodHealth :: "service_config \<Rightarrow> uobj list \<Rightarrow> string list \<Rightarrow> string \<Rightarrow> string" where
  "checkPodHealth C pods names currentStatus =
     (if \<exists>pod\<in>set pods. matchesInstance (u_Name pod) names \<and>
           (\<exists>cs\<in>set (nested_slice pod [''status'', ''containerStatuses'']). failing_container C cs)
      then ''Error'' else currentStatus)"

text \<open>The pods of a namespace are listed once; a failed listing is remembered as such.\<close>

fun enrich_health ::
    "service_config \<Rightarrow> uobj list option gomap \<Rightarrow> service_instance list \<Rightarrow> service_instance list kprog" where
  "enrich_health C podsByNS [] = Ret []"
| "enrich_health C podsByNS (i # is) =
     (if si_Status i \<noteq> ''Ready'' \<or> si_TargetNamespace i = [] then
        prog_bind (enrich_health C podsByNS is) (\<lambda>rest. Ret (i # rest))
      else let ns = si_TargetNamespace i in
        prog_bind (case mget podsByNS ns of
            Some pods \<Rightarrow> Ret pods
          | None \<Rightarrow> prog_bind (call_items (KList PodGVR ns [])) (\<lambda>r. Ret (case r of
                Inl _ \<Rightarrow> None | Inr items \<Rightarrow> Some (keep_some is_raw items)))) (\<lambda>listed.
          let next = (\<lambda>i'. prog_bind (enrich_health C (mput ns listed podsByNS) is)
                             (\<lambda>rest. Ret (i' # rest))) in
          case listed of
            None \<Rightarrow> next i
          | Some pods \<Rightarrow>
              prog_bind (releaseInstanceNames ns (si_ReleaseName i)) (\<lambda>n. case n of
                  Inl _ \<Rightarrow> next i
                | Inr names \<Rightarrow> next (i\<lparr>si_Status := checkPodHealth C pods names (si_Status i)\<rparr>))))"

definition enrichWithPodHealth ::
    "service_config \<Rightarrow> service_instance list \<Rightarrow> service_instance list kprog" where
  "enrichWithPodHealth C instances = enrich_health C [] instances"

definition EnrichPodHealth :: "service_config \<Rightarrow> service_instance \<Rightarrow> service_instance kprog" where
  "EnrichPodHealth C i =
     (if si_Status i \<noteq> ''Ready'' \<or> si_TargetNamespace i = [] then Ret i
      else prog_bind (call_items (KList PodGVR (si_TargetNamespace i) [])) (\<lambda>r. case r of
          Inl _ \<Rightarrow> Ret i
        | Inr items \<Rightarrow>
            prog_bind (releaseInstanceNames (si_TargetNamespace i) (si_ReleaseName i)) (\<lambda>n. case n of
                Inl _ \<Rightarrow> Ret i
              | Inr names \<Rightarrow>
                  Ret (i\<lparr>si_Status := checkPodHealth C (keep_some is_raw items) names (si_Status i)\<rparr>))))"

subsection \<open>The latest warning\<close>

definition EventsGVR :: gvr where "EventsGVR = ('''', ''v1'', ''events'')"

text \<open>\<^verbatim>\<open>time.Time{}\<close>, in nanoseconds from the epoch.\<close>

definition zero_time :: int where "zero_time = - 62135596800 * 1000000000"

definition pickEventTimestamp :: "extlib \<Rightarrow> uobj \<Rightarrow> int" where
  "pickEventTimestamp L e =
     (case keep_some (\<lambda>path. let s = u_NestedString e path in if s = [] then None else time_Parse L s)
             [[''lastTimestamp''], [''eventTime''], [''metadata'', ''creationTimestamp'']] of
        [] \<Rightarrow> zero_time
      | t # _ \<Rightarrow> t)"

definition ellipsis :: string where "ellipsis = [CHR 0xE2, CHR 0x80, CHR 0xA6]"

definition truncateMessage :: "string \<Rightarrow> string" where
  "truncateMessage msg = (if length msg \<le> 400 then msg else take 400 msg @ ellipsis)"

definition later_event :: "extlib \<Rightarrow> string list \<Rightarrow> int \<times> string \<Rightarrow> uobj \<Rightarrow> int \<times> string" where
  "later_event L names acc e =
     (if \<not> matchesInstance (u_NestedString e [''involvedObject'', ''name'']) names then acc
      else let ts = pickEventTimestamp L e in
        if fst acc < ts then (ts, truncateMessage (u_NestedString e [''message''])) else acc)"

definition latestWarningMessage :: "extlib \<Rightarrow> string \<Rightarrow> string \<Rightarrow> string kprog" where
  "latestWarningMessage L project releaseName =
     (if project = [] \<or> releaseName = [] then Ret []
      else prog_bind (releaseInstanceNames project releaseName) (\<lambda>n. case n of
          Inl _ \<Rightarrow> Ret []
        | Inr names \<Rightarrow>
            prog_bind (call_items (KList EventsGVR project ''type=Warning'')) (\<lambda>r. Ret (case r of
                Inl _ \<Rightarrow> []
              | Inr items \<Rightarrow> snd (foldl (later_event L names) (zero_time, []) (keep_some is_raw items))))))"

subsection \<open>Reading instances\<close>

definition ListServices :: "service_config \<Rightarrow> string \<Rightarrow> (gerr + service_instance list) kprog" where
  "ListServices C project =
     try_bind (ServiceRepository_List (project, project)) (\<lambda>releases.
       prog_bind (enrichWithURL (map releaseToInstance releases)) (\<lambda>result.
       prog_bind (enrichWithPodHealth C result) (\<lambda>result. Ret (Inr result))))"

definition GetService :: "extlib \<Rightarrow> service_config \<Rightarrow> string \<Rightarrow> string \<Rightarrow> (gerr + service_instance) kprog" where
  "GetService L C project name =
     try_bind (ServiceRepository_Get project (releaseName_of project name)) (\<lambda>release.
       prog_bind (setURLIfExposed (releaseToInstance release)) (\<lambda>i.
       prog_bind (enrichWithPodHealth C [i]) (\<lambda>is.
         let i = i\<lparr>si_Status := si_Status (hd is)\<rparr> in
         if si_Status i \<noteq> ''Ready'' then
           prog_bind (latestWarningMessage L project (si_ReleaseName i)) (\<lambda>msg.
             Ret (Inr (i\<lparr>si_StatusMessage := msg\<rparr>)))
         else Ret (Inr i))))"

subsection \<open>Changing parameters\<close>

definition updated_release :: "service_update_request \<Rightarrow> release \<Rightarrow> release" where
  "updated_release req r =
     (let spec = re_Spec r;
          package = (if sw_Tag req \<noteq> [] then (rs_Package spec)\<lparr>rp_Tag := sw_Tag req\<rparr> else rs_Package spec);
          parameters = (case sw_Parameters req of
              None \<Rightarrow> rs_Parameters spec
            | Some ps \<Rightarrow> Some (mmerge (case rs_Parameters spec of None \<Rightarrow> [] | Some old \<Rightarrow> old) ps))
      in r\<lparr>re_Spec := spec\<lparr>rs_Package := package, rs_Parameters := parameters\<rparr>\<rparr>)"

definition UpdateServiceParameters ::
    "extlib \<Rightarrow> service_config \<Rightarrow> string \<Rightarrow> string \<Rightarrow> service_update_request \<Rightarrow>
       (gerr + service_instance) kprog" where
  "UpdateServiceParameters L C project name req =
     try_bind (ServiceRepository_Get project (releaseName_of project name)) (\<lambda>release0.
       let release = updated_release req release0; spec = re_Spec release in
       prog_bind (validateParameters L C (label_of (re_Meta release) LabelService)
           (rp_Tag (rs_Package spec)) (rs_Parameters spec)) (\<lambda>v. case v of
           Inl e \<Rightarrow> Ret (Inl (Wrapf ''parameter validation failed: %w'' [] e))
         | Inr _ \<Rightarrow>
       prog_bind (ServiceRepository_Update project release) (\<lambda>u. case u of
           Inl e \<Rightarrow> Ret (Inl (Wrapf ''failed to update release: %w'' [] e))
         | Inr _ \<Rightarrow> prog_bind (setURLIfExposed (releaseToInstance release)) (\<lambda>i. Ret (Inr i)))))"

subsection \<open>Deletion and clean-up\<close>

definition ownsByName :: "string \<Rightarrow> string \<Rightarrow> string list \<Rightarrow> bool" where
  "ownsByName objectName releaseName otherReleases =
     (let prefix = releaseName @ ''-'' in
      length prefix < length objectName \<and> has_prefix objectName prefix \<and>
      \<not> (\<exists>other\<in>set otherReleases. length releaseName < length other \<and>
          (objectName = other \<or>
           (length (other @ ''-'') < length objectName \<and> has_prefix objectName (other @ ''-'')))))"

definition PVCGVR :: gvr where "PVCGVR = ('''', ''v1'', ''persistentvolumeclaims'')"

definition cleanup_object :: "string \<Rightarrow> string \<Rightarrow> string list \<Rightarrow> gvr \<Rightarrow> uobj \<Rightarrow> unit kprog" where
  "cleanup_object ns releaseName others g object =
     (if \<not> ownsByName (u_Name object) releaseName others then Ret ()
      else prog_bind (call_unit (KDelete g ns (u_Name object))) (\<lambda>_. Ret ()))"

definition cleanup_kind :: "string \<Rightarrow> string \<Rightarrow> string list \<Rightarrow> gvr \<Rightarrow> unit kprog" where
  "cleanup_kind ns releaseName others g =
     prog_bind (call_items (KList g ns [])) (\<lambda>r. case r of
         Inl _ \<Rightarrow> Ret ()
       | Inr items \<Rightarrow> for_each (cleanup_object ns releaseName others g) (keep_some is_raw items))"

definition cleanupUserResources :: "string \<Rightarrow> string \<Rightarrow> unit kprog" where
  "cleanupUserResources ns releaseName =
     prog_bind (ServiceRepository_List (ns, ns)) (\<lambda>r. case r of
         Inl _ \<Rightarrow> Ret ()
       | Inr survivors \<Rightarrow>
           let others = filter (\<lambda>n. n \<noteq> releaseName) (map (\<lambda>s. md_Name (re_Meta s)) survivors) in
           for_each (cleanup_kind ns releaseName others) [PodGVR, PVCGVR])"

definition cleanupOidcClient :: "oidc_provisioner \<Rightarrow> string \<Rightarrow> unit kprog" where
  "cleanupOidcClient P releaseName = prog_bind (op_DeleteClient P releaseName) (\<lambda>_. Ret ())"

definition DeleteService :: "oidc_provisioner \<Rightarrow> string \<Rightarrow> string \<Rightarrow> (gerr + unit) kprog" where
  "DeleteService P project name =
     (let releaseName = releaseName_of project name in
      try_bind (ServiceRepository_Delete project releaseName) (\<lambda>_.
        prog_bind (cleanupOidcClient P releaseName) (\<lambda>_.
        prog_bind (cleanupUserResources project releaseName) (\<lambda>_. Ret (Inr ())))))"

subsection \<open>Pods\<close>

record pod_container =
  pc_Name :: string
  pc_Image :: string
  pc_Ready :: bool

record pod_view =
  pd_Name :: string
  pd_Status :: string
  pd_Ready :: string
  pd_Restarts :: "32 word"
  pd_Age :: string
  pd_Containers :: "pod_container list"

text \<open>The age of a pod, in days, hours or minutes: a duration in nanoseconds, cut towards zero.\<close>

definition pod_age :: "int \<Rightarrow> string" where
  "pod_age d =
     (if 24 * 3600 * 1000000000 \<le> d then show_int (d div (24 * 3600 * 1000000000)) @ ''d''
      else if 3600 * 1000000000 \<le> d then show_int (d div (3600 * 1000000000)) @ ''h''
      else show_int (if 0 \<le> d then d div (60 * 1000000000) else - (- d div (60 * 1000000000))) @ ''m'')"

definition pod_containers :: "service_config \<Rightarrow> goval list \<Rightarrow> goval gomap list" where
  "pod_containers C statuses =
     filter (\<lambda>m. \<not> isInfraSidecar C (str_at m ''name'')) (keep_some as_obj statuses)"

definition restart_count :: "goval gomap \<Rightarrow> 32 word" where
  "restart_count m = (case mget m ''restartCount'' of Some (GInt64 n) \<Rightarrow> word_of_int n | _ \<Rightarrow> 0)"

definition unstructuredToPod :: "service_config \<Rightarrow> int \<Rightarrow> uobj \<Rightarrow> pod_view" where
  "unstructuredToPod C now u =
     (let cs = pod_containers C (nested_slice u [''status'', ''containerStatuses'']);
          ready = (\<lambda>m. mget m ''ready'' = Some (GBool True))
      in \<lparr>pd_Name = u_Name u, pd_Status = u_NestedString u [''status'', ''phase''],
          pd_Ready = show_int (int (length (filter ready cs))) @ ''/'' @ show_int (int (length cs)),
          pd_Restarts = sum_list (map restart_count cs),
          pd_Age = (case u_CreatedAt u of None \<Rightarrow> [] | Some (_, t) \<Rightarrow> pod_age (now - t)),
          pd_Containers = map (\<lambda>m. \<lparr>pc_Name = str_at m ''name'', pc_Image = str_at m ''image'',
            pc_Ready = ready m\<rparr>) cs\<rparr>)"

fun pods_of :: "service_config \<Rightarrow> uobj list \<Rightarrow> pod_view list kprog" where
  "pods_of C [] = Ret []"
| "pods_of C (u # us) =
     prog_bind (if u_CreatedAt u = None then Ret 0 else Call KNow (\<lambda>t. Ret (time_of t))) (\<lambda>now.
       prog_bind (pods_of C us) (\<lambda>rest. Ret (unstructuredToPod C now u # rest)))"

definition ListPods :: "service_config \<Rightarrow> string \<Rightarrow> string \<Rightarrow> (gerr + pod_view list) kprog" where
  "ListPods C project serviceName =
     try_bind (releaseInstanceSelector project (releaseName_of project serviceName)) (\<lambda>selector.
       prog_bind (call_items (KList PodGVR project selector)) (\<lambda>r. case r of
           Inl e \<Rightarrow> Ret (Inl (Wrapf ''failed to list pods: %w'' [] e))
         | Inr items \<Rightarrow> prog_bind (pods_of C (keep_some is_raw items)) (\<lambda>ps. Ret (Inr ps))))"

end
