(* ===== verification/Provisioning_Properties.thy ===== *)
theory Provisioning_Properties
  imports Provisioning Package_Properties
begin

text \<open>
  The contract of an OIDC provisioner, that every backend and the selector meet, and what the
  Keycloak backend changes on the server it administers.
\<close>

text \<open>What the services rely on: registering changes no object, unregistering deletes at most the
  client resource of that name.\<close>

locale oidc_interface =
  fixes P :: oidc_provisioner
  assumes ensure_quiet: "runs (op_EnsureClient P spec) (\<lambda>tr x. quiet tr)"
    and delete_scope: "runs (op_DeleteClient P name) (\<lambda>tr x. \<exists>ns. set (writes tr) \<subseteq> {KDelete oidcClientGVR ns name})"

lemma quiet_writes: "quiet tr \<Longrightarrow> writes tr = []"
  by (simp add: quiet_def)

interpretation none_provisioner: oidc_interface noneProvisioner
  by unfold_locales (simp_all add: noneProvisioner_def)

lemma quiet_kubauth_namespace [quiet_intros]: "runs GetKubauthNamespace (\<lambda>tr x. quiet tr)"
  unfolding GetKubauthNamespace_def by (rule quiet_reading)

interpretation kubauth: oidc_interface kubauthProvisioner
proof
  show "runs (op_EnsureClient kubauthProvisioner spec) (\<lambda>tr x. quiet tr)" for spec
    by (simp add: kubauthProvisioner_def)
  show "runs (op_DeleteClient kubauthProvisioner name)
      (\<lambda>tr x. \<exists>ns. set (writes tr) \<subseteq> {KDelete oidcClientGVR ns name})" for name
    unfolding kubauthProvisioner_def kubauth_DeleteClient_def
    by (simp, rule runs_seq [OF quiet_kubauth_namespace])
       (auto simp: runs_simps quiet_writes split: sum.split)
qed

lemma quiet_call_obj [quiet_intros]:
  assumes "\<not> is_write c" and "c \<noteq> KInvalidate"
  shows "runs (call_obj c) (\<lambda>tr x. quiet tr)"
  using assms by (simp add: runs_simps)

lemma quiet_connect [quiet_intros]: "runs connect (\<lambda>tr x. quiet tr)"
  unfolding connect_def readSecretCredentials_def Let_def GetKeycloakProvisioningConfig_def
  by (auto intro!: quiet_intros split: sum.split prod.split)

lemma quiet_findClient [quiet_intros]: "runs (findClient s n) (\<lambda>tr x. quiet tr)"
  unfolding findClient_def by (auto intro!: quiet_intros split: sum.split)

lemma quiet_session_do [quiet_intros]: "runs (session_do s m u p n) (\<lambda>tr x. quiet tr)"
  unfolding session_do_def by (auto intro!: quiet_intros split: sum.split)

interpretation keycloak: oidc_interface keycloakProvisioner
proof
  show "runs (op_EnsureClient keycloakProvisioner spec) (\<lambda>tr x. quiet tr)" for spec
    unfolding keycloakProvisioner_def keycloak_EnsureClient_def Let_def
    by (auto intro!: quiet_intros split: prod.split option.split)
  have delete: "runs (keycloak_DeleteClient name) (\<lambda>tr x. quiet tr)" for name
    unfolding keycloak_DeleteClient_def by (auto intro!: quiet_intros split: prod.split option.split)
  show "runs (op_DeleteClient keycloakProvisioner name)
      (\<lambda>tr x. \<exists>ns. set (writes tr) \<subseteq> {KDelete oidcClientGVR ns name})" for name
    unfolding keycloakProvisioner_def
    by (simp, rule runs_mono [OF delete]) (simp add: quiet_writes)
qed

lemma quiet_provider [quiet_intros]: "runs GetIdentityProvisioningProvider (\<lambda>tr x. quiet tr)"
  unfolding GetIdentityProvisioningProvider_def GetIdentity_def
  by (auto intro!: quiet_intros)

lemma runs_resolve:
  "runs resolve (\<lambda>tr r. quiet tr \<and>
     (case r of Inl e \<Rightarrow> True
      | Inr p \<Rightarrow> p \<in> {noneProvisioner, kubauthProvisioner, keycloakProvisioner}))"
  unfolding resolve_def
  by (rule runs_try_seq [OF quiet_provider]) auto

lemma selected_interface:
  "p \<in> {noneProvisioner, kubauthProvisioner, keycloakProvisioner} \<Longrightarrow> oidc_interface p"
  by (auto intro: none_provisioner.oidc_interface_axioms kubauth.oidc_interface_axioms
      keycloak.oidc_interface_axioms)

interpretation selector: oidc_interface contextSelector
proof
  show "runs (op_EnsureClient contextSelector spec) (\<lambda>tr x. quiet tr)" for spec
    unfolding contextSelector_def
  proof (simp, rule runs_try_seq [OF runs_resolve], goal_cases)
    case (2 t p)
    then have p: "oidc_interface p" by (simp add: selected_interface)
    show ?case
      by (rule runs_mono [OF oidc_interface.ensure_quiet [OF p]]) (use 2 in simp)
  qed simp
  show "runs (op_DeleteClient contextSelector name)
      (\<lambda>tr x. \<exists>ns. set (writes tr) \<subseteq> {KDelete oidcClientGVR ns name})" for name
    unfolding contextSelector_def
  proof (simp, rule runs_try_seq [OF runs_resolve], goal_cases)
    case (2 t p)
    then have p: "oidc_interface p" by (simp add: selected_interface)
    show ?case
      by (rule runs_mono [OF oidc_interface.delete_scope [OF p]]) (use 2 in \<open>simp add: quiet_writes\<close>)
  qed (simp add: quiet_writes)
qed

subsection \<open>What the Keycloak backend changes\<close>

text \<open>A request of the admin session that is not a lookup.\<close>

definition admin_change :: "kcall \<Rightarrow> bool" where
  "admin_change c = (\<exists>q t. c = KHttp q \<and> hq_Auth q = BearerAuth t \<and> hq_Method q \<noteq> ''GET'')"

definition no_change :: "ktrace \<Rightarrow> bool" where
  "no_change tr = (\<forall>c\<in>set (calls tr). \<not> admin_change c)"

lemma no_change_simps [simp]:
  "no_change []" "no_change ((c, r) # tr) \<longleftrightarrow> \<not> admin_change c \<and> no_change tr"
  "no_change (s @ t) \<longleftrightarrow> no_change s \<and> no_change t"
  by (auto simp: no_change_def)

lemma admin_change_simps [simp]:
  "\<not> admin_change KContext" "\<not> admin_change (KGet g ns n)" "\<not> admin_change (KHttp (token_request cfg a b))"
  "\<not> admin_change (KHttp (session_request s ''GET'' u q p))"
  by (simp_all add: admin_change_def token_request_def session_request_def)

lemma reading_no_change: "runs (reading f) (\<lambda>tr x. no_change tr)"
  by (simp add: reading_def runs_simps split: sum.split)

lemma credentials_no_change: "runs (readSecretCredentials ref) (\<lambda>tr x. no_change tr)"
  by (auto simp: readSecretCredentials_def runs_simps Let_def split: sum.split)

lemma connect_no_change: "runs connect (\<lambda>tr x. no_change tr \<and> exec connect tr x)"
proof -
  have "runs connect (\<lambda>tr x. no_change tr)"
    unfolding connect_def GetKeycloakProvisioningConfig_def
  proof (rule runs_try_seq [OF reading_no_change], goal_cases)
    case (2 t cfg)
    then show ?case
      by (cases "adminBaseURL (kc_IssuerURI cfg)") 
         (simp_all, rule runs_try_seq [OF credentials_no_change],
          auto simp: runs_simps split: sum.split)
  qed simp
  then show ?thesis by (auto simp: runs_iff)
qed

text \<open>
  An operation on the client \<^term>\<open>name\<close>: nothing is changed, or the session looked the client up
  and the single change it then makes is one the answered clients allow.
\<close>

definition client_operation ::
    "string \<Rightarrow> (goval gomap list \<Rightarrow> keycloak_session \<Rightarrow> http_req \<Rightarrow> bool) \<Rightarrow> ktrace \<Rightarrow> bool" where
  "client_operation name allowed tr =
     (no_change tr \<or>
      (\<exists>t0 cfg s p clients q r.
         tr = t0 @ [(KHttp (session_request s ''GET'' (kz_AdminBase s @ ''/clients'')
                              [(''clientId'', name)] None), RHttp p), (KHttp q, r)] \<and>
         no_change t0 \<and> exec connect t0 (Inr (cfg, s)) \<and> clients_of p = Inr clients \<and>
         allowed clients s q))"

definition creates_client :: "oidc_client_spec \<Rightarrow> goval gomap list \<Rightarrow> keycloak_session \<Rightarrow> http_req \<Rightarrow> bool" where
  "creates_client spec clients s q =
     ((\<forall>c\<in>set clients. str_at c ''clientId'' \<noteq> oc_Name spec) \<and>
      q = session_request s ''POST'' (kz_AdminBase s @ ''/clients'') [] (Some (GObj (new_client spec))))"

definition updates_client :: "oidc_client_spec \<Rightarrow> goval gomap list \<Rightarrow> keycloak_session \<Rightarrow> http_req \<Rightarrow> bool" where
  "updates_client spec clients s q =
     (\<exists>c\<in>set clients. str_at c ''clientId'' = oc_Name spec \<and> str_at c ''id'' \<noteq> [] \<and>
        q = session_request s ''PUT'' (kz_AdminBase s @ ''/clients/'' @ str_at c ''id'') []
              (Some (GObj (mput ''redirectUris'' (GArr (map GStr (oc_RedirectURIs spec))) c))))"

definition deletes_client :: "string \<Rightarrow> goval gomap list \<Rightarrow> keycloak_session \<Rightarrow> http_req \<Rightarrow> bool" where
  "deletes_client name clients s q =
     (\<exists>c\<in>set clients. str_at c ''clientId'' = name \<and>
        q = session_request s ''DELETE'' (kz_AdminBase s @ ''/clients/'' @ str_at c ''id'') [] None)"

text \<open>The lookup, with the clients the server answered.\<close>

definition looked_up :: "keycloak_session \<Rightarrow> string \<Rightarrow> ktrace \<Rightarrow> gerr + goval gomap option \<Rightarrow> bool" where
  "looked_up s name tr x =
     (\<exists>r. tr = [(KHttp (session_request s ''GET'' (kz_AdminBase s @ ''/clients'')
                          [(''clientId'', name)] None), r)] \<and>
        (case x of Inl e \<Rightarrow> True
         | Inr found \<Rightarrow> \<exists>p clients. r = RHttp p \<and> clients_of p = Inr clients \<and>
             found = find (\<lambda>c. str_at c ''clientId'' = name) clients))"

lemma runs_findClient: "runs (findClient s name) (looked_up s name)"
  by (auto simp: findClient_def runs_simps looked_up_def split: sum.split)

lemma client_operation_runs:
  assumes "\<And>cfg s clients. runs (k cfg s (find (\<lambda>c. str_at c ''clientId'' = name) clients))
           (\<lambda>tr x. tr = [] \<or> (\<exists>q r. tr = [(KHttp q, r)] \<and> allowed clients s q))"
  shows "runs (try_bind connect (\<lambda>(cfg, s). try_bind (findClient s name) (k cfg s)))
           (\<lambda>tr x. client_operation name allowed tr)"
proof (rule runs_try_seq [OF connect_no_change], goal_cases)
  case (1 t e)
  then show ?case by (simp add: client_operation_def)
next
  case (2 t cs)
  obtain cfg s where cs: "cs = (cfg, s)" by (cases cs)
  show ?case
    unfolding cs prod.case
  proof (rule runs_try_seq [OF runs_findClient], goal_cases)
    case (1 t1 e)
    with 2 show ?case by (auto simp: client_operation_def looked_up_def)
  next
    case (2 t1 found)
    from 2 obtain p clients where
      t1: "t1 = [(KHttp (session_request s ''GET'' (kz_AdminBase s @ ''/clients'')
                          [(''clientId'', name)] None), RHttp p)]"
      and clients: "clients_of p = Inr clients"
      and found: "found = find (\<lambda>c. str_at c ''clientId'' = name) clients"
      by (auto simp: looked_up_def)
    show ?case
      unfolding found
    proof (rule runs_mono [OF assms], elim disjE exE conjE, goal_cases)
      case (1 tr)
      with \<open>no_change t \<and> exec connect t (Inr cs)\<close> show ?case by (simp add: client_operation_def t1)
    next
      case (2 tr x q r)
      with \<open>no_change t \<and> exec connect t (Inr cs)\<close> clients show ?case
        unfolding client_operation_def t1 cs
        by (intro disjI2 exI [of _ t] exI [of _ cfg] exI [of _ s] exI [of _ p] exI [of _ clients]
            exI [of _ q] exI [of _ r]) simp
    qed
  qed
qed

lemma runs_session_do: "runs (session_do s m u p n) (\<lambda>tr x. \<exists>r. tr = [(KHttp (session_request s m u [] p), r)])"
  by (auto simp: session_do_def runs_simps split: sum.split)

lemma find_SomeD: "find P xs = Some x \<Longrightarrow> x \<in> set xs \<and> P x"
  by (induction xs) (auto split: if_splits)

lemma find_NoneD: "find P xs = None \<Longrightarrow> \<forall>x\<in>set xs. \<not> P x"
  by (simp add: find_None_iff)


end
