(* ===== verification/Service_Cleanup.thy ===== *)
theory Service_Cleanup
  imports Services Provisioning_Properties
begin

text \<open>
  Deleting a service: which objects belong to a release by their names, and what the deletion and
  its clean-up take away.
\<close>

subsection \<open>Ownership by name\<close>

definition dash_prefix :: "string \<Rightarrow> string \<Rightarrow> bool" where
  "dash_prefix r obj = (length (r @ ''-'') < length obj \<and> has_prefix obj (r @ ''-''))"

text \<open>The releases of a namespace that claim an object, each against all the others.\<close>

definition claimants :: "string list \<Rightarrow> string \<Rightarrow> string set" where
  "claimants rs obj = {r \<in> set rs. ownsByName obj r (filter (\<lambda>n. n \<noteq> r) rs)}"

lemma ownsByName_iff:
  "ownsByName obj r others \<longleftrightarrow> dash_prefix r obj \<and>
     (\<forall>s\<in>set others. length r < length s \<longrightarrow> obj \<noteq> s \<and> \<not> dash_prefix s obj)"
  by (auto simp: ownsByName_def dash_prefix_def Let_def)

lemma dash_prefix_shorter: "dash_prefix r obj \<Longrightarrow> length r < length obj"
  by (simp add: dash_prefix_def)

lemma dash_prefix_same_length:
  assumes "dash_prefix r obj" "dash_prefix s obj" "length r = length s"
  shows "r = s"
proof -
  from assms obtain t u where "obj = r @ t" "obj = s @ u" by (auto simp: dash_prefix_def str_simps)
  with assms(3) show ?thesis by (simp add: append_eq_append_conv)
qed

lemma claimants_iff:
  "r \<in> claimants rs obj \<longleftrightarrow> r \<in> set rs \<and> dash_prefix r obj \<and>
     (\<forall>s\<in>set rs. length r < length s \<longrightarrow> obj \<noteq> s \<and> \<not> dash_prefix s obj)"
  by (auto simp: claimants_def ownsByName_iff)

lemma claimants_unique: "r \<in> claimants rs obj \<Longrightarrow> s \<in> claimants rs obj \<Longrightarrow> r = s"
  by (metis claimants_iff dash_prefix_same_length linorder_neqE_nat)

lemma claimants_exist:
  assumes "obj \<notin> set rs" and "r \<in> set rs" and "dash_prefix r obj"
  shows "claimants rs obj \<noteq> {}"
proof -
  let ?A = "{r \<in> set rs. dash_prefix r obj}"
  obtain m where m: "m \<in> ?A" "\<forall>s\<in>?A. length s \<le> length m"
  proof -
    have fin: "finite (length ` ?A)" and ne: "length ` ?A \<noteq> {}" using assms(2,3) by auto
    from Max_in [OF fin ne] obtain m where "m \<in> ?A" "length m = Max (length ` ?A)" by auto
    with Max_ge [OF fin] show thesis by (intro that) auto
  qed
  with assms(1) have "m \<in> claimants rs obj" by (auto simp: claimants_iff not_less)
  then show ?thesis by blast
qed

lemma claimants_of_release:
  assumes "obj \<in> set rs"
  shows "claimants rs obj = {}"
  using assms by (auto simp: claimants_iff) (metis dash_prefix_shorter)

text \<open>C17: among the releases of a namespace exactly one claims an object whose name
  extends a release's name with a dash, and none claims any other object; in particular no release
  claims an object that carries another release's own name.\<close>

theorem ownsByName_exclusive:
  "card (claimants rs obj) =
     (if obj \<notin> set rs \<and> (\<exists>r\<in>set rs. dash_prefix r obj) then 1 else 0)"
proof (cases "claimants rs obj = {}")
  case True
  then show ?thesis using claimants_exist [of obj rs] by auto
next
  case False
  then obtain r where r: "r \<in> claimants rs obj" by blast
  then have "claimants rs obj = {r}" using claimants_unique [OF _ r] by blast
  moreover from r have "obj \<notin> set rs" using claimants_of_release by blast
  moreover from r have "\<exists>r\<in>set rs. dash_prefix r obj" by (auto simp: claimants_iff)
  ultimately show ?thesis by simp
qed

subsection \<open>Deletion\<close>

text \<open>
  A deletion of the clean-up: a pod or a volume claim of the project that was listed, that the
  release claims against the other releases the listing answered.
\<close>

definition justified_cleanup :: "string \<Rightarrow> string \<Rightarrow> ktrace \<Rightarrow> kcall \<Rightarrow> bool" where
  "justified_cleanup ns rel tr c =
     (\<exists>g n items objs. c = KDelete g ns n \<and> g \<in> {PodGVR, PVCGVR} \<and>
        (KList GetReleaseGVR ns (label_selector ns), RItems items) \<in> set tr \<and>
        (KList g ns [], RItems objs) \<in> set tr \<and>
        n \<in> u_Name ` set (keep_some is_raw objs) \<and>
        ownsByName n rel (filter (\<lambda>m. m \<noteq> rel)
          (map (\<lambda>s. md_Name (re_Meta s)) (keep_some is_release items))))"

lemma justifiedI:
  assumes "\<exists>n objs. c = KDelete g ns n \<and> (KList g ns [], RItems objs) \<in> set t \<and>
        n \<in> u_Name ` set (keep_some is_raw objs) \<and> ownsByName n rel (filter (\<lambda>m. m \<noteq> rel)
          (map (\<lambda>s. md_Name (re_Meta s)) (keep_some is_release items)))"
    and "g \<in> {PodGVR, PVCGVR}" and "set t \<subseteq> set tr"
    and "(KList GetReleaseGVR ns (label_selector ns), RItems items) \<in> set tr"
  shows "justified_cleanup ns rel tr c"
proof -
  from assms(1) obtain n objs where a: "c = KDelete g ns n" and b: "(KList g ns [], RItems objs) \<in> set t"
    and n: "n \<in> u_Name ` set (keep_some is_raw objs)" and o': "ownsByName n rel (filter (\<lambda>m. m \<noteq> rel)
          (map (\<lambda>s. md_Name (re_Meta s)) (keep_some is_release items)))" by blast
  from b assms(3) have b': "(KList g ns [], RItems objs) \<in> set tr" by (rule subsetD [rotated])
  show ?thesis
    unfolding justified_cleanup_def using a assms(2,4) b' n o' by metis
qed

lemma runs_cleanup_objects:
  "runs (for_each (cleanup_object ns rel others g) objects)
     (\<lambda>tr x. \<forall>c\<in>set (writes tr). \<exists>o'\<in>set objects. c = KDelete g ns (u_Name o') \<and>
               ownsByName (u_Name o') rel others)"
proof (induction objects)
  case (Cons o' os)
  have "runs (cleanup_object ns rel others g o')
      (\<lambda>tr x. \<forall>c\<in>set (writes tr). c = KDelete g ns (u_Name o') \<and> ownsByName (u_Name o') rel others)"
    by (auto simp: cleanup_object_def runs_simps)
  then show ?case
    by (simp, rule_tac runs_seq, assumption) (rule runs_mono [OF Cons.IH], auto)
qed simp

lemma runs_cleanup_kind:
  "runs (cleanup_kind ns rel others g)
     (\<lambda>tr x. \<forall>c\<in>set (writes tr). \<exists>n objs. c = KDelete g ns n \<and> (KList g ns [], RItems objs) \<in> set tr \<and>
        n \<in> u_Name ` set (keep_some is_raw objs) \<and> ownsByName n rel others)"
proof -
  have "runs (for_each (cleanup_object ns rel others g) (keep_some is_raw xs))
      (\<lambda>tr x. \<forall>c\<in>set (writes tr). \<exists>n objs. c = KDelete g ns n \<and>
         (KList g ns [], RItems objs) \<in> set ((KList g ns [], RItems xs) # tr) \<and>
         n \<in> u_Name ` set (keep_some is_raw objs) \<and> ownsByName n rel others)" for xs
    by (rule runs_mono [OF runs_cleanup_objects]) fastforce
  then show ?thesis by (simp add: cleanup_kind_def runs_simps)
qed

lemma runs_cleanup_kinds:
  "runs (for_each (cleanup_kind ns rel (filter (\<lambda>m. m \<noteq> rel)
              (map (\<lambda>s. md_Name (re_Meta s)) (keep_some is_release items)))) [PodGVR, PVCGVR])
      (\<lambda>tr x. \<forall>c\<in>set (writes tr). justified_cleanup ns rel
         ((KList GetReleaseGVR ns (label_selector ns), RItems items) # tr) c)"
  unfolding for_each.simps
proof (rule runs_seq [OF runs_cleanup_kind], goal_cases)
  case (1 t1 a)
  show ?case
  proof (rule runs_seq [OF runs_cleanup_kind], goal_cases)
    case (1 t2 b)
    have "justified_cleanup ns rel ((KList GetReleaseGVR ns (label_selector ns), RItems items) # t1 @ t2) c"
      if "c \<in> set (writes t1) \<union> set (writes t2)" for c
      using that
    proof
      assume "c \<in> set (writes t1)"
      with \<open>\<forall>c\<in>set (writes t1). _\<close> show ?thesis by (intro justifiedI [where t = t1 and g = PodGVR]) auto
    next
      assume "c \<in> set (writes t2)"
      with 1 show ?thesis by (intro justifiedI [where t = t2 and g = PVCGVR]) auto
    qed
    then show ?case by simp
  qed
qed

lemma runs_cleanup:
  "runs (cleanupUserResources ns rel) (\<lambda>tr x. \<forall>c\<in>set (writes tr). justified_cleanup ns rel tr c)"
  by (simp add: cleanupUserResources_def ServiceRepository_List_def runs_simps Let_def del: for_each.simps)
     (use runs_cleanup_kinds in blast)

text \<open>
  The deletion of a service: the release goes first; when that fails nothing else happens; then at
  most the OIDC client of that name goes, and then the justified clean-up.
\<close>

definition service_deletion :: "string \<Rightarrow> string \<Rightarrow> ktrace \<Rightarrow> gerr + unit \<Rightarrow> bool" where
  "service_deletion project rel tr x =
     (\<exists>r rest. tr = (KDelete GetReleaseGVR project rel, r) # rest \<and>
        (case x of
           Inl e \<Rightarrow> r = RErr e \<and> rest = []
         | Inr _ \<Rightarrow> answered_ok r \<and> (\<exists>t1 t2 ns. rest = t1 @ t2 \<and>
             set (writes t1) \<subseteq> {KDelete oidcClientGVR ns rel} \<and>
             (\<forall>c\<in>set (writes t2). justified_cleanup project rel t2 c))))"

context oidc_interface
begin

lemma deletes_service:
  "runs (DeleteService P project name) (service_deletion project (releaseName_of project name))"
proof -
  let ?rel = "releaseName_of project name"
  have oidc: "runs (cleanupOidcClient P ?rel) (\<lambda>tr x. \<exists>ns. set (writes tr) \<subseteq> {KDelete oidcClientGVR ns ?rel})"
    unfolding cleanupOidcClient_def by (rule runs_seq [OF delete_scope]) simp
  have "runs (prog_bind (cleanupOidcClient P ?rel) (\<lambda>_.
        prog_bind (cleanupUserResources project ?rel) (\<lambda>_. Ret (Inr ()))))
      (\<lambda>tr x. x = Inr () \<and> (\<exists>t1 t2 ns. tr = t1 @ t2 \<and> set (writes t1) \<subseteq> {KDelete oidcClientGVR ns ?rel} \<and>
             (\<forall>c\<in>set (writes t2). justified_cleanup project ?rel t2 c)))"
    by (rule runs_seq [OF oidc], rule runs_seq [OF runs_cleanup]) (simp, blast)
  then show ?thesis
    by (auto simp: DeleteService_def Let_def ServiceRepository_Delete_def runs_simps service_deletion_def
        elim!: runs_mono)
qed

end

text \<open>C16: deleting a service deletes its release first and does nothing more when
  that fails; afterwards it deletes at most the OIDC client of the same name, and the pods and volume
  claims of the project that it listed and that the release claims against the releases listed after
  its removal; no clean-up without that listing.\<close>

theorem DeleteService_protocol:
  "runs (DeleteService contextSelector project name)
     (service_deletion project (releaseName_of project name))"
  by (rule selector.deletes_service)

subsection \<open>A neighbour that cannot be read\<close>

definition raw_named :: "string \<Rightarrow> uobj" where
  "raw_named n = \<lparr>u_APIVersion = [], u_Kind = [], u_Name = n, u_Labels = [], u_Annotations = [],
     u_CreatedAt = None, u_OwnerUIDs = [], u_ResourceVersion = [], u_NestedString = (\<lambda>p. []),
     u_NestedBool = (\<lambda>p. False), u_NestedSlice = (\<lambda>p. Inr None), u_NestedMap = (\<lambda>p. Inr None),
     u_NestedStringMap = (\<lambda>p. None)\<rparr>"

lemma claim_of_alice:
  "ownsByName ''demo-jupyter-ds-claim-alice'' ''demo-jupyter'' []"
  "\<not> ownsByName ''demo-jupyter-ds-claim-alice'' ''demo-jupyter'' [''demo-jupyter-ds'']"
  by (simp_all add: ownsByName_def)

text \<open>When the listing after a deletion answers a surviving release
  that the converter rejects, that release is skipped, and a volume claim it owns by name is deleted,
  although the listing did not fail and the release would have protected the volume had it been read.\<close>

lemma cleanup_trusts_unreadable_release:
  "\<exists>tr. exec (cleanupUserResources ''demo'' ''demo-jupyter'') tr () \<and>
     (KList GetReleaseGVR ''demo'' (label_selector ''demo''), RItems [ORaw (raw_named ''demo-jupyter-ds'')]) \<in> set tr \<and>
     KDelete PVCGVR ''demo'' ''demo-jupyter-ds-claim-alice'' \<in> set (calls tr) \<and>
     \<not> ownsByName ''demo-jupyter-ds-claim-alice'' ''demo-jupyter'' [''demo-jupyter-ds'']"
proof -
  let ?claim = "ORaw (raw_named ''demo-jupyter-ds-claim-alice'')"
  let ?tr = "[(KList GetReleaseGVR ''demo'' (label_selector ''demo''), RItems [ORaw (raw_named ''demo-jupyter-ds'')]),
     (KList PodGVR ''demo'' [], RItems []), (KList PVCGVR ''demo'' [], RItems [?claim]),
     (KDelete PVCGVR ''demo'' ''demo-jupyter-ds-claim-alice'', ROk)]"
  have "exec (cleanupUserResources ''demo'' ''demo-jupyter'') ?tr ()"
    by (simp add: replay_exec cleanupUserResources_def ServiceRepository_List_def cleanup_kind_def
        cleanup_object_def call_items_def call_unit_def raw_named_def claim_of_alice)
  then show ?thesis using claim_of_alice(2) by (intro exI [of _ ?tr]) simp
qed

end
