(* ===== verification/Service_Properties.thy ===== *)
theory Service_Properties
  imports Service_Cleanup Service_Catalog_Properties
begin

text \<open>
  What deploying and editing a service guarantee, what the address and the connections of an
  instance rest on, and the agreement of the two conversions of a release.
\<close>

subsection \<open>Deployment\<close>

text \<open>The schema of that version was fetched during the trace, and it accepts the parameters.\<close>

definition params_accepted ::
    "extlib \<Rightarrow> schema_iface \<Rightarrow> string \<Rightarrow> string \<Rightarrow> goval gomap option \<Rightarrow> ktrace \<Rightarrow> bool" where
  "params_accepted L S n t ps tr =
     (\<exists>t0 t1 t2 schema. tr = t0 @ t1 @ t2 \<and> exec (ps_GetParameterSchema S n t) t1 (Inr schema) \<and>
        (case jsonschema_Compile L schema of None \<Rightarrow> True | Some check \<Rightarrow> check ps = Inr ()))"

lemma params_accepted_append:
  "params_accepted L S n t ps tr \<Longrightarrow> params_accepted L S n t ps (a @ tr @ b)"
  unfolding params_accepted_def by (metis append.assoc)

lemma catalog_read_append: "catalog_read tr existing \<Longrightarrow> catalog_read (a @ tr @ b) existing"
  by (auto simp: catalog_read_def)

definition deploy_tag :: "platform_service \<Rightarrow> service_request \<Rightarrow> string" where
  "deploy_tag svc req = (if sq_Tag req = [] then pv_DefaultVersion svc else sq_Tag req)"

text \<open>The repository a package comes from: the one of the catalog entry, or the Context's.\<close>

definition package_repository :: "ktrace \<Rightarrow> platform_service \<Rightarrow> string \<Rightarrow> bool" where
  "package_repository tr svc repo =
     (if pv_Repository svc \<noteq> [] then repo = pv_Repository svc
      else \<exists>u. (KContext, RObj (ORaw u)) \<in> set tr \<and>
             repo = ctx_string u [''serviceCatalog'', ''defaultRepository''] \<and> repo \<noteq> [])"

text \<open>What names and labels a release: the project, the service and the instance.\<close>

definition identifies :: "string \<Rightarrow> service_request \<Rightarrow> release \<Rightarrow> bool" where
  "identifies project req r =
     (let instance = (if sq_InstanceName req = [] then sq_Service req else sq_InstanceName req) in
      md_Name (re_Meta r) = project @ ''-'' @ instance \<and> md_Namespace (re_Meta r) = project \<and>
      rs_TargetNamespace (re_Spec r) = project \<and>
      label_of (re_Meta r) LabelProject = project \<and> label_of (re_Meta r) LabelService = sq_Service req \<and>
      label_of (re_Meta r) LabelInstanceName = instance)"

lemma new_release_identifies: "identifies project req (new_release C project req tag repo)"
  by (simp add: identifies_def new_release_def releaseName_of_def Let_def label_of_def mstr_def
      LabelProject_def LabelService_def LabelInstanceName_def)

text \<open>
  A deployment: it stops without a change, or its last call creates the release of a service of
  the catalog that was read, with accepted parameters, from the right repository; it answers the
  instance exactly when that call succeeded.
\<close>

definition deployed ::
    "extlib \<Rightarrow> service_config \<Rightarrow> schema_iface \<Rightarrow> string \<Rightarrow> service_request \<Rightarrow> ktrace \<Rightarrow>
       gerr + service_instance \<Rightarrow> bool" where
  "deployed L C S project req tr x =
     ((quiet tr \<and> (\<exists>e. x = Inl e)) \<or>
      (\<exists>existing svc repo t0 r release.
         tr = t0 @ [(KCreate GetReleaseGVR project (ORelease release), r)] \<and> quiet t0 \<and>
         release = new_release C project req (deploy_tag svc req) repo \<and> identifies project req release \<and>
         catalog_read t0 existing \<and> svc \<in> set existing \<and> pv_Name svc = sq_Service req \<and>
         package_repository t0 svc repo \<and>
         params_accepted L S (sq_Service req) (deploy_tag svc req) (sq_Parameters req) t0 \<and>
         (case x of
            Inl e \<Rightarrow> r = RErr e
          | Inr i \<Rightarrow> answered_ok r \<and> i\<lparr>si_URL := []\<rparr> = releaseToInstance release)))"

lemma si_URL_releaseToInstance [simp]: "(releaseToInstance r)\<lparr>si_URL := []\<rparr> = releaseToInstance r"
  by (simp add: releaseToInstance_def Let_def)

lemma runs_resolvePlatformService:
  "runs (resolvePlatformService n) (\<lambda>tr x. quiet tr \<and>
     (\<forall>s. x = Inr s \<longrightarrow> (\<exists>existing. catalog_read tr existing \<and> s \<in> set existing \<and> pv_Name s = n)))"
  unfolding resolvePlatformService_def
  by (rule runs_seq [OF runs_GetPlatformServices])
     (auto dest: find_SomeD split: sum.split option.split)

lemma runs_GetPackageRepository:
  "runs GetPackageRepository (\<lambda>tr x. quiet tr \<and>
     (\<forall>a. x = Inr a \<longrightarrow> (\<exists>u. (KContext, RObj (ORaw u)) \<in> set tr \<and>
        a = ctx_string u [''serviceCatalog'', ''defaultRepository''] \<and> a \<noteq> [])))"
  unfolding GetPackageRepository_def
  by (rule runs_mono [OF runs_reading]) (auto simp: required_string_def split: if_splits)

lemma quiet_suffix [quiet_intros]: "runs GetIngressSuffix (\<lambda>tr x. quiet tr)"
  unfolding GetIngressSuffix_def by (rule quiet_reading)

text \<open>The last steps of a deployment.\<close>

lemma runs_create_release:
  "runs (prog_bind GetIngressSuffix (\<lambda>s. case s of
            Inl e \<Rightarrow> Ret (Inl (Wrapf ''failed to resolve ingress suffix: %w'' [] e))
          | Inr suffix \<Rightarrow> try_bind (ServiceRepository_Create project release) (\<lambda>_.
                Ret (Inr ((releaseToInstance release)
                       \<lparr>si_URL := ''https://'' @ md_Name (re_Meta release) @ ''.'' @ suffix\<rparr>)))))
     (\<lambda>tr x. (quiet tr \<and> (\<exists>e. x = Inl e)) \<or>
        (\<exists>t r. tr = t @ [(KCreate GetReleaseGVR project (ORelease release), r)] \<and> quiet t \<and>
          (case x of Inl e \<Rightarrow> r = RErr e
           | Inr i \<Rightarrow> answered_ok r \<and> i\<lparr>si_URL := []\<rparr> = releaseToInstance release)))"
proof (rule runs_seq [OF quiet_suffix], goal_cases)
  case (1 t s)
  then show ?case
    by (cases s) (auto simp: ServiceRepository_Create_def runs_simps)
qed

context package_schema
begin

lemma runs_validateParameters:
  assumes "sv_schema C = Some S"
  shows "runs (validateParameters L C n t ps) (\<lambda>tr x. quiet tr \<and>
     (\<forall>u. x = Inr u \<longrightarrow> params_accepted L S n t ps tr))"
proof -
  have "runs (ps_GetParameterSchema S n t)
      (\<lambda>tr x. quiet tr \<and> exec (ps_GetParameterSchema S n t) tr x)"
    unfolding runs_conj using schema_quiet runs_exec by blast
  note schema = runs_seq [OF this]
  have ok: "params_accepted L S n t ps t1"
    if "exec (ps_GetParameterSchema S n t) t1 (Inr schema)"
      "case jsonschema_Compile L schema of None \<Rightarrow> True | Some check \<Rightarrow> check ps = Inr ()" for t1 schema
    unfolding params_accepted_def
    using that by (intro exI [of _ "[]"] exI [of _ t1] exI [of _ schema]) simp
  show ?thesis
    unfolding validateParameters_def assms option.case
  proof (rule schema, goal_cases)
    case (1 t1 a)
    then show ?case
      using ok by (auto split: sum.split option.split)
  qed
qed

lemma deployedI:
  assumes "quiet t1" "catalog_read t1 existing" "svc \<in> set existing" "pv_Name svc = sq_Service req"
    and "quiet t2" "params_accepted L S (sq_Service req) (deploy_tag svc req) (sq_Parameters req) t2"
    and "quiet t3" "package_repository t3 svc repo" "quiet t"
    and "case x of Inl e \<Rightarrow> r = RErr e | Inr i \<Rightarrow> answered_ok r \<and>
      i\<lparr>si_URL := []\<rparr> = releaseToInstance (new_release C project req (deploy_tag svc req) repo)"
  shows "deployed L C S project req (t1 @ t2 @ t3 @ t @
    [(KCreate GetReleaseGVR project (ORelease (new_release C project req (deploy_tag svc req) repo)), r)]) x"
proof -
  have "catalog_read (t1 @ t2 @ t3 @ t) existing"
    using catalog_read_append [OF assms(2), of "[]"] by simp
  moreover have "params_accepted L S (sq_Service req) (deploy_tag svc req) (sq_Parameters req) (t1 @ t2 @ t3 @ t)"
    using params_accepted_append [OF assms(6), of t1 "t3 @ t"] by simp
  moreover have "package_repository (t1 @ t2 @ t3 @ t) svc repo"
    using assms(8) by (auto simp: package_repository_def split: if_splits)
  ultimately show ?thesis
    unfolding deployed_def
    using assms
    by (intro disjI2 exI [of _ existing] exI [of _ svc] exI [of _ repo] exI [of _ "t1 @ t2 @ t3 @ t"]
        exI [of _ r] exI [of _ "new_release C project req (deploy_tag svc req) repo"])
      (simp add: new_release_identifies)
qed

lemma runs_deploy:
  assumes "sv_schema C = Some S"
  shows "runs (DeployService L C project req) (deployed L C S project req)"
proof (cases "sq_Service req = []")
  case True
  then show ?thesis by (simp add: DeployService_def deployed_def)
next
  case False
  show ?thesis
    unfolding DeployService_def
  proof (simp only: False if_False, rule runs_try_seq [OF runs_resolvePlatformService], goal_cases)
    case (1 t e)
    then show ?case by (simp add: deployed_def)
  next
    case (2 t1 svc)
    then obtain existing where svc: "quiet t1" "catalog_read t1 existing" "svc \<in> set existing"
      "pv_Name svc = sq_Service req" by blast
    show ?case
      unfolding Let_def deploy_tag_def [symmetric]
    proof (rule runs_seq [OF runs_validateParameters [OF assms]], goal_cases)
      case (1 t2 v)
      show ?case
      proof (cases v)
        case (Inr u)
        show ?thesis
          unfolding Inr sum.case
        proof (rule runs_seq [OF runs_GetPackageRepository], goal_cases)
          case package: (1 t3 p)
          show ?case
          proof (cases p)
            case (Inr default)
            let ?repo = "if pv_Repository svc \<noteq> [] then pv_Repository svc else default"
            have "package_repository t3 svc ?repo" using package Inr by (auto simp: package_repository_def)
            note created = deployedI [OF svc _ _ _ this]
            show ?thesis
              unfolding Inr sum.case
            proof (rule runs_mono [OF runs_create_release], elim disjE exE conjE, goal_cases)
              case (2 tr x t r)
              then show ?case using created 1 \<open>v = Inr u\<close> package by auto
            qed (use 1 svc(1) package in \<open>simp add: deployed_def\<close>)
          qed (use 1 svc(1) package in \<open>simp add: deployed_def\<close>)
        qed
      qed (use 1 svc(1) in \<open>simp add: deployed_def\<close>)
    qed
  qed
qed

end

text \<open>C18: deploying a service creates at most one object, the release named after
  the project and the instance and labelled with them, as the last call; it does so only for a service
  of the catalog that was read, after the schema of the deployed version accepted the parameters, from
  the repository of the catalog entry or else the Context's; it answers an instance exactly when the
  creation succeeded.\<close>

theorem DeployService_checked:
  "runs (DeployService L (C\<lparr>sv_schema := Some (schema_iface_of L G)\<rparr>) project req)
     (deployed L (C\<lparr>sv_schema := Some (schema_iface_of L G)\<rparr>) (schema_iface_of L G) project req)"
  by (rule packages.runs_deploy) simp

subsection \<open>Editing\<close>

text \<open>
  An edition: it stops without a change, or the release was read, the merged parameters were
  accepted for its service and the resulting version, and the edited release was then written with
  the resource version of a second read; nothing is changed after that.
\<close>

definition edited ::
    "extlib \<Rightarrow> schema_iface \<Rightarrow> string \<Rightarrow> string \<Rightarrow> service_update_request \<Rightarrow> ktrace \<Rightarrow>
       gerr + service_instance \<Rightarrow> bool" where
  "edited L S project rel req tr x =
     ((quiet tr \<and> (\<exists>e. x = Inl e)) \<or>
      (\<exists>r0 release existing t r rest.
         tr = (KGet GetReleaseGVR project rel, RObj (ORelease r0)) # t @
              [(KGet GetReleaseGVR project (md_Name (re_Meta release)), RObj existing),
               (KUpdate GetReleaseGVR project (ORelease (release\<lparr>re_Meta := (re_Meta release)
                  \<lparr>md_ResourceVersion := resource_version existing\<rparr>\<rparr>)), r)] @ rest \<and>
         release = updated_release req r0 \<and> quiet t \<and> quiet rest \<and>
         params_accepted L S (label_of (re_Meta release) LabelService)
           (rp_Tag (rs_Package (re_Spec release))) (rs_Parameters (re_Spec release)) t \<and>
         (case x of
            Inl e \<Rightarrow> \<exists>e'. r = RErr e'
          | Inr i \<Rightarrow> answered_ok r \<and> i\<lparr>si_URL := []\<rparr> = releaseToInstance release)))"

lemma quiet_instance_names [quiet_intros]: "runs (releaseInstanceNames project rel) (\<lambda>tr x. quiet tr)"
  unfolding releaseInstanceNames_def ServiceRepository_Get_def
  by (auto simp: runs_simps Let_def split: sum.split)

lemma quiet_ingress_hosts [quiet_intros]: "runs (namespaceIngressHosts ns) (\<lambda>tr x. quiet tr)"
  by (auto simp: namespaceIngressHosts_def runs_simps)

lemma with_url_clears [simp]: "(with_url i h)\<lparr>si_URL := []\<rparr> = i\<lparr>si_URL := []\<rparr>"
  by (simp add: with_url_def split: option.split)

lemma runs_setURLIfExposed:
  "runs (setURLIfExposed i) (\<lambda>tr x. quiet tr \<and> x\<lparr>si_URL := []\<rparr> = i\<lparr>si_URL := []\<rparr>)"
proof -
  have eq: "quiet tr \<and> quiet t2 \<Longrightarrow> quiet (tr @ t2)" for tr t2 by simp
  show ?thesis
    unfolding setURLIfExposed_def
  proof (rule runs_seq [OF quiet_suffix], goal_cases)
    case (1 t s)
    show ?case
    proof (cases "\<exists>suffix. s = Inr suffix \<and> si_TargetNamespace i \<noteq> []")
      case False
      with 1 show ?thesis by (cases s) simp_all
    next
      case True
      then obtain suffix where s: "s = Inr suffix" "si_TargetNamespace i \<noteq> []" by blast
      show ?thesis
        unfolding s(1) sum.case
      proof (simp only: s(2) if_False, rule runs_seq [OF quiet_instance_names], goal_cases)
        case (1 t2 n)
        show ?case
          by (cases n; simp, (rule runs_seq [OF quiet_ingress_hosts])?)
             (use 1 \<open>quiet t\<close> in simp_all)
      qed
    qed
  qed
qed

context package_schema
begin

lemma editedI:
  assumes "quiet t" "quiet rest" "r2 = updated_release req r0"
    and "params_accepted L S (label_of (re_Meta r2) LabelService) (rp_Tag (rs_Package (re_Spec r2)))
      (rs_Parameters (re_Spec r2)) t"
    and "case x of Inl e \<Rightarrow> \<exists>e'. r = RErr e'
      | Inr i \<Rightarrow> answered_ok r \<and> i\<lparr>si_URL := []\<rparr> = releaseToInstance r2"
  shows "edited L S project rel req
    ((KGet GetReleaseGVR project rel, RObj (ORelease r0)) # t @
      (KGet GetReleaseGVR project (md_Name (re_Meta r2)), RObj existing) #
       (KUpdate GetReleaseGVR project (ORelease (r2\<lparr>re_Meta := (re_Meta r2)
          \<lparr>md_ResourceVersion := resource_version existing\<rparr>\<rparr>)), r) # rest) x"
  unfolding edited_def
  using assms
  by (intro disjI2 exI [of _ r0] exI [of _ r2] exI [of _ existing] exI [of _ t] exI [of _ r] exI [of _ rest]) simp

lemma runs_read_release:
  "runs (ServiceRepository_Get project rel) (\<lambda>tr x.
     (quiet tr \<and> (\<exists>e. x = Inl e)) \<or>
     (\<exists>r0. tr = [(KGet GetReleaseGVR project rel, RObj (ORelease r0))] \<and> x = Inr r0))"
  by (auto simp: ServiceRepository_Get_def runs_simps from_unstructured_def split: option.split)

lemma runs_store_release:
  "runs (ServiceRepository_Update project r) (\<lambda>tr x.
     (quiet tr \<and> (\<exists>e. x = Inl e)) \<or>
     (\<exists>existing a. x = unit_of a \<and>
        tr = [(KGet GetReleaseGVR project (md_Name (re_Meta r)), RObj existing),
              (KUpdate GetReleaseGVR project (ORelease (r\<lparr>re_Meta := (re_Meta r)
                 \<lparr>md_ResourceVersion := resource_version existing\<rparr>\<rparr>)), a)]))"
  by (auto simp: ServiceRepository_Update_def runs_simps answered_ok_def)

lemma runs_edit:
  assumes "sv_schema C = Some S"
  shows "runs (UpdateServiceParameters L C project name req)
     (edited L S project (releaseName_of project name) req)"
  unfolding UpdateServiceParameters_def
proof (rule runs_try_seq [OF runs_read_release], goal_cases)
  case (1 t e)
  then show ?case by (auto simp: edited_def)
next
  case (2 t0 r0)
  then have t0: "t0 = [(KGet GetReleaseGVR project (releaseName_of project name), RObj (ORelease r0))]" by auto
  show ?case
    unfolding Let_def t0
  proof (rule runs_seq [OF runs_validateParameters [OF assms]], goal_cases)
    case (1 t v)
    show ?case
    proof (cases v)
      case (Inr u)
      show ?thesis
        unfolding Inr sum.case
      proof (rule runs_seq [OF runs_store_release], elim disjE exE conjE, goal_cases)
        case (1 t2 a e)
        with \<open>quiet t \<and> _\<close> show ?case by (simp add: edited_def)
      next
        case (2 t2 a existing r)
        show ?case
        proof (cases a)
          case (Inl e)
          with 2 obtain e' where "r = RErr e'" by (cases r) auto
          with 1 2 Inl \<open>v = Inr u\<close> show ?thesis
            by (simp add: editedI [where rest = "[]", simplified])
        next
          case (Inr w)
          with 2 have "answered_ok r" by (cases r) (auto simp: answered_ok_def)
          with 1 2 Inr \<open>v = Inr u\<close> show ?thesis
            by (auto intro!: runs_seq [OF runs_setURLIfExposed] editedI)
        qed
      qed
    qed (use 1 in \<open>simp add: edited_def\<close>)
  qed
qed

end

text \<open>C19: editing a service writes at most one object, the release that
  was read with the requested version and the requested parameters merged over its own, and only
  after the schema of the service at the resulting version accepted the merged parameters; it
  answers an instance exactly when the write succeeded.\<close>

theorem UpdateServiceParameters_checked:
  "runs (UpdateServiceParameters L (C\<lparr>sv_schema := Some (schema_iface_of L G)\<rparr>) project name req)
     (edited L (schema_iface_of L G) project (releaseName_of project name) req)"
  by (rule packages.runs_edit) simp

end
