(* ===== verification/Instance_Properties.thy ===== *)
theory Instance_Properties
  imports Service_Properties
begin

text \<open>
  What an answered instance rests on: its connections, its address, and the agreement of the listed
  and the watched view; and an edit that is lost between two reads of a release.
\<close>

subsection \<open>Connections\<close>

definition entry_of :: "bool \<Rightarrow> input_ref \<Rightarrow> service_connection" where
  "entry_of resolved ref = \<lparr>sn_Name = ir_Name ref, sn_Namespace = ir_Namespace ref,
     sn_Kind = ir_Kind ref, sn_Resolved = resolved\<rparr>"

lemma entry_of_simps [simp]:
  "sn_Name (entry_of b ref) = ir_Name ref" "sn_Resolved (entry_of b ref) = b"
  by (simp_all add: entry_of_def)

lemma remember_step:
  "remember b ref (m, ns) =
     (case mget m (ir_Name ref) of
        Some c \<Rightarrow> (if sn_Resolved c then m else mput (ir_Name ref) (entry_of b ref) m, ns)
      | None \<Rightarrow> (mput (ir_Name ref) (entry_of b ref) m, ns @ [ir_Name ref]))"
  by (simp add: remember_def entry_of_def Let_def split: option.split)

definition named :: "string \<Rightarrow> input_ref \<Rightarrow> bool" where
  "named n ref = (ir_Name ref = n)"

lemma find_named_Cons [simp]:
  "find (named n) (ref # refs) = (if ir_Name ref = n then Some ref else find (named n) refs)"
  by (simp add: named_def)

declare find.simps(2) [simp del]

lemma remember_resolved:
  assumes "\<forall>n c. mget m n = Some c \<longrightarrow> sn_Resolved c"
  shows "\<forall>n. mget (fst (foldl (\<lambda>st ref. remember True ref st) (m, ns) refs)) n =
            (case mget m n of Some c \<Rightarrow> Some c
             | None \<Rightarrow> map_option (entry_of True) (find (named n) refs))"
  using assms
proof (induction refs arbitrary: m ns)
  case (Cons ref refs)
  obtain m' ns' where st: "remember True ref (m, ns) = (m', ns')" by (cases "remember True ref (m, ns)")
  have inv: "\<forall>n c. mget m' n = Some c \<longrightarrow> sn_Resolved c"
    using Cons.prems st by (auto simp: remember_step split: option.splits if_splits)
  have step: "mget m' n = (case mget m n of Some c \<Rightarrow> Some c
      | None \<Rightarrow> if ir_Name ref = n then Some (entry_of True ref) else None)" for n
    using Cons.prems st by (auto simp: remember_step split: option.splits if_splits)
  show ?case
    using Cons.IH [OF inv, of ns'] by (auto simp: st step split: option.splits)
qed (simp split: option.split)

lemma remember_pending:
  "mget (fst (foldl (\<lambda>st ref. remember False ref st) (m, ns) refs)) n =
     (case mget m n of
        Some c \<Rightarrow> (if sn_Resolved c then Some c
                  else case find (named n) (rev refs) of
                    Some ref \<Rightarrow> Some (entry_of False ref) | None \<Rightarrow> Some c)
      | None \<Rightarrow> map_option (entry_of False) (find (named n) (rev refs)))"
proof (induction refs rule: rev_induct)
  case (snoc ref refs)
  obtain m' ns' where st: "foldl (\<lambda>st ref. remember False ref st) (m, ns) refs = (m', ns')"
    by (cases "foldl (\<lambda>st ref. remember False ref st) (m, ns) refs")
  from snoc show ?case
    by (auto simp: st remember_step split: option.splits if_splits)
qed (simp split: option.split)

lemma mput_keys: "fst ` set (mput k v m) = insert k (fst ` set m)"
  by (induction m) auto

lemma remember_order:
  assumes "distinct ns" and "set ns = set (mkeys m)"
  shows "distinct (snd (foldl (\<lambda>st ref. remember b ref st) (m, ns) refs)) \<and>
     set (snd (foldl (\<lambda>st ref. remember b ref st) (m, ns) refs)) =
     set (mkeys (fst (foldl (\<lambda>st ref. remember b ref st) (m, ns) refs)))"
  using assms
proof (induction refs arbitrary: m ns)
  case (Cons ref refs)
  obtain m' ns' where st: "remember b ref (m, ns) = (m', ns')" by (cases "remember b ref (m, ns)")
  have "distinct ns' \<and> set ns' = set (mkeys m')"
  proof (cases "mget m (ir_Name ref)")
    case None
    then have "ir_Name ref \<notin> set ns" using Cons.prems by (simp add: mget_None_keys)
    with None Cons.prems st have "m' = mput (ir_Name ref) (entry_of b ref) m" "ns' = ns @ [ir_Name ref]"
      by (simp_all add: remember_step)
    with Cons.prems \<open>ir_Name ref \<notin> set ns\<close> show ?thesis by (simp add: mput_keys)
  next
    case (Some c)
    have "ir_Name ref \<in> fst ` set m" using mget_in_keys [OF Some] by simp
    then have keys: "fst ` set (mput (ir_Name ref) (entry_of b ref) m) = fst ` set m"
      by (simp only: mput_keys insert_absorb)
    from Some st have "ns' = ns" "m' = (if sn_Resolved c then m else mput (ir_Name ref) (entry_of b ref) m)"
      by (simp_all add: remember_step)
    with Cons.prems keys show ?thesis by simp
  qed
  then show ?case using Cons.IH [of ns' m'] by (simp add: st)
qed simp

lemma find_named_names: "find (named n) refs = None \<longleftrightarrow> n \<notin> ir_Name ` set refs"
  by (auto simp: find_None_iff named_def)

lemma find_named_name: "find (named n) refs = Some ref \<Longrightarrow> ir_Name ref = n"
  by (auto simp: find_Some_iff named_def)

text \<open>What the entry of a name says: the first effective reference, or else the last watched one.\<close>

definition bound_as :: "release_status \<Rightarrow> service_connection \<Rightarrow> bool" where
  "bound_as s c =
     (case find (named (sn_Name c)) (rt_EffectiveInputConnections s) of
        Some ref \<Rightarrow> c = entry_of True ref
      | None \<Rightarrow> (case find (named (sn_Name c)) (rev (rt_WatchedInputConnections s)) of
          Some ref \<Rightarrow> c = entry_of False ref | None \<Rightarrow> False))"

text \<open>The entries and the order of their names, once both lists have been read.\<close>

definition collected :: "release_status \<Rightarrow> service_connection gomap \<times> string list" where
  "collected s = foldl (\<lambda>st ref. remember False ref st)
     (foldl (\<lambda>st ref. remember True ref st) ([], []) (rt_EffectiveInputConnections s)) (rt_WatchedInputConnections s)"

lemma boundConnections_collected:
  "boundConnections r =
     (case collected (re_Status r) of (m, ns) \<Rightarrow> map (\<lambda>n. the (mget m n)) (sort_by (\<lambda>n. n) ns))"
  by (simp add: boundConnections_def collected_def split_def Let_def)

lemma collected_entry:
  "mget (fst (collected s)) n = (case find (named n) (rt_EffectiveInputConnections s) of
      Some ref \<Rightarrow> Some (entry_of True ref)
    | None \<Rightarrow> map_option (entry_of False) (find (named n) (rev (rt_WatchedInputConnections s))))"
proof -
  obtain m ns where st: "foldl (\<lambda>st ref. remember True ref st) ([], []) (rt_EffectiveInputConnections s) = (m, ns)"
    by fastforce
  have "mget m n = map_option (entry_of True) (find (named n) (rt_EffectiveInputConnections s))"
    using remember_resolved [of "[]" "[]" "rt_EffectiveInputConnections s"] by (simp add: st)
  then show ?thesis
    using remember_pending [of m ns "rt_WatchedInputConnections s" n]
    by (simp add: collected_def st split: option.split)
qed

lemma collected_order:
  "distinct (snd (collected s)) \<and> set (snd (collected s)) = set (mkeys (fst (collected s)))"
proof -
  obtain m ns where st: "foldl (\<lambda>st ref. remember True ref st) ([], []) (rt_EffectiveInputConnections s) = (m, ns)"
    by fastforce
  have "distinct ns \<and> set ns = set (mkeys m)"
    using remember_order [of "[]" "[]" True "rt_EffectiveInputConnections s"] by (simp add: st)
  then show ?thesis
    using remember_order [of ns m False "rt_WatchedInputConnections s"] by (simp add: collected_def st)
qed

lemma collected_names:
  "set (snd (collected s)) =
     ir_Name ` (set (rt_EffectiveInputConnections s) \<union> set (rt_WatchedInputConnections s))"
proof -
  have "n \<in> set (snd (collected s)) \<longleftrightarrow> mget (fst (collected s)) n \<noteq> None" for n
    by (simp add: collected_order mget_None_keys)
  moreover have "mget (fst (collected s)) n \<noteq> None \<longleftrightarrow>
      n \<in> ir_Name ` (set (rt_EffectiveInputConnections s) \<union> set (rt_WatchedInputConnections s))" for n
    using find_named_names [of n "rt_EffectiveInputConnections s"]
      find_named_names [of n "rev (rt_WatchedInputConnections s)"]
    by (auto simp: collected_entry image_Un split: option.split)
  ultimately show ?thesis by blast
qed

lemma collected_bound:
  assumes "n \<in> set (snd (collected s))"
  shows "sn_Name (the (mget (fst (collected s)) n)) = n \<and> bound_as s (the (mget (fst (collected s)) n))"
proof (cases "find (named n) (rt_EffectiveInputConnections s)")
  case (Some ref)
  then show ?thesis using find_named_name [OF Some] by (simp add: collected_entry bound_as_def)
next
  case None
  from assms have "mget (fst (collected s)) n \<noteq> None" by (simp add: collected_order mget_None_keys)
  with None obtain ref where w: "find (named n) (rev (rt_WatchedInputConnections s)) = Some ref"
    by (auto simp: collected_entry)
  with None find_named_name [OF w] show ?thesis by (simp add: collected_entry bound_as_def)
qed

text \<open>C21: the connections of an instance list every name its release watches or
  resolved exactly once, in order; a name that resolved shows as resolved, with its first effective
  reference, whatever other candidates are watched; another shows as waiting.\<close>

theorem boundConnections_exact:
  "map sn_Name (boundConnections r) =
     sorted_list_of_set (ir_Name ` (set (rt_EffectiveInputConnections (re_Status r)) \<union>
                                    set (rt_WatchedInputConnections (re_Status r)))) \<and>
   list_all (bound_as (re_Status r)) (boundConnections r)"
proof -
  obtain m ns where st: "collected (re_Status r) = (m, ns)" by fastforce
  have ns: "distinct ns" "set ns = ir_Name ` (set (rt_EffectiveInputConnections (re_Status r)) \<union>
      set (rt_WatchedInputConnections (re_Status r)))"
    using collected_order [of "re_Status r"] collected_names [of "re_Status r"] by (simp_all add: st)
  have entry: "sn_Name (the (mget m n)) = n \<and> bound_as (re_Status r) (the (mget m n))" if "n \<in> set ns" for n
    using collected_bound [of n "re_Status r"] that by (simp add: st)
  have "map sn_Name (boundConnections r) = map (\<lambda>n. n) (sort_by (\<lambda>n. n) ns)"
    unfolding boundConnections_collected st prod.case map_map by (rule map_cong) (simp_all add: entry)
  also have "\<dots> = sorted_list_of_set (set ns)"
    using ns(1) by (simp add: sort_by_def sorted_list_of_set_sort_remdups distinct_remdups_id)
  finally show ?thesis by (simp add: ns(2) entry boundConnections_collected st list_all_iff)
qed

subsection \<open>The listed and the watched view\<close>

text \<open>The object the watch answers is the release the listing decodes.\<close>

definition same_release :: "uobj \<Rightarrow> release \<Rightarrow> bool" where
  "same_release u r =
     (u_Name u = md_Name (re_Meta r) \<and> u_Labels u = md_Labels (re_Meta r) \<and>
      map_option fst (u_CreatedAt u) = md_CreationTimestamp (re_Meta r) \<and>
      u_NestedString u [''spec'', ''package'', ''tag''] = rp_Tag (rs_Package (re_Spec r)) \<and>
      u_NestedString u [''spec'', ''targetNamespace''] = rs_TargetNamespace (re_Spec r) \<and>
      u_NestedString u [''status'', ''phase''] = rt_Phase (re_Status r) \<and>
      u_NestedSlice u [''status'', ''roles''] = Inr (Some (map GStr (rt_Roles (re_Status r)))) \<and>
      u_NestedMap u [''spec'', ''parameters''] = Inr (rs_Parameters (re_Spec r)))"

text \<open>The instance decoded from a watch event is the one the listing shows for
  the same release, without its connections, and with an empty map where the release has no
  parameters.\<close>

theorem watched_instance_agrees:
  assumes "same_release u r"
  shows "FromUnstructuredToServiceInstance u =
    (releaseToInstance r)\<lparr>si_Connections := [],
       si_Parameters := Some (case rs_Parameters (re_Spec r) of None \<Rightarrow> [] | Some m \<Rightarrow> m)\<rparr>"
proof -
  have roles: "keep_some as_str (map GStr ss) = ss" for ss by (induction ss) auto
  have created: "(case u_CreatedAt u of None \<Rightarrow> [] | Some (t, i) \<Rightarrow> t) =
      (case map_option fst (u_CreatedAt u) of None \<Rightarrow> [] | Some t \<Rightarrow> t)"
    by (simp split: option.split)
  show ?thesis
    using assms
    by (simp add: same_release_def FromUnstructuredToServiceInstance_def releaseToInstance_def Let_def
        label_of_def LabelService_def LabelInstanceName_def nested_strings_def roles list_all_iff created
        split: option.split)
qed

definition sample_watched :: uobj where
  "sample_watched = (raw_named ''demo-trino'')
     \<lparr>u_Labels := [(LabelService, ''trino'')],
      u_NestedString := (\<lambda>p. if p = [''spec'', ''package'', ''tag''] then ''480''
        else if p = [''spec'', ''targetNamespace''] then ''demo''
        else if p = [''status'', ''phase''] then ''READY'' else []),
      u_NestedSlice := (\<lambda>p. Inr (Some []))\<rparr>"

definition sample_release :: release where
  "sample_release = \<lparr>re_APIVersion = ReleaseAPIVersion, re_Kind = ReleaseKind,
     re_Meta = object_meta0\<lparr>md_Name := ''demo-trino'', md_Labels := [(LabelService, ''trino'')]\<rparr>,
     re_Spec = \<lparr>rs_Description = [], rs_Package = \<lparr>rp_Repository = [], rp_Tag = ''480'', rp_Interval = [],
       rp_Timeout = [], rp_Insecure = False\<rparr>, rs_Parameters = None, rs_Contexts = [],
       rs_TargetNamespace = ''demo'', rs_CreateNamespace = False\<rparr>,
     re_Status = release_status0\<lparr>rt_Phase := ''READY'',
       rt_EffectiveInputConnections := [\<lparr>ir_Kind = ''Connection'', ir_Name = ''db'', ir_Namespace = ''demo''\<rparr>]\<rparr>\<rparr>"

lemma sample_same: "same_release sample_watched sample_release"
  by (simp add: same_release_def sample_watched_def sample_release_def raw_named_def object_meta0_def
      release_status0_def)

theorem watched_instance_agrees_witness:
  "si_Connections (FromUnstructuredToServiceInstance sample_watched) = [] \<and>
   map sn_Name (boundConnections sample_release) = [''db''] \<and>
   si_Status (FromUnstructuredToServiceInstance sample_watched) = ''Ready''"
proof -
  have "map sn_Name (boundConnections sample_release) = [''db'']"
    by (simp add: boundConnections_def sample_release_def release_status0_def remember_def)
  then show ?thesis
    unfolding watched_instance_agrees [OF sample_same]
    by (simp add: releaseToInstance_def Let_def sample_release_def MapPhaseToStatus_def)
qed

subsection \<open>The address of an instance\<close>

text \<open>
  An address rests on answers of the cluster: an Ingress of the namespace serves the host, and the
  label of that Ingress names a Helm release owned by the instance's release.
\<close>

definition hosts_answered :: "ktrace \<Rightarrow> string \<Rightarrow> string gomap \<Rightarrow> bool" where
  "hosts_answered tr ns hosts =
     (\<forall>h owner. mget hosts h = Some owner \<longrightarrow>
        (\<exists>items. (KList IngressGVR ns [], RItems items) \<in> set tr \<and>
           mget (ingressHostsFromItems (keep_some is_raw items)) h = Some owner))"

definition names_answered :: "ktrace \<Rightarrow> string \<Rightarrow> string \<Rightarrow> string list \<Rightarrow> bool" where
  "names_answered tr ns rel names =
     (\<exists>r hrs. (KGet GetReleaseGVR ns rel, RObj (ORelease r)) \<in> set tr \<and>
        (KList GetHelmReleaseGVR ns [], RItems hrs) \<in> set tr \<and>
        names = map u_Name (filter (\<lambda>hr. md_UID (re_Meta r) \<in> set (u_OwnerUIDs hr)) (keep_some is_raw hrs)))"

definition url_justified :: "ktrace \<Rightarrow> service_instance \<Rightarrow> bool" where
  "url_justified tr i =
     (si_URL i = [] \<or>
      (\<exists>host suffix owner hosts names. si_URL i = ''https://'' @ host \<and>
         host \<in> set (candidateHosts (i\<lparr>si_URL := []\<rparr>) suffix) \<and>
         mget hosts host = Some owner \<and> owner \<in> set names \<and>
         hosts_answered tr (si_TargetNamespace i) hosts \<and>
         names_answered tr (si_TargetNamespace i) (si_ReleaseName i) names))"

lemma hosts_answered_mono: "hosts_answered tr ns hosts \<Longrightarrow> set tr \<subseteq> set tr' \<Longrightarrow> hosts_answered tr' ns hosts"
  unfolding hosts_answered_def by blast

lemma names_answered_mono:
  "names_answered tr ns rel names \<Longrightarrow> set tr \<subseteq> set tr' \<Longrightarrow> names_answered tr' ns rel names"
  unfolding names_answered_def by blast

lemma url_justified_mono: "url_justified tr i \<Longrightarrow> set tr \<subseteq> set tr' \<Longrightarrow> url_justified tr' i"
  unfolding url_justified_def by (meson hosts_answered_mono names_answered_mono)

lemma candidateHosts_url [simp]: "candidateHosts (i\<lparr>si_URL := u\<rparr>) suffix = candidateHosts i suffix"
  by (simp add: candidateHosts_def Let_def)

lemma with_url_justified:
  assumes "si_URL i = []" and "hosts_answered tr (si_TargetNamespace i) hosts"
    and "names_answered tr (si_TargetNamespace i) (si_ReleaseName i) names"
  shows "url_justified tr (with_url i (exposed_host hosts names (candidateHosts i suffix)))"
proof (cases "exposed_host hosts names (candidateHosts i suffix)")
  case None
  with assms(1) show ?thesis by (simp add: with_url_def url_justified_def)
next
  case (Some host)
  then have "host \<in> set (candidateHosts i suffix)"
    and "case mget hosts host of Some owner \<Rightarrow> owner \<in> set names | None \<Rightarrow> False"
    by (auto simp: exposed_host_def dest: find_SomeD)
  then obtain owner where "host \<in> set (candidateHosts i suffix)" "mget hosts host = Some owner" "owner \<in> set names"
    by (auto split: option.splits)
  with assms show ?thesis
    unfolding url_justified_def Some with_url_def by (intro disjI2 exI conjI) (assumption | simp)+
qed

lemma runs_instance_names:
  "runs (releaseInstanceNames ns rel) (\<lambda>tr x. \<forall>names. x = Inr names \<longrightarrow> names_answered tr ns rel names)"
proof -
  have "runs (ServiceRepository_Get ns rel) (\<lambda>tr x. \<forall>r. x = Inr r \<longrightarrow>
      tr = [(KGet GetReleaseGVR ns rel, RObj (ORelease r))])"
    by (auto simp: ServiceRepository_Get_def runs_simps)
  then show ?thesis
    unfolding releaseInstanceNames_def
    by (rule runs_seq) (auto simp: runs_simps Let_def names_answered_def split: sum.split)
qed

lemma runs_ingress_hosts: "runs (namespaceIngressHosts ns) (\<lambda>tr hosts. hosts_answered tr ns hosts)"
  by (auto simp: namespaceIngressHosts_def runs_simps hosts_answered_def)

lemma setURL_justified:
  assumes "si_URL i = []"
  shows "runs (setURLIfExposed i) (\<lambda>tr x. url_justified tr x)"
  unfolding setURLIfExposed_def
proof (rule runs_seq [OF runs_True], goal_cases)
  case (1 t s)
  have none: "url_justified tr i" for tr using assms by (simp add: url_justified_def)
  show ?case
  proof (cases "\<exists>suffix. s = Inr suffix \<and> si_TargetNamespace i \<noteq> []")
    case False
    with none show ?thesis by (cases s) simp_all
  next
    case True
    then obtain suffix where s: "s = Inr suffix" "si_TargetNamespace i \<noteq> []" by blast
    show ?thesis
      unfolding s(1) sum.case
    proof (simp only: s(2) if_False, rule runs_seq [OF runs_instance_names], goal_cases)
      case (1 t2 n)
      show ?case
      proof (cases n)
        case (Inr names)
        with 1 have names: "names_answered t2 (si_TargetNamespace i) (si_ReleaseName i) names" by simp
        show ?thesis
          unfolding Inr sum.case
        proof (rule runs_seq [OF runs_ingress_hosts], goal_cases)
          case (1 t3 hosts)
          then have "url_justified (t2 @ t3) (with_url i (exposed_host hosts names (candidateHosts i suffix)))"
            by (intro with_url_justified [OF assms])
               (auto intro: hosts_answered_mono names_answered_mono [OF names])
          then show ?case by (auto intro: url_justified_mono)
        qed
      qed (simp add: none)
    qed
  qed
qed

text \<open>The cache of the list variant holds answered hosts.\<close>

definition cache_answered :: "ktrace \<Rightarrow> string gomap gomap \<Rightarrow> bool" where
  "cache_answered tr cache = (\<forall>ns hosts. mget cache ns = Some hosts \<longrightarrow> hosts_answered tr ns hosts)"

lemma runs_cached_hosts:
  assumes "cache_answered t cache"
  shows "runs (case mget cache ns of Some hosts \<Rightarrow> Ret hosts | None \<Rightarrow> namespaceIngressHosts ns)
     (\<lambda>tr hosts. hosts_answered (t @ tr) ns hosts)"
proof (cases "mget cache ns")
  case None
  then show ?thesis by simp (rule runs_mono [OF runs_ingress_hosts], auto intro: hosts_answered_mono)
next
  case (Some hosts)
  with assms show ?thesis by (auto simp: cache_answered_def)
qed

lemma enrich_urls_justified:
  assumes "cache_answered t cache" and "list_all (\<lambda>i. si_URL i = []) is"
  shows "runs (enrich_urls suffix cache is) (\<lambda>tr x. list_all (url_justified (t @ tr)) x)"
  using assms
proof (induction "is" arbitrary: cache t)
  case (Cons i "is")
  have none: "url_justified tr i" for tr using Cons.prems by (simp add: url_justified_def)
  show ?case
  proof (cases "si_TargetNamespace i = []")
    case True
    with Cons.prems none show ?thesis
      by simp (rule runs_seq [OF Cons.IH [of t cache]], simp_all)
  next
    case False
    let ?ns = "si_TargetNamespace i"
    show ?thesis
      unfolding enrich_urls.simps Let_def
    proof (simp only: False if_False, rule runs_seq [OF runs_cached_hosts [OF Cons.prems(1)]], goal_cases)
      case (1 t1 hosts)
      note hosts = this
      show ?case
      proof (rule runs_seq [OF runs_instance_names], goal_cases)
        case (1 t2 n)
        let ?i' = "case n of Inl _ \<Rightarrow> i
            | Inr names \<Rightarrow> with_url i (exposed_host hosts names (candidateHosts i suffix))"
        have i': "url_justified (t @ t1 @ t2) ?i'"
        proof (cases n)
          case (Inr names)
          with 1 Cons.prems(2) hosts show ?thesis
            by (auto intro!: with_url_justified intro: hosts_answered_mono names_answered_mono)
        qed (simp add: none)
        have l1: "hosts_answered t ns h \<Longrightarrow> hosts_answered (t @ t1 @ t2) ns h" for ns h
          by (erule hosts_answered_mono) auto
        have l2: "hosts_answered (t @ t1 @ t2) ?ns hosts"
          by (rule hosts_answered_mono [OF hosts]) auto
        have "cache_answered (t @ t1 @ t2) (mput ?ns hosts cache)"
          using Cons.prems(1) l1 l2 by (auto simp: cache_answered_def)
        then have "runs (enrich_urls suffix (mput ?ns hosts cache) is)
            (\<lambda>tr x. list_all (url_justified ((t @ t1 @ t2) @ tr)) x)"
          using Cons.prems(2) by (intro Cons.IH) simp_all
        then show ?case
          by (rule runs_seq) (use i' in \<open>auto intro: url_justified_mono\<close>)
      qed
    qed
  qed
qed simp

lemma enrichWithURL_justified:
  assumes "list_all (\<lambda>i. si_URL i = []) is"
  shows "runs (enrichWithURL is) (\<lambda>tr x. list_all (url_justified tr) x)"
  unfolding enrichWithURL_def
proof (rule runs_seq [OF runs_True], goal_cases)
  case (1 t s)
  show ?case
  proof (cases s)
    case (Inl e)
    have "list_all (url_justified t) is" using assms by (auto simp: list_all_iff url_justified_def)
    with Inl show ?thesis by simp
  next
    case (Inr suffix)
    have "cache_answered [] ([] :: string gomap gomap)" by (simp add: cache_answered_def)
    from enrich_urls_justified [OF this assms] show ?thesis
      unfolding Inr sum.case
      by (rule runs_mono) (auto simp: list_all_iff intro: url_justified_mono)
  qed
qed

text \<open>The health of an instance only changes its status.\<close>

definition but_status :: "service_instance \<Rightarrow> service_instance" where
  "but_status i = i\<lparr>si_Status := [], si_StatusMessage := []\<rparr>"

lemma but_status_simps [simp]:
  "but_status (i\<lparr>si_Status := s\<rparr>) = but_status i" "but_status (i\<lparr>si_StatusMessage := m\<rparr>) = but_status i"
  by (simp_all add: but_status_def)

lemma url_justified_but_status: "but_status i = but_status j \<Longrightarrow> url_justified tr i \<longleftrightarrow> url_justified tr j"
proof -
  assume eq: "but_status i = but_status j"
  have "si_URL i = si_URL j" "si_TargetNamespace i = si_TargetNamespace j" "si_ReleaseName i = si_ReleaseName j"
    "si_Roles i = si_Roles j" "si_Name i = si_Name j" "si_Service i = si_Service j"
    using arg_cong [OF eq, of si_URL] arg_cong [OF eq, of si_TargetNamespace] arg_cong [OF eq, of si_ReleaseName]
      arg_cong [OF eq, of si_Roles] arg_cong [OF eq, of si_Name] arg_cong [OF eq, of si_Service]
    by (simp_all add: but_status_def)
  then show ?thesis by (simp add: url_justified_def candidateHosts_def Let_def)
qed

lemma url_justified_status:
  assumes "url_justified s i" and "but_status j = but_status i" and "set s \<subseteq> set s'"
  shows "url_justified s' j"
  using url_justified_but_status [OF assms(2)] url_justified_mono [OF assms(1,3)] by blast

lemma enrich_health_status:
  "runs (enrich_health C cache is) (\<lambda>tr x. map but_status x = map but_status is)"
proof (induction "is" arbitrary: cache)
  case (Cons i "is")
  have next': "runs (prog_bind (enrich_health C cache' is) (\<lambda>rest. Ret (i' # rest)))
      (\<lambda>tr x. map but_status x = map but_status (i # is))" if "but_status i' = but_status i" for i' cache'
    by (rule runs_seq [OF Cons.IH]) (use that in simp)
  show ?case
  proof (cases "si_Status i \<noteq> ''Ready'' \<or> si_TargetNamespace i = []")
    case True
    then show ?thesis unfolding enrich_health.simps by (simp only: if_True) (rule next', simp)
  next
    case False
    show ?thesis
      unfolding enrich_health.simps Let_def
    proof (simp only: False if_False, rule runs_seq [OF runs_True], goal_cases)
      case (1 t listed)
      show ?case
      proof (cases listed)
        case None
        show ?thesis unfolding None option.case by (rule next') simp
      next
        case (Some pods)
        show ?thesis
          unfolding Some option.case
        proof (rule runs_seq [OF runs_True], goal_cases)
          case (1 t n)
          show ?case by (cases n; simp only: sum.case; rule next'; simp)
        qed
      qed
    qed
  qed
qed simp

lemma fresh_address: "si_URL (releaseToInstance r) = []"
  by (simp add: releaseToInstance_def Let_def)

lemma health_keeps_address:
  assumes "map but_status is2 = map but_status is1" "list_all (url_justified t2) is1"
  shows "list_all (url_justified (t @ t2 @ t3)) is2"
  unfolding list_all_length
proof (intro allI impI)
  fix k assume k: "k < length is2"
  have len: "length is2 = length is1" using assms(1) by (metis length_map)
  from assms(1) k len have b: "but_status (is2 ! k) = but_status (is1 ! k)" by (metis nth_map)
  from assms(2) k len have u: "url_justified t2 (is1 ! k)" by (simp add: list_all_length)
  show "url_justified (t @ t2 @ t3) (is2 ! k)" by (rule url_justified_status [OF u b]) auto
qed

lemma ListServices_justified:
  "runs (ListServices C project) (\<lambda>tr x. case x of Inl e \<Rightarrow> True | Inr is \<Rightarrow> list_all (url_justified tr) is)"
  unfolding ListServices_def
proof (rule runs_try_seq [OF runs_True], goal_cases)
  case (2 t rs)
  have "list_all (\<lambda>i. si_URL i = []) (map releaseToInstance rs)" by (simp add: list_all_iff fresh_address)
  then show ?case
  proof (rule runs_seq [OF enrichWithURL_justified], goal_cases)
    case (1 t2 is1)
    then show ?case
      unfolding enrichWithPodHealth_def
      by (auto intro!: runs_seq [OF enrich_health_status] health_keeps_address)
  qed
qed simp

lemma GetService_justified:
  "runs (GetService L C project name) (\<lambda>tr x. case x of Inl e \<Rightarrow> True | Inr i \<Rightarrow> url_justified tr i)"
  unfolding GetService_def
proof (rule runs_try_seq [OF runs_True], goal_cases)
  case (2 t r)
  show ?case
  proof (rule runs_seq [OF setURL_justified [OF fresh_address]], goal_cases)
    case (1 t2 i)
    have just: "url_justified (t @ t2 @ t3) j" if "but_status j = but_status i" for j t3
      by (rule url_justified_status [OF 1 that]) auto
    show ?case
      unfolding Let_def
    proof (rule runs_seq [OF runs_True], goal_cases)
      case (1 t3 js)
      let ?i = "i\<lparr>si_Status := si_Status (hd js)\<rparr>"
      show ?case
      proof (cases "si_Status ?i \<noteq> ''Ready''")
        case True
        show ?thesis
          unfolding if_P [OF True] by (rule runs_seq [OF runs_True]) (use just in simp)
      next
        case False
        then show ?thesis by (simp add: just)
      qed
    qed
  qed
qed simp

text \<open>C20: the address shown for a listed or a read instance is empty, or it is one of
  its candidate hosts that an Ingress of its namespace, as answered by the cluster, serves under the
  label of a Helm release that the instance's own release owns; an address is never made up and never
  that of a neighbour.\<close>

theorem instance_url_owned:
  "runs (ListServices C project) (\<lambda>tr x. case x of Inl e \<Rightarrow> True | Inr is \<Rightarrow> list_all (url_justified tr) is) \<and>
   runs (GetService L C project name) (\<lambda>tr x. case x of Inl e \<Rightarrow> True | Inr i \<Rightarrow> url_justified tr i)"
  using ListServices_justified GetService_justified by blast

subsection \<open>An edit lost between two reads\<close>

definition sample_context :: uobj where
  "sample_context = (raw_named ''default'')\<lparr>u_NestedString := (\<lambda>p.
     if p = [''spec'', ''context'', ''serviceCatalog'', ''defaultRepository''] then ''quay.io/a'' else [])\<rparr>"

definition sample_config :: service_config where
  "sample_config = \<lparr>sv_contextName = ''default'', sv_contextNamespace = ''okdp'',
     sv_releaseInterval = ''1m'', sv_releaseTimeout = ''5m'', sv_sidecarPrefixes = [],
     sv_insecureRegistries = [], sv_schema = Some (schema_iface_of lenient_lib anonymous_config),
     sv_writable = True\<rparr>"

text \<open>The release as somebody else has just changed it.\<close>

definition scaled_release :: release where
  "scaled_release = sample_release
     \<lparr>re_Meta := (re_Meta sample_release)\<lparr>md_ResourceVersion := ''2''\<rparr>,
      re_Spec := (re_Spec sample_release)\<lparr>rs_Parameters := Some [(''workers'', GInt 5)]\<rparr>\<rparr>"

definition written_release :: release where
  "written_release = (updated_release \<lparr>sw_Tag = ''481'', sw_Parameters = None\<rparr> sample_release)
     \<lparr>re_Meta := (re_Meta sample_release)\<lparr>md_ResourceVersion := ''2''\<rparr>\<rparr>"

text \<open>Between the read an edition starts from and its write, the
  repository reads the release a second time and takes only its resource version: parameters that
  somebody stored in between are overwritten by a request that does not mention parameters, the write
  carries the newer version, so it meets no conflict, and success is answered.\<close>

lemma update_loses_concurrent_edit:
  "\<exists>tr i. exec (UpdateServiceParameters lenient_lib sample_config ''demo'' ''trino''
        \<lparr>sw_Tag = ''481'', sw_Parameters = None\<rparr>) tr (Inr i) \<and>
     (KGet GetReleaseGVR ''demo'' ''demo-trino'', RObj (ORelease scaled_release)) \<in> set tr \<and>
     (KUpdate GetReleaseGVR ''demo'' (ORelease written_release), ROk) \<in> set tr \<and>
     md_ResourceVersion (re_Meta written_release) = md_ResourceVersion (re_Meta scaled_release) \<and>
     rs_Parameters (re_Spec scaled_release) = Some [(''workers'', GInt 5)] \<and>
     rs_Parameters (re_Spec written_release) = None"
proof -
  let ?get = "KGet GetReleaseGVR ''demo'' ''demo-trino''"
  let ?ctx = "(KContext, RObj (ORaw sample_context))"
  let ?tr = "[(?get, RObj (ORelease sample_release)), ?ctx, ?ctx,
     (KCacheLoad ''schema:trino:481'', RCached (Some (SchemaEntry [] [] 0))), (KNow, RTime 0),
     (?get, RObj (ORelease scaled_release)), (KUpdate GetReleaseGVR ''demo'' (ORelease written_release), ROk),
     (KContext, RErr bad_answer)]"
  let ?i = "releaseToInstance (updated_release \<lparr>sw_Tag = ''481'', sw_Parameters = None\<rparr> sample_release)"
  have services: "GetPlatformServices_of sample_context = Inr []"
    by (simp add: GetPlatformServices_of_def catalogCategories_def sample_context_def raw_named_def)
  have repo: "required_string [''serviceCatalog'', ''defaultRepository''] fmt sample_context = Inr ''quay.io/a''" for fmt
    by (simp add: required_string_def sample_context_def)
  have "exec (UpdateServiceParameters lenient_lib sample_config ''demo'' ''trino''
        \<lparr>sw_Tag = ''481'', sw_Parameters = None\<rparr>) ?tr (Inr ?i)"
    by (simp add: replay_exec UpdateServiceParameters_def ServiceRepository_Get_def ServiceRepository_Update_def
        releaseName_of_def call_obj_def call_unit_def from_unstructured_def updated_release_def
        validateParameters_def sample_config_def schema_iface_of_def GetParameterSchema_def resolvePackage_def
        ContextRepository_GetPlatformServices_def GetPackageRepository_def reading_def services repo
        load_def cached_schema_def cache_key_def cacheTTL_def lenient_lib_def setURLIfExposed_def GetIngressSuffix_def
        sample_release_def scaled_release_def written_release_def object_meta0_def Let_def label_of_def mstr_def
        LabelService_def)
  moreover have "md_ResourceVersion (re_Meta written_release) = md_ResourceVersion (re_Meta scaled_release)"
    "rs_Parameters (re_Spec scaled_release) = Some [(''workers'', GInt 5)]"
    "rs_Parameters (re_Spec written_release) = None"
    by (simp_all add: written_release_def scaled_release_def sample_release_def updated_release_def Let_def)
  ultimately show ?thesis by (intro exI [of _ ?tr] exI [of _ ?i]) simp
qed

end
