(* ===== verification/API_Probe.thy ===== *)
theory API_Probe
  imports Kube "HOL-Library.Multiset"
begin

text \<open>
  The availability probe of a custom resource (\<^verbatim>\<open>internal/repository/api_availability.go\<close>): what
  answers the calls \<^term>\<open>KAvailable g\<close> of the repositories. A positive discovery is kept for the
  life of the process, a negative one for 30 s, and callers arriving while a discovery runs wait
  for it on a channel. Each section the mutex protects is one definition on the state of the probe;
  \<^verbatim>\<open>Available\<close> is the small-step relation its callers follow, at the granularity of the code: the
  discovery runs outside the lock, and the channel is closed after the lock is released.
\<close>

definition crdAvailabilityTTL :: int where
  "crdAvailabilityTTL = 30 * 1000000000"

text \<open>A channel is a number; a nil channel is \<^term>\<open>None\<close>, and so is the zero time.\<close>

record api_probe =
  pb_HasClient :: bool
  pb_GVR :: gvr
  pb_AlsoRequired :: "string list"
  pb_Available :: bool
  pb_CheckedAt :: "int option"
  pb_Inflight :: "nat option"

definition NewAPIProbe :: "bool \<Rightarrow> gvr \<Rightarrow> string list \<Rightarrow> api_probe" where
  "NewAPIProbe hasClient gvr alsoRequired =
     \<lparr>pb_HasClient = hasClient, pb_GVR = gvr, pb_AlsoRequired = alsoRequired, pb_Available = False,
      pb_CheckedAt = None, pb_Inflight = None\<rparr>"

text \<open>\<^verbatim>\<open>GroupVersion().String()\<close>: the core group has no prefix.\<close>

fun groupVersion :: "gvr \<Rightarrow> string" where
  "groupVersion (g, version, resource) = (if g = [] then version else g @ ''/'' @ version)"

definition serves_all :: "string list \<Rightarrow> api_probe \<Rightarrow> bool" where
  "serves_all served p =
     list_all (\<lambda>required. required \<in> set served) (snd (snd (pb_GVR p)) # pb_AlsoRequired p)"

definition probe :: "api_probe \<Rightarrow> bool kprog" where
  "probe p =
     (if \<not> pb_HasClient p then Ret False
      else Call (KDiscover (groupVersion (pb_GVR p)))
        (\<lambda>r. Ret (case r of RNames served \<Rightarrow> serves_all served p | _ \<Rightarrow> False)))"

subsection \<open>The sections under the lock\<close>

datatype verdict = Answer bool | WaitFor nat | StartProbe nat

text \<open>The first section, which decides what the caller does; the channel it may make comes fresh.\<close>

definition Available_check :: "int \<Rightarrow> nat \<Rightarrow> api_probe \<Rightarrow> verdict \<times> api_probe" where
  "Available_check now fresh p =
     (if pb_Available p then (Answer True, p)
      else if (case pb_CheckedAt p of None \<Rightarrow> False | Some t \<Rightarrow> now - t < crdAvailabilityTTL)
      then (Answer False, p)
      else case pb_Inflight p of
        Some inflight \<Rightarrow> (WaitFor inflight, p)
      | None \<Rightarrow> (StartProbe fresh, p\<lparr>pb_Inflight := Some fresh\<rparr>))"

text \<open>The second section, after the discovery.\<close>

definition Available_store :: "int \<Rightarrow> bool \<Rightarrow> api_probe \<Rightarrow> api_probe" where
  "Available_store now available p =
     p\<lparr>pb_Inflight := None, pb_CheckedAt := Some now, pb_Available := available\<rparr>"

subsection \<open>The callers\<close>

datatype caller =
    Entering
  | Waiting nat
  | Probing nat
  | Storing nat bool
  | Closing nat bool
  | Returned bool

text \<open>
  The shared state: the probe (\<^term>\<open>None\<close> for a nil probe), the closed channels, the next fresh
  channel, the monotonic clock the instants come from, and what each caller is doing. The last
  field is a ghost: the discoveries that were stored, latest first.
\<close>

record probe_world =
  w_Probe :: "api_probe option"
  w_Closed :: "nat list"
  w_Fresh :: nat
  w_Now :: int
  w_Callers :: "caller list"
  w_Log :: "(int \<times> bool) list"

definition start_world :: "api_probe option \<Rightarrow> nat \<Rightarrow> int \<Rightarrow> probe_world" where
  "start_world p n now = \<lparr>w_Probe = p, w_Closed = [], w_Fresh = 0, w_Now = now,
     w_Callers = replicate n Entering, w_Log = []\<rparr>"

text \<open>Where the first section sends a caller.\<close>

fun after_check :: "verdict \<Rightarrow> caller" where
  "after_check (Answer b) = Returned b"
| "after_check (WaitFor ch) = Waiting ch"
| "after_check (StartProbe ch) = Probing ch"

datatype event = Tick | Check nat | NilCheck nat | Discovered nat | Store nat | Close nat | Wake nat

definition goto :: "nat \<Rightarrow> caller \<Rightarrow> probe_world \<Rightarrow> probe_world" where
  "goto i c w = w\<lparr>w_Callers := (w_Callers w)[i := c]\<rparr>"

inductive available_step :: "event \<Rightarrow> probe_world \<Rightarrow> probe_world \<Rightarrow> bool" where
  tick: "0 \<le> d \<Longrightarrow> available_step Tick w (w\<lparr>w_Now := w_Now w + d\<rparr>)"
| nil_probe: "w_Probe w = None \<Longrightarrow> i < length (w_Callers w) \<Longrightarrow> w_Callers w ! i = Entering \<Longrightarrow>
     available_step (NilCheck i) w (goto i (Returned False) w)"
| check: "w_Probe w = Some p \<Longrightarrow> i < length (w_Callers w) \<Longrightarrow> w_Callers w ! i = Entering \<Longrightarrow>
     Available_check (w_Now w) (w_Fresh w) p = (v, p') \<Longrightarrow>
     available_step (Check i) w
       (goto i (after_check v) w\<lparr>w_Probe := Some p', w_Fresh := Suc (w_Fresh w)\<rparr>)"
| discovered: "w_Probe w = Some p \<Longrightarrow> i < length (w_Callers w) \<Longrightarrow> w_Callers w ! i = Probing ch \<Longrightarrow>
     exec (probe p) tr b \<Longrightarrow>
     available_step (Discovered i) w (goto i (Storing ch b) w)"
| store: "w_Probe w = Some p \<Longrightarrow> i < length (w_Callers w) \<Longrightarrow> w_Callers w ! i = Storing ch b \<Longrightarrow>
     available_step (Store i) w
       (goto i (Closing ch b) w\<lparr>w_Probe := Some (Available_store (w_Now w) b p),
          w_Log := (w_Now w, b) # w_Log w\<rparr>)"
| close: "i < length (w_Callers w) \<Longrightarrow> w_Callers w ! i = Closing ch b \<Longrightarrow>
     available_step (Close i) w (goto i (Returned b) w\<lparr>w_Closed := ch # w_Closed w\<rparr>)"
| wake: "i < length (w_Callers w) \<Longrightarrow> w_Callers w ! i = Waiting ch \<Longrightarrow> ch \<in> set (w_Closed w) \<Longrightarrow>
     available_step (Wake i) w (goto i Entering w)"

inductive_cases available_stepE: "available_step e w w'"

inductive available_run :: "event list \<Rightarrow> probe_world \<Rightarrow> probe_world \<Rightarrow> bool" where
  start: "available_run [] w w"
| step: "available_run es w w' \<Longrightarrow> available_step e w' w'' \<Longrightarrow> available_run (es @ [e]) w w''"

text \<open>What holds after every run.\<close>

definition always :: "probe_world \<Rightarrow> (event list \<Rightarrow> probe_world \<Rightarrow> bool) \<Rightarrow> bool" where
  "always w0 P = (\<forall>es w. available_run es w0 w \<longrightarrow> P es w)"

lemma alwaysI:
  assumes "P [] w0"
    and "\<And>es e w w'. available_run es w0 w \<Longrightarrow> P es w \<Longrightarrow> available_step e w w' \<Longrightarrow> P (es @ [e]) w'"
  shows "always w0 P"
proof -
  have "P es w" if "available_run es w0 w" for es w
    using that assms by (induction es w0 w rule: available_run.induct) blast+
  then show ?thesis by (simp add: always_def)
qed

lemma always_mono: "always w0 P \<Longrightarrow> (\<And>es w. P es w \<Longrightarrow> Q es w) \<Longrightarrow> always w0 Q"
  by (simp add: always_def)

lemma goto_simps [simp]:
  "w_Probe (goto i c w) = w_Probe w" "w_Closed (goto i c w) = w_Closed w"
  "w_Fresh (goto i c w) = w_Fresh w" "w_Now (goto i c w) = w_Now w" "w_Log (goto i c w) = w_Log w"
  "w_Callers (goto i c w) = (w_Callers w)[i := c]"
  by (simp_all add: goto_def)

lemma goto_shut: "goto i c (w\<lparr>w_Closed := x\<rparr>) = (goto i c w)\<lparr>w_Closed := x\<rparr>"
  by (cases w) (simp add: goto_def)

subsection \<open>The invariant\<close>

fun in_flight :: "caller \<Rightarrow> nat option" where
  "in_flight (Probing ch) = Some ch"
| "in_flight (Storing ch b) = Some ch"
| "in_flight _ = None"

fun holding :: "caller \<Rightarrow> nat option" where
  "holding (Probing ch) = Some ch"
| "holding (Storing ch b) = Some ch"
| "holding (Closing ch b) = Some ch"
| "holding _ = None"

definition current :: "probe_world \<Rightarrow> nat option" where
  "current w = (case w_Probe w of None \<Rightarrow> None | Some p \<Rightarrow> pb_Inflight p)"

text \<open>The callers that run a discovery are exactly one, the one whose channel the probe shows, or none.\<close>

definition single_flight :: "probe_world \<Rightarrow> bool" where
  "single_flight w =
     (keep_some in_flight (w_Callers w) = (case current w of None \<Rightarrow> [] | Some ch \<Rightarrow> [ch]))"

text \<open>A waiting caller will be woken: its channel is closed, or a caller is still to close it.\<close>

definition no_lost_wakeup :: "probe_world \<Rightarrow> bool" where
  "no_lost_wakeup w = list_all (\<lambda>c. case c of
       Waiting ch \<Rightarrow> ch \<in> set (w_Closed w) \<or> ch \<in> set (keep_some holding (w_Callers w))
     | _ \<Rightarrow> True) (w_Callers w)"

text \<open>What the discoveries stored so far say about the resource.\<close>

fun known :: "int \<Rightarrow> (int \<times> bool) list \<Rightarrow> bool option" where
  "known now [] = None"
| "known now ((t, b) # hist) =
     (if b then Some True else if now - t < crdAvailabilityTTL then Some False else None)"

text \<open>The probe is a summary of the log, and a discovery runs only when the log says nothing.\<close>

definition summary_of :: "(int \<times> bool) list \<Rightarrow> bool \<times> int option" where
  "summary_of hist = (case hist of [] \<Rightarrow> (False, None) | (t, b) # _ \<Rightarrow> (b, Some t))"

definition summarised :: "probe_world \<Rightarrow> bool" where
  "summarised w = (case w_Probe w of
       None \<Rightarrow> w_Log w = [] \<and> list_all (\<lambda>c. c = Entering \<or> c = Returned False) (w_Callers w)
     | Some p \<Rightarrow> (pb_Available p, pb_CheckedAt p) = summary_of (w_Log w) \<and>
         (pb_Inflight p \<noteq> None \<longrightarrow> known (w_Now w) (w_Log w) = None))"

lemma known_later: "known now hist = None \<Longrightarrow> 0 \<le> d \<Longrightarrow> known (now + d) hist = None"
  by (cases hist) (auto split: if_splits)

lemma check_known:
  assumes "(pb_Available p, pb_CheckedAt p) = summary_of hist"
  shows "Available_check now fresh p =
    (case known now hist of
       Some b \<Rightarrow> (Answer b, p)
     | None \<Rightarrow> (case pb_Inflight p of
         Some ch \<Rightarrow> (WaitFor ch, p) | None \<Rightarrow> (StartProbe fresh, p\<lparr>pb_Inflight := Some fresh\<rparr>)))"
  using assms
  by (cases hist) (auto simp: Available_check_def summary_of_def split: prod.splits)

lemma keep_some_update:
  assumes "i < length xs" and "f (xs ! i) = f c"
  shows "keep_some f (xs[i := c]) = keep_some f xs"
  using assms
proof (induction xs arbitrary: i)
  case (Cons x xs)
  then show ?case by (cases i) (auto split: option.splits)
qed simp

lemma keep_some_add:
  assumes "i < length xs" and "keep_some f xs = []" and "f c = Some y"
  shows "keep_some f (xs[i := c]) = [y]"
  using assms
proof (induction xs arbitrary: i)
  case (Cons x xs)
  then show ?case by (cases i) (auto split: option.splits)
qed simp

lemma keep_some_remove:
  assumes "i < length xs" and "keep_some f xs = [y]" and "f (xs ! i) = Some z" and "f c = None"
  shows "keep_some f (xs[i := c]) = []"
  using assms
proof (induction xs arbitrary: i)
  case (Cons x xs)
  have none: "f (xs ! j) = None" if "keep_some f xs = []" "j < length xs" for j
    using that by (induction xs arbitrary: j) (auto simp: less_Suc_eq_0_disj nth_Cons split: option.splits nat.splits)
  from Cons show ?case by (cases i) (auto dest: none split: option.splits)
qed simp


lemma holding_update:
  assumes "i < length cs" and "cs ! i = old" and "ch \<in> set (keep_some holding cs)"
    and "\<forall>y. holding old = Some y \<longrightarrow> y = ch \<longrightarrow> holding c = Some ch"
  shows "ch \<in> set (keep_some holding (cs[i := c]))"
proof -
  obtain x where x: "x \<in> set cs" "holding x = Some ch" using assms(3) by (auto simp: set_keep_some)
  then obtain j where j: "j < length cs" "cs ! j = x" by (auto simp: in_set_conv_nth)
  show ?thesis
  proof (cases "j = i")
    case True
    then have "holding c = Some ch" using assms j x by auto
    then show ?thesis using assms(1) by (auto simp: set_keep_some intro!: bexI [of _ c] set_update_memI)
  next
    case False
    then have "x \<in> set (cs[i := c])" using j by (metis length_list_update nth_list_update_neq nth_mem)
    then show ?thesis using x by (auto simp: set_keep_some)
  qed
qed

text \<open>A caller is as safe as before when closed channels stay closed and holders keep theirs.\<close>

lemma no_lost_wakeup_step:
  assumes w: "no_lost_wakeup w" and i: "i < length (w_Callers w)"
    and old: "\<forall>ch. holding (w_Callers w ! i) = Some ch \<longrightarrow>
        holding c = Some ch \<or> ch \<in> set shut"
    and new: "\<forall>ch. c = Waiting ch \<longrightarrow>
        ch \<in> set shut \<or> ch \<in> set (keep_some holding ((w_Callers w)[i := c]))"
    and closed: "set (w_Closed w) \<subseteq> set shut"
    and w': "w_Callers w' = (w_Callers w)[i := c]" "w_Closed w' = shut"
  shows "no_lost_wakeup w'"
proof -
  have "case (w_Callers w)[i := c] ! j of
      Waiting ch \<Rightarrow> ch \<in> set shut \<or> ch \<in> set (keep_some holding ((w_Callers w)[i := c]))
    | _ \<Rightarrow> True" if j: "j < length ((w_Callers w)[i := c])" for j
  proof (cases "(w_Callers w)[i := c] ! j")
    case (Waiting ch)
    show ?thesis
    proof (cases "j = i")
      case True
      with Waiting i new show ?thesis by simp
    next
      case False
      with Waiting j w have "ch \<in> set (w_Closed w) \<or> ch \<in> set (keep_some holding (w_Callers w))"
        by (auto simp: no_lost_wakeup_def list_all_length dest!: spec [of _ j])
      moreover have "ch \<in> set shut \<or> ch \<in> set (keep_some holding ((w_Callers w)[i := c]))"
        if "ch \<in> set (keep_some holding (w_Callers w))"
      proof (cases "ch \<in> set shut")
        case False
        then show ?thesis using old by (auto intro: holding_update [OF i refl that])
      qed simp
      ultimately show ?thesis using Waiting closed by auto
    qed
  qed auto
  then show ?thesis unfolding no_lost_wakeup_def list_all_length w' by simp
qed

definition probe_inv :: "probe_world \<Rightarrow> bool" where
  "probe_inv w = (single_flight w \<and> no_lost_wakeup w \<and> summarised w)"

lemma single_flight_in_flight:
  assumes "single_flight w" and "i < length (w_Callers w)" and "in_flight (w_Callers w ! i) = Some ch"
  shows "current w = Some ch"
proof -
  have "ch \<in> set (keep_some in_flight (w_Callers w))"
    using assms(2,3) by (auto simp: set_keep_some intro!: bexI [OF _ nth_mem])
  with assms(1) show ?thesis by (auto simp: single_flight_def split: option.splits)
qed

lemma current_held:
  assumes "single_flight w" and "current w = Some ch"
  shows "ch \<in> set (keep_some holding (w_Callers w))"
proof -
  have "ch \<in> set (keep_some in_flight (w_Callers w))" using assms by (simp add: single_flight_def)
  then obtain c where c: "c \<in> set (w_Callers w)" "in_flight c = Some ch"
    unfolding set_keep_some by blast
  from c(2) have "holding c = Some ch" by (cases c) auto
  with c(1) show ?thesis unfolding set_keep_some by blast
qed

lemma start_inv: "probe_inv (start_world (map_option (\<lambda>(c, g, r). NewAPIProbe c g r) p) n now)"
proof -
  have "keep_some in_flight (replicate n Entering) = []" by (induction n) auto
  then show ?thesis
    by (cases p)
      (auto simp: probe_inv_def start_world_def single_flight_def current_def NewAPIProbe_def
         no_lost_wakeup_def summarised_def summary_of_def list_all_iff)
qed

text \<open>Each step keeps the invariant.\<close>

lemma summarised_move:
  "summarised w \<Longrightarrow> w_Probe w \<noteq> None \<Longrightarrow> summarised (goto i c w)"
  by (auto simp: summarised_def split: option.splits)

lemma single_flight_move:
  assumes "single_flight w" and "i < length (w_Callers w)" and "in_flight (w_Callers w ! i) = in_flight c"
  shows "single_flight (goto i c w)"
  using assms by (simp add: single_flight_def keep_some_update current_def)

lemma inv_discovered:
  assumes inv: "probe_inv w" and p: "w_Probe w = Some p" and i: "i < length (w_Callers w)"
    and c: "w_Callers w ! i = Probing ch"
  shows "probe_inv (goto i (Storing ch b) w)"
proof -
  have "single_flight (goto i (Storing ch b) w)"
    using inv by (intro single_flight_move) (auto simp: probe_inv_def i c)
  moreover have "no_lost_wakeup (goto i (Storing ch b) w)"
    by (rule no_lost_wakeup_step [OF _ i, where c = "Storing ch b" and shut = "w_Closed w"])
      (use inv c in \<open>auto simp: probe_inv_def\<close>)
  moreover have "summarised (goto i (Storing ch b) w)"
    using inv p by (intro summarised_move) (auto simp: probe_inv_def)
  ultimately show ?thesis by (simp add: probe_inv_def)
qed

lemma inv_wake:
  assumes inv: "probe_inv w" and i: "i < length (w_Callers w)"
    and c: "w_Callers w ! i = Waiting ch"
  shows "probe_inv (goto i Entering w)"
proof -
  have "w_Probe w \<noteq> None"
    using inv i c nth_mem [OF i] by (auto simp: probe_inv_def summarised_def list_all_iff split: option.splits)
  then have "summarised (goto i Entering w)"
    using inv by (intro summarised_move) (auto simp: probe_inv_def)
  moreover have "single_flight (goto i Entering w)"
    using inv by (intro single_flight_move) (auto simp: probe_inv_def i c)
  moreover have "no_lost_wakeup (goto i Entering w)"
    by (rule no_lost_wakeup_step [OF _ i, where c = Entering and shut = "w_Closed w"])
      (use inv c in \<open>auto simp: probe_inv_def\<close>)
  ultimately show ?thesis by (simp add: probe_inv_def)
qed

lemma inv_close:
  assumes inv: "probe_inv w" and i: "i < length (w_Callers w)"
    and c: "w_Callers w ! i = Closing ch b"
  shows "probe_inv (goto i (Returned b) w\<lparr>w_Closed := ch # w_Closed w\<rparr>)"
proof -
  let ?w = "w\<lparr>w_Closed := ch # w_Closed w\<rparr>"
  have probe: "w_Probe w \<noteq> None"
    using inv i c nth_mem [OF i] by (auto simp: probe_inv_def summarised_def list_all_iff split: option.splits)
  have "summarised ?w" using inv probe by (auto simp: probe_inv_def summarised_def split: option.splits)
  with probe have "summarised (goto i (Returned b) ?w)" by (intro summarised_move) auto
  moreover have "single_flight (goto i (Returned b) ?w)"
    using inv by (intro single_flight_move)
      (auto simp: probe_inv_def i c single_flight_def current_def split: option.splits)
  moreover have "no_lost_wakeup (goto i (Returned b) ?w)"
    by (rule no_lost_wakeup_step [OF _ i, where c = "Returned b" and shut = "ch # w_Closed w"])
      (use inv c in \<open>auto simp: probe_inv_def\<close>)
  ultimately show ?thesis by (simp add: probe_inv_def goto_shut)
qed

lemma inv_store:
  assumes inv: "probe_inv w" and p: "w_Probe w = Some p" and i: "i < length (w_Callers w)"
    and c: "w_Callers w ! i = Storing ch b"
  shows "probe_inv (goto i (Closing ch b) w\<lparr>w_Probe := Some (Available_store (w_Now w) b p),
      w_Log := (w_Now w, b) # w_Log w\<rparr>)"
    (is "probe_inv ?w")
proof -
  have "single_flight w" using inv by (simp add: probe_inv_def)
  from single_flight_in_flight [OF this i, of ch] c
  have cur: "current w = Some ch" by simp
  with \<open>single_flight w\<close> have "keep_some in_flight (w_Callers w) = [ch]"
    by (simp add: single_flight_def)
  from keep_some_remove [OF i this, of ch "Closing ch b"] c
  have "single_flight ?w" by (simp add: single_flight_def current_def Available_store_def goto_def)
  moreover have "no_lost_wakeup ?w"
    by (rule no_lost_wakeup_step [OF _ i, where c = "Closing ch b" and shut = "w_Closed w"])
      (use inv c in \<open>auto simp: probe_inv_def\<close>)
  moreover have "summarised ?w"
    by (simp add: summarised_def summary_of_def Available_store_def)
  ultimately show ?thesis by (simp add: probe_inv_def)
qed

lemma inv_check:
  assumes inv: "probe_inv w" and p: "w_Probe w = Some p" and i: "i < length (w_Callers w)"
    and c: "w_Callers w ! i = Entering"
    and v: "Available_check (w_Now w) (w_Fresh w) p = (v, p')"
  shows "probe_inv (goto i (after_check v) w\<lparr>w_Probe := Some p', w_Fresh := Suc (w_Fresh w)\<rparr>)"
    (is "probe_inv ?w")
proof -
  have sf: "single_flight w" and nl: "no_lost_wakeup w" and su: "summarised w"
    using inv by (simp_all add: probe_inv_def)
  have sum: "(pb_Available p, pb_CheckedAt p) = summary_of (w_Log w)"
    using su p by (simp add: summarised_def)
  have check: "Available_check (w_Now w) (w_Fresh w) p =
      (case known (w_Now w) (w_Log w) of
         Some b \<Rightarrow> (Answer b, p)
       | None \<Rightarrow> (case pb_Inflight p of
           Some ch \<Rightarrow> (WaitFor ch, p) | None \<Rightarrow> (StartProbe (w_Fresh w), p\<lparr>pb_Inflight := Some (w_Fresh w)\<rparr>)))"
    by (rule check_known [OF sum])
  have wake: "no_lost_wakeup ?w"
  proof (rule no_lost_wakeup_step [OF nl i, where c = "after_check v" and shut = "w_Closed w"])
    show "\<forall>ch. after_check v = Waiting ch \<longrightarrow> ch \<in> set (w_Closed w) \<or>
        ch \<in> set (keep_some holding ((w_Callers w)[i := after_check v]))"
    proof (intro allI impI)
      fix ch assume w: "after_check v = Waiting ch"
      with check v have "current w = Some ch"
        by (cases v) (auto simp: current_def p split: option.splits)
      from holding_update [OF i refl current_held [OF sf this], of "after_check v"] c
      show "ch \<in> set (w_Closed w) \<or> ch \<in> set (keep_some holding ((w_Callers w)[i := after_check v]))"
        by simp
    qed
  qed (simp_all add: c)
  have flight: "single_flight ?w"
  proof (cases "in_flight (after_check v)")
    case None
    with check v have "p' = p" by (auto split: option.splits)
    with sf None show ?thesis
      by (simp add: single_flight_def current_def p keep_some_update i c)
  next
    case (Some ch)
    with check v have "current w = None" "p' = p\<lparr>pb_Inflight := Some ch\<rparr>"
      by (auto simp: current_def p split: option.splits)
    with sf Some show ?thesis
      by (simp add: single_flight_def current_def keep_some_add i)
  qed
  have "summarised ?w"
    using su p check v by (auto simp: summarised_def split: option.splits)
  with wake flight show ?thesis by (simp add: probe_inv_def)
qed

lemma inv_step: "available_step e w w' \<Longrightarrow> probe_inv w \<Longrightarrow> probe_inv w'"
proof (induction rule: available_step.induct)
  case (tick d w)
  then show ?case
    by (auto simp: probe_inv_def single_flight_def current_def no_lost_wakeup_def summarised_def
        known_later split: option.splits)
next
  case (nil_probe w i)
  have "single_flight (goto i (Returned False) w)"
    using nil_probe by (intro single_flight_move) (auto simp: probe_inv_def)
  moreover have "no_lost_wakeup (goto i (Returned False) w)"
    by (rule no_lost_wakeup_step [where w = w and i = i and c = "Returned False" and shut = "w_Closed w"])
      (use nil_probe in \<open>auto simp: probe_inv_def\<close>)
  moreover have "summarised (goto i (Returned False) w)"
    using nil_probe by (auto simp: probe_inv_def summarised_def list_all_iff dest: set_update_subset_insert [THEN subsetD])
  ultimately show ?case by (simp add: probe_inv_def)
next
  case check
  then show ?case by (intro inv_check)
next
  case discovered
  then show ?case by (intro inv_discovered)
next
  case store
  then show ?case by (intro inv_store)
next
  case close
  then show ?case by (intro inv_close)
next
  case wake
  then show ?case by (intro inv_wake)
qed

lemma probe_inv_always: "always (start_world (map_option (\<lambda>(c, g, r). NewAPIProbe c g r) p) n now) (\<lambda>es w. probe_inv w)"
  by (rule alwaysI) (auto intro: start_inv inv_step)

subsection \<open>The abstract specification\<close>

text \<open>
  What a caller may count on, without the mutex, the channels and the cache: there is a history of
  discoveries; a caller is answered by the latest one as long as it holds, and a discovery is added
  to the history only when it no longer holds, answering one caller on the way.
\<close>

record answer_spec =
  as_Log :: "(int \<times> bool) list"
  as_Now :: int
  as_Answers :: "bool option list"

inductive spec_step :: "answer_spec \<Rightarrow> answer_spec \<Rightarrow> bool" where
  idle: "spec_step s s"
| elapse: "0 \<le> d \<Longrightarrow> spec_step s (s\<lparr>as_Now := as_Now s + d\<rparr>)"
| recall: "known (as_Now s) (as_Log s) = Some b \<Longrightarrow> i < length (as_Answers s) \<Longrightarrow>
     as_Answers s ! i = None \<Longrightarrow> spec_step s (s\<lparr>as_Answers := (as_Answers s)[i := Some b]\<rparr>)"
| discover: "known (as_Now s) (as_Log s) = None \<Longrightarrow> i < length (as_Answers s) \<Longrightarrow>
     as_Answers s ! i = None \<Longrightarrow>
     spec_step s (s\<lparr>as_Log := (as_Now s, b) # as_Log s, as_Answers := (as_Answers s)[i := Some b]\<rparr>)"

fun answer_of :: "caller \<Rightarrow> bool option" where
  "answer_of (Closing ch b) = Some b"
| "answer_of (Returned b) = Some b"
| "answer_of _ = None"

definition abs_world :: "probe_world \<Rightarrow> answer_spec" where
  "abs_world w = \<lparr>as_Log = w_Log w, as_Now = w_Now w, as_Answers = map answer_of (w_Callers w)\<rparr>"

text \<open>Every step of the implementation is a step of the specification, for a probe that exists.\<close>

definition simulated :: "probe_world \<Rightarrow> bool" where
  "simulated w = (w_Probe w = None \<or> (\<forall>e w'. available_step e w w' \<longrightarrow> spec_step (abs_world w) (abs_world w')))"

lemma answers_same [simp]:
  "i < length cs \<Longrightarrow> answer_of (cs ! i) = x \<Longrightarrow> (map answer_of cs)[i := x] = map answer_of cs"
  by (simp add: list_update_same_conv)

lemma abs_stutter:
  "i < length (w_Callers w) \<Longrightarrow> answer_of (w_Callers w ! i) = answer_of c \<Longrightarrow>
     abs_world (goto i c w) = abs_world w"
  by (simp add: abs_world_def map_update)

lemma simulation_check:
  assumes inv: "probe_inv w" and p: "w_Probe w = Some p" and i: "i < length (w_Callers w)"
    and c: "w_Callers w ! i = Entering"
    and v: "Available_check (w_Now w) (w_Fresh w) p = (v, p')"
  shows "spec_step (abs_world w)
    (abs_world (goto i (after_check v) w\<lparr>w_Probe := Some p', w_Fresh := Suc (w_Fresh w)\<rparr>))"
proof -
  have "(pb_Available p, pb_CheckedAt p) = summary_of (w_Log w)"
    using inv p by (simp add: probe_inv_def summarised_def)
  from check_known [OF this, of "w_Now w" "w_Fresh w"] v
  have "(\<exists>b. known (w_Now w) (w_Log w) = Some b \<and> v = Answer b) \<or> (\<exists>ch. v = WaitFor ch \<or> v = StartProbe ch)"
    by (auto split: option.splits)
  then show ?thesis
  proof (elim disjE exE)
    fix b assume "known (w_Now w) (w_Log w) = Some b \<and> v = Answer b"
    then show ?thesis
      using spec_step.recall [of "abs_world w" b i] i c by (simp add: abs_world_def map_update)
  qed (use i c in \<open>auto simp: abs_world_def map_update intro: spec_step.idle
        split: verdict.splits\<close>)
qed

lemma simulation_store:
  assumes inv: "probe_inv w" and p: "w_Probe w = Some p" and i: "i < length (w_Callers w)"
    and c: "w_Callers w ! i = Storing ch b"
  shows "spec_step (abs_world w) (abs_world (goto i (Closing ch b) w
    \<lparr>w_Probe := Some (Available_store (w_Now w) b p), w_Log := (w_Now w, b) # w_Log w\<rparr>))"
proof -
  have "current w = Some ch"
    using single_flight_in_flight [OF _ i, of ch] inv c by (simp add: probe_inv_def)
  then have "known (w_Now w) (w_Log w) = None"
    using inv p by (simp add: probe_inv_def summarised_def current_def)
  then show ?thesis
    using spec_step.discover [of "abs_world w" i b] i c by (simp add: abs_world_def map_update)
qed

lemma simulation:
  assumes "available_step e w w'" and "probe_inv w" and "w_Probe w \<noteq> None"
  shows "spec_step (abs_world w) (abs_world w')"
  using assms
proof (induction rule: available_step.induct)
  case (tick d w)
  then show ?case using spec_step.elapse [of d "abs_world w"] by (simp add: abs_world_def)
next
  case (close i w ch b)
  then show ?case by (auto simp: abs_world_def map_update intro: spec_step.idle)
next
  case (check w p i v p')
  then show ?case by (intro simulation_check)
next
  case (store w p i ch b)
  then show ?case by (intro simulation_store)
qed (auto simp: abs_stutter intro: spec_step.idle)

text \<open>In the specification, at most the latest discovery is positive, and they are 30 s apart.\<close>

fun spaced :: "(int \<times> bool) list \<Rightarrow> bool" where
  "spaced ((t, b) # (t', b') # hist) =
     (\<not> b' \<and> crdAvailabilityTTL \<le> t - t' \<and> spaced ((t', b') # hist))"
| "spaced _ = True"

lemma spec_spaced: "spec_step s s' \<Longrightarrow> spaced (as_Log s) \<Longrightarrow> spaced (as_Log s')"
proof (induction rule: spec_step.induct)
  case (discover s i b)
  then show ?case by (cases "as_Log s") (auto split: if_splits)
qed simp_all

lemma nil_log: "available_step e w w' \<Longrightarrow> probe_inv w \<Longrightarrow> w_Probe w = None \<Longrightarrow> w_Log w' = w_Log w"
  by (induction rule: available_step.induct) auto

lemma spaced_always:
  "always (start_world (map_option (\<lambda>(c, g, r). NewAPIProbe c g r) p) n now)
     (\<lambda>es w. probe_inv w \<and> spaced (w_Log w))"
proof (rule alwaysI)
  fix es e w w'
  assume w: "probe_inv w \<and> spaced (w_Log w)" and e: "available_step e w w'"
  have "spaced (w_Log w')"
  proof (cases "w_Probe w = None")
    case True
    with w e show ?thesis by (simp add: nil_log)
  next
    case False
    from simulation [OF e _ False] w have "spec_step (abs_world w) (abs_world w')" by simp
    from spec_spaced [OF this] w show ?thesis by (simp add: abs_world_def)
  qed
  with w e show "probe_inv w' \<and> spaced (w_Log w')" by (auto intro: inv_step)
qed (use start_inv in \<open>simp add: start_world_def\<close>)

subsection \<open>Every caller returns\<close>

text \<open>The work left to a caller: a waiting one is woken at most once per closed channel.\<close>

fun rank :: "nat list \<Rightarrow> caller \<Rightarrow> nat" where
  "rank shut (Waiting ch) = (if ch \<in> set shut then 7 else 5)"
| "rank shut Entering = 6"
| "rank shut (Probing ch) = 4"
| "rank shut (Storing ch b) = 3"
| "rank shut (Closing ch b) = 2"
| "rank shut (Returned b) = 0"

fun weight :: "nat \<Rightarrow> nat list \<Rightarrow> caller \<Rightarrow> nat" where
  "weight n shut (Returned b) = 0"
| "weight n shut c = 2 * n + rank shut c"

definition work :: "probe_world \<Rightarrow> nat" where
  "work w = sum_list (map (weight (length (w_Callers w)) (w_Closed w)) (w_Callers w))"

fun caller_event :: "event \<Rightarrow> bool" where
  "caller_event Tick = False"
| "caller_event _ = True"

fun has_returned :: "caller \<Rightarrow> bool" where
  "has_returned (Returned b) = True"
| "has_returned _ = False"

definition returned :: "probe_world \<Rightarrow> bool" where
  "returned w = list_all has_returned (w_Callers w)"

lemma sum_list_less:
  fixes f g :: "'a \<Rightarrow> nat"
  assumes "i < length xs" and "g c < f (xs ! i)" and "\<forall>x. g x \<le> f x"
  shows "sum_list (map g (xs[i := c])) < sum_list (map f xs)"
  using assms(1,2)
proof (induction xs arbitrary: i)
  case (Cons x xs)
  have "sum_list (map g xs) \<le> sum_list (map f xs)" using assms(3) by (simp add: sum_list_mono)
  moreover have "g x \<le> f x" using assms(3) by simp
  ultimately show ?case using Cons by (cases i) (auto simp: add_le_less_mono add_less_le_mono)
qed simp

lemma work_goto:
  assumes "i < length (w_Callers w)"
    and "weight (length (w_Callers w)) (w_Closed w) c < weight (length (w_Callers w)) (w_Closed w) (w_Callers w ! i)"
  shows "work (goto i c w) < work w"
  unfolding work_def goto_simps length_list_update by (rule sum_list_less) (use assms in auto)

text \<open>Closing a channel may wake every waiting caller, but the caller that closes it has returned.\<close>

lemma sum_list_bump:
  fixes f :: "'a \<Rightarrow> nat"
  assumes "\<forall>x. f x \<le> g x + k"
  shows "sum_list (map f xs) \<le> sum_list (map g xs) + length xs * k"
proof (induction xs)
  case (Cons x xs)
  then show ?case using assms [rule_format, of x] by simp
qed simp

lemma weight_shut: "weight n (ch # shut) c \<le> weight n shut c + 2"
  by (cases c) auto

lemma sum_list_update_nat:
  fixes f :: "'a \<Rightarrow> nat"
  assumes "i < length xs"
  shows "sum_list (map f (xs[i := c])) + f (xs ! i) = sum_list (map f xs) + f c"
  using assms
proof (induction xs arbitrary: i)
  case (Cons x xs)
  then show ?case by (cases i) (auto simp: add.assoc add.left_commute dest: Cons.IH)
qed simp

lemma work_close:
  assumes i: "i < length (w_Callers w)" and c: "w_Callers w ! i = Closing ch b"
  shows "work (goto i (Returned b) w\<lparr>w_Closed := ch # w_Closed w\<rparr>) < work w"
proof -
  let ?n = "length (w_Callers w)" and ?cs = "(w_Callers w)[i := Returned b]"
  have "sum_list (map (weight ?n (ch # w_Closed w)) ?cs) \<le> sum_list (map (weight ?n (w_Closed w)) ?cs) + ?n * 2"
    using sum_list_bump [of "weight ?n (ch # w_Closed w)" "weight ?n (w_Closed w)" 2 ?cs] weight_shut by simp
  moreover have "sum_list (map (weight ?n (w_Closed w)) ?cs) + (2 * ?n + 2) = sum_list (map (weight ?n (w_Closed w)) (w_Callers w))"
    using sum_list_update_nat [OF i, of "weight ?n (w_Closed w)" "Returned b"] c by simp
  ultimately show ?thesis by (simp add: work_def)
qed

text \<open>A channel is made once and closed once: no caller waits for a channel that is closed already.\<close>

definition channels :: "probe_world \<Rightarrow> bool" where
  "channels w = (let chs = w_Closed w @ keep_some holding (w_Callers w)
     in distinct chs \<and> (\<forall>ch\<in>set chs. ch < w_Fresh w))"

fun mset_of :: "'a option \<Rightarrow> 'a multiset" where
  "mset_of None = {#}"
| "mset_of (Some x) = {#x#}"

lemma mset_keep_some:
  assumes "i < length xs"
  shows "mset (keep_some f (xs[i := c])) + mset_of (f (xs ! i)) = mset (keep_some f xs) + mset_of (f c)"
  using assms
proof (induction xs arbitrary: i)
  case (Cons x xs)
  show ?case
  proof (cases i)
    case 0
    then show ?thesis by (cases "f x"; cases "f c") simp_all
  next
    case (Suc j)
    with Cons show ?thesis by (cases "f x") auto
  qed
qed simp

lemma channels_cong:
  assumes "mset (w_Closed w' @ keep_some holding (w_Callers w')) = mset (w_Closed w @ keep_some holding (w_Callers w))"
    and "w_Fresh w \<le> w_Fresh w'" and "channels w"
  shows "channels w'"
  using assms(2,3)
  unfolding channels_def Let_def mset_eq_imp_distinct_iff [OF assms(1)] mset_eq_setD [OF assms(1)]
  by (auto dest: order_less_le_trans)

lemma channels_move:
  assumes "channels w" and "i < length (w_Callers w)" and "holding (w_Callers w ! i) = holding c"
  shows "channels (goto i c w)"
  by (rule channels_cong [OF _ _ assms(1)]) (use assms in \<open>simp_all add: keep_some_update\<close>)

lemma channels_add:
  assumes w: "channels w" and i: "i < length (w_Callers w)" and c: "holding (w_Callers w ! i) = None"
    and new: "holding c = Some (w_Fresh w)"
    and w': "w_Callers w' = (w_Callers w)[i := c]" "w_Closed w' = w_Closed w" "w_Fresh w' = Suc (w_Fresh w)"
  shows "channels w'"
proof -
  have m: "mset (w_Closed w' @ keep_some holding (w_Callers w')) =
      mset (w_Fresh w # w_Closed w @ keep_some holding (w_Callers w))"
    using mset_keep_some [OF i, of holding c] c new by (simp add: w')
  have "w_Fresh w \<notin> set (w_Closed w @ keep_some holding (w_Callers w))"
    using w by (auto simp: channels_def Let_def)
  with w show ?thesis
    unfolding channels_def Let_def mset_eq_imp_distinct_iff [OF m] mset_eq_setD [OF m] w'(3)
    by (auto intro: less_SucI)
qed

lemma channels_step: "available_step e w w' \<Longrightarrow> channels w \<Longrightarrow> channels w'"
proof (induction rule: available_step.induct)
  case (tick d w)
  then show ?case by (simp add: channels_def)
next
  case (check w p i v p')
  show ?case
  proof (cases "holding (after_check v)")
    case None
    show ?thesis
      by (rule channels_cong [OF _ _ check(5)]) (use None check in \<open>simp_all add: keep_some_update\<close>)
  next
    case (Some ch)
    with check have "ch = w_Fresh w"
      by (cases v) (auto simp: Available_check_def split: if_splits option.splits)
    with check Some show ?thesis by (intro channels_add [OF check(5,2), where c = "after_check v"]) auto
  qed
next
  case (store w p i ch b)
  then have "channels (goto i (Closing ch b) w)" by (simp add: channels_move)
  then show ?case by (simp add: channels_def)
next
  case (close i w ch b)
  have "mset (keep_some holding ((w_Callers w)[i := Returned b])) + {#ch#} = mset (keep_some holding (w_Callers w))"
    using mset_keep_some [OF close(1), of holding "Returned b"] close(2) by simp
  then show ?case by (intro channels_cong [OF _ _ close(3)]) auto
qed (auto intro: channels_move)

lemma work_step:
  assumes "available_step e w w'" and "probe_inv w" and "channels w"
  shows "work w' + (if caller_event e then 1 else 0) \<le> work w"
  using assms
proof (induction rule: available_step.induct)
  case (check w p i v p')
  have "(pb_Available p, pb_CheckedAt p) = summary_of (w_Log w)"
    using check by (simp add: probe_inv_def summarised_def)
  from check_known [OF this, of "w_Now w" "w_Fresh w"] check
  have "(\<exists>b. v = Answer b) \<or> (\<exists>ch. v = WaitFor ch \<and> current w = Some ch) \<or> (\<exists>ch. v = StartProbe ch)"
    by (auto simp: current_def split: option.splits)
  moreover have "ch \<notin> set (w_Closed w)" if "current w = Some ch" for ch
    using current_held [OF _ that] check by (auto simp: probe_inv_def channels_def Let_def)
  ultimately have "work (goto i (after_check v) w) < work w"
    using check by (intro work_goto) auto
  then show ?case by (simp add: work_def)
next
  case (store w p i ch b)
  then have "work (goto i (Closing ch b) w) < work w" by (intro work_goto) auto
  then show ?case by (simp add: work_def)
next
  case (close i w ch b)
  then show ?case using work_close [of i w ch b] by (simp add: Suc_le_eq)
next
  case (tick d w)
  then show ?case by (simp add: work_def)
qed (auto simp: Suc_le_eq intro!: work_goto)

lemma work_start: "work (start_world p n now) \<le> n * (2 * n + 6)"
  by (simp add: work_def start_world_def map_replicate_const sum_list_replicate)

lemma start_channels: "channels (start_world p n now)"
proof -
  have "keep_some holding (replicate n Entering) = []" by (induction n) auto
  then show ?thesis by (simp add: channels_def start_world_def)
qed

lemma work_always:
  "always (start_world (map_option (\<lambda>(c, g, r). NewAPIProbe c g r) p) n now)
     (\<lambda>es w. probe_inv w \<and> channels w \<and> work w + length (filter caller_event es) \<le> n * (2 * n + 6))"
proof (rule alwaysI)
  fix es e w w'
  assume w: "probe_inv w \<and> channels w \<and> work w + length (filter caller_event es) \<le> n * (2 * n + 6)"
    and e: "available_step e w w'"
  from w e have "work w' + (if caller_event e then 1 else 0) \<le> work w" by (intro work_step) auto
  with w e show "probe_inv w' \<and> channels w' \<and>
      work w' + length (filter caller_event (es @ [e])) \<le> n * (2 * n + 6)"
    by (auto intro: inv_step channels_step split: if_splits)
qed (use start_inv start_channels work_start in auto)

text \<open>A caller that has not returned can move, or waits for one that can.\<close>

definition enabled :: "probe_world \<Rightarrow> bool" where
  "enabled w = (\<exists>e w'. caller_event e \<and> available_step e w w')"

lemma enabledI: "available_step e w w' \<Longrightarrow> caller_event e \<Longrightarrow> enabled w"
  by (auto simp: enabled_def)

lemma enabled_holder:
  assumes inv: "probe_inv w" and i: "i < length (w_Callers w)" and h: "holding (w_Callers w ! i) = Some ch"
  shows "enabled w"
proof -
  obtain p where p: "w_Probe w = Some p"
  proof (cases "w_Probe w")
    case None
    with inv i have "w_Callers w ! i = Entering \<or> w_Callers w ! i = Returned False"
      by (simp add: probe_inv_def summarised_def list_all_length)
    with h show ?thesis by auto
  qed (use that in auto)
  show ?thesis
  proof (cases "w_Callers w ! i")
    case (Probing x)
    obtain tr b where "exec (probe p) tr b" using exec_exists [of "probe p"] by blast
    from discovered [OF p i Probing this] show ?thesis by (rule enabledI) simp
  next
    case (Storing x b)
    from store [OF p i this] show ?thesis by (rule enabledI) simp
  next
    case (Closing x b)
    from close [OF i this] show ?thesis by (rule enabledI) simp
  qed (use h in auto)
qed

lemma progress:
  assumes inv: "probe_inv w" and w: "\<not> returned w"
  shows "enabled w"
proof -
  from w obtain i where i: "i < length (w_Callers w)" and n: "\<not> has_returned (w_Callers w ! i)"
    by (auto simp: returned_def list_all_length)
  show ?thesis
  proof (cases "w_Callers w ! i")
    case Entering
    show ?thesis
    proof (cases "w_Probe w")
      case None
      from nil_probe [OF this i Entering] show ?thesis by (rule enabledI) simp
    next
      case (Some p)
      obtain v p' where "Available_check (w_Now w) (w_Fresh w) p = (v, p')" by fastforce
      from check [OF Some i Entering this] show ?thesis by (rule enabledI) simp
    qed
  next
    case (Waiting ch)
    with inv i have "ch \<in> set (w_Closed w) \<or> ch \<in> set (keep_some holding (w_Callers w))"
      by (auto simp: probe_inv_def no_lost_wakeup_def list_all_length dest!: spec [of _ i])
    then show ?thesis
    proof
      assume "ch \<in> set (w_Closed w)"
      from wake [OF i Waiting this] show ?thesis by (rule enabledI) simp
    next
      assume "ch \<in> set (keep_some holding (w_Callers w))"
      then obtain j where "j < length (w_Callers w)" "holding (w_Callers w ! j) = Some ch"
        by (auto simp: set_keep_some in_set_conv_nth)
      with inv show ?thesis by (rule enabled_holder)
    qed
  qed (use n enabled_holder [OF inv i] in auto)
qed

subsection \<open>Properties\<close>

text \<open>
  C23. Whatever the interleaving of the callers and however long the discoveries
  take, every step of the mutex, the channel and the cached fields is a step of the specification:
  a caller is told what the latest discovery found, for ever when it was positive and for 30 s when
  it was negative, and otherwise what a discovery of its own finds. In particular a caller
  arriving during a discovery is never told that the resource is missing for want of an answer.
\<close>

theorem probe_refines:
  "always (start_world (map_option (\<lambda>(c, g, r). NewAPIProbe c g r) p) n now) (\<lambda>es w. simulated w)"
proof (rule always_mono [OF probe_inv_always])
  fix es w assume "probe_inv w"
  then show "simulated w" using simulation by (auto simp: simulated_def)
qed

text \<open>
  C24. At any moment at most one caller runs a discovery, and it is the one
  whose channel the probe shows; every waiting caller has its wake-up ahead of it; and of the
  discoveries stored so far only the latest may be positive, any two being at least 30 s apart: a
  slow or unreachable API server is asked at most twice a minute, and no longer once it answered yes.
\<close>

theorem probe_single_flight:
  "always (start_world (map_option (\<lambda>(c, g, r). NewAPIProbe c g r) p) n now)
     (\<lambda>es w. single_flight w \<and> no_lost_wakeup w \<and> spaced (w_Log w))"
  by (rule always_mono [OF spaced_always]) (simp add: probe_inv_def)

text \<open>
  C25. The loop of \<^verbatim>\<open>Available\<close> ends: in any run of n callers, under any
  schedule and any passing of time, the callers take at most n (2 n + 6) steps in all.
\<close>

theorem probe_steps_bounded:
  "always (start_world (map_option (\<lambda>(c, g, r). NewAPIProbe c g r) p) n now)
     (\<lambda>es w. length (filter caller_event es) \<le> n * (2 * n + 6))"
  by (rule always_mono [OF work_always]) simp

text \<open>
  C26. No caller is ever stuck: as long as one of them has not returned, one of them
  has a step to take, so with the bound on their steps every caller gets its answer.
\<close>

theorem probe_progress:
  "always (start_world (map_option (\<lambda>(c, g, r). NewAPIProbe c g r) p) n now)
     (\<lambda>es w. returned w \<or> enabled w)"
  by (rule always_mono [OF probe_inv_always]) (blast intro: progress)

end
