(* ===== verification/Secret_Stores.thy ===== *)
theory Secret_Stores
  imports Connection_Service
begin

text \<open>
  Vault-backed secret stores of a project: the repository
  (\<^verbatim>\<open>internal/repository/secret_store_repository.go\<close>) and the service
  (\<^verbatim>\<open>internal/service/secret_store_service.go\<close>, \<^verbatim>\<open>internal/models/secret_store.go\<close>). A store
  is an ExternalSecrets object; with token authentication its token lives in a Secret named after
  the store. The provider name of a store read from the cluster is part of the answer: the first
  key under \<^verbatim>\<open>spec.provider\<close>, which the Go struct does not map and a write never sends.
\<close>

subsection \<open>Requests and answers\<close>

record vault_config =
  vc_Server :: string
  vc_Path :: string
  vc_Version :: string
  vc_CABundle :: string

record store_auth =
  au_Type :: string
  au_Token :: string
  au_MountPath :: string
  au_Role :: string
  au_ServiceAccount :: "string option"

record store_request =
  sr_Name :: string
  sr_Provider :: string
  sr_Vault :: "vault_config option"
  sr_Auth :: "store_auth option"
  sr_IsDefault :: bool

record store_auth_response =
  ar_Type :: string
  ar_MountPath :: "string option"
  ar_Role :: "string option"
  ar_ServiceAccount :: "string option"

record store_response =
  so_Name :: string
  so_Provider :: string
  so_Namespace :: string
  so_Status :: string
  so_LastCheckedAt :: "string option"
  so_LastError :: "string option"
  so_IsDefault :: bool
  so_CreatedAt :: string
  so_Vault :: "vault_config option"
  so_Auth :: "store_auth_response option"

record store_status_response =
  sx_Status :: string
  sx_Conditions :: "eso_condition list"
  sx_LastCheckedAt :: "string option"
  sx_LastError :: "string option"

subsection \<open>The repository\<close>

definition SecretStoreRepository_Available :: "bool kprog" where
  "SecretStoreRepository_Available = call_bool (KAvailable GetSecretStoreGVR)"

definition SecretStoreRepository_Create :: "string \<Rightarrow> eso_store \<Rightarrow> (gerr + unit) kprog" where
  "SecretStoreRepository_Create ns store = call_unit (KCreate GetSecretStoreGVR ns (OStore store))"

definition SecretStoreRepository_Get :: "string \<Rightarrow> string \<Rightarrow> (gerr + eso_store) kprog" where
  "SecretStoreRepository_Get ns name =
     try_bind (call_obj (KGet GetSecretStoreGVR ns name)) (\<lambda>u. Ret (from_unstructured is_store u))"

definition SecretStoreRepository_List :: "string \<Rightarrow> (gerr + eso_store list) kprog" where
  "SecretStoreRepository_List ns =
     try_bind (call_items (KList GetSecretStoreGVR ns [])) (\<lambda>items. Ret (Inr (keep_some is_store items)))"

definition SecretStoreRepository_Update :: "string \<Rightarrow> eso_store \<Rightarrow> (gerr + unit) kprog" where
  "SecretStoreRepository_Update ns store =
     try_bind (call_obj (KGet GetSecretStoreGVR ns (md_Name (st_Meta store)))) (\<lambda>existing.
       call_unit (KUpdate GetSecretStoreGVR ns
         (OStore (store\<lparr>st_Meta := (st_Meta store)\<lparr>md_ResourceVersion := resource_version existing\<rparr>\<rparr>))))"

definition SecretStoreRepository_Delete :: "string \<Rightarrow> string \<Rightarrow> (gerr + unit) kprog" where
  "SecretStoreRepository_Delete ns name = call_unit (KDelete GetSecretStoreGVR ns name)"

text \<open>The Secrets. Unlike those of the connections they carry no label, and none is looked for.\<close>

definition store_secret :: "string \<Rightarrow> string \<Rightarrow> string gomap \<Rightarrow> secret" where
  "store_secret ns name data =
     \<lparr>se_Meta = object_meta0\<lparr>md_Name := name, md_Namespace := ns\<rparr>, se_Type = ''Opaque'', se_Data = data\<rparr>"

definition store_CreateOrUpdateSecret :: "string \<Rightarrow> string \<Rightarrow> string gomap \<Rightarrow> (gerr + unit) kprog" where
  "store_CreateOrUpdateSecret ns name data =
     (let u = OSecret (store_secret ns name data) in
      prog_bind (call_obj (KGet SecretsGVR ns name)) (\<lambda>r. case r of
         Inl getErr \<Rightarrow>
           if is_not_found getErr then call_unit (KCreate SecretsGVR ns u) else Ret (Inl getErr)
       | Inr _ \<Rightarrow> call_unit (KUpdate SecretsGVR ns u)))"

definition GetSecretData :: "string \<Rightarrow> string \<Rightarrow> (gerr + string gomap) kprog" where
  "GetSecretData ns name =
     try_bind (call_obj (KGet SecretsGVR ns name)) (\<lambda>u.
       Ret (sum_bind (from_unstructured is_secret u) (\<lambda>s. Inr (se_Data s))))"

definition store_DeleteSecret :: "string \<Rightarrow> string \<Rightarrow> (gerr + unit) kprog" where
  "store_DeleteSecret ns name = call_unit (KDelete SecretsGVR ns name)"

text \<open>\<^verbatim>\<open>GetLabels\<close>, an edit of the map, and \<^verbatim>\<open>SetLabels\<close> on an object read without a Go type.\<close>

definition meta_labels :: "(string gomap \<Rightarrow> string gomap) \<Rightarrow> object_meta \<Rightarrow> object_meta" where
  "meta_labels f m = m\<lparr>md_Labels := f (md_Labels m)\<rparr>"

fun edit_labels :: "(string gomap \<Rightarrow> string gomap) \<Rightarrow> kobj \<Rightarrow> kobj" where
  "edit_labels f (OConn c) = OConn (c\<lparr>cn_Meta := meta_labels f (cn_Meta c)\<rparr>)"
| "edit_labels f (OSecret s) = OSecret (s\<lparr>se_Meta := meta_labels f (se_Meta s)\<rparr>)"
| "edit_labels f (ORelease r) = ORelease (r\<lparr>re_Meta := meta_labels f (re_Meta r)\<rparr>)"
| "edit_labels f (OStore s) = OStore (s\<lparr>st_Meta := meta_labels f (st_Meta s)\<rparr>)"
| "edit_labels f (OExternal x) = OExternal (x\<lparr>ex_Meta := meta_labels f (ex_Meta x)\<rparr>)"
| "edit_labels f (OUser u) = OUser (u\<lparr>cu_Meta := meta_labels f (cu_Meta u)\<rparr>)"
| "edit_labels f (OGroup g) = OGroup (g\<lparr>cg_Meta := meta_labels f (cg_Meta g)\<rparr>)"
| "edit_labels f (OBinding b) = OBinding (b\<lparr>cb_Meta := meta_labels f (cb_Meta b)\<rparr>)"
| "edit_labels f (OSpark s) = OSpark (s\<lparr>sk_Meta := meta_labels f (sk_Meta s)\<rparr>)"
| "edit_labels f (ONamespace m) = ONamespace (meta_labels f m)"
| "edit_labels f (ORaw u) = ORaw (u\<lparr>u_Labels := f (u_Labels u)\<rparr>)"
| "edit_labels f (OMap m) = OMap m"

text \<open>A store that cannot be updated is logged and skipped.\<close>

definition drop_default :: "string \<Rightarrow> kobj \<Rightarrow> unit kprog" where
  "drop_default ns item =
     prog_bind (call_unit (KUpdate GetSecretStoreGVR ns (edit_labels (mdel LabelDefaultStore) item))) (\<lambda>_. Ret ())"

definition RemoveDefaultLabel :: "string \<Rightarrow> (gerr + unit) kprog" where
  "RemoveDefaultLabel ns =
     try_bind (call_items (KList GetSecretStoreGVR ns (LabelDefaultStore @ ''=true''))) (\<lambda>items.
       prog_bind (for_each (drop_default ns) items) (\<lambda>_. Ret (Inr ())))"

lemmas store_repo_defs = SecretStoreRepository_Available_def SecretStoreRepository_Create_def
  SecretStoreRepository_Get_def SecretStoreRepository_List_def SecretStoreRepository_Update_def
  SecretStoreRepository_Delete_def

interpretation stores: object_repository "\<lambda>ns. GetSecretStoreGVR"
  "\<lambda>s y. \<exists>s'. y = OStore s' \<and> st_Provider s' = st_Provider s \<and> md_Name (st_Meta s') = md_Name (st_Meta s) \<and>
     md_Labels (st_Meta s') = md_Labels (st_Meta s)"
  SecretStoreRepository_Get SecretStoreRepository_List SecretStoreRepository_Create
  SecretStoreRepository_Update SecretStoreRepository_Delete
proof
qed (auto simp: store_repo_defs runs_simps split: sum.split)

subsection \<open>Validation\<close>

definition validate_auth :: "extlib \<Rightarrow> store_auth \<Rightarrow> gerr + unit" where
  "validate_auth L auth =
     (if au_Type auth = ''token'' then Inr ()
      else if au_Type auth = ''kubernetes'' then
        (if au_Role auth = [] then Inl (invalid ''auth.config.role is required for kubernetes auth'' [])
         else case au_ServiceAccount auth of
             None \<Rightarrow> Inr ()
           | Some sa \<Rightarrow>
               if sa = [] then Inr ()
               else (case IsDNS1123Subdomain L sa of
                   [] \<Rightarrow> Inr ()
                 | msg # _ \<Rightarrow> Inl (invalid ''auth.config.serviceAccount %q is not a valid ServiceAccount name: %s''
                               [FStr sa, FStr msg])))
      else Inl (invalid (''unsupported auth type %q, must be 'token' or 'kubernetes'' @ [CHR 0x27]) [FStr (au_Type auth)]))"

definition store_validateRequest :: "extlib \<Rightarrow> store_request \<Rightarrow> gerr + unit" where
  "store_validateRequest L req =
     (if sr_Name req = [] then Inl (invalid ''name is required'' [])
      else if sr_Provider req \<noteq> ''vault'' then
        Inl (invalid ''unsupported provider %q, only 'vault' is supported'' [FStr (sr_Provider req)])
      else case sr_Vault req of
        None \<Rightarrow> Inl (invalid ''vault configuration is required'' [])
      | Some v \<Rightarrow>
          if vc_Server v = [] then Inl (invalid ''vault.server is required'' [])
          else if vc_Path v = [] then Inl (invalid ''vault.path is required'' [])
          else if vc_Version v \<noteq> ''v1'' \<and> vc_Version v \<noteq> ''v2'' then
            Inl (invalid (''vault.version must be 'v1' or 'v2'' @ [CHR 0x27]) [])
          else (case sr_Auth req of
              None \<Rightarrow> Inl (invalid ''auth configuration is required'' [])
            | Some auth \<Rightarrow> validate_auth L auth))"

subsection \<open>The object\<close>

definition vault_auth :: "store_auth \<Rightarrow> string \<Rightarrow> eso_vault_auth" where
  "vault_auth auth credSecretName =
     (if au_Type auth = ''token'' then
        \<lparr>va_TokenSecretRef = Some \<lparr>tr_Name = credSecretName, tr_Key = ''token''\<rparr>, va_Kubernetes = None\<rparr>
      else if au_Type auth = ''kubernetes'' then
        \<lparr>va_TokenSecretRef = None,
         va_Kubernetes = Some
           \<lparr>ka_MountPath = (if au_MountPath auth = [] then ''kubernetes'' else au_MountPath auth),
            ka_Role = au_Role auth,
            ka_ServiceAccountRef = Some (case au_ServiceAccount auth of
                Some sa \<Rightarrow> (if sa = [] then ''default'' else sa) | None \<Rightarrow> ''default'')\<rparr>\<rparr>
      else \<lparr>va_TokenSecretRef = None, va_Kubernetes = None\<rparr>)"

text \<open>\<^verbatim>\<open>buildSecretStoreCRD\<close> reads \<^verbatim>\<open>req.Vault\<close> and \<^verbatim>\<open>req.Auth\<close>, which validation has found.\<close>

definition buildSecretStoreCRD :: "string \<Rightarrow> store_request \<Rightarrow> vault_config \<Rightarrow> store_auth \<Rightarrow> string \<Rightarrow> eso_store" where
  "buildSecretStoreCRD ns req v auth credSecretName =
     \<lparr>st_APIVersion = SecretStoreAPIVersion, st_Kind = SecretStoreKind,
      st_Meta = object_meta0\<lparr>md_Name := sr_Name req, md_Namespace := ns,
        md_Labels := (if sr_IsDefault req then [(LabelDefaultStore, ''true'')] else [])\<rparr>,
      st_Provider = \<lparr>ep_Name = [], ep_Vault = Some
        \<lparr>ev_Server = vc_Server v, ev_Path = vc_Path v, ev_Version = vc_Version v,
         ev_CABundle = vc_CABundle v, ev_Auth = vault_auth auth credSecretName\<rparr>\<rparr>,
      st_Conditions = []\<rparr>"

subsection \<open>Answers\<close>

fun ready_status :: "eso_condition list \<Rightarrow> string option" where
  "ready_status [] = None"
| "ready_status (c # cs) = (if ec_Type c = ''Ready'' then Some (ec_Status c) else ready_status cs)"

definition deriveOverallStatus :: "eso_condition list \<Rightarrow> string" where
  "deriveOverallStatus conditions =
     (if conditions = [] then ''Unknown''
      else case ready_status conditions of
        None \<Rightarrow> ''Pending''
      | Some s \<Rightarrow> if s = ''True'' then ''Ready'' else if s = ''False'' then ''Error'' else ''Pending'')"

definition last_checked :: "eso_condition list \<Rightarrow> string option" where
  "last_checked conditions =
     (if conditions = [] \<or> ec_LastTransitionTime (last conditions) = [] then None
      else Some (ec_LastTransitionTime (last conditions)))"

definition last_error :: "eso_condition list \<Rightarrow> string option" where
  "last_error conditions =
     (if conditions = [] then None
      else let c = last conditions in
        if ec_Status c \<noteq> ''True'' \<and> ec_Message c \<noteq> [] then Some (ec_Message c) else None)"

text \<open>\<^verbatim>\<open>Format(time.RFC3339)\<close> without a test for the zero time.\<close>

definition rfc3339 :: "string option \<Rightarrow> string" where
  "rfc3339 t = (case t of None \<Rightarrow> ''0001-01-01T00:00:00Z'' | Some s \<Rightarrow> s)"

definition auth_response :: "eso_vault_auth \<Rightarrow> store_auth_response" where
  "auth_response a =
     (let empty = \<lparr>ar_Type = [], ar_MountPath = None, ar_Role = None, ar_ServiceAccount = None\<rparr> in
      if va_TokenSecretRef a \<noteq> None then empty\<lparr>ar_Type := ''token''\<rparr>
      else case va_Kubernetes a of
        None \<Rightarrow> empty
      | Some k \<Rightarrow> empty\<lparr>ar_Type := ''kubernetes'', ar_MountPath := Some (ka_MountPath k),
                       ar_Role := Some (ka_Role k), ar_ServiceAccount := ka_ServiceAccountRef k\<rparr>)"

definition store_toResponse :: "eso_store \<Rightarrow> string \<Rightarrow> store_response" where
  "store_toResponse store ns =
     \<lparr>so_Name = md_Name (st_Meta store), so_Provider = ep_Name (st_Provider store), so_Namespace = ns,
      so_Status = deriveOverallStatus (st_Conditions store),
      so_LastCheckedAt = last_checked (st_Conditions store), so_LastError = last_error (st_Conditions store),
      so_IsDefault = (label_of (st_Meta store) LabelDefaultStore = ''true''),
      so_CreatedAt = rfc3339 (md_CreationTimestamp (st_Meta store)),
      so_Vault = (case ep_Vault (st_Provider store) of None \<Rightarrow> None
        | Some v \<Rightarrow> Some \<lparr>vc_Server = ev_Server v, vc_Path = ev_Path v, vc_Version = ev_Version v,
                         vc_CABundle = ev_CABundle v\<rparr>),
      so_Auth = (case ep_Vault (st_Provider store) of None \<Rightarrow> None
        | Some v \<Rightarrow> Some (auth_response (ev_Auth v)))\<rparr>"

text \<open>\<^verbatim>\<open>mapConditions\<close> copies the conditions field by field.\<close>

definition mapConditions :: "eso_condition list \<Rightarrow> eso_condition list" where
  "mapConditions conditions = map (\<lambda>c. \<lparr>ec_Type = ec_Type c, ec_Status = ec_Status c, ec_Reason = ec_Reason c,
     ec_Message = ec_Message c, ec_LastTransitionTime = ec_LastTransitionTime c\<rparr>) conditions"

definition read_store :: "string \<Rightarrow> string \<Rightarrow> (gerr + store_response) kprog" where
  "read_store ns name =
     try_bind (SecretStoreRepository_Get ns name) (\<lambda>store. Ret (Inr (store_toResponse store ns)))"

subsection \<open>The service\<close>

definition credSecretName :: "string \<Rightarrow> string" where
  "credSecretName name = name @ ''-credentials''"

definition ListSecretStores :: "string \<Rightarrow> (gerr + store_response list) kprog" where
  "ListSecretStores ns =
     try_bind (SecretStoreRepository_List ns) (\<lambda>stores. Ret (Inr (map (\<lambda>s. store_toResponse s ns) stores)))"

text \<open>The previous default store loses its label first; a failure is only logged.\<close>

definition clear_default :: "string \<Rightarrow> store_request \<Rightarrow> unit kprog" where
  "clear_default ns req =
     (if sr_IsDefault req then prog_bind (RemoveDefaultLabel ns) (\<lambda>_. Ret ()) else Ret ())"

text \<open>The vault and the authentication of a request that passed the validation.\<close>

definition validated :: "extlib \<Rightarrow> store_request \<Rightarrow> gerr + vault_config \<times> store_auth" where
  "validated L req =
     sum_bind (store_validateRequest L req) (\<lambda>_.
       case (sr_Vault req, sr_Auth req) of
         (Some v, Some a) \<Rightarrow> Inr (v, a)
       | _ \<Rightarrow> Inl bad_answer)"

definition create_token :: "string \<Rightarrow> store_request \<Rightarrow> store_auth \<Rightarrow> (gerr + unit) kprog" where
  "create_token ns req auth =
     (if au_Type auth \<noteq> ''token'' then Ret (Inr ())
      else if au_Token auth = [] then
        Ret (Inl (invalid ''auth.config.token is required for token auth'' []))
      else prog_bind (store_CreateOrUpdateSecret ns (credSecretName (sr_Name req)) [(''token'', au_Token auth)])
        (\<lambda>r. case r of
           Inl e \<Rightarrow> Ret (Inl (Wrapf ''failed to create credentials secret: %w'' [] e))
         | Inr _ \<Rightarrow> Ret (Inr ())))"

definition CreateSecretStore :: "extlib \<Rightarrow> string \<Rightarrow> store_request \<Rightarrow> (gerr + store_response) kprog" where
  "CreateSecretStore L ns req =
     try_pure (validated L req) (\<lambda>(v, auth).
       try_bind (create_token ns req auth) (\<lambda>_.
         prog_bind (clear_default ns req) (\<lambda>_.
           try_bind (SecretStoreRepository_Create ns
               (buildSecretStoreCRD ns req v auth (credSecretName (sr_Name req)))) (\<lambda>_.
             read_store ns (sr_Name req)))))"

definition used_token_auth :: "eso_store \<Rightarrow> bool" where
  "used_token_auth existing =
     (case ep_Vault (st_Provider existing) of None \<Rightarrow> False
      | Some v \<Rightarrow> va_TokenSecretRef (ev_Auth v) \<noteq> None)"

definition update_token :: "string \<Rightarrow> string \<Rightarrow> eso_store \<Rightarrow> store_auth \<Rightarrow> (gerr + unit) kprog" where
  "update_token ns name existing auth =
     (if au_Type auth \<noteq> ''token'' then Ret (Inr ())
      else if au_Token auth \<noteq> [] then
        prog_bind (store_CreateOrUpdateSecret ns (credSecretName name) [(''token'', au_Token auth)])
          (\<lambda>r. case r of
             Inl e \<Rightarrow> Ret (Inl (Wrapf ''failed to update credentials secret: %w'' [] e))
           | Inr _ \<Rightarrow> Ret (Inr ()))
      else if \<not> used_token_auth existing then
        Ret (Inl (invalid ''auth.config.token is required when switching to token auth'' []))
      else Ret (Inr ()))"

definition keep_account :: "eso_store \<Rightarrow> store_auth \<Rightarrow> store_auth" where
  "keep_account existing auth =
     (if au_Type auth = ''kubernetes'' \<and> au_ServiceAccount auth = None then
        (case ep_Vault (st_Provider existing) of
           None \<Rightarrow> auth
         | Some v \<Rightarrow> (case va_Kubernetes (ev_Auth v) of
               None \<Rightarrow> auth
             | Some k \<Rightarrow> (case ka_ServiceAccountRef k of
                   None \<Rightarrow> auth
                 | Some current \<Rightarrow> auth\<lparr>au_ServiceAccount := Some current\<rparr>)))
      else auth)"

text \<open>A token the store no longer uses is dropped once the store is written; a failure is only logged.\<close>

definition drop_token :: "string \<Rightarrow> string \<Rightarrow> eso_store \<Rightarrow> store_auth \<Rightarrow> unit kprog" where
  "drop_token ns name existing auth =
     (if used_token_auth existing \<and> au_Type auth \<noteq> ''token'' then
        prog_bind (store_DeleteSecret ns (credSecretName name)) (\<lambda>_. Ret ())
      else Ret ())"

definition updated_store :: "string \<Rightarrow> store_request \<Rightarrow> vault_config \<Rightarrow> store_auth \<Rightarrow> eso_store \<Rightarrow> eso_store" where
  "updated_store ns req v auth existing =
     (let store = buildSecretStoreCRD ns req v auth (credSecretName (sr_Name req))
      in store\<lparr>st_Meta := (st_Meta store)\<lparr>md_ResourceVersion := md_ResourceVersion (st_Meta existing)\<rparr>\<rparr>)"

definition UpdateSecretStore :: "extlib \<Rightarrow> string \<Rightarrow> string \<Rightarrow> store_request \<Rightarrow> (gerr + store_response) kprog" where
  "UpdateSecretStore L ns name req0 =
     try_bind (SecretStoreRepository_Get ns name) (\<lambda>existing.
       let req = req0\<lparr>sr_Name := name\<rparr> in
       try_pure (validated L req) (\<lambda>(v, auth0).
         try_bind (update_token ns name existing auth0) (\<lambda>_.
           let auth = keep_account existing auth0 in
           prog_bind (clear_default ns req) (\<lambda>_.
             try_bind (SecretStoreRepository_Update ns (updated_store ns req v auth existing)) (\<lambda>_.
               prog_bind (drop_token ns name existing auth) (\<lambda>_.
                 read_store ns name))))))"

definition DeleteSecretStore :: "string \<Rightarrow> string \<Rightarrow> (gerr + unit) kprog" where
  "DeleteSecretStore ns name =
     try_bind (SecretStoreRepository_Get ns name) (\<lambda>_.
       prog_bind (store_DeleteSecret ns (credSecretName name)) (\<lambda>_.
         SecretStoreRepository_Delete ns name))"

definition lookup_self :: "string \<Rightarrow> string \<Rightarrow> http_req" where
  "lookup_self server token =
     \<lparr>hq_Method = ''GET'', hq_URL = server @ ''/v1/auth/token/lookup-self'', hq_Query = [],
      hq_Auth = VaultAuth token, hq_Payload = None, hq_SkipVerify = False\<rparr>"

text \<open>The roots of the CA bundle are the library's; a request that cannot be built is an error answer.\<close>

definition validateVaultToken :: "extlib \<Rightarrow> string \<Rightarrow> string \<Rightarrow> string \<Rightarrow> (gerr + unit) kprog" where
  "validateVaultToken L server token caBundle =
     (if caBundle \<noteq> [] \<and> \<not> AppendCertsFromPEM L caBundle then Ret (Inl (Errorf ''invalid CA bundle'' []))
      else Call (KHttp (lookup_self server token)) (\<lambda>r. Ret (case r of
          RHttp resp \<Rightarrow>
            if hp_Status resp = 200 then Inr ()
            else if hp_Status resp = 403 then Inl (Errorf ''invalid token: permission denied'' [])
            else Inl (Errorf ''vault returned status %d'' [FInt (int (hp_Status resp))])
        | RErr e \<Rightarrow> Inl (Wrapf ''connection failed: %w'' [] e)
        | _ \<Rightarrow> Inl bad_answer)))"

definition store_TestConnection :: "extlib \<Rightarrow> store_request \<Rightarrow> (gerr + unit) kprog" where
  "store_TestConnection L req =
     (case sr_Vault req of
        None \<Rightarrow> Ret (Inl (Errorf ''vault configuration is required'' []))
      | Some v \<Rightarrow>
          if vc_Server v = [] then Ret (Inl (Errorf ''vault.server is required'' []))
          else (case sr_Auth req of
              None \<Rightarrow> Ret (Inl (Errorf ''auth configuration is required'' []))
            | Some auth \<Rightarrow>
                if au_Type auth = ''kubernetes'' then Ret (Inr ())
                else if au_Token auth = [] then
                  Ret (Inl (Errorf ''auth.config.token is required for token auth'' []))
                else validateVaultToken L (vc_Server v) (au_Token auth) (vc_CABundle v)))"

definition GetSecretStoreStatus :: "string \<Rightarrow> string \<Rightarrow> (gerr + store_status_response) kprog" where
  "GetSecretStoreStatus ns name =
     try_bind (SecretStoreRepository_Get ns name) (\<lambda>store.
       let conditions = st_Conditions store in
       Ret (Inr \<lparr>sx_Status = deriveOverallStatus conditions, sx_Conditions = mapConditions conditions,
         sx_LastCheckedAt = last_checked conditions, sx_LastError = last_error conditions\<rparr>))"

end
