(* ===== verification/Secret_Store_Properties.thy ===== *)
theory Secret_Store_Properties
  imports Secret_Stores
begin

text \<open>
  What the secret store service guarantees: the writes of a creation and of an update in their
  order, when the token Secret is written and dropped, and what a failed creation leaves behind.
\<close>

definition token_write :: "string \<Rightarrow> string \<Rightarrow> store_auth \<Rightarrow> kcall \<Rightarrow> bool" where
  "token_write ns name auth c =
     (let s = OSecret (store_secret ns (credSecretName name) [(''token'', au_Token auth)])
      in au_Type auth = ''token'' \<and> au_Token auth \<noteq> [] \<and> (c = KCreate SecretsGVR ns s \<or> c = KUpdate SecretsGVR ns s))"

definition relabel_write :: "string \<Rightarrow> kcall \<Rightarrow> bool" where
  "relabel_write ns c = (\<exists>item. c = KUpdate GetSecretStoreGVR ns (edit_labels (mdel LabelDefaultStore) item))"

subsection \<open>The parts of the operations\<close>

lemma runs_store_Get:
  "runs (SecretStoreRepository_Get ns name) (\<lambda>tr x. writes tr = [] \<and>
     (case x of Inl e \<Rightarrow> True | Inr s \<Rightarrow> tr = [(KGet GetSecretStoreGVR ns name, RObj (OStore s))]))"
  by (auto simp: SecretStoreRepository_Get_def runs_simps split: sum.split)

lemma runs_read_store: "runs (read_store ns name) (\<lambda>tr x. writes tr = [])"
  unfolding read_store_def by (rule runs_try_seq [OF runs_store_Get]) (auto split: sum.splits)

lemma runs_put_secret:
  "runs (store_CreateOrUpdateSecret ns n data) (\<lambda>tr x.
     length (writes tr) \<le> 1 \<and>
     list_all (\<lambda>c. c = KCreate SecretsGVR ns (OSecret (store_secret ns n data)) \<or>
                   c = KUpdate SecretsGVR ns (OSecret (store_secret ns n data))) (writes tr) \<and>
     (case x of Inl e \<Rightarrow> True | Inr _ \<Rightarrow> writes tr \<noteq> []))"
  by (auto simp: store_CreateOrUpdateSecret_def Let_def runs_simps split: sum.split)

definition token_part :: "string \<Rightarrow> string \<Rightarrow> store_auth \<Rightarrow> bool \<Rightarrow> kcall list \<Rightarrow> bool" where
  "token_part ns name auth stored ws =
     (length ws \<le> 1 \<and> list_all (token_write ns name auth) ws \<and>
      (stored \<longrightarrow> au_Type auth = ''token'' \<longrightarrow> ws \<noteq> []))"

lemma runs_create_token:
  "runs (create_token ns req auth) (\<lambda>tr x. token_part ns (sr_Name req) auth (x = Inr ()) (writes tr))"
proof (cases "au_Type auth = ''token'' \<and> au_Token auth \<noteq> []")
  case True
  then show ?thesis
    unfolding create_token_def
    by simp (rule runs_seq [OF runs_put_secret],
      auto simp: token_part_def token_write_def Let_def list_all_iff split: sum.splits)
qed (auto simp: create_token_def token_part_def)

lemma runs_update_token:
  "runs (update_token ns name existing auth) (\<lambda>tr x.
     token_part ns name auth (x = Inr () \<and> \<not> used_token_auth existing) (writes tr))"
proof (cases "au_Type auth = ''token'' \<and> au_Token auth \<noteq> []")
  case True
  then show ?thesis
    unfolding update_token_def
    by simp (rule runs_seq [OF runs_put_secret],
      auto simp: token_part_def token_write_def Let_def list_all_iff split: sum.splits)
qed (auto simp: update_token_def token_part_def)

lemma runs_relabel: "runs (for_each (drop_default ns) items) (\<lambda>tr x. list_all (relabel_write ns) (writes tr))"
proof (induction items)
  case (Cons i items)
  have "runs (drop_default ns i) (\<lambda>tr x. list_all (relabel_write ns) (writes tr))"
    by (auto simp: drop_default_def relabel_write_def runs_simps)
  then show ?case
    unfolding for_each.simps by (rule runs_seq) (rule runs_mono [OF Cons.IH], simp)
qed simp

lemma runs_clear_default:
  "runs (clear_default ns req) (\<lambda>tr x. list_all (relabel_write ns) (writes tr) \<and>
     (sr_IsDefault req \<or> writes tr = []))"
proof (cases "sr_IsDefault req")
  case True
  have "runs (RemoveDefaultLabel ns) (\<lambda>tr x. list_all (relabel_write ns) (writes tr))"
    unfolding RemoveDefaultLabel_def
    by (rule runs_try_seq [where P = "\<lambda>tr x. writes tr = []"])
      (auto simp: runs_simps intro: runs_mono [OF runs_relabel])
  with True show ?thesis
    unfolding clear_default_def by simp (erule runs_seq, simp)
qed (simp add: clear_default_def)

subsection \<open>Creation\<close>

definition create_store_protocol :: "extlib \<Rightarrow> string \<Rightarrow> store_request \<Rightarrow> ktrace \<Rightarrow> bool \<Rightarrow> bool" where
  "create_store_protocol L ns req tr created =
     (case validated L req of
        Inl e \<Rightarrow> tr = [] \<and> \<not> created
      | Inr (v, auth) \<Rightarrow>
          (let put = KCreate GetSecretStoreGVR ns
                 (OStore (buildSecretStoreCRD ns req v auth (credSecretName (sr_Name req))))
           in \<exists>tokens labels stores. writes tr = tokens @ labels @ stores \<and>
               token_part ns (sr_Name req) auth (stores \<noteq> []) tokens \<and>
               list_all (relabel_write ns) labels \<and> (sr_IsDefault req \<or> labels = []) \<and>
               (stores = [put] \<or> stores = [] \<and> \<not> created)))"

lemma runs_put_and_read:
  "runs (try_bind (SecretStoreRepository_Create ns s) (\<lambda>_. read_store ns n))
     (\<lambda>tr x. writes tr = [KCreate GetSecretStoreGVR ns (OStore s)])"
  unfolding SecretStoreRepository_Create_def
  by (rule runs_try_seq [where P = "\<lambda>tr x. writes tr = [KCreate GetSecretStoreGVR ns (OStore s)]"])
    (auto simp: runs_simps intro: runs_mono [OF runs_read_store])

lemma runs_label_and_put:
  "runs (prog_bind (clear_default ns req) (\<lambda>_. try_bind (SecretStoreRepository_Create ns s) (\<lambda>_. read_store ns n)))
     (\<lambda>tr x. \<exists>labels. writes tr = labels @ [KCreate GetSecretStoreGVR ns (OStore s)] \<and>
        list_all (relabel_write ns) labels \<and> (sr_IsDefault req \<or> labels = []))"
  by (rule runs_seq [OF runs_clear_default]) (rule runs_mono [OF runs_put_and_read], auto)

lemma CreateSecretStore_runs:
  "runs (CreateSecretStore L ns req) (\<lambda>tr x. create_store_protocol L ns req tr (\<exists>s. x = Inr s))"
proof (cases "validated L req")
  case (Inl e)
  then show ?thesis by (simp add: CreateSecretStore_def create_store_protocol_def)
next
  case (Inr va)
  obtain v auth where va: "va = (v, auth)" by (cases va)
  show ?thesis
    unfolding CreateSecretStore_def Inr try_pure_simps va prod.case create_store_protocol_def sum.case Let_def
  proof (rule runs_try_seq [OF runs_create_token], goal_cases)
    case (1 t1 e)
    then show ?case by (intro exI [of _ "writes t1"] exI [of _ "[]"]) (auto simp: token_part_def)
  next
    case (2 t1 a)
    show ?case
    proof (rule runs_mono [OF runs_label_and_put], goal_cases)
      case (1 t2 x)
      then obtain labels where "writes t2 = labels @ [KCreate GetSecretStoreGVR ns
           (OStore (buildSecretStoreCRD ns req v auth (credSecretName (sr_Name req))))]"
        "list_all (relabel_write ns) labels" "sr_IsDefault req \<or> labels = []" by blast
      with 2 show ?case
        by (intro exI [of _ "writes t1"] exI [of _ labels]
            exI [of _ "[KCreate GetSecretStoreGVR ns
               (OStore (buildSecretStoreCRD ns req v auth (credSecretName (sr_Name req))))]"])
          (auto simp: token_part_def)
    qed
  qed
qed

subsection \<open>Update\<close>

text \<open>
  The store written, whatever resource version it carries, the answer to that write, and the
  Secret that is dropped after it.
\<close>

definition store_and_drop :: "string \<Rightarrow> string \<Rightarrow> eso_store \<Rightarrow> store_request \<Rightarrow> vault_config \<Rightarrow> store_auth \<Rightarrow> ktrace \<Rightarrow>
    bool \<Rightarrow> kcall list \<Rightarrow> kcall list \<Rightarrow> bool" where
  "store_and_drop ns name existing req v auth tr updated stores drops =
     (\<exists>rv r. let s = buildSecretStoreCRD ns req v (keep_account existing auth) (credSecretName name);
                 put = KUpdate GetSecretStoreGVR ns (OStore (s\<lparr>st_Meta := (st_Meta s)\<lparr>md_ResourceVersion := rv\<rparr>\<rparr>))
        in stores = [put] \<and> (put, r) \<in> set tr \<and> (updated \<longrightarrow> answered_ok r) \<and>
           drops = (if answered_ok r \<and> used_token_auth existing \<and> au_Type auth \<noteq> ''token''
                    then [KDelete SecretsGVR ns (credSecretName name)] else []))"

definition update_store_writes :: "string \<Rightarrow> string \<Rightarrow> eso_store \<Rightarrow> store_request \<Rightarrow> vault_config \<Rightarrow> store_auth \<Rightarrow> ktrace \<Rightarrow>
    bool \<Rightarrow> bool" where
  "update_store_writes ns name existing req v auth tr updated =
     (\<exists>tokens labels stores drops. writes tr = tokens @ labels @ stores @ drops \<and>
        token_part ns name auth (stores \<noteq> [] \<and> \<not> used_token_auth existing) tokens \<and>
        list_all (relabel_write ns) labels \<and> (sr_IsDefault req \<or> labels = []) \<and>
        (stores = [] \<and> drops = [] \<and> \<not> updated \<or>
         store_and_drop ns name existing req v auth tr updated stores drops))"

lemma keep_account_type [simp]: "au_Type (keep_account existing auth) = au_Type auth"
  by (auto simp: keep_account_def split: option.split)

lemma runs_drop_token:
  "runs (drop_token ns name existing auth) (\<lambda>tr x. writes tr =
     (if used_token_auth existing \<and> au_Type auth \<noteq> ''token'' then [KDelete SecretsGVR ns (credSecretName name)] else []))"
  by (simp add: drop_token_def store_DeleteSecret_def runs_simps)

lemma runs_drop_and_read:
  "runs (prog_bind (drop_token ns name existing auth) (\<lambda>_. read_store ns name)) (\<lambda>tr x. writes tr =
     (if used_token_auth existing \<and> au_Type auth \<noteq> ''token'' then [KDelete SecretsGVR ns (credSecretName name)] else []))"
  by (rule runs_seq [OF runs_drop_token]) (rule runs_mono [OF runs_read_store], simp)

lemma runs_store_Update:
  "runs (SecretStoreRepository_Update ns s) (\<lambda>tr x. writes tr = [] \<and> x \<noteq> Inr () \<or>
     (\<exists>rv r. let put = KUpdate GetSecretStoreGVR ns (OStore (s\<lparr>st_Meta := (st_Meta s)\<lparr>md_ResourceVersion := rv\<rparr>\<rparr>))
        in writes tr = [put] \<and> (put, r) \<in> set tr \<and> (x = Inr () \<longleftrightarrow> answered_ok r)))"
  by (auto simp: SecretStoreRepository_Update_def runs_simps split: sum.split)

lemma updated_store_version:
  "(updated_store ns req v auth existing)\<lparr>st_Meta := (st_Meta (updated_store ns req v auth existing))\<lparr>md_ResourceVersion := rv\<rparr>\<rparr> =
   (buildSecretStoreCRD ns req v auth (credSecretName (sr_Name req)))
     \<lparr>st_Meta := (st_Meta (buildSecretStoreCRD ns req v auth (credSecretName (sr_Name req))))\<lparr>md_ResourceVersion := rv\<rparr>\<rparr>"
  by (simp add: updated_store_def Let_def)

lemma runs_put_drop_read:
  assumes "sr_Name req = name"
  shows "runs (try_bind (SecretStoreRepository_Update ns (updated_store ns req v (keep_account existing auth) existing))
      (\<lambda>_. prog_bind (drop_token ns name existing (keep_account existing auth)) (\<lambda>_. read_store ns name)))
    (\<lambda>tr x. \<exists>stores drops. writes tr = stores @ drops \<and>
       (stores = [] \<and> drops = [] \<and> (\<forall>y. x \<noteq> Inr y) \<or>
        store_and_drop ns name existing req v auth tr (\<exists>y. x = Inr y) stores drops))"
proof (rule runs_try_seq [OF runs_store_Update], goal_cases)
  case (1 t1 e)
  then show ?case
    unfolding updated_store_version
    by (auto simp: store_and_drop_def Let_def assms)
next
  case (2 t1 a)
  then obtain rv r where 3: "writes t1 = [KUpdate GetSecretStoreGVR ns (OStore
       ((buildSecretStoreCRD ns req v (keep_account existing auth) (credSecretName name))
         \<lparr>st_Meta := (st_Meta (buildSecretStoreCRD ns req v (keep_account existing auth) (credSecretName name)))\<lparr>md_ResourceVersion := rv\<rparr>\<rparr>))]"
     "(hd (writes t1), r) \<in> set t1" "answered_ok r"
    unfolding updated_store_version assms by (auto simp: Let_def)
  show ?case
  proof (rule runs_mono [OF runs_drop_and_read], goal_cases)
    case (1 t2 x)
    with 3 show ?case
      by (intro exI [of _ "writes t1"] exI [of _ "writes t2"]) (auto simp: store_and_drop_def Let_def)
  qed
qed

lemma store_and_drop_later:
  "store_and_drop ns name existing req v auth t2 u stores drops \<Longrightarrow>
     store_and_drop ns name existing req v auth (t1 @ t2) u stores drops"
  unfolding store_and_drop_def Let_def set_append by (elim exE conjE, intro exI conjI UnI2)

definition update_store_protocol :: "extlib \<Rightarrow> string \<Rightarrow> string \<Rightarrow> store_request \<Rightarrow> ktrace \<Rightarrow> bool \<Rightarrow> bool" where
  "update_store_protocol L ns name req tr updated =
     (writes tr = [] \<and> \<not> updated \<or>
      (\<exists>existing v auth. hd tr = (KGet GetSecretStoreGVR ns name, RObj (OStore existing)) \<and>
         validated L (req\<lparr>sr_Name := name\<rparr>) = Inr (v, auth) \<and>
         update_store_writes ns name existing (req\<lparr>sr_Name := name\<rparr>) v auth tr updated))"

lemma runs_label_put_drop:
  assumes "sr_Name req = name"
  shows "runs (prog_bind (clear_default ns req) (\<lambda>_.
      try_bind (SecretStoreRepository_Update ns (updated_store ns req v (keep_account existing auth) existing))
        (\<lambda>_. prog_bind (drop_token ns name existing (keep_account existing auth)) (\<lambda>_. read_store ns name))))
    (\<lambda>tr x. \<exists>labels stores drops. writes tr = labels @ stores @ drops \<and>
       list_all (relabel_write ns) labels \<and> (sr_IsDefault req \<or> labels = []) \<and>
       (stores = [] \<and> drops = [] \<and> (\<forall>y. x \<noteq> Inr y) \<or>
        store_and_drop ns name existing req v auth tr (\<exists>y. x = Inr y) stores drops))"
proof (rule runs_seq [OF runs_clear_default], goal_cases)
  case (1 t1 a)
  show ?case
  proof (rule runs_mono [OF runs_put_drop_read [OF assms]], goal_cases)
    case (1 t2 x)
    then obtain stores drops where "writes t2 = stores @ drops"
      "stores = [] \<and> drops = [] \<and> (\<forall>y. x \<noteq> Inr y) \<or>
        store_and_drop ns name existing req v auth t2 (\<exists>y. x = Inr y) stores drops" by blast
    with \<open>list_all (relabel_write ns) (writes t1) \<and> (sr_IsDefault req \<or> writes t1 = [])\<close> show ?case
      by (intro exI [of _ "writes t1"] exI [of _ stores] exI [of _ drops]) (auto intro: store_and_drop_later)
  qed
qed

lemma runs_update_store:
  assumes "sr_Name req = name"
  shows "runs (try_bind (update_token ns name existing auth) (\<lambda>_.
      let auth' = keep_account existing auth in
      prog_bind (clear_default ns req) (\<lambda>_.
        try_bind (SecretStoreRepository_Update ns (updated_store ns req v auth' existing))
          (\<lambda>_. prog_bind (drop_token ns name existing auth') (\<lambda>_. read_store ns name)))))
    (\<lambda>tr x. update_store_writes ns name existing req v auth tr (\<exists>y. x = Inr y))"
  unfolding Let_def
proof (rule runs_try_seq [OF runs_update_token], goal_cases)
  case (1 t1 e)
  then show ?case
    unfolding update_store_writes_def
    by (intro exI [of _ "writes t1"] exI [of _ "[]"]) (auto simp: token_part_def)
next
  case (2 t1 a)
  show ?case
  proof (rule runs_mono [OF runs_label_put_drop [OF assms]], goal_cases)
    case (1 t2 x)
    then obtain labels stores drops where p: "writes t2 = labels @ stores @ drops"
      "list_all (relabel_write ns) labels" "sr_IsDefault req \<or> labels = []"
      and s: "stores = [] \<and> drops = [] \<and> (\<forall>y. x \<noteq> Inr y) \<or>
        store_and_drop ns name existing req v auth t2 (\<exists>y. x = Inr y) stores drops" by blast
    from s have "stores = [] \<and> drops = [] \<and> \<not> (\<exists>y. x = Inr y) \<or>
        store_and_drop ns name existing req v auth (t1 @ t2) (\<exists>y. x = Inr y) stores drops"
      by (auto dest: store_and_drop_later)
    moreover have "token_part ns name auth (stores \<noteq> [] \<and> \<not> used_token_auth existing) (writes t1)"
      using 2 by (auto simp: token_part_def)
    moreover have "writes (t1 @ t2) = writes t1 @ labels @ stores @ drops" using p(1) by simp
    ultimately show ?case using p(2,3) unfolding update_store_writes_def by blast
  qed
qed

lemma update_store_writes_first:
  assumes "update_store_writes ns name existing req v auth tr u" and "\<not> is_write (fst e)"
  shows "update_store_writes ns name existing req v auth (e # tr) u"
proof -
  have w: "writes (e # tr) = writes tr" using assms(2) by (cases e) simp
  have later: "store_and_drop ns name existing req v auth (e # tr) u stores drops"
    if "store_and_drop ns name existing req v auth tr u stores drops" for stores drops
    using store_and_drop_later [OF that, of "[e]"] by simp
  from assms(1) obtain tokens labels stores drops where p: "writes tr = tokens @ labels @ stores @ drops"
    "token_part ns name auth (stores \<noteq> [] \<and> \<not> used_token_auth existing) tokens"
    "list_all (relabel_write ns) labels" "sr_IsDefault req \<or> labels = []"
    and s: "stores = [] \<and> drops = [] \<and> \<not> u \<or> store_and_drop ns name existing req v auth tr u stores drops"
    unfolding update_store_writes_def by blast
  from s have "stores = [] \<and> drops = [] \<and> \<not> u \<or> store_and_drop ns name existing req v auth (e # tr) u stores drops"
    by (auto dest: later)
  with p show ?thesis unfolding update_store_writes_def w by blast
qed

lemma UpdateSecretStore_runs:
  "runs (UpdateSecretStore L ns name req) (\<lambda>tr x. update_store_protocol L ns name req tr (\<exists>s. x = Inr s))"
  unfolding UpdateSecretStore_def
proof (rule runs_try_seq [OF runs_store_Get], goal_cases)
  case (1 t1 e)
  then show ?case unfolding update_store_protocol_def by (intro disjI1) simp
next
  case (2 t1 existing)
  then have t1: "t1 = [(KGet GetSecretStoreGVR ns name, RObj (OStore existing))]" by simp
  show ?case
  proof (cases "validated L (req\<lparr>sr_Name := name\<rparr>)")
    case (Inl e)
    then show ?thesis by (simp add: t1 update_store_protocol_def)
  next
    case (Inr va)
    obtain v auth where va: "va = (v, auth)" by (cases va)
    have n: "sr_Name (req\<lparr>sr_Name := name\<rparr>) = name" by simp
    show ?thesis
      unfolding Let_def Inr try_pure_simps va prod.case t1
      by (rule runs_mono [OF runs_update_store [OF n, unfolded Let_def]])
        (auto simp: update_store_protocol_def Inr va intro!: update_store_writes_first)
  qed
qed

subsection \<open>What a failed creation leaves behind\<close>

definition vault_request :: store_request where
  "vault_request = \<lparr>sr_Name = ''vault'', sr_Provider = ''vault'',
     sr_Vault = Some \<lparr>vc_Server = ''https://vault'', vc_Path = ''kv'', vc_Version = ''v2'', vc_CABundle = []\<rparr>,
     sr_Auth = Some \<lparr>au_Type = ''token'', au_Token = ''s.new'', au_MountPath = [], au_Role = [],
       au_ServiceAccount = None\<rparr>, sr_IsDefault = False\<rparr>"

lemma failed_create:
  "replay (CreateSecretStore L ''demo'' vault_request)
     [RObj (OSecret s), ROk, RErr (KubeErr AlreadyExists ''vault'')] =
   Some ([(KGet SecretsGVR ''demo'' ''vault-credentials'', RObj (OSecret s)),
          (KUpdate SecretsGVR ''demo''
            (OSecret (store_secret ''demo'' ''vault-credentials'' [(''token'', ''s.new'')])), ROk),
          (KCreate GetSecretStoreGVR ''demo'' (OStore (buildSecretStoreCRD ''demo'' vault_request
             (the (sr_Vault vault_request)) (the (sr_Auth vault_request)) ''vault-credentials'')),
           RErr (KubeErr AlreadyExists ''vault''))],
     Inl (KubeErr AlreadyExists ''vault''))"
  by (simp add: CreateSecretStore_def validated_def store_validateRequest_def validate_auth_def vault_request_def
      create_token_def credSecretName_def store_CreateOrUpdateSecret_def Let_def call_obj_def call_unit_def
      clear_default_def SecretStoreRepository_Create_def)

lemma refused_delete:
  "replay (DeleteSecretStore ''demo'' ''vault'') [RObj (OStore s), ROk, RErr e] =
   Some ([(KGet GetSecretStoreGVR ''demo'' ''vault'', RObj (OStore s)),
          (KDelete SecretsGVR ''demo'' ''vault-credentials'', ROk),
          (KDelete GetSecretStoreGVR ''demo'' ''vault'', RErr e)], Inl e)"
  by (simp add: DeleteSecretStore_def SecretStoreRepository_Get_def from_unstructured_def call_obj_def
      store_DeleteSecret_def credSecretName_def call_unit_def SecretStoreRepository_Delete_def)

subsection \<open>Properties\<close>



text \<open>
  The credentials do not share the fate of the store:
  creating a store whose name is taken is refused with a conflict, but has already replaced the
  token of the existing store by the one of the request; and a deletion the cluster refuses has
  already deleted the token of the store that stays.
\<close>

theorem failed_store_operations_touch_credentials:
  "(\<exists>tr. exec (CreateSecretStore L ''demo'' vault_request) tr (Inl (KubeErr AlreadyExists ''vault'')) \<and>
      (KUpdate SecretsGVR ''demo'' (OSecret (store_secret ''demo'' ''vault-credentials'' [(''token'', ''s.new'')])), ROk)
        \<in> set tr) \<and>
   (\<exists>tr. exec (DeleteSecretStore ''demo'' ''vault'') tr (Inl e) \<and>
      (KDelete SecretsGVR ''demo'' ''vault-credentials'', ROk) \<in> set tr)"
  using replay_Some [OF failed_create] replay_Some [OF refused_delete]
  by (meson list.set_intros)

end
