(* ===== verification/External_Secrets.thy ===== *)
theory External_Secrets
  imports Secret_Stores
begin

text \<open>
  External secrets of a project (\<^verbatim>\<open>internal/repository/external_secret_repository.go\<close>,
  \<^verbatim>\<open>internal/service/external_secret_service.go\<close>, \<^verbatim>\<open>internal/models/external_secret.go\<close>): the
  mappings from keys of a secret store to keys of a Kubernetes Secret.
\<close>

record remote_ref =
  rm_Key :: string
  rm_Property :: string

record data_entry =
  dt_SecretKey :: string
  dt_RemoteRef :: remote_ref

record external_request =
  xq_Name :: string
  xq_SecretStoreRef :: string
  xq_Target :: string
  xq_RefreshInterval :: string
  xq_Data :: "data_entry list"

record external_response =
  xp_Name :: string
  xp_Namespace :: string
  xp_SecretStoreRef :: string
  xp_TargetName :: string
  xp_CreationPolicy :: string
  xp_RefreshInterval :: string
  xp_Data :: "data_entry list"
  xp_Status :: string
  xp_LastSyncedAt :: "string option"
  xp_LastError :: "string option"
  xp_CreatedAt :: string

record external_status_response =
  xt_Status :: string
  xt_Conditions :: "eso_condition list"
  xt_LastSyncedAt :: "string option"
  xt_LastError :: "string option"

subsection \<open>The repository\<close>

definition ExternalSecretRepository_Available :: "bool kprog" where
  "ExternalSecretRepository_Available = call_bool (KAvailable GetExternalSecretGVR)"

definition ExternalSecretRepository_Create :: "string \<Rightarrow> eso_external \<Rightarrow> (gerr + unit) kprog" where
  "ExternalSecretRepository_Create ns es = call_unit (KCreate GetExternalSecretGVR ns (OExternal es))"

definition ExternalSecretRepository_Get :: "string \<Rightarrow> string \<Rightarrow> (gerr + eso_external) kprog" where
  "ExternalSecretRepository_Get ns name =
     try_bind (call_obj (KGet GetExternalSecretGVR ns name)) (\<lambda>u. Ret (from_unstructured is_external u))"

definition ExternalSecretRepository_List :: "string \<Rightarrow> (gerr + eso_external list) kprog" where
  "ExternalSecretRepository_List ns =
     try_bind (call_items (KList GetExternalSecretGVR ns [])) (\<lambda>items. Ret (Inr (keep_some is_external items)))"

definition ExternalSecretRepository_Update :: "string \<Rightarrow> eso_external \<Rightarrow> (gerr + unit) kprog" where
  "ExternalSecretRepository_Update ns es =
     try_bind (call_obj (KGet GetExternalSecretGVR ns (md_Name (ex_Meta es)))) (\<lambda>existing.
       call_unit (KUpdate GetExternalSecretGVR ns
         (OExternal (es\<lparr>ex_Meta := (ex_Meta es)\<lparr>md_ResourceVersion := resource_version existing\<rparr>\<rparr>))))"

definition ExternalSecretRepository_Delete :: "string \<Rightarrow> string \<Rightarrow> (gerr + unit) kprog" where
  "ExternalSecretRepository_Delete ns name = call_unit (KDelete GetExternalSecretGVR ns name)"

lemmas external_repo_defs = ExternalSecretRepository_Available_def ExternalSecretRepository_Create_def
  ExternalSecretRepository_Get_def ExternalSecretRepository_List_def ExternalSecretRepository_Update_def
  ExternalSecretRepository_Delete_def

interpretation externals: object_repository "\<lambda>ns. GetExternalSecretGVR"
  "\<lambda>s y. \<exists>s'. y = OExternal s' \<and> ex_Spec s' = ex_Spec s \<and> md_Name (ex_Meta s') = md_Name (ex_Meta s)"
  ExternalSecretRepository_Get ExternalSecretRepository_List ExternalSecretRepository_Create
  ExternalSecretRepository_Update ExternalSecretRepository_Delete
proof
qed (auto simp: external_repo_defs runs_simps split: sum.split)

subsection \<open>Validation\<close>

text \<open>The loop over the mappings: the index, the keys seen so far with their first index.\<close>

definition check_entry :: "extlib \<Rightarrow> int \<Rightarrow> (string \<times> int) list \<Rightarrow> data_entry \<Rightarrow> gerr + unit" where
  "check_entry L i seen d =
     (if dt_SecretKey d = [] then Inl (invalid ''data[%d].secretKey is required'' [FInt i])
      else case IsConfigMapKey L (dt_SecretKey d) of
        msg # _ \<Rightarrow> Inl (invalid ''data[%d].secretKey %q is not a valid Secret key: %s''
                     [FInt i, FStr (dt_SecretKey d), FStr msg])
      | [] \<Rightarrow>
          (case mget seen (dt_SecretKey d) of
             Some first \<Rightarrow> Inl (invalid ''data[%d].secretKey %q is already mapped by data[%d]''
                            [FInt i, FStr (dt_SecretKey d), FInt first])
           | None \<Rightarrow>
               if rm_Key (dt_RemoteRef d) = [] then
                 Inl (invalid ''data[%d].remoteRef.key is required'' [FInt i])
               else Inr ()))"

fun check_entries :: "extlib \<Rightarrow> int \<Rightarrow> (string \<times> int) list \<Rightarrow> data_entry list \<Rightarrow> gerr + unit" where
  "check_entries L i seen [] = Inr ()"
| "check_entries L i seen (d # ds) =
     sum_bind (check_entry L i seen d) (\<lambda>_. check_entries L (i + 1) (mput (dt_SecretKey d) i seen) ds)"

definition check_interval :: "extlib \<Rightarrow> string \<Rightarrow> gerr + unit" where
  "check_interval L s =
     (if s = [] then Inl (invalid ''refreshInterval is required'' [])
      else case time_ParseDuration L s of
        None \<Rightarrow> Inl (invalid ''refreshInterval %q is not a duration, expected a value such as 1m, 30s or 1h'' [FStr s])
      | Some interval \<Rightarrow>
          if interval < 0 then Inl (invalid ''refreshInterval %q is negative'' [FStr s]) else Inr ())"

definition check_target :: "extlib \<Rightarrow> string \<Rightarrow> gerr + unit" where
  "check_target L s =
     (if s = [] then Inl (invalid ''target.name is required'' [])
      else case IsDNS1123Subdomain L s of
        msg # _ \<Rightarrow> Inl (invalid ''target.name %q is not a valid Secret name: %s'' [FStr s, FStr msg])
      | [] \<Rightarrow> Inr ())"

definition check_name :: "extlib \<Rightarrow> string \<Rightarrow> gerr + unit" where
  "check_name L s =
     (if s = [] then Inl (invalid ''name is required'' [])
      else case IsDNS1123Subdomain L s of
        msg # _ \<Rightarrow> Inl (invalid ''name %q is not a valid Kubernetes name: %s'' [FStr s, FStr msg])
      | [] \<Rightarrow> Inr ())"

definition validateExternalSecretRequest :: "extlib \<Rightarrow> external_request \<Rightarrow> gerr + unit" where
  "validateExternalSecretRequest L req =
     sum_bind (check_name L (xq_Name req)) (\<lambda>_.
       if xq_SecretStoreRef req = [] then Inl (invalid ''secretStoreRef is required'' [])
       else sum_bind (check_target L (xq_Target req)) (\<lambda>_.
         sum_bind (check_interval L (xq_RefreshInterval req)) (\<lambda>_.
           if xq_Data req = [] then Inl (invalid ''at least one data mapping is required'' [])
           else check_entries L 0 [] (xq_Data req))))"

subsection \<open>The object and the answers\<close>

definition eso_data_of :: "data_entry \<Rightarrow> eso_data" where
  "eso_data_of d = \<lparr>ed_SecretKey = dt_SecretKey d,
     ed_RemoteRef = \<lparr>rr_Key = rm_Key (dt_RemoteRef d), rr_Property = rm_Property (dt_RemoteRef d)\<rparr>\<rparr>"

definition buildExternalSecretCRD :: "string \<Rightarrow> external_request \<Rightarrow> eso_external" where
  "buildExternalSecretCRD ns req =
     \<lparr>ex_APIVersion = ExternalSecretAPIVersion, ex_Kind = ExternalSecretKind,
      ex_Meta = object_meta0\<lparr>md_Name := xq_Name req, md_Namespace := ns\<rparr>,
      ex_Spec = \<lparr>es_RefreshInterval = xq_RefreshInterval req, es_StoreName = xq_SecretStoreRef req,
        es_StoreKind = ''SecretStore'', es_TargetName = xq_Target req, es_CreationPolicy = ''Owner'',
        es_Data = map eso_data_of (xq_Data req)\<rparr>,
      ex_Conditions = [], ex_RefreshTime = []\<rparr>"

definition data_entry_of :: "eso_data \<Rightarrow> data_entry" where
  "data_entry_of d = \<lparr>dt_SecretKey = ed_SecretKey d,
     dt_RemoteRef = \<lparr>rm_Key = rr_Key (ed_RemoteRef d), rm_Property = rr_Property (ed_RemoteRef d)\<rparr>\<rparr>"

definition deriveExternalSecretStatus :: "eso_condition list \<Rightarrow> string" where
  "deriveExternalSecretStatus conditions =
     (if conditions = [] then ''Pending''
      else case ready_status conditions of
        None \<Rightarrow> ''Unknown''
      | Some s \<Rightarrow> if s = ''True'' then ''Synced'' else if s = ''False'' then ''Error'' else ''Pending'')"

definition last_synced :: "eso_external \<Rightarrow> string option" where
  "last_synced es = (if ex_RefreshTime es = [] then None else Some (ex_RefreshTime es))"

definition external_toResponse :: "eso_external \<Rightarrow> string \<Rightarrow> external_response" where
  "external_toResponse es ns =
     \<lparr>xp_Name = md_Name (ex_Meta es), xp_Namespace = ns, xp_SecretStoreRef = es_StoreName (ex_Spec es),
      xp_TargetName = es_TargetName (ex_Spec es), xp_CreationPolicy = es_CreationPolicy (ex_Spec es),
      xp_RefreshInterval = es_RefreshInterval (ex_Spec es), xp_Data = map data_entry_of (es_Data (ex_Spec es)),
      xp_Status = deriveExternalSecretStatus (ex_Conditions es), xp_LastSyncedAt = last_synced es,
      xp_LastError = last_error (ex_Conditions es), xp_CreatedAt = rfc3339 (md_CreationTimestamp (ex_Meta es))\<rparr>"

definition read_external :: "string \<Rightarrow> string \<Rightarrow> (gerr + external_response) kprog" where
  "read_external ns name =
     try_bind (ExternalSecretRepository_Get ns name) (\<lambda>es. Ret (Inr (external_toResponse es ns)))"

subsection \<open>The service\<close>

definition ListExternalSecrets :: "string \<Rightarrow> (gerr + external_response list) kprog" where
  "ListExternalSecrets ns =
     try_bind (ExternalSecretRepository_List ns) (\<lambda>items. Ret (Inr (map (\<lambda>e. external_toResponse e ns) items)))"

definition require_store :: "string \<Rightarrow> string \<Rightarrow> (gerr + unit) kprog" where
  "require_store ns store =
     prog_bind (SecretStoreRepository_Get ns store) (\<lambda>r. Ret (case r of
         Inl e \<Rightarrow>
           if is_not_found e then
             Inl (Errorf (''SecretStore '%s' not found in project '%s'' @ [CHR 0x27]) [FStr store, FStr ns])
           else Inl (Wrapf ''failed to verify SecretStore: %w'' [] e)
       | Inr _ \<Rightarrow> Inr ()))"

definition CreateExternalSecret :: "extlib \<Rightarrow> string \<Rightarrow> external_request \<Rightarrow> (gerr + external_response) kprog" where
  "CreateExternalSecret L ns req =
     try_pure (validateExternalSecretRequest L req) (\<lambda>_.
       try_bind (require_store ns (xq_SecretStoreRef req)) (\<lambda>_.
         try_bind (ExternalSecretRepository_Create ns (buildExternalSecretCRD ns req)) (\<lambda>_.
           read_external ns (xq_Name req))))"

definition UpdateExternalSecret :: "extlib \<Rightarrow> string \<Rightarrow> string \<Rightarrow> external_request \<Rightarrow> (gerr + external_response) kprog" where
  "UpdateExternalSecret L ns name req0 =
     try_bind (ExternalSecretRepository_Get ns name) (\<lambda>existing.
       let req = req0\<lparr>xq_Name := name\<rparr> in
       try_pure (validateExternalSecretRequest L req) (\<lambda>_.
         try_bind (require_store ns (xq_SecretStoreRef req)) (\<lambda>_.
           let es = buildExternalSecretCRD ns req in
           try_bind (ExternalSecretRepository_Update ns
               (es\<lparr>ex_Meta := (ex_Meta es)\<lparr>md_ResourceVersion := md_ResourceVersion (ex_Meta existing)\<rparr>\<rparr>)) (\<lambda>_.
             read_external ns name))))"

definition DeleteExternalSecret :: "string \<Rightarrow> string \<Rightarrow> (gerr + unit) kprog" where
  "DeleteExternalSecret ns name =
     try_bind (ExternalSecretRepository_Get ns name) (\<lambda>_. ExternalSecretRepository_Delete ns name)"

definition GetExternalSecretStatus :: "string \<Rightarrow> string \<Rightarrow> (gerr + external_status_response) kprog" where
  "GetExternalSecretStatus ns name =
     try_bind (ExternalSecretRepository_Get ns name) (\<lambda>es.
       Ret (Inr \<lparr>xt_Status = deriveExternalSecretStatus (ex_Conditions es),
         xt_Conditions = mapConditions (ex_Conditions es), xt_LastSyncedAt = last_synced es,
         xt_LastError = last_error (ex_Conditions es)\<rparr>))"

subsection \<open>What a valid request is\<close>

text \<open>The conditions on a request, without the order in which they are checked.\<close>

definition valid_external :: "extlib \<Rightarrow> external_request \<Rightarrow> bool" where
  "valid_external L req =
     (xq_Name req \<noteq> [] \<and> IsDNS1123Subdomain L (xq_Name req) = [] \<and> xq_SecretStoreRef req \<noteq> [] \<and>
      xq_Target req \<noteq> [] \<and> IsDNS1123Subdomain L (xq_Target req) = [] \<and>
      (\<exists>d\<ge>0. xq_RefreshInterval req \<noteq> [] \<and> time_ParseDuration L (xq_RefreshInterval req) = Some d) \<and>
      xq_Data req \<noteq> [] \<and> distinct (map dt_SecretKey (xq_Data req)) \<and>
      (\<forall>d\<in>set (xq_Data req). dt_SecretKey d \<noteq> [] \<and> IsConfigMapKey L (dt_SecretKey d) = [] \<and>
         rm_Key (dt_RemoteRef d) \<noteq> []))"

lemma check_entry_Inr:
  "check_entry L i seen d = Inr u \<longleftrightarrow>
     dt_SecretKey d \<noteq> [] \<and> IsConfigMapKey L (dt_SecretKey d) = [] \<and>
     mget seen (dt_SecretKey d) = None \<and> rm_Key (dt_RemoteRef d) \<noteq> []"
  by (auto simp: check_entry_def split: list.split option.split)

lemma check_entries_Inr:
  "check_entries L i seen ds = Inr u \<longleftrightarrow>
     distinct (map dt_SecretKey ds) \<and> (\<forall>d\<in>set ds. mget seen (dt_SecretKey d) = None) \<and>
     (\<forall>d\<in>set ds. dt_SecretKey d \<noteq> [] \<and> IsConfigMapKey L (dt_SecretKey d) = [] \<and> rm_Key (dt_RemoteRef d) \<noteq> [])"
  by (induction ds arbitrary: i seen)
    (auto simp: sum_bind_Inr_iff check_entry_Inr image_iff split: if_splits)

lemma check_name_Inr: "check_name L s = Inr u \<longleftrightarrow> s \<noteq> [] \<and> IsDNS1123Subdomain L s = []"
  by (auto simp: check_name_def split: list.split)

lemma check_target_Inr: "check_target L s = Inr u \<longleftrightarrow> s \<noteq> [] \<and> IsDNS1123Subdomain L s = []"
  by (auto simp: check_target_def split: list.split)

lemma check_interval_Inr:
  "check_interval L s = Inr u \<longleftrightarrow> s \<noteq> [] \<and> (\<exists>d\<ge>0. time_ParseDuration L s = Some d)"
  by (auto simp: check_interval_def split: option.split)

lemma validate_external_Inr: "validateExternalSecretRequest L req = Inr u \<longleftrightarrow> valid_external L req"
  by (auto simp: validateExternalSecretRequest_def sum_bind_Inr_iff check_name_Inr check_target_Inr
      check_interval_Inr check_entries_Inr valid_external_def)

lemma check_entries_validation: "check_entries L i seen ds = Inl e \<Longrightarrow> is_validation e"
  by (induction ds arbitrary: i seen)
    (auto simp: sum_bind_Inl_iff check_entry_def split: if_splits list.splits option.splits)

lemma validate_external_Inl: "validateExternalSecretRequest L req = Inl e \<Longrightarrow> is_validation e"
  by (auto simp: validateExternalSecretRequest_def sum_bind_Inl_iff check_name_def check_target_def
      check_interval_def dest: check_entries_validation split: if_splits list.splits option.splits)

text \<open>What the answer shows of an external secret is what its request asked for.\<close>

lemma data_roundtrip: "data_entry_of (eso_data_of d) = d"
  by (simp add: data_entry_of_def eso_data_of_def)

lemma external_roundtrip:
  "xp_Data (external_toResponse (buildExternalSecretCRD ns req) ns) = xq_Data req"
  by (simp add: external_toResponse_def buildExternalSecretCRD_def comp_def data_roundtrip)

subsection \<open>Writes\<close>

lemma runs_read_external: "runs (read_external ns name) (\<lambda>tr x. writes tr = [])"
  by (simp add: read_external_def ExternalSecretRepository_Get_def runs_simps split: sum.split)

lemma runs_require_store:
  "runs (require_store ns store) (\<lambda>tr x. writes tr = [] \<and>
     (case x of Inl e \<Rightarrow> True
      | Inr _ \<Rightarrow> \<exists>s. (KGet GetSecretStoreGVR ns store, RObj (OStore s)) \<in> set tr))"
  by (auto simp: require_store_def SecretStoreRepository_Get_def runs_simps from_unstructured_def
      split: sum.split option.split)

text \<open>
  What a run may write: nothing, or the one object built from a valid request whose store was read
  first; and what it answers: an external secret only after having written it.
\<close>

definition checked_write :: "extlib \<Rightarrow> string \<Rightarrow> external_request \<Rightarrow> (eso_external \<Rightarrow> kcall) \<Rightarrow> ktrace \<Rightarrow> bool \<Rightarrow> bool" where
  "checked_write L ns req write tr ok =
     (writes tr = [] \<and> \<not> ok \<or>
      (\<exists>rv s. let es = buildExternalSecretCRD ns req in
         writes tr = [write (es\<lparr>ex_Meta := (ex_Meta es)\<lparr>md_ResourceVersion := rv\<rparr>\<rparr>)] \<and> valid_external L req \<and>
         (KGet GetSecretStoreGVR ns (xq_SecretStoreRef req), RObj (OStore s)) \<in> set tr))"

definition create_write :: "string \<Rightarrow> eso_external \<Rightarrow> kcall" where
  "create_write ns es = KCreate GetExternalSecretGVR ns (OExternal es)"

definition update_write :: "string \<Rightarrow> eso_external \<Rightarrow> kcall" where
  "update_write ns es = KUpdate GetExternalSecretGVR ns (OExternal es)"

lemma runs_put_external:
  "runs (try_bind (ExternalSecretRepository_Create ns es) (\<lambda>_. read_external ns name))
     (\<lambda>tr x. writes tr = [create_write ns es])"
  unfolding ExternalSecretRepository_Create_def create_write_def
  by (rule runs_try_seq [where P = "\<lambda>tr x. writes tr = [KCreate GetExternalSecretGVR ns (OExternal es)]"])
    (auto simp: runs_simps intro: runs_mono [OF runs_read_external])

lemma runs_ExternalSecretRepository_Update:
  "runs (ExternalSecretRepository_Update ns es) (\<lambda>tr x. writes tr = [] \<and> x \<noteq> Inr () \<or>
     (\<exists>rv. writes tr = [update_write ns (es\<lparr>ex_Meta := (ex_Meta es)\<lparr>md_ResourceVersion := rv\<rparr>\<rparr>)]))"
  by (auto simp: ExternalSecretRepository_Update_def update_write_def runs_simps split: sum.split)

lemma runs_update_external:
  "runs (try_bind (ExternalSecretRepository_Update ns es) (\<lambda>_. read_external ns name))
     (\<lambda>tr x. writes tr = [] \<and> (\<forall>y. x \<noteq> Inr y) \<or>
        (\<exists>rv. writes tr = [update_write ns (es\<lparr>ex_Meta := (ex_Meta es)\<lparr>md_ResourceVersion := rv\<rparr>\<rparr>)]))"
proof (rule runs_try_seq [OF runs_ExternalSecretRepository_Update], goal_cases)
  case (2 t1 a)
  then show ?case by (intro runs_mono [OF runs_read_external]) auto
qed simp

lemma CreateExternalSecret_runs:
  "runs (CreateExternalSecret L ns req) (\<lambda>tr x. checked_write L ns req (create_write ns) tr (\<exists>y. x = Inr y))"
proof (cases "validateExternalSecretRequest L req")
  case (Inl e)
  then show ?thesis by (simp add: CreateExternalSecret_def checked_write_def)
next
  case (Inr u)
  then have valid: "valid_external L req" by (rule iffD1 [OF validate_external_Inr])
  have same: "(buildExternalSecretCRD ns req)
      \<lparr>ex_Meta := (ex_Meta (buildExternalSecretCRD ns req))\<lparr>md_ResourceVersion := []\<rparr>\<rparr> = buildExternalSecretCRD ns req"
    by (simp add: buildExternalSecretCRD_def object_meta0_def)
  show ?thesis
    unfolding CreateExternalSecret_def Inr try_pure_simps
  proof (rule runs_try_seq [OF runs_require_store], goal_cases)
    case (2 t1 a)
    then obtain s where s: "writes t1 = []"
      "(KGet GetSecretStoreGVR ns (xq_SecretStoreRef req), RObj (OStore s)) \<in> set t1" by auto
    show ?case
      by (rule runs_mono [OF runs_put_external], unfold checked_write_def Let_def,
        intro disjI2 exI [of _ "[]"] exI [of _ s]) (auto simp: s valid same)
  qed (simp add: checked_write_def)
qed

lemma UpdateExternalSecret_runs:
  "runs (UpdateExternalSecret L ns name req)
     (\<lambda>tr x. checked_write L ns (req\<lparr>xq_Name := name\<rparr>) (update_write ns) tr (\<exists>y. x = Inr y))"
  unfolding UpdateExternalSecret_def
proof (rule runs_try_seq [OF externals.Get_reads], goal_cases)
  case (1 t0 e)
  then show ?case by (simp add: checked_write_def read_only_writes)
next
  case (2 t0 existing)
  let ?req = "req\<lparr>xq_Name := name\<rparr>"
  show ?case
  proof (cases "validateExternalSecretRequest L ?req")
    case (Inl e)
    with 2 show ?thesis by (simp add: checked_write_def read_only_writes)
  next
    case (Inr u)
    then have valid: "valid_external L ?req" by (rule iffD1 [OF validate_external_Inr])
    show ?thesis
      unfolding Let_def Inr try_pure_simps
    proof (rule runs_try_seq [OF runs_require_store], goal_cases)
      case (1 t1 e)
      with 2 show ?case by (simp add: checked_write_def read_only_writes)
    next
      case (2 t1 a)
      then obtain s where s: "writes t1 = []"
        "(KGet GetSecretStoreGVR ns (xq_SecretStoreRef ?req), RObj (OStore s)) \<in> set t1" by auto
      show ?case
      proof (rule runs_mono [OF runs_update_external], goal_cases)
        case (1 t2 x)
        have w: "writes (t0 @ t1 @ t2) = writes t2" using s(1) \<open>read_only t0\<close> by (simp add: read_only_writes)
        from 1 show ?case
          unfolding checked_write_def Let_def w
          using valid s(2) by (elim disjE exE) (simp, intro disjI2, auto)
      qed
    qed
  qed
qed

subsection \<open>Property\<close>

text \<open>
  C29. Creating and updating an external secret write at most one
  object, the one built from the request (under the name in the path for an update, whatever
  resource version it carries), and answer one only after that write. The request then satisfied
  every condition at once: valid names, a duration that is not negative, at least one mapping, no
  two mappings of the same key, each with a valid key and a remote key. And the secret store it
  refers to was read in the same project. A mapping comes back in the answer as it was sent.
\<close>

theorem external_secret_writes_checked:
  "runs (CreateExternalSecret L ns req) (\<lambda>tr x. checked_write L ns req (create_write ns) tr (\<exists>y. x = Inr y)) \<and>
   runs (UpdateExternalSecret L ns name req)
     (\<lambda>tr x. checked_write L ns (req\<lparr>xq_Name := name\<rparr>) (update_write ns) tr (\<exists>y. x = Inr y)) \<and>
   xp_Data (external_toResponse (buildExternalSecretCRD ns req) ns) = xq_Data req"
  by (intro conjI CreateExternalSecret_runs UpdateExternalSecret_runs external_roundtrip)

end
