(* ===== verification/Identity.thy ===== *)
theory Identity
  imports Context_Repository Connection_Repository
begin

text \<open>
  Users, groups and memberships of kubauth (\<^verbatim>\<open>internal/repository/identity_repository.go\<close>,
  \<^verbatim>\<open>internal/service/identity_service.go\<close>, \<^verbatim>\<open>internal/models/identity.go\<close>). The namespace the
  objects live in is a function of the repository that reads the platform Context, so it is a
  program, run again for every call as the code does. Go ranges over the sets of groups in an
  unspecified order; here they are lists without repetition, in the order of the request and of the
  listing.
\<close>

record user_model =
  um_Name :: string
  um_Username :: string
  um_Email :: "string list"
  um_Comment :: string
  um_Disabled :: bool
  um_UID :: int
  um_Groups :: "string list"
  um_Password :: string
  um_PasswordHash :: string

record group_model =
  gm_Name :: string
  gm_Comment :: string
  gm_Description :: string

record group_binding =
  gb_User :: string
  gb_Group :: string

subsection \<open>The repository\<close>

definition kubauth_api :: string where "kubauth_api = ''kubauth.kubotal.io/v1alpha1''"

definition userGVR :: gvr where "userGVR = (''kubauth.kubotal.io'', ''v1alpha1'', ''users'')"
definition groupGVR :: gvr where "groupGVR = (''kubauth.kubotal.io'', ''v1alpha1'', ''groups'')"
definition gbGVR :: gvr where "gbGVR = (''kubauth.kubotal.io'', ''v1alpha1'', ''groupbindings'')"

text \<open>The function \<^verbatim>\<open>main\<close> passes: the Context's kubauth namespace, or the platform namespace.\<close>

definition kubauthNamespace :: "string \<Rightarrow> string kprog" where
  "kubauthNamespace platformNamespace =
     prog_bind GetKubauthNamespace (\<lambda>r. Ret (case r of Inr ns \<Rightarrow> ns | Inl _ \<Rightarrow> platformNamespace))"

definition in_ns :: "string kprog \<Rightarrow> (string \<Rightarrow> 'a kprog) \<Rightarrow> 'a kprog" where
  "in_ns namespace f = prog_bind namespace f"

definition IdentityRepository_Available :: "bool kprog" where
  "IdentityRepository_Available = call_bool (KAvailable userGVR)"

definition user_of :: "crd_user \<Rightarrow> user_model" where
  "user_of u = \<lparr>um_Name = cu_Name u, um_Username = md_Name (cu_Meta u), um_Email = cu_Emails u,
     um_Comment = cu_Comment u,
     um_Disabled = (case cu_Disabled u of None \<Rightarrow> False | Some d \<Rightarrow> d),
     um_UID = (case cu_Uid u of None \<Rightarrow> 0 | Some n \<Rightarrow> n),
     um_Groups = [], um_Password = [], um_PasswordHash = cu_PasswordHash u\<rparr>"

definition repo_ListUsers :: "string kprog \<Rightarrow> (gerr + user_model list) kprog" where
  "repo_ListUsers nsf =
     in_ns nsf (\<lambda>ns. try_bind (call_items (KList userGVR ns [])) (\<lambda>items.
       Ret (Inr (map (\<lambda>u. (user_of u)\<lparr>um_PasswordHash := []\<rparr>) (keep_some is_user items)))))"

definition repo_GetUser :: "string kprog \<Rightarrow> string \<Rightarrow> (gerr + user_model) kprog" where
  "repo_GetUser nsf name =
     in_ns nsf (\<lambda>ns. try_bind (call_obj (KGet userGVR ns name)) (\<lambda>u.
       Ret (sum_bind (from_unstructured is_user u) (\<lambda>c. Inr (user_of c)))))"

definition repo_CreateUser :: "string kprog \<Rightarrow> crd_user \<Rightarrow> (gerr + unit) kprog" where
  "repo_CreateUser nsf user =
     (let name = (if md_Name (cu_Meta user) = [] then cu_Name user else md_Name (cu_Meta user))
      in in_ns nsf (\<lambda>ns. call_unit (KCreate userGVR ns
           (OUser (user\<lparr>cu_APIVersion := kubauth_api, cu_Kind := ''User'',
                        cu_Meta := (cu_Meta user)\<lparr>md_Name := name\<rparr>\<rparr>)))))"

definition repo_UpdateUser :: "string kprog \<Rightarrow> crd_user \<Rightarrow> (gerr + unit) kprog" where
  "repo_UpdateUser nsf user =
     in_ns nsf (\<lambda>ns. try_bind (call_obj (KGet userGVR ns (md_Name (cu_Meta user)))) (\<lambda>current.
       in_ns nsf (\<lambda>ns'. call_unit (KUpdate userGVR ns'
         (OUser (user\<lparr>cu_APIVersion := kubauth_api, cu_Kind := ''User'',
            cu_Meta := (cu_Meta user)\<lparr>md_ResourceVersion := resource_version current\<rparr>\<rparr>))))))"

definition repo_DeleteUser :: "string kprog \<Rightarrow> string \<Rightarrow> (gerr + unit) kprog" where
  "repo_DeleteUser nsf name = in_ns nsf (\<lambda>ns. call_unit (KDelete userGVR ns name))"

definition repo_ListGroups :: "string kprog \<Rightarrow> (gerr + group_model list) kprog" where
  "repo_ListGroups nsf =
     in_ns nsf (\<lambda>ns. try_bind (call_items (KList groupGVR ns [])) (\<lambda>items.
       Ret (Inr (map (\<lambda>g. \<lparr>gm_Name = md_Name (cg_Meta g), gm_Comment = cg_Comment g, gm_Description = []\<rparr>)
         (keep_some is_group items)))))"

definition repo_GetGroup :: "string kprog \<Rightarrow> string \<Rightarrow> (gerr + group_model) kprog" where
  "repo_GetGroup nsf name =
     in_ns nsf (\<lambda>ns. try_bind (call_obj (KGet groupGVR ns name)) (\<lambda>u.
       Ret (sum_bind (from_unstructured is_group u) (\<lambda>g.
         Inr \<lparr>gm_Name = md_Name (cg_Meta g), gm_Comment = cg_Comment g, gm_Description = cg_Comment g\<rparr>))))"

definition repo_CreateGroup :: "string kprog \<Rightarrow> crd_group \<Rightarrow> (gerr + unit) kprog" where
  "repo_CreateGroup nsf grp =
     in_ns nsf (\<lambda>ns. call_unit (KCreate groupGVR ns
       (OGroup (grp\<lparr>cg_APIVersion := kubauth_api, cg_Kind := ''Group''\<rparr>))))"

definition repo_UpdateGroup :: "string kprog \<Rightarrow> crd_group \<Rightarrow> (gerr + unit) kprog" where
  "repo_UpdateGroup nsf grp =
     in_ns nsf (\<lambda>ns. try_bind (call_obj (KGet groupGVR ns (md_Name (cg_Meta grp)))) (\<lambda>current.
       in_ns nsf (\<lambda>ns'. call_unit (KUpdate groupGVR ns'
         (OGroup (grp\<lparr>cg_APIVersion := kubauth_api, cg_Kind := ''Group'',
            cg_Meta := (cg_Meta grp)\<lparr>md_ResourceVersion := resource_version current\<rparr>\<rparr>))))))"

definition repo_DeleteGroup :: "string kprog \<Rightarrow> string \<Rightarrow> (gerr + unit) kprog" where
  "repo_DeleteGroup nsf name = in_ns nsf (\<lambda>ns. call_unit (KDelete groupGVR ns name))"

definition ListGroupBindings :: "string kprog \<Rightarrow> string \<Rightarrow> (gerr + group_binding list) kprog" where
  "ListGroupBindings nsf userFilter =
     in_ns nsf (\<lambda>ns. try_bind (call_items (KList gbGVR ns [])) (\<lambda>items.
       Ret (Inr (map (\<lambda>b. \<lparr>gb_User = cb_User b, gb_Group = cb_Group b\<rparr>)
         (filter (\<lambda>b. userFilter = [] \<or> cb_User b = userFilter) (keep_some is_binding items))))))"

definition binding_name :: "string \<Rightarrow> string \<Rightarrow> string" where
  "binding_name user group' = to_lower user @ ''-'' @ to_lower group'"

definition new_binding :: "string \<Rightarrow> string \<Rightarrow> crd_binding" where
  "new_binding user group' = \<lparr>cb_Meta = object_meta0, cb_APIVersion = [], cb_Kind = [],
     cb_User = user, cb_Group = group'\<rparr>"

definition CreateGroupBinding :: "string kprog \<Rightarrow> crd_binding \<Rightarrow> (gerr + unit) kprog" where
  "CreateGroupBinding nsf binding =
     (let name = (if md_Name (cb_Meta binding) = [] then binding_name (cb_User binding) (cb_Group binding)
                  else md_Name (cb_Meta binding))
      in in_ns nsf (\<lambda>ns. call_unit (KCreate gbGVR ns
           (OBinding (binding\<lparr>cb_APIVersion := kubauth_api, cb_Kind := ''GroupBinding'',
              cb_Meta := (cb_Meta binding)\<lparr>md_Name := name\<rparr>\<rparr>)))))"

definition DeleteGroupBinding :: "string kprog \<Rightarrow> string \<Rightarrow> (gerr + unit) kprog" where
  "DeleteGroupBinding nsf name = in_ns nsf (\<lambda>ns. call_unit (KDelete gbGVR ns name))"

definition binding_of_ref :: "string \<Rightarrow> string \<Rightarrow> crd_binding \<Rightarrow> bool" where
  "binding_of_ref user group' b = (cb_User b = user \<and> cb_Group b = group')"

definition DeleteGroupBindingByRef :: "string kprog \<Rightarrow> string \<Rightarrow> string \<Rightarrow> (gerr + unit) kprog" where
  "DeleteGroupBindingByRef nsf user group' =
     in_ns nsf (\<lambda>ns. try_bind (call_items (KList gbGVR ns [])) (\<lambda>items.
       case find (binding_of_ref user group') (keep_some is_binding items) of
         Some b \<Rightarrow> DeleteGroupBinding nsf (md_Name (cb_Meta b))
       | None \<Rightarrow> Ret (Inl (Errorf ''group binding not found for user %s and group %s'' [FStr user, FStr group']))))"

subsection \<open>The service: users\<close>

text \<open>The groups of every user, in one pass over the bindings.\<close>

definition binding_map :: "group_binding list \<Rightarrow> string list gomap" where
  "binding_map bindings =
     foldl (\<lambda>m b. mput (gb_User b) ((case mget m (gb_User b) of None \<Rightarrow> [] | Some gs \<Rightarrow> gs) @ [gb_Group b]) m) [] bindings"

definition with_groups :: "string list gomap \<Rightarrow> user_model \<Rightarrow> user_model" where
  "with_groups m u = u\<lparr>um_Groups := (case mget m (um_Username u) of Some gs \<Rightarrow> gs | None \<Rightarrow> [])\<rparr>"

definition ListUsers :: "string kprog \<Rightarrow> (gerr + user_model list) kprog" where
  "ListUsers nsf =
     try_bind (repo_ListUsers nsf) (\<lambda>users.
       prog_bind (ListGroupBindings nsf []) (\<lambda>r. case r of
         Inl _ \<Rightarrow> Ret (Inr users)
       | Inr bindings \<Rightarrow> Ret (Inr (map (with_groups (binding_map bindings)) users))))"

definition GetUser :: "string kprog \<Rightarrow> string \<Rightarrow> (gerr + user_model) kprog" where
  "GetUser nsf name =
     try_bind (repo_GetUser nsf name) (\<lambda>user.
       prog_bind (ListGroupBindings nsf name) (\<lambda>r. case r of
         Inl _ \<Rightarrow> Ret (Inr user)
       | Inr bindings \<Rightarrow> Ret (Inr (user\<lparr>um_Groups := map gb_Group bindings\<rparr>))))"

fun text_of :: "kresp \<Rightarrow> gerr + string" where
  "text_of (RText s) = Inr s"
| "text_of (RErr e) = Inl e"
| "text_of _ = Inl bad_answer"

text \<open>The hash of a password, or "" when there is none.\<close>

definition hash_password :: "string \<Rightarrow> (gerr + string) kprog" where
  "hash_password password =
     (if password = [] then Ret (Inr [])
      else Call (KBcrypt password) (\<lambda>r. Ret (case text_of r of
             Inl e \<Rightarrow> Inl (Wrapf ''failed to hash password: %w'' [] e)
           | Inr h \<Rightarrow> Inr h)))"

text \<open>The object of a user: \<^verbatim>\<open>Claims\<close> is never set, and the uid only when it is positive.\<close>

definition user_object :: "string \<Rightarrow> user_model \<Rightarrow> string \<Rightarrow> crd_user" where
  "user_object name user passwordHash =
     \<lparr>cu_Meta = object_meta0\<lparr>md_Name := name\<rparr>, cu_APIVersion = [], cu_Kind = [], cu_Name = um_Name user,
      cu_Emails = um_Email user, cu_PasswordHash = passwordHash,
      cu_Uid = (if um_UID user > 0 then Some (um_UID user) else None), cu_Comment = um_Comment user,
      cu_Claims = None, cu_Disabled = Some (um_Disabled user)\<rparr>"

definition bind_group :: "string kprog \<Rightarrow> string \<Rightarrow> string \<Rightarrow> (gerr + unit) kprog" where
  "bind_group nsf user group' =
     prog_bind (CreateGroupBinding nsf (new_binding user group')) (\<lambda>r. Ret (case r of
         Inl e \<Rightarrow> Inl (Wrapf ''user created but failed to bind group %s: %w'' [FStr group'] e)
       | Inr _ \<Rightarrow> Inr ()))"

definition CreateUser :: "string kprog \<Rightarrow> user_model \<Rightarrow> (gerr + unit) kprog" where
  "CreateUser nsf user =
     try_bind (hash_password (um_Password user)) (\<lambda>passwordHash.
       try_bind (repo_CreateUser nsf (user_object (um_Username user) user passwordHash)) (\<lambda>_.
         for_try (bind_group nsf (um_Username user)) (um_Groups user)))"

text \<open>The two loops of the synchronisation; the errors of their calls are dropped.\<close>

definition add_binding :: "string kprog \<Rightarrow> string \<Rightarrow> string \<Rightarrow> unit kprog" where
  "add_binding nsf name g = prog_bind (CreateGroupBinding nsf (new_binding name g)) (\<lambda>_. Ret ())"

definition remove_binding :: "string kprog \<Rightarrow> string \<Rightarrow> string \<Rightarrow> unit kprog" where
  "remove_binding nsf name g = prog_bind (DeleteGroupBindingByRef nsf name g) (\<lambda>_. Ret ())"

definition missing_groups :: "string list \<Rightarrow> string list \<Rightarrow> string list" where
  "missing_groups wanted current = filter (\<lambda>g. g \<notin> set current) (remdups wanted)"

definition sync_groups :: "string kprog \<Rightarrow> string \<Rightarrow> string list \<Rightarrow> string list \<Rightarrow> unit kprog" where
  "sync_groups nsf name wanted current =
     prog_bind (for_each (add_binding nsf name) (missing_groups wanted current)) (\<lambda>_.
       for_each (remove_binding nsf name) (missing_groups current wanted))"

definition UpdateUser :: "string kprog \<Rightarrow> string \<Rightarrow> user_model \<Rightarrow> (gerr + unit) kprog" where
  "UpdateUser nsf name user =
     try_bind (repo_GetUser nsf name) (\<lambda>existing.
       try_bind (hash_password (um_Password user)) (\<lambda>passwordHash.
         let hash = (if passwordHash \<noteq> [] then passwordHash else um_PasswordHash existing) in
         try_bind (repo_UpdateUser nsf (user_object name user hash)) (\<lambda>_.
           try_bind (ListGroupBindings nsf name) (\<lambda>bindings.
             prog_bind (sync_groups nsf name (um_Groups user) (map gb_Group bindings)) (\<lambda>_.
               Ret (Inr ()))))))"

definition DeleteUser :: "string kprog \<Rightarrow> string \<Rightarrow> (gerr + unit) kprog" where
  "DeleteUser nsf name =
     prog_bind (ListGroupBindings nsf name) (\<lambda>r.
       prog_bind (case r of Inl _ \<Rightarrow> Ret ()
           | Inr bindings \<Rightarrow> for_each (\<lambda>b. remove_binding nsf name (gb_Group b)) bindings) (\<lambda>_.
         repo_DeleteUser nsf name))"

subsection \<open>The service: groups and memberships\<close>

definition ListGroups :: "string kprog \<Rightarrow> (gerr + group_model list) kprog" where
  "ListGroups nsf = repo_ListGroups nsf"

definition GetGroup :: "string kprog \<Rightarrow> string \<Rightarrow> (gerr + group_model) kprog" where
  "GetGroup nsf name = repo_GetGroup nsf name"

definition group_object :: "string \<Rightarrow> group_model \<Rightarrow> crd_group" where
  "group_object name g = \<lparr>cg_Meta = object_meta0\<lparr>md_Name := name\<rparr>, cg_APIVersion = [], cg_Kind = [],
     cg_Comment = gm_Description g, cg_Claims = None\<rparr>"

definition CreateGroup :: "string kprog \<Rightarrow> group_model \<Rightarrow> (gerr + unit) kprog" where
  "CreateGroup nsf g = repo_CreateGroup nsf (group_object (gm_Name g) g)"

definition UpdateGroup :: "string kprog \<Rightarrow> string \<Rightarrow> group_model \<Rightarrow> (gerr + unit) kprog" where
  "UpdateGroup nsf name g = repo_UpdateGroup nsf (group_object name g)"

definition DeleteGroup :: "string kprog \<Rightarrow> string \<Rightarrow> (gerr + unit) kprog" where
  "DeleteGroup nsf name = repo_DeleteGroup nsf name"

definition AssignUserToGroup :: "string kprog \<Rightarrow> string \<Rightarrow> string \<Rightarrow> (gerr + unit) kprog" where
  "AssignUserToGroup nsf user group' = CreateGroupBinding nsf (new_binding user group')"

definition RemoveUserFromGroup :: "string kprog \<Rightarrow> string \<Rightarrow> string \<Rightarrow> (gerr + unit) kprog" where
  "RemoveUserFromGroup nsf user group' = DeleteGroupBindingByRef nsf user group'"

end
