(* ===== verification/Identity_Properties.thy ===== *)
theory Identity_Properties
  imports Identity
begin

text \<open>
  What an update of a user guarantees: what becomes of the password hash, which memberships are
  added and removed, and what it loses without saying so.
\<close>

lemma runs_namespace: "runs (kubauthNamespace p) (\<lambda>tr ns. writes tr = [])"
  by (simp add: kubauthNamespace_def GetKubauthNamespace_def reading_def runs_simps split: sum.split)

lemma runs_in_ns:
  assumes "\<And>ns. runs (f ns) Q" and "\<And>t1 t2 x. writes t1 = [] \<Longrightarrow> Q t2 x \<Longrightarrow> Q (t1 @ t2) x"
  shows "runs (in_ns (kubauthNamespace p) f) Q"
  unfolding in_ns_def by (rule runs_seq [OF runs_namespace]) (rule runs_mono [OF assms(1)], rule assms(2))

lemma runs_repo_GetUser:
  "runs (repo_GetUser (kubauthNamespace p) name) (\<lambda>tr x. writes tr = [] \<and>
     (case x of Inl e \<Rightarrow> True
      | Inr m \<Rightarrow> \<exists>ns u. (KGet userGVR ns name, RObj (OUser u)) \<in> set tr \<and> m = user_of u))"
  unfolding repo_GetUser_def
  by (rule runs_in_ns) (auto simp: runs_simps from_unstructured_def split: sum.splits option.split)

definition hash_source :: "string \<Rightarrow> string \<Rightarrow> ktrace \<Rightarrow> bool" where
  "hash_source password hash tr =
     (if password = [] then hash = [] else (KBcrypt password, RText hash) \<in> set tr)"

lemma text_of_simps [simp]: "text_of r = Inr s \<longleftrightarrow> r = RText s"
  by (cases r) auto

lemma runs_hash_password:
  "runs (hash_password password) (\<lambda>tr x. writes tr = [] \<and>
     (case x of Inl e \<Rightarrow> True | Inr hash \<Rightarrow> hash_source password hash tr))"
  by (auto simp: hash_password_def hash_source_def split: sum.splits)

text \<open>The user object a write carries, whatever resource version.\<close>

definition stored_user :: "string \<Rightarrow> user_model \<Rightarrow> string \<Rightarrow> string \<Rightarrow> crd_user" where
  "stored_user name user hash rv =
     (user_object name user hash)\<lparr>cu_APIVersion := kubauth_api, cu_Kind := ''User'',
        cu_Meta := object_meta0\<lparr>md_Name := name, md_ResourceVersion := rv\<rparr>\<rparr>"

lemma runs_repo_UpdateUser:
  "runs (repo_UpdateUser (kubauthNamespace p) (user_object name user hash)) (\<lambda>tr x.
     writes tr = [] \<and> x \<noteq> Inr () \<or>
     (\<exists>ns rv. writes tr = [KUpdate userGVR ns (OUser (stored_user name user hash rv))]))"
proof -
  have upd: "runs (in_ns (kubauthNamespace p) (\<lambda>ns'. call_unit (KUpdate userGVR ns'
         (OUser ((user_object name user hash)\<lparr>cu_APIVersion := kubauth_api, cu_Kind := ''User'',
            cu_Meta := (cu_Meta (user_object name user hash))\<lparr>md_ResourceVersion := rv\<rparr>\<rparr>)))))
      (\<lambda>tr x. \<exists>ns. writes tr = [KUpdate userGVR ns (OUser (stored_user name user hash rv))])" for rv
    by (rule runs_in_ns) (auto simp: runs_simps stored_user_def user_object_def)
  show ?thesis
    unfolding repo_UpdateUser_def
    by (rule runs_in_ns) (auto simp: runs_simps intro!: runs_mono [OF upd])
qed

definition listed_groups :: "string \<Rightarrow> kobj list \<Rightarrow> string list" where
  "listed_groups name items =
     map cb_Group (filter (\<lambda>b. name = [] \<or> cb_User b = name) (keep_some is_binding items))"

lemma runs_ListGroupBindings:
  "runs (ListGroupBindings (kubauthNamespace p) name) (\<lambda>tr x. writes tr = [] \<and>
     (case x of Inl e \<Rightarrow> True
      | Inr bs \<Rightarrow> \<exists>ns items. (KList gbGVR ns [], RItems items) \<in> set tr \<and>
                   map gb_Group bs = listed_groups name items))"
  unfolding ListGroupBindings_def
  by (rule runs_in_ns) (auto simp: runs_simps listed_groups_def comp_def split: sum.splits)

subsection \<open>The synchronisation\<close>

definition membership :: "string \<Rightarrow> string \<Rightarrow> crd_binding" where
  "membership name g = \<lparr>cb_Meta = object_meta0\<lparr>md_Name := binding_name name g\<rparr>,
     cb_APIVersion = kubauth_api, cb_Kind = ''GroupBinding'', cb_User = name, cb_Group = g\<rparr>"

definition adds :: "string \<Rightarrow> string \<Rightarrow> kcall \<Rightarrow> bool" where
  "adds name g c = (\<exists>ns. c = KCreate gbGVR ns (OBinding (membership name g)))"

text \<open>A removal deletes a binding that was listed with exactly this user and group.\<close>

definition removes :: "string \<Rightarrow> string list \<Rightarrow> ktrace \<Rightarrow> kcall \<Rightarrow> bool" where
  "removes name gs tr c =
     (\<exists>ns ns' items b. c = KDelete gbGVR ns' (md_Name (cb_Meta b)) \<and> (KList gbGVR ns [], RItems items) \<in> set tr \<and>
        OBinding b \<in> set items \<and> cb_User b = name \<and> cb_Group b \<in> set gs)"

lemma removes_later: "removes name gs tr c \<Longrightarrow> set tr \<subseteq> set tr' \<Longrightarrow> set gs \<subseteq> set gs' \<Longrightarrow> removes name gs' tr' c"
  unfolding removes_def by blast

lemma runs_add: "runs (add_binding (kubauthNamespace p) name g) (\<lambda>tr x. \<exists>c. writes tr = [c] \<and> adds name g c)"
proof -
  have "runs (CreateGroupBinding (kubauthNamespace p) (new_binding name g))
      (\<lambda>tr x. \<exists>c. writes tr = [c] \<and> adds name g c)"
    unfolding CreateGroupBinding_def Let_def
    by (rule runs_in_ns) (auto simp: runs_simps adds_def membership_def new_binding_def object_meta0_def)
  then show ?thesis by (simp add: add_binding_def runs_simps)
qed

lemma runs_adds:
  "runs (for_each (add_binding (kubauthNamespace p) name) gs) (\<lambda>tr x. list_all2 (adds name) gs (writes tr))"
proof (induction gs)
  case (Cons g gs)
  show ?case
    unfolding for_each.simps
    by (rule runs_seq [OF runs_add]) (rule runs_mono [OF Cons.IH], auto)
qed simp

lemma runs_remove:
  "runs (remove_binding (kubauthNamespace p) name g) (\<lambda>tr x. list_all (removes name [g] tr) (writes tr))"
proof -
  have del: "runs (DeleteGroupBinding (kubauthNamespace p) n) (\<lambda>tr x. \<exists>ns. writes tr = [KDelete gbGVR ns n])" for n
    unfolding DeleteGroupBinding_def by (rule runs_in_ns) (auto simp: runs_simps)
  have "runs (DeleteGroupBindingByRef (kubauthNamespace p) name g) (\<lambda>tr x. list_all (removes name [g] tr) (writes tr))"
    unfolding DeleteGroupBindingByRef_def
  proof (rule runs_in_ns, goal_cases)
    case (1 ns)
    show ?case
    proof (simp add: runs_simps, intro allI, goal_cases)
      case (1 items)
      show ?case
      proof (cases "find (binding_of_ref name g) (keep_some is_binding items)")
        case (Some b)
        then have "b \<in> set (keep_some is_binding items)" "cb_User b = name" "cb_Group b = g"
          using Some by (auto simp: find_Some_iff binding_of_ref_def)
        then have "OBinding b \<in> set items" "cb_User b = name" "cb_Group b = g" by (auto simp: set_keep_some)
        then show ?thesis
          unfolding Some option.case
          by (intro runs_mono [OF del]) (auto simp: removes_def intro!: exI [of _ ns] exI [of _ items] exI [of _ b])
      qed simp
    qed
  next
    case (2 t1 t2 x)
    then show ?case by (auto simp: list_all_iff intro: removes_later)
  qed
  then show ?thesis by (simp add: remove_binding_def runs_simps)
qed

lemma runs_removes:
  "runs (for_each (remove_binding (kubauthNamespace p) name) gs) (\<lambda>tr x. list_all (removes name gs tr) (writes tr))"
proof (induction gs)
  case (Cons g gs)
  show ?case
    unfolding for_each.simps
  proof (rule runs_seq [OF runs_remove], rule runs_mono [OF Cons.IH], goal_cases)
    case (1 t1 a t2 b)
    then show ?case by (auto simp: list_all_iff intro: removes_later)
  qed
qed simp

lemma runs_sync:
  "runs (sync_groups (kubauthNamespace p) name wanted current) (\<lambda>tr x. \<exists>creates deletes.
     writes tr = creates @ deletes \<and> list_all2 (adds name) (missing_groups wanted current) creates \<and>
     list_all (removes name (missing_groups current wanted) tr) deletes)"
  unfolding sync_groups_def
proof (rule runs_seq [OF runs_adds], rule runs_mono [OF runs_removes], goal_cases)
  case (1 t1 a t2 b)
  then show ?case
    by (intro exI [of _ "writes t1"] exI [of _ "writes t2"]) (auto simp: list_all_iff intro: removes_later)
qed

subsection \<open>An update of a user\<close>

definition sync_writes :: "string \<Rightarrow> string list \<Rightarrow> ktrace \<Rightarrow> kcall list \<Rightarrow> bool \<Rightarrow> bool" where
  "sync_writes name wanted tr ws ok =
     (ws = [] \<and> \<not> ok \<or>
      (\<exists>ns items creates deletes. (KList gbGVR ns [], RItems items) \<in> set tr \<and> ws = creates @ deletes \<and>
         list_all2 (adds name) (missing_groups wanted (listed_groups name items)) creates \<and>
         list_all (removes name (missing_groups (listed_groups name items) wanted) tr) deletes))"

definition update_user_protocol :: "string \<Rightarrow> user_model \<Rightarrow> ktrace \<Rightarrow> bool \<Rightarrow> bool" where
  "update_user_protocol name user tr ok =
     (writes tr = [] \<and> \<not> ok \<or>
      (\<exists>ns ns' rv u hash ws. (KGet userGVR ns name, RObj (OUser u)) \<in> set tr \<and>
         hash_source (um_Password user) hash tr \<and>
         writes tr = KUpdate userGVR ns' (OUser (stored_user name user
           (if hash \<noteq> [] then hash else cu_PasswordHash u) rv)) # ws \<and>
         sync_writes name (um_Groups user) tr ws ok))"

lemma sync_writes_later:
  assumes "sync_writes name wanted tr ws ok" and "set tr \<subseteq> set tr'"
  shows "sync_writes name wanted tr' ws ok"
proof -
  have "list_all (removes name gs tr') ds" if "list_all (removes name gs tr) ds" for gs ds
    using that assms(2) by (auto simp: list_all_iff intro: removes_later)
  then show ?thesis using assms unfolding sync_writes_def by blast
qed

lemma runs_list_and_sync:
  "runs (try_bind (ListGroupBindings (kubauthNamespace p) name) (\<lambda>bindings.
       prog_bind (sync_groups (kubauthNamespace p) name wanted (map gb_Group bindings)) (\<lambda>_. Ret (Inr ()))))
     (\<lambda>tr x. sync_writes name wanted tr (writes tr) (x = Inr ()))"
proof (rule runs_try_seq [OF runs_ListGroupBindings], goal_cases)
  case (1 t1 e)
  then show ?case by (simp add: sync_writes_def)
next
  case (2 t1 bs)
  then obtain ns items where l: "writes t1 = []" "(KList gbGVR ns [], RItems items) \<in> set t1"
    "map gb_Group bs = listed_groups name items" by auto
  show ?case
    unfolding l(3) runs_bind runs.simps
  proof (rule runs_mono [OF runs_sync], goal_cases)
    case (1 t2 x)
    then obtain creates deletes where c: "writes t2 = creates @ deletes"
      "list_all2 (adds name) (missing_groups wanted (listed_groups name items)) creates"
      and d: "list_all (removes name (missing_groups (listed_groups name items) wanted) t2) deletes" by blast
    from d have "list_all (removes name (missing_groups (listed_groups name items) wanted) (t1 @ t2)) deletes"
      by (auto simp: list_all_iff intro: removes_later)
    moreover have "(KList gbGVR ns [], RItems items) \<in> set (t1 @ t2)" using l(2) by simp
    moreover have "writes (t1 @ t2 @ []) = creates @ deletes" using l(1) c(1) by simp
    ultimately show ?case using c(2) unfolding sync_writes_def by auto
  qed
qed

lemma runs_store_and_sync:
  "runs (try_bind (repo_UpdateUser (kubauthNamespace p) (user_object name user hash)) (\<lambda>_.
       try_bind (ListGroupBindings (kubauthNamespace p) name) (\<lambda>bindings.
         prog_bind (sync_groups (kubauthNamespace p) name (um_Groups user) (map gb_Group bindings)) (\<lambda>_. Ret (Inr ())))))
     (\<lambda>tr x. writes tr = [] \<and> x \<noteq> Inr () \<or>
        (\<exists>ns rv ws. writes tr = KUpdate userGVR ns (OUser (stored_user name user hash rv)) # ws \<and>
           sync_writes name (um_Groups user) tr ws (x = Inr ())))"
proof (rule runs_try_seq [OF runs_repo_UpdateUser], goal_cases)
  case (1 t1 e)
  then show ?case by (auto simp: sync_writes_def)
next
  case (2 t1 a)
  then obtain ns rv where w: "writes t1 = [KUpdate userGVR ns (OUser (stored_user name user hash rv))]" by auto
  show ?case
    by (rule runs_mono [OF runs_list_and_sync]) (auto simp: w intro: sync_writes_later)
qed

lemma UpdateUser_runs:
  "runs (UpdateUser (kubauthNamespace p) name user) (\<lambda>tr x. update_user_protocol name user tr (x = Inr ()))"
  unfolding UpdateUser_def
proof (rule runs_try_seq [OF runs_repo_GetUser], goal_cases)
  case (1 t0 e)
  then show ?case by (simp add: update_user_protocol_def)
next
  case (2 t0 existing)
  then obtain ns u where g: "writes t0 = []" "(KGet userGVR ns name, RObj (OUser u)) \<in> set t0"
    "existing = user_of u" by auto
  show ?case
  proof (rule runs_try_seq [OF runs_hash_password], goal_cases)
    case (1 t1 e)
    then show ?case using g(1) by (simp add: update_user_protocol_def)
  next
    case (2 t1 hash)
    then have h: "writes t1 = []" "hash_source (um_Password user) hash t1" by auto
    have h': "hash_source (um_Password user) hash (t0 @ t1 @ t2)" for t2
      using h(2) by (auto simp: hash_source_def)
    have e: "um_PasswordHash existing = cu_PasswordHash u" by (simp add: g(3) user_of_def)
    show ?case
      unfolding Let_def e
    proof (rule runs_mono [OF runs_store_and_sync], goal_cases)
      case (1 t2 x)
      have w: "writes (t0 @ t1 @ t2) = writes t2" using g(1) h(1) by simp
      show ?case
      proof (cases "writes t2 = [] \<and> x \<noteq> Inr ()")
        case True
        then show ?thesis unfolding update_user_protocol_def w by blast
      next
        case False
        with 1 obtain ns' rv ws where s: "writes t2 = KUpdate userGVR ns' (OUser (stored_user name user
             (if hash \<noteq> [] then hash else cu_PasswordHash u) rv)) # ws"
          "sync_writes name (um_Groups user) t2 ws (x = Inr ())" by blast
        have "sync_writes name (um_Groups user) (t0 @ t1 @ t2) ws (x = Inr ())"
          by (rule sync_writes_later [OF s(2)]) auto
        moreover have "(KGet userGVR ns name, RObj (OUser u)) \<in> set (t0 @ t1 @ t2)" using g(2) by simp
        ultimately show ?thesis
          using h' [of t2] s(1) unfolding update_user_protocol_def w by blast
      qed
    qed
  qed
qed

subsection \<open>What an update loses\<close>

definition ops_user :: user_model where
  "ops_user = \<lparr>um_Name = ''Ann'', um_Username = ''ann-dev'', um_Email = [], um_Comment = [],
     um_Disabled = False, um_UID = 0, um_Groups = [''ops''], um_Password = [], um_PasswordHash = []\<rparr>"

definition claimed_user :: crd_user where
  "claimed_user = (user_object ''ann-dev'' ops_user ''$2a$10$hash'')\<lparr>cu_Claims := Some (GObj [(''team'', GStr ''data'')])\<rparr>"

lemma same_name: "binding_name ''ann-dev'' ''ops'' = binding_name ''ann'' ''dev-ops''"
  by (simp add: binding_name_def to_lower_def ascii_lower_def)

lemma lossy_update:
  "replay (UpdateUser (kubauthNamespace ''okdp'') ''ann-dev'' ops_user)
     [RErr e, RObj (OUser claimed_user), RErr e, RObj (OUser claimed_user), RErr e, ROk,
      RErr e, RItems [OBinding (membership ''ann'' ''dev-ops'')], RErr e, RErr (KubeErr AlreadyExists n)] =
   Some ([(KContext, RErr e), (KGet userGVR ''okdp'' ''ann-dev'', RObj (OUser claimed_user)),
          (KContext, RErr e), (KGet userGVR ''okdp'' ''ann-dev'', RObj (OUser claimed_user)),
          (KContext, RErr e),
          (KUpdate userGVR ''okdp'' (OUser (stored_user ''ann-dev'' ops_user ''$2a$10$hash'' [])), ROk),
          (KContext, RErr e),
          (KList gbGVR ''okdp'' [], RItems [OBinding (membership ''ann'' ''dev-ops'')]),
          (KContext, RErr e),
          (KCreate gbGVR ''okdp'' (OBinding (membership ''ann-dev'' ''ops'')), RErr (KubeErr AlreadyExists n))],
     Inr ())"
  by (simp add: UpdateUser_def repo_GetUser_def in_ns_def kubauthNamespace_def GetKubauthNamespace_def
      reading_def call_obj_def call_unit_def call_items_def from_unstructured_def hash_password_def
      repo_UpdateUser_def claimed_user_def user_object_def ops_user_def user_of_def stored_user_def
      ListGroupBindings_def membership_def sync_groups_def missing_groups_def add_binding_def
      CreateGroupBinding_def new_binding_def object_meta0_def Let_def)

subsection \<open>Properties\<close>


text \<open>
  The update can answer success and have lost two things. The claims
  of the stored user are gone: the object written never carries any. And a membership that could
  not be created is not reported: the name of a membership is the two names joined by a dash, in
  lower case, so those of ann-dev in ops and of ann in dev-ops collide, the second creation is
  refused and the refusal is dropped.
\<close>

theorem UpdateUser_loses_silently:
  "\<exists>tr. exec (UpdateUser (kubauthNamespace ''okdp'') ''ann-dev'' ops_user) tr (Inr ()) \<and>
     (KGet userGVR ''okdp'' ''ann-dev'', RObj (OUser claimed_user)) \<in> set tr \<and> cu_Claims claimed_user \<noteq> None \<and>
     (\<exists>u. (KUpdate userGVR ''okdp'' (OUser u), ROk) \<in> set tr \<and> cu_Claims u = None) \<and>
     (KCreate gbGVR ''okdp'' (OBinding (membership ''ann-dev'' ''ops'')), RErr (KubeErr AlreadyExists ''ann-dev-ops''))
       \<in> set tr \<and>
     md_Name (cb_Meta (membership ''ann-dev'' ''ops'')) = md_Name (cb_Meta (membership ''ann'' ''dev-ops''))"
  by (rule exI, rule conjI, rule replay_Some [OF lossy_update [where e = bad_answer and n = "''ann-dev-ops''"]])
    (simp add: claimed_user_def stored_user_def user_object_def membership_def object_meta0_def same_name)

end
