(* ===== verification/Go_Fmt.thy ===== *)
theory Go_Fmt
  imports Extlib
begin

text \<open>
  The text of an error (\<^verbatim>\<open>err.Error()\<close>), for the code that looks into it: the verbs of a format
  filled with the operands, the text of a wrapped error at \<^verbatim>\<open>%w\<close>. The decimal form of a number
  that is not an integer is a parameter.
\<close>

definition hex_digit :: "nat \<Rightarrow> char" where
  "hex_digit n = char_of (if n < 10 then 48 + n else 87 + n)"

definition quote_char :: "char \<Rightarrow> string" where
  "quote_char c =
     (let n = (of_char c :: nat) in
      if c = CHR 0x22 \<or> c = CHR 0x5C then [CHR 0x5C, c]
      else if n = 7 then [CHR 0x5C, CHR ''a''] else if n = 8 then [CHR 0x5C, CHR ''b'']
      else if n = 9 then [CHR 0x5C, CHR ''t''] else if n = 10 then [CHR 0x5C, CHR ''n'']
      else if n = 11 then [CHR 0x5C, CHR ''v''] else if n = 12 then [CHR 0x5C, CHR ''f'']
      else if n = 13 then [CHR 0x5C, CHR ''r'']
      else if n < 32 \<or> n = 127 then [CHR 0x5C, CHR ''x'', hex_digit (n div 16), hex_digit (n mod 16)]
      else [c])"

definition go_quote :: "string \<Rightarrow> string" where
  "go_quote s = CHR 0x22 # concat (map quote_char s) @ [CHR 0x22]"

fun fill_verbs :: "string \<Rightarrow> string list \<Rightarrow> string \<Rightarrow> string" where
  "fill_verbs [] texts wrapped = []"
| "fill_verbs [a] texts wrapped = [a]"
| "fill_verbs (a # c # f) texts wrapped =
     (if a \<noteq> CHR ''%'' then a # fill_verbs (c # f) texts wrapped
      else if c = CHR ''%'' then c # fill_verbs f texts wrapped
      else if c = CHR ''w'' then wrapped @ fill_verbs f texts wrapped
      else case texts of
          [] \<Rightarrow> ''%!'' @ c # ''(MISSING)'' @ fill_verbs f [] wrapped
        | t # ts \<Rightarrow> (if c = CHR ''q'' then go_quote t else t) @ fill_verbs f ts wrapped)"

fun farg_text :: "extlib \<Rightarrow> farg \<Rightarrow> string" and err_text :: "extlib \<Rightarrow> gerr \<Rightarrow> string" where
  "farg_text L (FStr s) = s"
| "farg_text L (FInt i) = show_int i"
| "farg_text L (FNum r) = fmt_g L r"
| "farg_text L (FStrs ss) = ''['' @ str_join ss '' '' @ '']''"
| "farg_text L (FErr e) = err_text L e"
| "err_text L (KubeErr r message) = message"
| "err_text L (Sentinel s) = s"
| "err_text L (ValidationErr f as) = fill_verbs f (map (farg_text L) as) []"
| "err_text L (TestFailure r f as) = fill_verbs f (map (farg_text L) as) []"
| "err_text L (Errorf f as) = fill_verbs f (map (farg_text L) as) []"
| "err_text L (Wrapf f as e) = fill_verbs f (map (farg_text L) as) (err_text L e)"

lemma err_text_example:
  "err_text L (Wrapf ''%s of %q: %w'' [FStr ''read'', FStr ''a b''] (Errorf ''status %s'' [FStr ''ok''])) =
     ''read of '' @ [CHR 0x22] @ ''a b'' @ [CHR 0x22] @ '': status ok''"
  by (simp add: go_quote_def quote_char_def Let_def)

text \<open>
  The log of a pod: a request for at most some of its last lines, whose failure is reported under
  the format the caller gives. The program answers what it has opened.
\<close>

definition open_log ::
    "string \<Rightarrow> string \<Rightarrow> string \<Rightarrow> string \<Rightarrow> int \<Rightarrow> bool \<Rightarrow> (gerr + log_request) kprog" where
  "open_log failure namespace podName container tailLines follow =
     (let opts = \<lparr>lr_Pod = podName, lr_Container = container,
            lr_TailLines = (if tailLines > 0 then Some tailLines else None), lr_Follow = follow\<rparr> in
      prog_bind (call_unit (KLogs namespace opts)) (\<lambda>r. Ret (case r of
          Inl e \<Rightarrow> Inl (Wrapf failure [] e)
        | Inr _ \<Rightarrow> Inr opts)))"

end
