(* ===== verification/Spark.thy ===== *)
theory Spark
  imports Services Connection_Service Go_Fmt
begin

text \<open>
  Spark applications of a project (\<^verbatim>\<open>internal/repository/spark_repository.go\<close>,
  \<^verbatim>\<open>internal/service/spark_service.go\<close>, \<^verbatim>\<open>internal/models/spark.go\<close> and the Spark part of
  \<^verbatim>\<open>internal/models/mapper.go\<close>). A nil slice or map of a request, which the code tells from an
  empty one, is \<^term>\<open>None\<close>. The log of a driver is modelled up to the request of its stream.
\<close>

record spark_request =
  sj_Name :: string
  sj_Type :: string
  sj_Mode :: string
  sj_Image :: string
  sj_MainClass :: string
  sj_MainApplicationFile :: string
  sj_Arguments :: "string list"
  sj_SparkVersion :: string
  sj_DriverCores :: "int option"
  sj_DriverMemory :: string
  sj_ExecutorInstances :: "int option"
  sj_ExecutorCores :: "int option"
  sj_ExecutorMemory :: string
  sj_SparkConf :: "string gomap option"

record spark_update_request =
  su_Image :: string
  su_MainClass :: string
  su_MainApplicationFile :: string
  su_Arguments :: "string list option"
  su_DriverCores :: "int option"
  su_DriverMemory :: string
  su_ExecutorInstances :: "int option"
  su_ExecutorCores :: "int option"
  su_ExecutorMemory :: string
  su_SparkConf :: "string gomap option"

record spark_instance =
  sy_Name :: string
  sy_Type :: string
  sy_Mode :: string
  sy_Image :: string
  sy_Status :: string
  sy_ErrorMessage :: string
  sy_DriverPodName :: string
  sy_CreatedAt :: string
  sy_CompletedAt :: string
  sy_Executors :: "string gomap"

record spark_ui =
  sw_ServiceName :: string
  sw_UIAddress :: string
  sw_HistoryServerURL :: string
  sw_Available :: bool

subsection \<open>The repository\<close>

definition SparkRepository_Create :: "string \<Rightarrow> spark_app \<Rightarrow> (gerr + unit) kprog" where
  "SparkRepository_Create ns app = call_unit (KCreate GetSparkAppGVR ns (OSpark app))"

text \<open>
  \<^verbatim>\<open>SetNamespace\<close> and \<^verbatim>\<open>SetLabels\<close> on a document: a metadata that is not an object is left as it is.
\<close>

definition set_metadata :: "string \<Rightarrow> goval \<Rightarrow> goval gomap \<Rightarrow> goval gomap" where
  "set_metadata field v doc =
     (case mget doc ''metadata'' of
        None \<Rightarrow> mput ''metadata'' (GObj [(field, v)]) doc
      | Some (GObj meta) \<Rightarrow> mput ''metadata'' (GObj (mput field v meta)) doc
      | Some _ \<Rightarrow> doc)"

definition metadata_of :: "goval gomap \<Rightarrow> goval gomap" where
  "metadata_of doc = (case mget doc ''metadata'' of Some (GObj meta) \<Rightarrow> meta | _ \<Rightarrow> [])"

definition SparkRepository_CreateRaw :: "string \<Rightarrow> goval gomap \<Rightarrow> (gerr + unit) kprog" where
  "SparkRepository_CreateRaw ns doc =
     call_unit (KCreate GetSparkAppGVR ns (OMap (set_metadata ''namespace'' (GStr ns) doc)))"

definition SparkRepository_Update :: "string \<Rightarrow> spark_app \<Rightarrow> (gerr + unit) kprog" where
  "SparkRepository_Update ns app = call_unit (KUpdate GetSparkAppGVR ns (OSpark app))"

definition SparkRepository_Get :: "string \<Rightarrow> string \<Rightarrow> (gerr + spark_app) kprog" where
  "SparkRepository_Get ns name =
     try_bind (call_obj (KGet GetSparkAppGVR ns name)) (\<lambda>u. Ret (from_unstructured is_spark u))"

definition isCRDNotInstalled :: "extlib \<Rightarrow> gerr \<Rightarrow> bool" where
  "isCRDNotInstalled L e =
     (str_contains (err_text L e) ''the server could not find the requested resource'' \<or>
      str_contains (err_text L e) ''no matches for kind'')"

definition SparkRepository_List :: "extlib \<Rightarrow> string \<Rightarrow> string \<Rightarrow> (gerr + spark_app list) kprog" where
  "SparkRepository_List L ns project =
     prog_bind (call_items (KList GetSparkAppGVR ns (LabelProject @ ''='' @ project))) (\<lambda>r. Ret (case r of
         Inl e \<Rightarrow> if isCRDNotInstalled L e then Inr [] else Inl e
       | Inr items \<Rightarrow> Inr (keep_some is_spark items)))"

text \<open>The watch, or one that is closed where the cluster does not know the resource.\<close>

definition SparkRepository_Watch :: "extlib \<Rightarrow> string \<Rightarrow> string \<Rightarrow> (gerr + bool) kprog" where
  "SparkRepository_Watch L ns project =
     prog_bind (call_unit (KWatch GetSparkAppGVR ns (LabelProject @ ''='' @ project))) (\<lambda>r. Ret (case r of
         Inl e \<Rightarrow> if isCRDNotInstalled L e then Inr False else Inl e
       | Inr _ \<Rightarrow> Inr True))"

definition SparkRepository_Delete :: "string \<Rightarrow> string \<Rightarrow> (gerr + unit) kprog" where
  "SparkRepository_Delete ns name = call_unit (KDelete GetSparkAppGVR ns name)"

definition crdGVR :: gvr where
  "crdGVR = (''apiextensions.k8s.io'', ''v1'', ''customresourcedefinitions'')"

text \<open>\<^verbatim>\<open>NestedMap\<close> on a map: every step must be an object.\<close>

fun nested_map :: "goval gomap \<Rightarrow> string list \<Rightarrow> goval gomap option" where
  "nested_map m [] = Some m"
| "nested_map m (k # ks) = (case mget m k of Some (GObj m') \<Rightarrow> nested_map m' ks | _ \<Rightarrow> None)"

definition GetCRDSchema :: "(gerr + goval gomap) kprog" where
  "GetCRDSchema =
     prog_bind (call_obj (KGet crdGVR [] ''sparkapplications.sparkoperator.k8s.io'')) (\<lambda>r. Ret (
       case sum_bind r (from_unstructured is_raw) of
         Inl e \<Rightarrow> Inl (Wrapf ''SparkApplication CRD not found on cluster: %w'' [] e)
       | Inr u \<Rightarrow>
           (case nested_slice u [''spec'', ''versions''] of
              [] \<Rightarrow> Inl (Errorf ''no versions found in SparkApplication CRD'' [])
            | firstVersion # _ \<Rightarrow>
                (case as_obj firstVersion of
                   None \<Rightarrow> Inl (Errorf ''invalid version format in CRD'' [])
                 | Some v \<Rightarrow>
                     (case nested_map v [''schema'', ''openAPIV3Schema'', ''properties'', ''spec'', ''properties''] of
                        None \<Rightarrow> Inl (Errorf ''could not extract spec schema from CRD'' [])
                      | Some specSchema \<Rightarrow> Inr specSchema)))))"

subsection \<open>The Spark configuration\<close>

text \<open>Both ways to submit set the same defaults: in a map of strings, or in a map of any values.\<close>

definition set_default :: "string \<Rightarrow> 'v \<Rightarrow> 'v gomap \<Rightarrow> 'v gomap" where
  "set_default k v m = (case mget m k of None \<Rightarrow> mput k v m | Some _ \<Rightarrow> m)"

definition ui_defaults :: "(string \<Rightarrow> 'v) \<Rightarrow> 'v gomap \<Rightarrow> 'v gomap" where
  "ui_defaults val m =
     set_default ''spark.ui.reverseProxy'' (val ''true'')
       (set_default ''spark.ui.port'' (val ''4040'') (set_default ''spark.ui.enabled'' (val ''true'') m))"

definition history_url :: "string \<Rightarrow> string \<Rightarrow> string" where
  "history_url project ingressSuffix = ''https://'' @ project @ ''-spark-history-server.'' @ ingressSuffix"

text \<open>An error of the suffix is dropped; the suffix is then "".\<close>

definition suffix_or_empty :: "string kprog" where
  "suffix_or_empty = prog_bind GetIngressSuffix (\<lambda>r. Ret (case r of Inr s \<Rightarrow> s | Inl _ \<Rightarrow> []))"

definition proxy_default :: "(string \<Rightarrow> 'v) \<Rightarrow> string \<Rightarrow> 'v gomap \<Rightarrow> 'v gomap kprog" where
  "proxy_default val project m =
     (case mget m ''spark.ui.reverseProxyUrl'' of
        Some _ \<Rightarrow> Ret m
      | None \<Rightarrow> prog_bind suffix_or_empty (\<lambda>suffix.
          Ret (if suffix = [] then m
               else mput ''spark.ui.reverseProxyUrl'' (val (history_url project suffix)) m)))"

definition findEventLogPVC :: "string \<Rightarrow> string kprog" where
  "findEventLogPVC project =
     (let pvcName = project @ ''-spark-history-server-events'' in
      prog_bind (call_unit (KGet PVCGVR project pvcName)) (\<lambda>r. Ret (case r of
          Inl _ \<Rightarrow> [] | Inr _ \<Rightarrow> pvcName)))"

definition volume_prefix :: "string \<Rightarrow> string" where
  "volume_prefix role = ''spark.kubernetes.'' @ role @ ''.volumes.persistentVolumeClaim.spark-events.''"

definition inject_volume :: "(string \<Rightarrow> 'v) \<Rightarrow> string \<Rightarrow> string \<Rightarrow> 'v gomap \<Rightarrow> 'v gomap" where
  "inject_volume val prefix pvcName m =
     (case mget m (prefix @ ''options.claimName'') of
        Some _ \<Rightarrow> m
      | None \<Rightarrow> mput (prefix @ ''mount.path'') (val ''/mnt/spark-events'')
                 (mput (prefix @ ''options.claimName'') (val pvcName) m))"

definition injectEventLogVolumeConf :: "(string \<Rightarrow> 'v) \<Rightarrow> string \<Rightarrow> 'v gomap \<Rightarrow> 'v gomap" where
  "injectEventLogVolumeConf val pvcName m =
     inject_volume val (volume_prefix ''executor'') pvcName (inject_volume val (volume_prefix ''driver'') pvcName m)"

definition event_log :: "(string \<Rightarrow> 'v) \<Rightarrow> string \<Rightarrow> 'v gomap \<Rightarrow> 'v gomap" where
  "event_log val pvcName m =
     (if pvcName = [] then m
      else injectEventLogVolumeConf val pvcName
        (set_default ''spark.eventLog.dir'' (val ''file:///mnt/spark-events'')
          (set_default ''spark.eventLog.enabled'' (val ''true'') m)))"

definition spark_conf :: "(string \<Rightarrow> 'v) \<Rightarrow> string \<Rightarrow> 'v gomap \<Rightarrow> 'v gomap kprog" where
  "spark_conf val project m =
     prog_bind (proxy_default val project (ui_defaults val m)) (\<lambda>m.
       prog_bind (findEventLogPVC project) (\<lambda>pvcName. Ret (event_log val pvcName m)))"

subsection \<open>The service\<close>

definition defaultTTL :: int where "defaultTTL = 3600"

definition mode_or_cluster :: "string \<Rightarrow> string" where
  "mode_or_cluster mode = (if mode = [] then ''cluster'' else mode)"

definition new_spark_app :: "string \<Rightarrow> spark_request \<Rightarrow> string gomap \<Rightarrow> spark_app" where
  "new_spark_app project req sparkConf =
     \<lparr>sk_APIVersion = SparkAppAPIVersion, sk_Kind = SparkAppKind,
      sk_Meta = object_meta0\<lparr>md_Name := sj_Name req, md_Namespace := project,
        md_Labels := [(LabelProject, project)]\<rparr>,
      sk_Spec = \<lparr>ss_Type = sj_Type req, ss_Mode = mode_or_cluster (sj_Mode req), ss_Image = sj_Image req,
        ss_MainClass = sj_MainClass req, ss_MainApplicationFile = sj_MainApplicationFile req,
        ss_Arguments = sj_Arguments req, ss_SparkVersion = sj_SparkVersion req, ss_SparkConf = sparkConf,
        ss_Driver = \<lparr>sp_Cores = sj_DriverCores req, sp_Memory = sj_DriverMemory req,
          sp_ServiceAccount = [], sp_Labels = []\<rparr>,
        ss_Executor = \<lparr>sp_Cores = sj_ExecutorCores req, sp_Memory = sj_ExecutorMemory req,
          sp_ServiceAccount = [], sp_Labels = []\<rparr>,
        ss_ExecutorInstances = sj_ExecutorInstances req, ss_RestartPolicy = [],
        ss_Deps = \<lparr>sd_Jars = [], sd_PyFiles = [], sd_Files = []\<rparr>, ss_TimeToLiveSeconds = Some defaultTTL\<rparr>,
      sk_Status = \<lparr>sa_State = [], sa_ErrorMessage = [], sa_ExecutorState = [], sa_PodName = [],
        sa_WebUIAddress = [], sa_WebUIPort = 0, sa_WebUIServiceName = [], sa_SparkApplicationID = []\<rparr>\<rparr>"

definition submitted :: "string \<Rightarrow> string \<Rightarrow> string \<Rightarrow> string \<Rightarrow> spark_instance" where
  "submitted name type' mode img =
     \<lparr>sy_Name = name, sy_Type = type', sy_Mode = mode, sy_Image = img, sy_Status = ''SUBMITTED'',
      sy_ErrorMessage = [], sy_DriverPodName = [], sy_CreatedAt = [], sy_CompletedAt = [], sy_Executors = []\<rparr>"

definition SubmitApp :: "string \<Rightarrow> spark_request \<Rightarrow> (gerr + spark_instance) kprog" where
  "SubmitApp project req =
     prog_bind (spark_conf (\<lambda>s. s) project (case sj_SparkConf req of None \<Rightarrow> [] | Some m \<Rightarrow> m)) (\<lambda>sparkConf.
       try_bind (SparkRepository_Create project (new_spark_app project req sparkConf)) (\<lambda>_.
         Ret (Inr (submitted (sj_Name req) (sj_Type req) (mode_or_cluster (sj_Mode req)) (sj_Image req)))))"

text \<open>\<^verbatim>\<open>GetLabels\<close> on a document: nil unless every label is a string.\<close>

fun string_entries :: "goval gomap \<Rightarrow> string gomap option" where
  "string_entries [] = Some []"
| "string_entries ((k, v) # m) = (case (as_str v, string_entries m) of
     (Some s, Some m') \<Rightarrow> Some ((k, s) # m') | _ \<Rightarrow> None)"

definition doc_labels :: "goval gomap \<Rightarrow> string gomap" where
  "doc_labels doc =
     (case mget (metadata_of doc) ''labels'' of
        Some (GObj m) \<Rightarrow> (case string_entries m of Some l \<Rightarrow> l | None \<Rightarrow> [])
      | _ \<Rightarrow> [])"

definition set_labels :: "string gomap \<Rightarrow> goval gomap \<Rightarrow> goval gomap" where
  "set_labels labels doc = set_metadata ''labels'' (GObj (map (\<lambda>(k, v). (k, GStr v)) labels)) doc"

definition yaml_spec :: "string \<Rightarrow> goval gomap \<Rightarrow> goval gomap kprog" where
  "yaml_spec project spec =
     (let spec = set_default ''timeToLiveSeconds'' (GInt64 3600) spec in
      prog_bind (spark_conf GStr project (sub_map spec ''sparkConf'')) (\<lambda>sparkConf.
        Ret (mput ''sparkConf'' (GObj sparkConf) spec)))"

definition complete_yaml :: "string \<Rightarrow> goval gomap \<Rightarrow> goval gomap kprog" where
  "complete_yaml project doc =
     (case mget doc ''spec'' of
        Some (GObj spec) \<Rightarrow> prog_bind (yaml_spec project spec) (\<lambda>spec. Ret (mput ''spec'' (GObj spec) doc))
      | _ \<Rightarrow> Ret doc)"

definition SubmitAppYAML :: "extlib \<Rightarrow> string \<Rightarrow> string \<Rightarrow> (gerr + spark_instance) kprog" where
  "SubmitAppYAML L project yaml =
     (case yaml_Unmarshal L yaml of
        Inl e \<Rightarrow> Ret (Inl (Wrapf ''invalid YAML: %w'' [] e))
      | Inr doc \<Rightarrow>
          if str_at doc ''apiVersion'' \<noteq> SparkAppAPIVersion \<or> str_at doc ''kind'' \<noteq> SparkAppKind then
            Ret (Inl (Errorf ''expected apiVersion %s kind %s, got %s %s''
              [FStr SparkAppAPIVersion, FStr SparkAppKind, FStr (str_at doc ''apiVersion''), FStr (str_at doc ''kind'')]))
          else prog_bind (complete_yaml project (set_labels (mput LabelProject project (doc_labels doc)) doc)) (\<lambda>doc.
            try_bind (SparkRepository_CreateRaw project doc) (\<lambda>_.
              let spec = sub_map doc ''spec'' in
              Ret (Inr (submitted (str_at (metadata_of doc) ''name'') (str_at spec ''type'')
                (str_at spec ''mode'') (str_at spec ''image''))))))"

definition completed_at :: "string gomap option \<Rightarrow> string" where
  "completed_at annotations =
     (case annotations of None \<Rightarrow> [] | Some a \<Rightarrow> mstr a ''sparkoperator.k8s.io/completed-at'')"

definition sparkAppToInstance :: "spark_app \<Rightarrow> spark_instance" where
  "sparkAppToInstance app =
     \<lparr>sy_Name = md_Name (sk_Meta app), sy_Type = ss_Type (sk_Spec app), sy_Mode = ss_Mode (sk_Spec app),
      sy_Image = ss_Image (sk_Spec app), sy_Status = sa_State (sk_Status app),
      sy_ErrorMessage = sa_ErrorMessage (sk_Status app), sy_DriverPodName = sa_PodName (sk_Status app),
      sy_CreatedAt = created_at (sk_Meta app), sy_CompletedAt = completed_at (md_Annotations (sk_Meta app)),
      sy_Executors = foldl (\<lambda>m (k, v). mput k v m) [] (sa_ExecutorState (sk_Status app))\<rparr>"

definition FromUnstructuredToSparkAppInstance :: "uobj \<Rightarrow> spark_instance" where
  "FromUnstructuredToSparkAppInstance u =
     \<lparr>sy_Name = u_Name u, sy_Type = u_NestedString u [''spec'', ''type''],
      sy_Mode = u_NestedString u [''spec'', ''mode''], sy_Image = u_NestedString u [''spec'', ''image''],
      sy_Status = u_NestedString u [''status'', ''applicationState'', ''state''],
      sy_ErrorMessage = u_NestedString u [''status'', ''applicationState'', ''errorMessage''],
      sy_DriverPodName = u_NestedString u [''status'', ''driverInfo'', ''podName''],
      sy_CreatedAt = (case u_CreatedAt u of None \<Rightarrow> [] | Some (text, _) \<Rightarrow> text),
      sy_CompletedAt = mstr (u_Annotations u) ''sparkoperator.k8s.io/completed-at'',
      sy_Executors = (case u_NestedStringMap u [''status'', ''executorState''] of None \<Rightarrow> [] | Some m \<Rightarrow> m)\<rparr>"

definition GetApp :: "string \<Rightarrow> string \<Rightarrow> (gerr + spark_instance) kprog" where
  "GetApp project name = try_bind (SparkRepository_Get project name) (\<lambda>app. Ret (Inr (sparkAppToInstance app)))"

definition ListApps :: "extlib \<Rightarrow> string \<Rightarrow> (gerr + spark_instance list) kprog" where
  "ListApps L project =
     try_bind (SparkRepository_List L project project) (\<lambda>apps. Ret (Inr (map sparkAppToInstance apps)))"

definition DeleteApp :: "string \<Rightarrow> string \<Rightarrow> (gerr + unit) kprog" where
  "DeleteApp project name = SparkRepository_Delete project name"

definition keep_str :: "string \<Rightarrow> string \<Rightarrow> string" where
  "keep_str new old = (if new = [] then old else new)"

definition keep_opt :: "'a option \<Rightarrow> 'a option \<Rightarrow> 'a option" where
  "keep_opt new old = (case new of None \<Rightarrow> old | Some v \<Rightarrow> Some v)"

definition updated_app :: "spark_update_request \<Rightarrow> spark_app \<Rightarrow> spark_app" where
  "updated_app req app =
     (let s = sk_Spec app in app\<lparr>sk_Spec := s
       \<lparr>ss_Image := keep_str (su_Image req) (ss_Image s),
        ss_MainClass := keep_str (su_MainClass req) (ss_MainClass s),
        ss_MainApplicationFile := keep_str (su_MainApplicationFile req) (ss_MainApplicationFile s),
        ss_Arguments := (case su_Arguments req of None \<Rightarrow> ss_Arguments s | Some a \<Rightarrow> a),
        ss_Driver := (ss_Driver s)\<lparr>sp_Cores := keep_opt (su_DriverCores req) (sp_Cores (ss_Driver s)),
          sp_Memory := keep_str (su_DriverMemory req) (sp_Memory (ss_Driver s))\<rparr>,
        ss_ExecutorInstances := keep_opt (su_ExecutorInstances req) (ss_ExecutorInstances s),
        ss_Executor := (ss_Executor s)\<lparr>sp_Cores := keep_opt (su_ExecutorCores req) (sp_Cores (ss_Executor s)),
          sp_Memory := keep_str (su_ExecutorMemory req) (sp_Memory (ss_Executor s))\<rparr>,
        ss_SparkConf := (case su_SparkConf req of None \<Rightarrow> ss_SparkConf s | Some m \<Rightarrow> m)\<rparr>\<rparr>)"

definition UpdateApp :: "string \<Rightarrow> string \<Rightarrow> spark_update_request \<Rightarrow> (gerr + spark_instance) kprog" where
  "UpdateApp project appName req =
     try_bind (SparkRepository_Get project appName) (\<lambda>app.
       let app = updated_app req app in
       try_bind (SparkRepository_Update project app) (\<lambda>_. Ret (Inr (sparkAppToInstance app))))"

definition spark_ui_of :: "string \<Rightarrow> string \<Rightarrow> spark_app \<Rightarrow> string \<Rightarrow> spark_ui" where
  "spark_ui_of project appName app suffix =
     (let st = sk_Status app; base = history_url project suffix; appID = sa_SparkApplicationID st;
          running = (sa_State st = ''RUNNING'' \<and> sa_WebUIServiceName st \<noteq> [])
      in \<lparr>sw_ServiceName = sa_WebUIServiceName st,
          sw_UIAddress = (if running \<and> suffix \<noteq> [] then
            base @ ''/proxy/'' @ (if appID = [] then appName else appID) @ ''/jobs/'' else []),
          sw_HistoryServerURL = (if suffix = [] then []
            else if appID \<noteq> [] then base @ ''/history/'' @ appID @ ''/jobs/'' else base @ ''/''),
          sw_Available = running\<rparr>)"

definition GetSparkUI :: "string \<Rightarrow> string \<Rightarrow> (gerr + spark_ui) kprog" where
  "GetSparkUI project appName =
     try_bind (SparkRepository_Get project appName) (\<lambda>app.
       prog_bind suffix_or_empty (\<lambda>suffix. Ret (Inr (spark_ui_of project appName app suffix))))"

definition GetDriverLogs :: "string \<Rightarrow> string \<Rightarrow> string \<Rightarrow> int \<Rightarrow> bool \<Rightarrow> (gerr + log_request) kprog" where
  "GetDriverLogs project appName container tailLines follow =
     prog_bind (SparkRepository_Get project appName) (\<lambda>r. case r of
         Inl e \<Rightarrow> Ret (Inl (Wrapf ''failed to get SparkApplication: %w'' [] e))
       | Inr app \<Rightarrow>
           (let podName = sa_PodName (sk_Status app) in
            if podName = [] then
              Ret (Inl (Errorf ''driver pod not yet available for SparkApplication %s'' [FStr appName]))
            else open_log ''failed to get driver pod logs: %w'' project podName container tailLines follow))"

subsection \<open>What submission guarantees\<close>

definition mount_keys :: "string list" where
  "mount_keys = [volume_prefix ''driver'' @ ''mount.path'', volume_prefix ''executor'' @ ''mount.path'']"

text \<open>Every setting of the user is kept, but perhaps the mount paths of the event log.\<close>

definition conf_extends :: "'v gomap \<Rightarrow> 'v gomap \<Rightarrow> bool" where
  "conf_extends m m' = (\<forall>k v. mget m k = Some v \<longrightarrow> mget m' k = Some v \<or> k \<in> set mount_keys)"

lemma conf_extends_refl [simp]: "conf_extends m m"
  by (simp add: conf_extends_def)

lemma conf_extends_trans: "conf_extends a b \<Longrightarrow> conf_extends b c \<Longrightarrow> conf_extends a c"
  unfolding conf_extends_def by blast

lemma conf_extends_default: "conf_extends m (set_default k v m)"
  by (auto simp: conf_extends_def set_default_def split: option.splits)

lemma conf_extends_ui: "conf_extends m (ui_defaults val m)"
  unfolding ui_defaults_def by (meson conf_extends_default conf_extends_trans)

lemma conf_extends_inject:
  "prefix = volume_prefix ''driver'' \<or> prefix = volume_prefix ''executor'' \<Longrightarrow>
     conf_extends m (inject_volume val prefix pvc m)"
  by (auto simp: conf_extends_def inject_volume_def mount_keys_def split: option.splits)

lemma conf_extends_event_log: "conf_extends m (event_log val pvc m)"
  unfolding event_log_def injectEventLogVolumeConf_def
  using conf_extends_refl by (auto intro!: conf_extends_trans [OF _ conf_extends_inject]
      intro: conf_extends_trans [OF conf_extends_default conf_extends_default])

lemma runs_suffix: "runs suffix_or_empty (\<lambda>tr s. writes tr = [])"
  by (simp add: suffix_or_empty_def GetIngressSuffix_def reading_def runs_simps split: sum.split)

lemma runs_proxy_default: "runs (proxy_default val project m) (\<lambda>tr m'. writes tr = [] \<and> conf_extends m m')"
  unfolding proxy_default_def
  by (auto simp: runs_bind conf_extends_def split: option.split intro!: runs_mono [OF runs_suffix])

lemma runs_findEventLogPVC: "runs (findEventLogPVC project) (\<lambda>tr s. writes tr = [])"
  by (simp add: findEventLogPVC_def Let_def runs_simps)

lemma runs_spark_conf:
  "runs (spark_conf val project m) (\<lambda>tr m'. writes tr = [] \<and> conf_extends m m')"
proof -
  have ext: "conf_extends m (event_log val pvc m')" if "conf_extends (ui_defaults val m) m'" for m' pvc
    using that conf_extends_ui conf_extends_event_log by (meson conf_extends_trans)
  show ?thesis
    unfolding spark_conf_def
    by (rule runs_seq [OF runs_proxy_default], rule runs_seq [OF runs_findEventLogPVC]) (simp add: ext)
qed

text \<open>The application a submission creates: one, in the namespace of the project.\<close>

definition created_app :: "string \<Rightarrow> spark_request \<Rightarrow> ktrace \<Rightarrow> bool" where
  "created_app project req tr =
     (\<exists>sparkConf. conf_extends (case sj_SparkConf req of None \<Rightarrow> [] | Some m \<Rightarrow> m) sparkConf \<and>
        writes tr = [KCreate GetSparkAppGVR project (OSpark (new_spark_app project req sparkConf))])"

lemma SubmitApp_runs: "runs (SubmitApp project req) (\<lambda>tr x. created_app project req tr)"
  unfolding SubmitApp_def
proof (rule runs_seq [OF runs_spark_conf], goal_cases)
  case (1 t1 conf)
  then show ?case by (auto simp: SparkRepository_Create_def created_app_def runs_simps)
qed

text \<open>A document that belongs to the project, if its metadata is an object at all.\<close>

definition confined :: "string \<Rightarrow> goval gomap \<Rightarrow> bool" where
  "confined project doc =
     (str_at doc ''apiVersion'' = SparkAppAPIVersion \<and> str_at doc ''kind'' = SparkAppKind \<and>
      (case mget doc ''metadata'' of
         Some (GObj meta) \<Rightarrow> mget meta ''namespace'' = Some (GStr project) \<and>
           (\<exists>labels. mget meta ''labels'' = Some (GObj labels) \<and> mget labels LabelProject = Some (GStr project))
       | Some _ \<Rightarrow> True
       | None \<Rightarrow> False))"

definition yaml_conf :: "goval gomap \<Rightarrow> goval gomap" where
  "yaml_conf doc = sub_map (sub_map doc ''spec'') ''sparkConf''"

lemma mget_string_labels: "mget (map (\<lambda>(k, v). (k, GStr v)) m) k = map_option GStr (mget m k)"
  by (induction m) auto

lemma set_metadata_other: "k \<noteq> ''metadata'' \<Longrightarrow> mget (set_metadata f v doc) k = mget doc k"
  by (auto simp: set_metadata_def split: option.split goval.split)

lemma confined_labelled:
  assumes "str_at doc ''apiVersion'' = SparkAppAPIVersion" and "str_at doc ''kind'' = SparkAppKind"
    and "doc' = set_labels (mput LabelProject project labels) doc"
    and "\<forall>k. k \<noteq> ''spec'' \<longrightarrow> mget doc'' k = mget doc' k"
  shows "confined project (set_metadata ''namespace'' (GStr project) doc'')"
proof -
  have m: "mget doc'' ''metadata'' = mget doc' ''metadata''" using assms(4) by simp
  have k: "str_at (set_metadata ''namespace'' (GStr project) doc'') k = str_at doc k"
    if "k = ''apiVersion'' \<or> k = ''kind''" for k
    using that assms(4) by (intro str_at_cong) (auto simp: set_metadata_other set_labels_def assms(3))
  have "(case mget (set_metadata ''namespace'' (GStr project) doc'') ''metadata'' of
         Some (GObj meta) \<Rightarrow> mget meta ''namespace'' = Some (GStr project) \<and>
           (\<exists>labels. mget meta ''labels'' = Some (GObj labels) \<and> mget labels LabelProject = Some (GStr project))
       | Some _ \<Rightarrow> True
       | None \<Rightarrow> False)"
  proof (cases "mget doc ''metadata''")
    case None
    then show ?thesis
      using m by (simp add: set_metadata_def assms(3) set_labels_def mget_string_labels)
  next
    case (Some v)
    show ?thesis
    proof (cases v)
      case (GObj meta)
      then show ?thesis
        using m Some by (simp add: set_metadata_def assms(3) set_labels_def mget_string_labels)
    qed (use m Some in \<open>simp_all add: set_metadata_def assms(3) set_labels_def\<close>)
  qed
  then show ?thesis
    unfolding confined_def using k [of "''apiVersion''"] k [of "''kind''"] assms(1,2) by simp
qed

lemma yaml_conf_cong: "mget a ''spec'' = mget b ''spec'' \<Longrightarrow> yaml_conf a = yaml_conf b"
  by (simp add: yaml_conf_def sub_map_def)

definition yaml_created :: "string \<Rightarrow> goval gomap \<Rightarrow> ktrace \<Rightarrow> bool" where
  "yaml_created project doc tr =
     (\<exists>doc'. writes tr = [KCreate GetSparkAppGVR project (OMap doc')] \<and> confined project doc' \<and>
        conf_extends (yaml_conf doc) (yaml_conf doc'))"

lemma runs_complete_yaml:
  "runs (complete_yaml project doc) (\<lambda>tr doc'. writes tr = [] \<and>
     (\<forall>k. k \<noteq> ''spec'' \<longrightarrow> mget doc' k = mget doc k) \<and> conf_extends (yaml_conf doc) (yaml_conf doc'))"
proof (cases "\<exists>spec. mget doc ''spec'' = Some (GObj spec)")
  case True
  then obtain spec where spec: "mget doc ''spec'' = Some (GObj spec)" by blast
  have conf: "yaml_conf doc = sub_map (set_default ''timeToLiveSeconds'' (GInt64 3600) spec) ''sparkConf''"
    by (auto simp: yaml_conf_def sub_map_def spec set_default_def split: option.split)
  show ?thesis
    unfolding complete_yaml_def yaml_spec_def Let_def spec option.case goval.case conf
    unfolding prog_bind_assoc prog_bind.simps
    by (rule runs_seq [OF runs_spark_conf]) (auto simp: yaml_conf_def sub_map_def)
next
  case False
  then show ?thesis by (auto simp: complete_yaml_def split: option.split goval.split)
qed

lemma SubmitAppYAML_runs:
  "runs (SubmitAppYAML L project yaml) (\<lambda>tr x. case yaml_Unmarshal L yaml of
      Inl e \<Rightarrow> tr = [] \<and> (\<forall>i. x \<noteq> Inr i)
    | Inr doc \<Rightarrow> tr = [] \<and> (\<forall>i. x \<noteq> Inr i) \<or> yaml_created project doc tr)"
proof (cases "yaml_Unmarshal L yaml")
  case (Inr doc)
  show ?thesis
  proof (cases "str_at doc ''apiVersion'' \<noteq> SparkAppAPIVersion \<or> str_at doc ''kind'' \<noteq> SparkAppKind")
    case False
    define doc1 where "doc1 = set_labels (mput LabelProject project (doc_labels doc)) doc"
    have c1: "yaml_conf doc1 = yaml_conf doc"
      by (rule yaml_conf_cong) (simp add: doc1_def set_labels_def set_metadata_other)
    show ?thesis
      unfolding SubmitAppYAML_def Inr sum.case if_not_P [OF False] doc1_def [symmetric]
    proof (rule runs_seq [OF runs_complete_yaml], goal_cases)
      case (1 t1 doc2)
      have "confined project (set_metadata ''namespace'' (GStr project) doc2)"
        by (rule confined_labelled [OF _ _ doc1_def]) (use False 1 in auto)
      moreover have "yaml_conf (set_metadata ''namespace'' (GStr project) doc2) = yaml_conf doc2"
        by (rule yaml_conf_cong) (simp add: set_metadata_other)
      ultimately have "yaml_created project doc (t1 @ [(KCreate GetSparkAppGVR project
          (OMap (set_metadata ''namespace'' (GStr project) doc2)), r)])" for r
        using 1 c1 by (auto simp: yaml_created_def)
      then show ?case by (simp add: SparkRepository_CreateRaw_def runs_simps Let_def)
    qed
  qed (simp add: SubmitAppYAML_def Inr)
qed (simp add: SubmitAppYAML_def)

subsection \<open>Property\<close>

text \<open>
  C31. Whatever a submission contains, form or YAML document, the server
  creates at most one object: a Spark application, in the namespace of the project and with its
  label, whatever namespace or project label the document asked for. A document of another kind, or
  that is not YAML, creates nothing. The Spark settings of the user are all kept as they are, the
  defaults being added beside them, but for the mount paths of the event log.
\<close>

theorem spark_submission_confined:
  "runs (SubmitApp project req) (\<lambda>tr x. created_app project req tr) \<and>
   runs (SubmitAppYAML L project yaml) (\<lambda>tr x. case yaml_Unmarshal L yaml of
      Inl e \<Rightarrow> tr = [] \<and> (\<forall>i. x \<noteq> Inr i)
    | Inr doc \<Rightarrow> tr = [] \<and> (\<forall>i. x \<noteq> Inr i) \<or> yaml_created project doc tr)"
  by (intro conjI SubmitApp_runs SubmitAppYAML_runs)

end
