(* ===== verification/Service_Metrics.thy ===== *)
theory Service_Metrics
  imports Services Go_Fmt
begin

text \<open>
  The live usage of the services (\<^verbatim>\<open>GetProjectMetrics\<close>, \<^verbatim>\<open>GetServiceMetrics\<close> of
  \<^verbatim>\<open>internal/service/service_service.go\<close>) and the log of a pod. Quantities are exact rationals: the
  parser of quantities is the library's, and the rounding of the sums to \<^verbatim>\<open>float64\<close> is left out.
\<close>

record metric_value =
  mv_UsedRaw :: rat
  mv_LimitRaw :: rat
  mv_Used :: string
  mv_Limit :: string
  mv_Pct :: rat
  mv_Available :: bool

record service_metrics =
  mx_CPU :: metric_value
  mx_Memory :: metric_value

subsection \<open>Quantities\<close>

definition parse_quantity :: "extlib \<Rightarrow> string \<Rightarrow> string \<Rightarrow> gerr + rat" where
  "parse_quantity L failure s =
     (if s = [] then Inr 0
      else case ParseQuantity L s of
          Inl e \<Rightarrow> Inl (Wrapf failure [FStr s] e)
        | Inr q \<Rightarrow> Inr q)"

definition parseCPUQuantity :: "extlib \<Rightarrow> string \<Rightarrow> gerr + rat" where
  "parseCPUQuantity L s = parse_quantity L ''invalid CPU quantity %q: %w'' s"

definition parseMemoryQuantity :: "extlib \<Rightarrow> string \<Rightarrow> gerr + rat" where
  "parseMemoryQuantity L s = parse_quantity L ''invalid memory quantity %q: %w'' s"

text \<open>\<^verbatim>\<open>%.df\<close>: the nearest decimal, the even one of two.\<close>

definition round_even :: "rat \<Rightarrow> int" where
  "round_even r =
     (let f = \<lfloor>r\<rfloor>; d = r - of_int f in
      if d < 1 / 2 \<or> (d = 1 / 2 \<and> even f) then f else f + 1)"

definition fixed :: "nat \<Rightarrow> rat \<Rightarrow> string" where
  "fixed d r =
     (let n = round_even (abs r * 10 ^ d); whole = show_int (n div 10 ^ d); part = show_int (n mod 10 ^ d)
      in (if r < 0 then ''-'' else []) @ whole @
         (if d = 0 then [] else ''.'' @ replicate (d - length part) (CHR ''0'') @ part))"

definition formatCPU :: "rat \<Rightarrow> string" where
  "formatCPU cores = (if cores = 0 then ''0'' else if cores < 1 then fixed 3 cores else fixed 2 cores)"

definition memory_units :: "(rat \<times> string) list" where
  "memory_units = [(1024 * 1024 * 1024, ''Gi''), (1024 * 1024, ''Mi''), (1024, ''Ki'')]"

definition formatMemory :: "rat \<Rightarrow> string" where
  "formatMemory bytes =
     (if bytes = 0 then ''0''
      else case find (\<lambda>(threshold, suffix). bytes \<ge> threshold) memory_units of
          Some (threshold, suffix) \<Rightarrow> fixed 2 (bytes / threshold) @ suffix
        | None \<Rightarrow> fixed 0 bytes @ ''B'')"

definition ratio :: "rat \<Rightarrow> rat \<Rightarrow> rat" where
  "ratio a b = (if b \<le> 0 then 0 else if a / b > 1 then 1 else a / b)"

subsection \<open>Usage and limits\<close>

definition obj_at :: "goval gomap \<Rightarrow> string \<Rightarrow> goval gomap option" where
  "obj_at m k = Option.bind (mget m k) as_obj"

text \<open>The limits of a container, or its requests where it declares no limits at all.\<close>

definition quantities_of :: "goval gomap \<Rightarrow> goval gomap option" where
  "quantities_of container =
     (case obj_at container ''resources'' of
        None \<Rightarrow> None
      | Some resources \<Rightarrow>
          (case obj_at resources ''limits'' of Some m \<Rightarrow> Some m | None \<Rightarrow> obj_at resources ''requests''))"

text \<open>A quantity that is no string, is empty or does not parse counts for nothing.\<close>

definition quantity_at :: "(string \<Rightarrow> gerr + rat) \<Rightarrow> string \<Rightarrow> goval gomap \<Rightarrow> rat option" where
  "quantity_at parse k m =
     (case mget m k of
        Some (GStr v) \<Rightarrow> if v = [] then None else (case parse v of Inl e \<Rightarrow> None | Inr q \<Rightarrow> Some q)
      | _ \<Rightarrow> None)"

definition limits_of :: "(string \<Rightarrow> gerr + rat) \<Rightarrow> string \<Rightarrow> uobj list \<Rightarrow> rat list" where
  "limits_of parse k pods =
     concat (map (\<lambda>pod. keep_some (quantity_at parse k)
       (keep_some quantities_of (keep_some as_obj (nested_slice pod [''spec'', ''containers''])))) pods)"

definition usages_of :: "(string \<Rightarrow> gerr + rat) \<Rightarrow> string \<Rightarrow> uobj list \<Rightarrow> uobj gomap \<Rightarrow> rat list" where
  "usages_of parse k pods metricsByPod =
     concat (map (\<lambda>pod. case mget metricsByPod (u_Name pod) of
         None \<Rightarrow> []
       | Some podMetrics \<Rightarrow> keep_some (quantity_at parse k)
           (keep_some (\<lambda>c. obj_at c ''usage'') (keep_some as_obj (nested_slice podMetrics [''containers''])))) pods)"

definition metric_of :: "(rat \<Rightarrow> string) \<Rightarrow> rat list \<Rightarrow> rat list \<Rightarrow> metric_value" where
  "metric_of text used limits =
     (let u = sum_list used; l = sum_list limits in
      \<lparr>mv_UsedRaw = u, mv_LimitRaw = l, mv_Used = text u, mv_Limit = text l, mv_Pct = ratio u l,
       mv_Available = (used \<noteq> [])\<rparr>)"

definition buildServiceMetrics :: "extlib \<Rightarrow> uobj list \<Rightarrow> uobj gomap \<Rightarrow> service_metrics" where
  "buildServiceMetrics L pods metricsByPod =
     \<lparr>mx_CPU = metric_of formatCPU (usages_of (parseCPUQuantity L) ''cpu'' pods metricsByPod)
        (limits_of (parseCPUQuantity L) ''cpu'' pods),
      mx_Memory = metric_of formatMemory (usages_of (parseMemoryQuantity L) ''memory'' pods metricsByPod)
        (limits_of (parseMemoryQuantity L) ''memory'' pods)\<rparr>"

definition metricsGVR :: gvr where "metricsGVR = (''metrics.k8s.io'', ''v1beta1'', ''pods'')"

definition listPodMetricsByName :: "string \<Rightarrow> uobj gomap kprog" where
  "listPodMetricsByName ns =
     prog_bind (call_items (KList metricsGVR ns [])) (\<lambda>r. Ret (case r of
         Inl e \<Rightarrow> []
       | Inr items \<Rightarrow> foldl (\<lambda>m u. mput (u_Name u) u m) [] (keep_some is_raw items)))"

definition GetServiceMetrics :: "extlib \<Rightarrow> string \<Rightarrow> string \<Rightarrow> (gerr + service_metrics) kprog" where
  "GetServiceMetrics L project serviceName =
     try_bind (releaseInstanceSelector project (releaseName_of project serviceName)) (\<lambda>selector.
       prog_bind (call_items (KList PodGVR project selector)) (\<lambda>r. case r of
           Inl e \<Rightarrow> Ret (Inl (Wrapf ''failed to list pods: %w'' [] e))
         | Inr items \<Rightarrow> prog_bind (listPodMetricsByName project) (\<lambda>metricsByPod.
             Ret (Inr (buildServiceMetrics L (keep_some is_raw items) metricsByPod)))))"

fun metrics_of ::
    "extlib \<Rightarrow> string \<Rightarrow> uobj list \<Rightarrow> uobj gomap \<Rightarrow> service_metrics gomap \<Rightarrow> service_instance list \<Rightarrow>
       service_metrics gomap kprog" where
  "metrics_of L project allPods metricsByPod metrics [] = Ret metrics"
| "metrics_of L project allPods metricsByPod metrics (i # is) =
     prog_bind (releaseInstanceNames project (si_ReleaseName i)) (\<lambda>n. case n of
         Inl e \<Rightarrow> metrics_of L project allPods metricsByPod metrics is
       | Inr names \<Rightarrow>
           let pods = filter (\<lambda>pod. mstr (u_Labels pod) ''app.kubernetes.io/instance'' \<in> set names) allPods in
           metrics_of L project allPods metricsByPod
             (mput (si_Name i) (buildServiceMetrics L pods metricsByPod) metrics) is)"

definition GetProjectMetrics ::
    "extlib \<Rightarrow> service_config \<Rightarrow> string \<Rightarrow> (gerr + service_metrics gomap) kprog" where
  "GetProjectMetrics L C project =
     try_bind (ListServices C project) (\<lambda>instances.
       prog_bind (call_items (KList PodGVR project [])) (\<lambda>r. case r of
           Inl e \<Rightarrow> Ret (Inl (Wrapf ''failed to list pods: %w'' [] e))
         | Inr items \<Rightarrow> prog_bind (listPodMetricsByName project) (\<lambda>metricsByPod.
             prog_bind (metrics_of L project (keep_some is_raw items) metricsByPod [] instances)
               (\<lambda>metrics. Ret (Inr metrics)))))"

subsection \<open>The log of a pod\<close>

definition GetPodLogs :: "string \<Rightarrow> string \<Rightarrow> string \<Rightarrow> int \<Rightarrow> bool \<Rightarrow> (gerr + log_request) kprog" where
  "GetPodLogs project podName container tailLines follow =
     open_log ''failed to get pod logs: %w'' project podName container tailLines follow"

subsection \<open>What the figures are\<close>

lemma round_even_nearest: "\<bar>of_int (round_even r) - r\<bar> \<le> 1 / 2"
  using floor_correct [of r] by (auto simp: round_even_def Let_def abs_le_iff field_simps)

lemma ratio_bounds: "ratio a b \<le> 1" "0 \<le> a \<Longrightarrow> 0 \<le> ratio a b"
  by (auto simp: ratio_def)

lemma formats: "formatCPU (1 / 2) = ''0.500''" "formatMemory 1536 = ''1.50Ki''" "formatMemory 512 = ''512B''"
  by code_simp+

end
