(* ===== verification/Connection_Consumers.thy ===== *)
theory Connection_Consumers
  imports Releases Connection_Service
begin

text \<open>
  The services bound to a connection (\<^verbatim>\<open>ListConsumers\<close> of
  \<^verbatim>\<open>internal/service/connection_service.go\<close>), read from what the controller published of every
  release of the project.
\<close>

definition referencesConnection :: "input_ref list \<Rightarrow> string \<Rightarrow> string \<Rightarrow> bool" where
  "referencesConnection refs project name =
     (\<exists>r\<in>set refs. ir_Name r = name \<and> (ir_Namespace r = project \<or> ir_Namespace r = []))"

definition consumer_of :: "string \<Rightarrow> string \<Rightarrow> release \<Rightarrow> connection_consumer option" where
  "consumer_of project name r =
     (let watched = referencesConnection (rt_WatchedInputConnections (re_Status r)) project name;
          effective = referencesConnection (rt_EffectiveInputConnections (re_Status r)) project name
      in if \<not> watched \<and> \<not> effective then None
         else Some \<lparr>cm_Service = trim_prefix (md_Name (re_Meta r)) (project @ ''-''),
                cm_ReleaseName = md_Name (re_Meta r), cm_Status = rt_Phase (re_Status r),
                cm_Effective = effective\<rparr>)"

definition Connection_ListConsumers :: "string \<Rightarrow> string \<Rightarrow> (gerr + connection_consumer list) kprog" where
  "Connection_ListConsumers project name =
     try_bind (ServiceRepository_List (project, project)) (\<lambda>releases.
       Ret (Inr (sort_by cm_ReleaseName (keep_some (consumer_of project name) releases))))"

lemma runs_ListConsumers: "runs (Connection_ListConsumers project name) (\<lambda>tr x. writes tr = [])"
  by (auto simp: Connection_ListConsumers_def ServiceRepository_List_def runs_simps)

end
