(* ===== verification/Projects.thy ===== *)
theory Projects
  imports Kube
begin

text \<open>
  Projects are the namespaces that carry a label (\<^verbatim>\<open>internal/repository/project_repository.go\<close>,
  \<^verbatim>\<open>internal/service/project_service.go\<close>, \<^verbatim>\<open>internal/models/project.go\<close>), read and written with the
  typed client. Also the answers of the HTTP layer and the guard in front of every route of a
  project (\<^verbatim>\<open>internal/api/middleware/project.go\<close>).
\<close>

record project =
  pj_Name :: string
  pj_Description :: string

definition ProjectLabel :: string where "ProjectLabel = ''okdp.io/project''"

definition ProjectDescriptionAnnot :: string where "ProjectDescriptionAnnot = ''okdp.io/description''"

definition namespaceGVR :: gvr where "namespaceGVR = ('''', ''v1'', ''namespaces'')"

text \<open>The typed client answers an object of its type or an error.\<close>

definition typed :: "(kobj \<Rightarrow> 'a option) \<Rightarrow> kobj \<Rightarrow> gerr + 'a" where
  "typed f x = (case f x of None \<Rightarrow> Inl bad_answer | Some a \<Rightarrow> Inr a)"

definition namespaceToProject :: "object_meta \<Rightarrow> project" where
  "namespaceToProject ns = \<lparr>pj_Name = md_Name ns, pj_Description = annot ns ProjectDescriptionAnnot\<rparr>"

definition ProjectRepository_Create :: "project \<Rightarrow> (gerr + unit) kprog" where
  "ProjectRepository_Create p =
     call_unit (KCreate namespaceGVR [] (ONamespace (object_meta0
       \<lparr>md_Name := pj_Name p, md_Labels := [(ProjectLabel, pj_Name p)],
        md_Annotations := Some [(ProjectDescriptionAnnot, pj_Description p)]\<rparr>)))"

definition get_namespace :: "string \<Rightarrow> (gerr + object_meta) kprog" where
  "get_namespace name =
     try_bind (call_obj (KGet namespaceGVR [] name)) (\<lambda>u. Ret (typed is_namespace u))"

text \<open>A namespace without the label is reported as absent.\<close>

definition labelled :: "string \<Rightarrow> object_meta \<Rightarrow> gerr + object_meta" where
  "labelled name ns =
     (if label_of ns ProjectLabel = [] then Inl (KubeErr NotFound name) else Inr ns)"

definition project_namespace :: "string \<Rightarrow> (gerr + object_meta) kprog" where
  "project_namespace name = try_bind (get_namespace name) (\<lambda>ns. Ret (labelled name ns))"

definition ProjectRepository_Get :: "string \<Rightarrow> (gerr + project) kprog" where
  "ProjectRepository_Get name =
     try_bind (project_namespace name) (\<lambda>ns. Ret (Inr (namespaceToProject ns)))"

definition ProjectRepository_List :: "(gerr + project list) kprog" where
  "ProjectRepository_List =
     try_bind (call_items (KList namespaceGVR [] ProjectLabel)) (\<lambda>items.
       Ret (Inr (map namespaceToProject (keep_some is_namespace items))))"

definition described :: "string \<Rightarrow> object_meta \<Rightarrow> object_meta" where
  "described description ns =
     ns\<lparr>md_Annotations := Some (mput ProjectDescriptionAnnot description
          (case md_Annotations ns of None \<Rightarrow> [] | Some a \<Rightarrow> a))\<rparr>"

definition ProjectRepository_Update :: "project \<Rightarrow> (gerr + project) kprog" where
  "ProjectRepository_Update p =
     try_bind (project_namespace (pj_Name p)) (\<lambda>ns.
       try_bind (call_obj (KUpdate namespaceGVR [] (ONamespace (described (pj_Description p) ns)))) (\<lambda>u.
         Ret (sum_bind (typed is_namespace u) (\<lambda>updated. Inr (namespaceToProject updated)))))"

definition ProjectRepository_Watch :: "(gerr + unit) kprog" where
  "ProjectRepository_Watch = call_unit (KWatch namespaceGVR [] ProjectLabel)"

definition ProjectRepository_Delete :: "string \<Rightarrow> (gerr + unit) kprog" where
  "ProjectRepository_Delete name =
     try_bind (project_namespace name) (\<lambda>_. call_unit (KDelete namespaceGVR [] name))"

subsection \<open>The service\<close>

definition ListProjects :: "(gerr + project list) kprog" where "ListProjects = ProjectRepository_List"
definition GetProject :: "string \<Rightarrow> (gerr + project) kprog" where "GetProject name = ProjectRepository_Get name"
definition CreateProject :: "project \<Rightarrow> (gerr + unit) kprog" where "CreateProject p = ProjectRepository_Create p"
definition UpdateProject :: "project \<Rightarrow> (gerr + project) kprog" where "UpdateProject p = ProjectRepository_Update p"
definition DeleteProject :: "string \<Rightarrow> (gerr + unit) kprog" where "DeleteProject name = ProjectRepository_Delete name"

subsection \<open>The HTTP layer\<close>

text \<open>
  What a handler answers: a status with a body, with the text of an error, with a message, with
  the contract of an absent feature, or alone.
\<close>

datatype 'b reply =
    Body nat 'b
  | ErrText nat gerr
  | Message nat string "farg list"
  | FeatureUnavailable string string
  | Bare nat

fun status_of :: "'b reply \<Rightarrow> nat" where
  "status_of (Body n b) = n"
| "status_of (ErrText n e) = n"
| "status_of (Message n f as) = n"
| "status_of (FeatureUnavailable f m) = 501"
| "status_of (Bare n) = n"

definition map_reply :: "('a \<Rightarrow> 'b) \<Rightarrow> 'a reply \<Rightarrow> 'b reply" where
  "map_reply f r = (case r of Body n b \<Rightarrow> Body n (f b) | ErrText n e \<Rightarrow> ErrText n e
     | Message n m as \<Rightarrow> Message n m as | FeatureUnavailable g m \<Rightarrow> FeatureUnavailable g m | Bare n \<Rightarrow> Bare n)"

text \<open>\<^verbatim>\<open>RequireProject\<close>, with \<^verbatim>\<open>ProjectHandler.Resolve\<close> as the function it is given.\<close>

definition RequireProject :: "string \<Rightarrow> 'b reply kprog \<Rightarrow> 'b reply kprog" where
  "RequireProject name next' =
     (if name = [] then Ret (Message 400 ''a project name is required'' [])
      else prog_bind (GetProject name) (\<lambda>r. case r of
          Inl e \<Rightarrow>
            if \<not> is_not_found e then Ret (Message 500 (''could not resolve project '%s'' @ [CHR 0x27]) [FStr name])
            else Ret (Message 404 ''project '%s' not found'' [FStr name])
        | Inr project \<Rightarrow> next'))"

subsection \<open>Only projects\<close>

lemma typed_Inr [simp]: "typed f x = Inr a \<longleftrightarrow> f x = Some a"
  by (simp add: typed_def split: option.split)

text \<open>A trace that starts by reading the project.\<close>

definition project_read :: "string \<Rightarrow> ktrace \<Rightarrow> bool" where
  "project_read name tr =
     (\<exists>ns t. tr = (KGet namespaceGVR [] name, RObj (ONamespace ns)) # t \<and> label_of ns ProjectLabel \<noteq> [])"

lemma runs_project_namespace:
  "runs (project_namespace name) (\<lambda>tr x. writes tr = [] \<and>
     (case x of Inl e \<Rightarrow> True
      | Inr ns \<Rightarrow> tr = [(KGet namespaceGVR [] name, RObj (ONamespace ns))] \<and> label_of ns ProjectLabel \<noteq> []))"
  by (auto simp: project_namespace_def get_namespace_def labelled_def runs_simps split: sum.splits)

lemma runs_GetProject:
  "runs (GetProject name) (\<lambda>tr x. writes tr = [] \<and> (\<forall>p. x = Inr p \<longrightarrow> project_read name tr))"
  unfolding GetProject_def ProjectRepository_Get_def
  by (rule runs_try_seq [OF runs_project_namespace]) (auto simp: project_read_def)

lemma runs_RequireProject:
  assumes "runs next' Q"
  shows "runs (RequireProject name next') (\<lambda>tr x. writes tr = [] \<and> status_of x \<in> {400, 404, 500} \<or>
     (\<exists>t1 t2. tr = t1 @ t2 \<and> project_read name t1 \<and> writes t1 = [] \<and> Q t2 x))"
proof (cases "name = []")
  case False
  show ?thesis
    unfolding RequireProject_def
    by (simp add: False, rule runs_seq [OF runs_GetProject])
      (auto split: sum.split intro!: runs_mono [OF assms])
qed (simp add: RequireProject_def)

lemma project_read_append: "project_read name t1 \<Longrightarrow> project_read name (t1 @ t2)"
  by (auto simp: project_read_def)

text \<open>Every change to a namespace: its creation as a project, or a change of one that is a project.\<close>

lemma runs_UpdateProject:
  "runs (UpdateProject p) (\<lambda>tr x. writes tr = [] \<and> (\<forall>q. x \<noteq> Inr q) \<or>
     project_read (pj_Name p) tr \<and>
     (\<exists>ns. snd (hd tr) = RObj (ONamespace ns) \<and>
        writes tr = [KUpdate namespaceGVR [] (ONamespace (described (pj_Description p) ns))]))"
  unfolding UpdateProject_def ProjectRepository_Update_def
  by (rule runs_try_seq [OF runs_project_namespace])
    (auto simp: runs_simps project_read_def split: sum.splits)

lemma runs_DeleteProject:
  "runs (DeleteProject name) (\<lambda>tr x. writes tr = [] \<and> x \<noteq> Inr () \<or>
     project_read name tr \<and> writes tr = [KDelete namespaceGVR [] name])"
  unfolding DeleteProject_def ProjectRepository_Delete_def
  by (rule runs_try_seq [OF runs_project_namespace]) (auto simp: runs_simps project_read_def)

lemma runs_CreateProject:
  "runs (CreateProject p) (\<lambda>tr x. \<exists>ns. writes tr = [KCreate namespaceGVR [] (ONamespace ns)] \<and>
     md_Name ns = pj_Name p \<and> label_of ns ProjectLabel = pj_Name p)"
  by (simp add: CreateProject_def ProjectRepository_Create_def runs_simps label_of_def mstr_def)

text \<open>The description is all an edition changes.\<close>

lemma described_frame:
  "annot (described d ns) k = (if k = ProjectDescriptionAnnot then d else annot ns k)"
  "md_Labels (described d ns) = md_Labels ns" "md_Name (described d ns) = md_Name ns"
  "md_ResourceVersion (described d ns) = md_ResourceVersion ns"
  by (auto simp: described_def annot_def mstr_def split: option.split)

end
