(* ===== verification/Auth.thy ===== *)
theory Auth
  imports Projects Context_Repository
begin

text \<open>
  Authentication and the capabilities of the platform: the verification of bearer tokens
  (\<^verbatim>\<open>internal/auth/verifier.go\<close>), the middleware in front of the API
  (\<^verbatim>\<open>internal/api/middleware/auth.go\<close>), the capabilities derived from the Context
  (\<^verbatim>\<open>internal/service/capability_service.go\<close>) and the guards of optional features
  (\<^verbatim>\<open>internal/api/handlers/feature_availability.go\<close>, \<^verbatim>\<open>capabilities_handler.go\<close>).
\<close>

subsection \<open>Tokens\<close>

record identity =
  id_Subject :: string
  id_Username :: string

text \<open>The client the token must be issued for: the audience, the authorized party or the client id.\<close>

definition names_client :: "string \<Rightarrow> verified_token \<Rightarrow> id_claims \<Rightarrow> bool" where
  "names_client clientID token claims =
     foldl (\<lambda>named aud. named \<or> aud = clientID)
       (ci_ClientID claims = clientID \<or> ci_Azp claims = clientID) (vt_Audience token)"

definition identity_of :: "verified_token \<Rightarrow> id_claims \<Rightarrow> identity" where
  "identity_of token claims = \<lparr>id_Subject = vt_Subject token,
     id_Username = (if ci_PreferredUsername claims = [] then ci_Email claims else ci_PreferredUsername claims)\<rparr>"

definition Verify :: "string \<Rightarrow> string \<Rightarrow> (gerr + identity) kprog" where
  "Verify clientID rawToken =
     Call (KVerifyToken rawToken) (\<lambda>r. Ret (case r of
         RToken token \<Rightarrow>
           (case vt_Claims token of
              Inl e \<Rightarrow> Inl (Wrapf ''could not read the token claims: %w'' [] e)
            | Inr claims \<Rightarrow>
                if \<not> names_client clientID token claims then
                  Inl (Errorf ''the token was not issued for this client'' [])
                else Inr (identity_of token claims))
       | RErr e \<Rightarrow> Inl e
       | _ \<Rightarrow> Inl bad_answer))"

record verifier_config =
  vf_Issuer :: string
  vf_InsecureSkipVerify :: bool
  vf_ClientID :: string

text \<open>
  \<^verbatim>\<open>oidc.NewProvider\<close> is the library's: a program that reaches the issuer, or fails. What the
  verifier keeps of its configuration is the client id.
\<close>

definition NewVerifier :: "(string \<Rightarrow> bool \<Rightarrow> (gerr + unit) kprog) \<Rightarrow> verifier_config \<Rightarrow> (gerr + string) kprog" where
  "NewVerifier NewProvider cfg =
     (if vf_ClientID cfg = [] then
        Ret (Inl (Errorf ''no OIDC client id: a token would authenticate without proving it was issued for this API'' []))
      else prog_bind (NewProvider (vf_Issuer cfg) (vf_InsecureSkipVerify cfg)) (\<lambda>r. Ret (case r of
          Inl e \<Rightarrow> Inl (Wrapf ''could not reach the OIDC issuer %q: %w'' [FStr (vf_Issuer cfg)] e)
        | Inr _ \<Rightarrow> Inr (vf_ClientID cfg))))"

definition resolve_setting :: "string \<Rightarrow> string \<Rightarrow> string \<Rightarrow> (gerr + string) kprog \<Rightarrow> (gerr + string) kprog" where
  "resolve_setting unreadable missing override fromContext =
     (if override \<noteq> [] then Ret (Inr override)
      else prog_bind fromContext (\<lambda>r. Ret (case r of
          Inl e \<Rightarrow> Inl (Wrapf unreadable [] e)
        | Inr v \<Rightarrow> if v = [] then Inl (Errorf missing []) else Inr v)))"

definition ResolveIssuer :: "string \<Rightarrow> (gerr + string) kprog \<Rightarrow> (gerr + string) kprog" where
  "ResolveIssuer override fromContext =
     resolve_setting ''could not read the OIDC issuer from the platform Context: %w''
       ''no OIDC issuer: the platform Context declares none and OIDC_ISSUER is unset'' override fromContext"

definition ResolveClientID :: "string \<Rightarrow> (gerr + string) kprog \<Rightarrow> (gerr + string) kprog" where
  "ResolveClientID override fromContext =
     resolve_setting ''could not read the OIDC client id from the platform Context: %w''
       ''no OIDC client id: the platform Context declares none and OIDC_CLIENT_ID is unset'' override fromContext"

subsection \<open>The middleware\<close>

definition publicPaths :: "string list" where "publicPaths = [''/api/capabilities'']"

definition errMissingToken :: gerr where
  "errMissingToken = Errorf ''an Authorization header is required'' []"

definition errMalformedHeader :: gerr where
  "errMalformedHeader = Errorf (''the Authorization header must be 'Bearer <token>'' @ [CHR 0x27]) []"

definition bearerToken :: "string \<Rightarrow> gerr + string" where
  "bearerToken header =
     (if header = [] then Inl errMissingToken
      else case str_cut header '' '' of (scheme, token, found) \<Rightarrow>
        if \<not> found \<or> \<not> equal_fold scheme ''Bearer'' \<or> trim_space token = [] then Inl errMalformedHeader
        else Inr (trim_space token))"

definition unauthorized :: "gerr \<Rightarrow> 'b reply" where
  "unauthorized e = ErrText 401 e"

text \<open>\<^verbatim>\<open>next'\<close> is what the request goes on to, with the identity the middleware sets, if any.\<close>

definition RequireAuthentication ::
    "string \<Rightarrow> string \<Rightarrow> string \<Rightarrow> (identity option \<Rightarrow> 'b reply kprog) \<Rightarrow> 'b reply kprog" where
  "RequireAuthentication clientID path header next' =
     (if path \<in> set publicPaths then next' None
      else case bearerToken header of
        Inl e \<Rightarrow> Ret (unauthorized e)
      | Inr rawToken \<Rightarrow>
          prog_bind (Verify clientID rawToken) (\<lambda>r. case r of
              Inl e \<Rightarrow> Ret (unauthorized (Errorf ''the bearer token was rejected'' []))
            | Inr identity \<Rightarrow> next' (Some identity)))"

subsection \<open>Capabilities\<close>

definition IdentityProviderExternal :: string where "IdentityProviderExternal = ''external''"
definition IdentityProviderKubauth :: string where "IdentityProviderKubauth = ''kubauth''"

record capabilities =
  cy_Provider :: string
  cy_UserManagement :: bool
  cy_Oidc :: "identity_oidc_config option"
  cy_OidcProvisioning :: string

definition identityCRDs :: "bool kprog option \<Rightarrow> bool kprog" where
  "identityCRDs installed = (case installed of None \<Rightarrow> Ret False | Some f \<Rightarrow> f)"

definition GetCapabilities :: "bool kprog option \<Rightarrow> (gerr + capabilities) kprog" where
  "GetCapabilities installed =
     try_bind GetIdentityProvider (\<lambda>provider.
       let identityProvider = (if provider = [] then IdentityProviderExternal else provider) in
       try_bind GetIdentityOidcConfig (\<lambda>oidc.
         try_bind GetIdentityProvisioningProvider (\<lambda>provisioning.
           let provisioningProvider = (if provisioning = [] then ProviderNone else provisioning) in
           prog_bind (if identityProvider = IdentityProviderKubauth then identityCRDs installed else Ret False)
             (\<lambda>managed. Ret (Inr \<lparr>cy_Provider = identityProvider, cy_UserManagement = managed,
                cy_Oidc = oidc, cy_OidcProvisioning = provisioningProvider\<rparr>)))))"

definition IdentityAPIEnabled :: "(gerr + bool) kprog" where
  "IdentityAPIEnabled =
     try_bind GetIdentityProvider (\<lambda>provider. Ret (Inr (provider = IdentityProviderKubauth)))"

subsection \<open>The guards of optional features\<close>

definition RequireFeature :: "bool kprog \<Rightarrow> string \<Rightarrow> string \<Rightarrow> 'b reply kprog \<Rightarrow> 'b reply kprog" where
  "RequireFeature available feature message next' =
     prog_bind available (\<lambda>ok. if ok then next' else Ret (FeatureUnavailable feature message))"

definition abortUnavailable :: "bool \<Rightarrow> string \<Rightarrow> string \<Rightarrow> 'b reply option" where
  "abortUnavailable available feature message =
     (if available then None else Some (FeatureUnavailable feature message))"

definition identityFeature :: string where "identityFeature = ''kubauth identity''"

definition RequireIdentityAPI :: "bool kprog \<Rightarrow> 'b reply kprog \<Rightarrow> 'b reply kprog" where
  "RequireIdentityAPI crdsInstalled next' =
     prog_bind IdentityAPIEnabled (\<lambda>r. case r of
         Inl e \<Rightarrow> Ret (ErrText 500 e)
       | Inr enabled \<Rightarrow>
           if \<not> enabled then
             Ret (FeatureUnavailable identityFeature ''Identity management is not available on this platform: identity.provider is not kubauth (see /api/capabilities).'')
           else prog_bind crdsInstalled (\<lambda>installed.
             if \<not> installed then
               Ret (FeatureUnavailable identityFeature ''Identity management is unavailable: identity.provider is kubauth but its CRDs are not installed on this cluster.'')
             else next'))"

subsection \<open>What authentication guarantees\<close>

text \<open>A token the library verified, that names the client, read from the header.\<close>

definition accepted_token :: "string \<Rightarrow> string \<Rightarrow> ktrace \<Rightarrow> identity \<Rightarrow> bool" where
  "accepted_token clientID header tr who =
     (\<exists>rawToken token claims. bearerToken header = Inr rawToken \<and> tr = [(KVerifyToken rawToken, RToken token)] \<and>
        vt_Claims token = Inr claims \<and> who = identity_of token claims \<and>
        (clientID \<in> set (vt_Audience token) \<or> ci_Azp claims = clientID \<or> ci_ClientID claims = clientID))"

lemma names_client_iff:
  "names_client clientID token claims \<longleftrightarrow>
     clientID \<in> set (vt_Audience token) \<or> ci_Azp claims = clientID \<or> ci_ClientID claims = clientID"
proof -
  have "foldl (\<lambda>named aud. named \<or> aud = clientID) b xs \<longleftrightarrow> b \<or> clientID \<in> set xs" for b xs
    by (induction xs arbitrary: b) auto
  then show ?thesis by (auto simp: names_client_def)
qed

text \<open>Nothing but the verification of a token was asked of the outside.\<close>

definition verify_only :: "ktrace \<Rightarrow> bool" where
  "verify_only tr = list_all (\<lambda>c. \<exists>t. c = KVerifyToken t) (calls tr)"

lemma verify_only_reads: "verify_only tr \<Longrightarrow> writes tr = []"
  by (auto simp: verify_only_def writes_def filter_empty_conv list_all_iff)

lemma runs_Verify:
  "runs (Verify clientID rawToken) (\<lambda>tr x. verify_only tr \<and>
     (\<forall>who. x = Inr who \<longrightarrow> (\<exists>token claims. tr = [(KVerifyToken rawToken, RToken token)] \<and>
        vt_Claims token = Inr claims \<and> who = identity_of token claims \<and>
        (clientID \<in> set (vt_Audience token) \<or> ci_Azp claims = clientID \<or> ci_ClientID claims = clientID))))"
  by (auto simp: Verify_def names_client_iff verify_only_def split: kresp.splits sum.splits if_splits)

lemma runs_RequireAuthentication:
  assumes "\<And>who. runs (next' who) (Q who)"
  shows "runs (RequireAuthentication clientID path header next') (\<lambda>tr x.
     verify_only tr \<and> status_of x = 401 \<or>
     path \<in> set publicPaths \<and> Q None tr x \<or>
     (\<exists>who t1 t2. tr = t1 @ t2 \<and> accepted_token clientID header t1 who \<and> Q (Some who) t2 x))"
proof (cases "path \<in> set publicPaths")
  case True
  then show ?thesis by (auto simp: RequireAuthentication_def intro: runs_mono [OF assms])
next
  case False
  show ?thesis
  proof (cases "bearerToken header")
    case (Inl e)
    with False show ?thesis by (simp add: RequireAuthentication_def unauthorized_def verify_only_def)
  next
    case (Inr raw)
    have req: "RequireAuthentication clientID path header next' =
        prog_bind (Verify clientID raw) (\<lambda>r. case r of
            Inl e \<Rightarrow> Ret (unauthorized (Errorf ''the bearer token was rejected'' []))
          | Inr identity \<Rightarrow> next' (Some identity))"
      using False Inr by (simp add: RequireAuthentication_def)
    show ?thesis
      unfolding req
    proof (rule runs_seq [OF runs_Verify], goal_cases)
      case (1 t1 r)
      show ?case
      proof (cases r)
        case (Inl e)
        with 1 show ?thesis by (auto simp: unauthorized_def)
      next
        case (Inr who)
        with 1 \<open>bearerToken header = Inr raw\<close> have acc: "accepted_token clientID header t1 who"
          by (auto simp: accepted_token_def)
        show ?thesis
          unfolding Inr sum.case by (rule runs_mono [OF assms [of "Some who"]]) (use acc in blast)
      qed
    qed
  qed
qed

end
