(* ===== verification/Startup.thy ===== *)
theory Startup
  imports Auth Registry
begin

text \<open>
  The start of the server: its configuration (\<^verbatim>\<open>internal/config/config.go\<close>), the check of the
  identity block and the choice of the token verifier (\<^verbatim>\<open>cmd/server/main.go\<close>). The environment is
  a map that does not change while the process runs. Ending the process is an outcome.
\<close>

subsection \<open>Configuration\<close>

record oidc_config =
  oc_Issuer :: string
  oc_ClientID :: string
  oc_Disabled :: bool

record config =
  cf_ServerPort :: string
  cf_PlatformNamespace :: string
  cf_AllowedOrigins :: string
  cf_LogLevel :: string
  cf_KuboCDNamespace :: string
  cf_ContextName :: string
  cf_ContextNamespace :: string
  cf_ReleaseInterval :: string
  cf_ReleaseTimeout :: string
  cf_ExcludedSidecarPrefixes :: "string list"
  cf_InsecureOCIRegistries :: "string list"
  cf_RegistryAuthFile :: string
  cf_OIDC :: oidc_config

type_synonym environment = "string \<Rightarrow> string option"

definition getEnv :: "environment \<Rightarrow> string \<Rightarrow> string \<Rightarrow> string" where
  "getEnv env key defaultValue = (case env key of Some value \<Rightarrow> value | None \<Rightarrow> defaultValue)"

definition defaultSidecarPrefixes :: string where
  "defaultSidecarPrefixes = ''istio-proxy,istio-init,dynatrace-,linkerd-proxy,envoy,vault-agent''"

definition ownNamespace :: "environment \<Rightarrow> string kprog" where
  "ownNamespace env =
     Call (KReadFile ''/var/run/secrets/kubernetes.io/serviceaccount/namespace'') (\<lambda>r. Ret (
       let ns = (case r of RText b \<Rightarrow> trim_space b | _ \<Rightarrow> []);
           pod = (case env ''POD_NAMESPACE'' of Some v \<Rightarrow> v | None \<Rightarrow> [])
       in if ns \<noteq> [] then ns else if pod \<noteq> [] then pod else ''okdp-system''))"

definition trimmed_list :: "string \<Rightarrow> string list" where
  "trimmed_list raw = filter (\<lambda>s. s \<noteq> []) (map trim_space (split_char (CHR '','') raw))"

definition Load :: "environment \<Rightarrow> config kprog" where
  "Load env =
     (let namespace = getEnv env ''CONTEXT_NAMESPACE'' [];
          cfg = \<lparr>cf_ServerPort = getEnv env ''PORT'' ''8093'',
            cf_PlatformNamespace = getEnv env ''PLATFORM_NAMESPACE'' ''okdp-system'',
            cf_AllowedOrigins = getEnv env ''ALLOWED_ORIGINS'' ''http://localhost:4200'',
            cf_LogLevel = getEnv env ''LOG_LEVEL'' ''info'',
            cf_KuboCDNamespace = getEnv env ''KUBOCD_NAMESPACE'' ''kubocd-system'',
            cf_ContextName = getEnv env ''CONTEXT_NAME'' ''platform'',
            cf_ContextNamespace = namespace,
            cf_ReleaseInterval = getEnv env ''RELEASE_INTERVAL'' ''30m'',
            cf_ReleaseTimeout = getEnv env ''RELEASE_TIMEOUT'' ''10m'',
            cf_ExcludedSidecarPrefixes =
              trimmed_list (getEnv env ''EXCLUDED_SIDECAR_PREFIXES'' defaultSidecarPrefixes),
            cf_InsecureOCIRegistries = trimmed_list (getEnv env ''INSECURE_OCI_REGISTRIES'' []),
            cf_RegistryAuthFile = getEnv env ''REGISTRY_AUTH_FILE'' [],
            cf_OIDC = \<lparr>oc_Issuer = trim_space (getEnv env ''OIDC_ISSUER'' []),
              oc_ClientID = trim_space (getEnv env ''OIDC_CLIENT_ID'' []),
              oc_Disabled = (getEnv env ''AUTH_DISABLED'' [] = ''true'')\<rparr>\<rparr>
      in if namespace \<noteq> [] then Ret cfg
         else prog_bind (ownNamespace env) (\<lambda>ns. Ret (cfg\<lparr>cf_ContextNamespace := ns\<rparr>)))"

subsection \<open>The identity block\<close>

text \<open>The server goes on, with what it computed, or stops with a message.\<close>

datatype 'a outcome = Continue 'a | Fatal string "farg list"

text \<open>
  \<^verbatim>\<open>GetIdentity\<close> returns a nil block when the Context cannot be read, and the block with an error
  when the block is wrong: the first is an error of the read, the second of the value.
\<close>

definition check_provider :: "bool kprog \<Rightarrow> string \<Rightarrow> unit outcome kprog" where
  "check_provider Available provider =
     (if provider = [] \<or> provider = ProviderNone then Ret (Continue ())
      else if provider = ProviderKubauth then
        prog_bind Available (\<lambda>installed.
          if \<not> installed then
            Ret (Fatal ''identity.provisioning.provider is %q but the kubauth CRDs are not installed on this cluster. Install kubauth, or set it to %q if another mechanism makes the OAuth client Secrets.''
                   [FStr ProviderKubauth, FStr ProviderNone])
          else prog_bind GetKubauthNamespace (\<lambda>r. Ret (case r of
              Inl e \<Rightarrow> Fatal ''identity.provisioning.provider is %q but the kubauth namespace is unreadable: %v''
                          [FStr ProviderKubauth, FErr e]
            | Inr _ \<Rightarrow> Continue ())))
      else if provider = ProviderKeycloak then
        prog_bind GetKeycloakProvisioningConfig (\<lambda>r. Ret (case r of
            Inl e \<Rightarrow> Fatal ''identity.provisioning.provider is %q but its configuration is unusable: %v''
                        [FStr ProviderKeycloak, FErr e]
          | Inr _ \<Rightarrow> Continue ()))
      else Ret (Fatal ''identity.provisioning.provider is %q, which is not supported. Use %q, %q or %q.''
                  [FStr provider, FStr ProviderNone, FStr ProviderKubauth, FStr ProviderKeycloak]))"

definition checkIdentityConfiguration :: "bool kprog \<Rightarrow> unit outcome kprog" where
  "checkIdentityConfiguration Available =
     prog_bind (reading (\<lambda>u. Inr (GetIdentity_of u))) (\<lambda>r. case r of
         Inl e \<Rightarrow> Ret (Continue ())
       | Inr (Inl e) \<Rightarrow> Ret (Fatal ''Invalid oidc client-provisioning configuration: %v'' [FErr e])
       | Inr (Inr identity) \<Rightarrow>
           prog_bind GetIdentityProvisioningProvider (\<lambda>p. case p of
               Inl e \<Rightarrow> Ret (Continue ())
             | Inr provider \<Rightarrow> check_provider Available provider))"

subsection \<open>The verifier\<close>

text \<open>\<^term>\<open>Continue None\<close>: the API runs without verification; otherwise the client id it verifies.\<close>

definition buildTokenVerifier ::
    "(string \<Rightarrow> bool \<Rightarrow> (gerr + unit) kprog) \<Rightarrow> config \<Rightarrow> string option outcome kprog" where
  "buildTokenVerifier NewProvider cfg =
     (if oc_Disabled (cf_OIDC cfg) then Ret (Continue None)
      else prog_bind (ResolveIssuer (oc_Issuer (cf_OIDC cfg)) GetOidcIssuer) (\<lambda>r. case r of
          Inl e \<Rightarrow> Ret (Fatal ''Failed to resolve the OIDC issuer: %v'' [FErr e])
        | Inr issuer \<Rightarrow>
            prog_bind (ResolveClientID (oc_ClientID (cf_OIDC cfg)) GetOidcClientID) (\<lambda>r. case r of
                Inl e \<Rightarrow> Ret (Fatal ''Failed to resolve the OIDC client id: %v'' [FErr e])
              | Inr clientID \<Rightarrow>
                  prog_bind GetOidcInsecureSkipVerify (\<lambda>i.
                    let insecure = (case i of Inr b \<Rightarrow> b | Inl _ \<Rightarrow> False) in
                    prog_bind (NewVerifier NewProvider
                        \<lparr>vf_Issuer = issuer, vf_InsecureSkipVerify = insecure, vf_ClientID = clientID\<rparr>)
                      (\<lambda>v. Ret (case v of
                         Inl e \<Rightarrow> Fatal ''Failed to initialize token verification: %v'' [FErr e]
                       | Inr clientID \<Rightarrow> Continue (Some clientID)))))))"

text \<open>The verification is off only when the configuration says so, and never for an unnamed client.\<close>

definition verifier_choice :: "config \<Rightarrow> string option outcome \<Rightarrow> bool" where
  "verifier_choice cfg x =
     (case x of Continue None \<Rightarrow> oc_Disabled (cf_OIDC cfg)
      | Continue (Some clientID) \<Rightarrow> \<not> oc_Disabled (cf_OIDC cfg) \<and> clientID \<noteq> [] \<and>
          (oc_ClientID (cf_OIDC cfg) = [] \<or> clientID = oc_ClientID (cf_OIDC cfg))
      | Fatal m as \<Rightarrow> \<not> oc_Disabled (cf_OIDC cfg))"

lemma runs_resolve_issuer:
  "runs (resolve_setting u m override f) (\<lambda>tr x. \<forall>v. x = Inr v \<longrightarrow> v \<noteq> [] \<and> (override = [] \<or> v = override))"
  by (auto simp: resolve_setting_def runs_bind intro!: runs_mono [OF runs_True] split: sum.splits if_splits)

lemma runs_NewVerifier:
  "runs (NewVerifier NewProvider cfg) (\<lambda>tr x. \<forall>v. x = Inr v \<longrightarrow> v = vf_ClientID cfg \<and> v \<noteq> [])"
  by (auto simp: NewVerifier_def runs_bind intro!: runs_mono [OF runs_True] split: sum.splits)

lemma runs_buildTokenVerifier:
  "runs (buildTokenVerifier NewProvider cfg) (\<lambda>tr x. verifier_choice cfg x)"
proof (cases "oc_Disabled (cf_OIDC cfg)")
  case False
  have new: "runs (prog_bind (NewVerifier NewProvider \<lparr>vf_Issuer = issuer, vf_InsecureSkipVerify = insecure,
        vf_ClientID = clientID\<rparr>) (\<lambda>v. Ret (case v of
           Inl e \<Rightarrow> Fatal ''Failed to initialize token verification: %v'' [FErr e]
         | Inr clientID \<Rightarrow> Continue (Some clientID)))) (\<lambda>tr x. verifier_choice cfg x)"
    if "oc_ClientID (cf_OIDC cfg) = [] \<or> clientID = oc_ClientID (cf_OIDC cfg)" for issuer insecure clientID
    by (rule runs_seq [OF runs_NewVerifier]) (use that False in \<open>auto simp: verifier_choice_def split: sum.split\<close>)
  have client: "runs (prog_bind (ResolveClientID (oc_ClientID (cf_OIDC cfg)) GetOidcClientID) (\<lambda>r. case r of
        Inl e \<Rightarrow> Ret (Fatal ''Failed to resolve the OIDC client id: %v'' [FErr e])
      | Inr clientID \<Rightarrow>
          prog_bind GetOidcInsecureSkipVerify (\<lambda>i.
            let insecure = (case i of Inr b \<Rightarrow> b | Inl _ \<Rightarrow> False) in
            prog_bind (NewVerifier NewProvider
                \<lparr>vf_Issuer = issuer, vf_InsecureSkipVerify = insecure, vf_ClientID = clientID\<rparr>)
              (\<lambda>v. Ret (case v of
                 Inl e \<Rightarrow> Fatal ''Failed to initialize token verification: %v'' [FErr e]
               | Inr clientID \<Rightarrow> Continue (Some clientID))))))
      (\<lambda>tr x. verifier_choice cfg x)" for issuer
    unfolding ResolveClientID_def
  proof (rule runs_seq [OF runs_resolve_issuer], goal_cases)
    case (1 t1 r)
    show ?case
    proof (cases r)
      case (Inl e)
      with False show ?thesis by (simp add: verifier_choice_def)
    next
      case (Inr c)
      show ?thesis
        unfolding Inr sum.case Let_def
        by (rule runs_seq [OF runs_True]) (rule new, use 1 Inr in auto)
    qed
  qed
  show ?thesis
    unfolding buildTokenVerifier_def if_not_P [OF False]
  proof (rule runs_seq [OF runs_True], goal_cases)
    case (1 t1 r)
    show ?case
    proof (cases r)
      case (Inl e)
      with False show ?thesis by (simp add: verifier_choice_def)
    next
      case (Inr issuer)
      then show ?thesis unfolding Inr sum.case by (intro client)
    qed
  qed
qed (simp add: buildTokenVerifier_def verifier_choice_def)

text \<open>A platform whose provider was read starts only with a provider the server can act on.\<close>

lemma runs_check_provider:
  "runs (check_provider Available provider) (\<lambda>tr x. x = Continue () \<longrightarrow>
     provider \<in> {[], ProviderNone, ProviderKubauth, ProviderKeycloak})"
  by (auto simp: check_provider_def runs_bind intro!: runs_mono [OF runs_True])

end
