(* ===== verification/Http.thy ===== *)
theory Http
  imports Spark Secret_Stores External_Secrets Identity Service_Metrics Connection_Consumers
    Connection_Write Connection_Testers Startup Package_Schema
begin

text \<open>
  Requests and answers of the HTTP layer (\<^verbatim>\<open>internal/api/handlers\<close>). A request carries the body as
  \<^verbatim>\<open>ShouldBindJSON\<close> reads it into the type a handler asks for: an error, or a value. Answers carry
  one of the models of the API. A stream is the events sent until it ends, for the events that
  reach it.
\<close>

subsection \<open>Streams\<close>

text \<open>What the loop of a watch stream receives, in order.\<close>

datatype feed =
    Cancelled
  | Keepalive bool
  | WatchEvent string kobj
  | WatchClosed

datatype 'b sent = Comment | SSE string 'b

text \<open>
  A watch stream: \<^verbatim>\<open>convert\<close> is what the handler makes of the object of an event, nothing for an
  object of another type. A keepalive that cannot be written ends the stream, as the end of the
  request and the end of the watch do.
\<close>

fun watch_stream :: "(kobj \<Rightarrow> 'b option kprog) \<Rightarrow> feed list \<Rightarrow> (string \<times> 'b) sent list kprog" where
  "watch_stream convert [] = Ret []"
| "watch_stream convert (Cancelled # fs) = Ret []"
| "watch_stream convert (WatchClosed # fs) = Ret []"
| "watch_stream convert (Keepalive written # fs) =
     (if written then prog_bind (watch_stream convert fs) (\<lambda>rest. Ret (Comment # rest)) else Ret [])"
| "watch_stream convert (WatchEvent type obj # fs) =
     prog_bind (convert obj) (\<lambda>o'. prog_bind (watch_stream convert fs) (\<lambda>rest. Ret (case o' of
         None \<Rightarrow> rest
       | Some b \<Rightarrow> SSE ''message'' (type, b) # rest)))"

text \<open>The stream of a log (\<^verbatim>\<open>log_stream.go\<close>): the scanner stops at a line that is too long.\<close>

datatype scan_error = TooLong | OtherScanError

datatype log_feed =
    LogCancelled
  | LogKeepalive bool
  | LogLine string
  | LogEnd "scan_error option"

definition logStreamErrorMessage :: "scan_error \<Rightarrow> string" where
  "logStreamErrorMessage e =
     (if e = TooLong then ''log line too long, stream interrupted'' else ''log stream interrupted'')"

fun log_stream :: "log_feed list \<Rightarrow> string sent list" where
  "log_stream [] = []"
| "log_stream (LogCancelled # fs) = []"
| "log_stream (LogKeepalive written # fs) = (if written then Comment # log_stream fs else [])"
| "log_stream (LogLine line # fs) = SSE ''message'' line # log_stream fs"
| "log_stream (LogEnd e # fs) =
     (case e of None \<Rightarrow> [] | Some err \<Rightarrow> [SSE ''error'' (logStreamErrorMessage err)])"

subsection \<open>Requests\<close>

record bindings =
  bd_Project :: "gerr + project"
  bd_User :: "gerr + user_model"
  bd_Group :: "gerr + group_model"
  bd_SecretStore :: "gerr + store_request"
  bd_ExternalSecret :: "gerr + external_request"
  bd_Connection :: "gerr + connection_request"
  bd_ConnectionTest :: "gerr + connection_test_request"
  bd_PlatformService :: "gerr + platform_service"
  bd_Service :: "gerr + service_request"
  bd_ServiceUpdate :: "gerr + service_update_request"
  bd_SparkApp :: "gerr + spark_request"
  bd_SparkYAML :: "gerr + string"
  bd_SparkUpdate :: "gerr + spark_update_request"

text \<open>
  A request, with the parameters of the route it matched and, for a stream, what reaches it
  afterwards.
\<close>

record http_request =
  rq_Method :: string
  rq_Path :: "string list"
  rq_Authorization :: string
  rq_Query :: "string gomap"
  rq_Body :: bindings
  rq_Feed :: "feed list"
  rq_LogFeed :: "log_feed list"
  rq_Params :: "string gomap"

definition param :: "http_request \<Rightarrow> string \<Rightarrow> string" where
  "param rq k = mstr (rq_Params rq) k"

definition query :: "http_request \<Rightarrow> string \<Rightarrow> string" where
  "query rq k = mstr (rq_Query rq) k"

abbreviation project_of :: "http_request \<Rightarrow> string" where "project_of rq \<equiv> param rq ''name''"

subsection \<open>Answers\<close>

datatype (plugins only: code) model =
    MHealth
  | MCapabilities capabilities
  | MProjects "project list" | MProject project
  | MUsers "user_model list" | MUser user_model
  | MGroups "group_model list" | MGroup group_model
  | MStores "store_response list" | MStore store_response | MStoreStatus store_status_response
  | MTestOK string
  | MExternals "external_response list" | MExternal external_response
  | MExternalStatus external_status_response
  | MContracts "contract_descriptor list \<times> bool"
  | MConnections "connection_response list" | MConnection connection_response
  | MInternal "internal_connection list" | MSelectable "selectable_connection list"
  | MConsumers "connection_consumer list" | MTestResult connection_test_result
  | MPlatformServices "platform_service list" | MPlatformService platform_service
  | MCategories "menu_category list" | MVersions "string list \<times> string"
  | MInputs "package_input list" | MSchema "goval gomap" | MImages "profile_image list gomap"
  | MServices "service_instance list" | MService service_instance
  | MPods "pod_view list" | MMetrics service_metrics | MProjectMetrics "service_metrics gomap"
  | MSparkConfig spark_config | MSparkApps "spark_instance list" | MSparkApp spark_instance
  | MSparkUI spark_ui
  | MLog log_request | MLogStream log_request "string sent list"
  | MProjectStream "(string \<times> project) sent list"
  | MServiceStream "(string \<times> service_instance) sent list"
  | MSparkStream "(string \<times> spark_instance) sent list"

type_synonym answer = "model reply"

text \<open>A handler that asks a service, and answers a model or what it makes of the error.\<close>

definition answer_with :: "nat \<Rightarrow> ('a \<Rightarrow> model) \<Rightarrow> (gerr \<Rightarrow> answer) \<Rightarrow> (gerr + 'a) kprog \<Rightarrow> answer kprog" where
  "answer_with ok model failed p =
     prog_bind p (\<lambda>r. Ret (case r of Inl e \<Rightarrow> failed e | Inr a \<Rightarrow> Body ok (model a)))"

definition answer_none :: "(gerr \<Rightarrow> answer) \<Rightarrow> (gerr + unit) kprog \<Rightarrow> answer kprog" where
  "answer_none failed p = prog_bind p (\<lambda>r. Ret (case r of Inl e \<Rightarrow> failed e | Inr _ \<Rightarrow> Bare 204))"

definition with_body :: "gerr + 'r \<Rightarrow> ('r \<Rightarrow> answer kprog) \<Rightarrow> answer kprog" where
  "with_body bound k = (case bound of Inl e \<Rightarrow> Ret (ErrText 400 e) | Inr req \<Rightarrow> k req)"

definition internal_error :: "gerr \<Rightarrow> answer" where "internal_error e = ErrText 500 e"

definition missing_or_internal :: "string \<Rightarrow> farg list \<Rightarrow> gerr \<Rightarrow> answer" where
  "missing_or_internal message args e =
     (if is_not_found e then Message 404 message args else ErrText 500 e)"

definition exists_or_internal :: "string \<Rightarrow> farg list \<Rightarrow> gerr \<Rightarrow> answer" where
  "exists_or_internal message args e =
     (if is_already_exists e then Message 409 message args else ErrText 500 e)"

text \<open>The lines of a log a client asks for: a hundred, or the positive number it gives.\<close>

definition tail_lines :: "http_request \<Rightarrow> int" where
  "tail_lines rq =
     (case atoi (query rq ''tailLines'') of Some v \<Rightarrow> if v > 0 then v else 100 | None \<Rightarrow> 100)"

definition serve_log :: "http_request \<Rightarrow> (gerr \<Rightarrow> answer) \<Rightarrow> (gerr + log_request) kprog \<Rightarrow> answer kprog" where
  "serve_log rq failed p =
     answer_with 200 (\<lambda>log. if lr_Follow log then MLogStream log (log_stream (rq_LogFeed rq)) else MLog log)
       failed p"

definition stream_answer ::
    "(gerr + bool) kprog \<Rightarrow> ((string \<times> 'b) sent list \<Rightarrow> model) \<Rightarrow> (kobj \<Rightarrow> 'b option kprog) \<Rightarrow> feed list \<Rightarrow> answer kprog" where
  "stream_answer open' model convert feed =
     prog_bind open' (\<lambda>r. case r of
         Inl e \<Rightarrow> Ret (ErrText 500 e)
       | Inr live \<Rightarrow> prog_bind (watch_stream convert (if live then feed else [WatchClosed]))
           (\<lambda>sent. Ret (Body 200 (model sent))))"

definition opened :: "(gerr + unit) kprog \<Rightarrow> (gerr + bool) kprog" where
  "opened p = try_bind p (\<lambda>_. Ret (Inr True))"

subsection \<open>What a program may change\<close>

text \<open>Every change the program asks for is one that \<^term>\<open>P\<close> allows.\<close>

definition only :: "(kcall \<Rightarrow> bool) \<Rightarrow> 'a kprog \<Rightarrow> bool" where
  "only P p = runs p (\<lambda>tr x. list_all P (writes tr))"

named_theorems only_intros \<open>what a composition of programs may change\<close>

lemma only_Ret [only_intros]: "only P (Ret a)"
  by (simp add: only_def)

lemma only_Call [only_intros]:
  assumes "is_write c \<Longrightarrow> P c" and "\<And>r. only P (k r)"
  shows "only P (Call c k)"
  unfolding only_def
  by (auto simp: assms(1) intro!: runs_mono [OF assms(2) [unfolded only_def]])

lemma only_bind [only_intros]: "only P p \<Longrightarrow> (\<And>a. only P (f a)) \<Longrightarrow> only P (prog_bind p f)"
  unfolding only_def by (rule runs_seq, assumption) (auto elim: runs_mono)

lemma only_try_bind [only_intros]: "only P p \<Longrightarrow> (\<And>a. only P (f a)) \<Longrightarrow> only P (try_bind p f)"
  unfolding only_def by (rule runs_try_seq, assumption) (auto elim: runs_mono)

lemma only_try_pure [only_intros]: "(\<And>a. only P (f a)) \<Longrightarrow> only P (try_pure p f)"
  by (auto simp: only_def try_pure_def split: sum.split)

lemma only_call [only_intros]:
  "(is_write c \<Longrightarrow> P c) \<Longrightarrow> only P (call_unit c)"
  "(is_write c \<Longrightarrow> P c) \<Longrightarrow> only P (call_obj c)"
  "(is_write c \<Longrightarrow> P c) \<Longrightarrow> only P (call_items c)"
  "(is_write c \<Longrightarrow> P c) \<Longrightarrow> only P (call_bool c)"
  by (auto simp: only_def runs_simps)

lemma only_if [only_intros]: "(b \<Longrightarrow> only P p) \<Longrightarrow> (\<not> b \<Longrightarrow> only P q) \<Longrightarrow> only P (if b then p else q)"
  by simp

lemma only_sum [only_intros]:
  "(\<And>e. r = Inl e \<Longrightarrow> only P (f e)) \<Longrightarrow> (\<And>a. r = Inr a \<Longrightarrow> only P (g a)) \<Longrightarrow>
     only P (case r of Inl e \<Rightarrow> f e | Inr a \<Rightarrow> g a)"
  by (simp split: sum.split)

lemma only_option [only_intros]:
  "(r = None \<Longrightarrow> only P p) \<Longrightarrow> (\<And>a. r = Some a \<Longrightarrow> only P (g a)) \<Longrightarrow>
     only P (case r of None \<Rightarrow> p | Some a \<Rightarrow> g a)"
  by (simp split: option.split)

lemma only_list [only_intros]:
  "(r = [] \<Longrightarrow> only P p) \<Longrightarrow> (\<And>x xs. r = x # xs \<Longrightarrow> only P (g x xs)) \<Longrightarrow>
     only P (case r of [] \<Rightarrow> p | x # xs \<Rightarrow> g x xs)"
  by (simp split: list.split)

lemma only_prod [only_intros]: "(\<And>a b. r = (a, b) \<Longrightarrow> only P (g a b)) \<Longrightarrow> only P (case r of (a, b) \<Rightarrow> g a b)"
  by (simp split: prod.split)

lemma only_Let [only_intros]: "only P (g a) \<Longrightarrow> only P (let x = a in g x)"
  by simp

lemma only_mono: "only P p \<Longrightarrow> (\<And>c. P c \<Longrightarrow> Q c) \<Longrightarrow> only Q p"
  unfolding only_def by (erule runs_mono) (simp add: list_all_iff)

lemma only_of_runs: "runs p (\<lambda>tr x. writes tr = []) \<Longrightarrow> only P p"
  unfolding only_def by (erule runs_mono) simp

lemma only_watch_stream [only_intros]:
  "(\<And>k. only P (convert k)) \<Longrightarrow> only P (watch_stream convert fs)"
  by (induction fs rule: watch_stream.induct) (auto intro!: only_intros)

lemma only_answer [only_intros]:
  "only P p \<Longrightarrow> only P (answer_with ok model failed p)"
  "only P p' \<Longrightarrow> only P (answer_none failed p')"
  "only P p'' \<Longrightarrow> only P (serve_log rq failed p'')"
  unfolding answer_with_def answer_none_def serve_log_def by (auto intro!: only_intros)

lemma only_with_body [only_intros]: "(\<And>r. only P (k r)) \<Longrightarrow> only P (with_body b k)"
  unfolding with_body_def by (auto intro!: only_intros)

lemma only_stream_answer [only_intros]:
  "only P op \<Longrightarrow> (\<And>k. only P (convert k)) \<Longrightarrow> only P (stream_answer op model convert fs)"
  unfolding stream_answer_def by (auto intro!: only_intros)

lemma only_opened [only_intros]: "only P p \<Longrightarrow> only P (opened p)"
  unfolding opened_def by (auto intro!: only_intros)

end
