(* ===== verification/Handlers.thy ===== *)
theory Handlers
  imports Http
begin

text \<open>
  The handlers of \<^verbatim>\<open>internal/api/handlers\<close>: what each reads of a request, the operation it calls and
  the status and body it answers on every outcome. The record of the components is what the
  handlers are built with.
\<close>

record components =
  cs_Lib :: extlib
  cs_Contracts :: catalog_iface
  cs_Service :: service_config
  cs_Schema :: schema_config
  cs_Provisioner :: oidc_provisioner
  cs_KubauthNamespace :: "string kprog"

abbreviation quoted_end :: string where "quoted_end \<equiv> [CHR 0x27]"

subsection \<open>Capabilities and projects\<close>

definition h_GetCapabilities :: "http_request \<Rightarrow> answer kprog" where
  "h_GetCapabilities rq =
     answer_with 200 MCapabilities internal_error (GetCapabilities (Some IdentityRepository_Available))"

definition h_ListProjects :: "http_request \<Rightarrow> answer kprog" where
  "h_ListProjects rq = answer_with 200 MProjects internal_error ListProjects"

definition project_missing :: "gerr \<Rightarrow> answer" where
  "project_missing = missing_or_internal ''Project not found'' []"

definition h_GetProject :: "http_request \<Rightarrow> answer kprog" where
  "h_GetProject rq = answer_with 200 MProject project_missing (GetProject (project_of rq))"

definition h_CreateProject :: "http_request \<Rightarrow> answer kprog" where
  "h_CreateProject rq = with_body (bd_Project (rq_Body rq)) (\<lambda>project.
     answer_with 201 (\<lambda>_. MProject project) internal_error (CreateProject project))"

definition h_UpdateProject :: "http_request \<Rightarrow> answer kprog" where
  "h_UpdateProject rq = with_body (bd_Project (rq_Body rq)) (\<lambda>project.
     answer_with 200 MProject project_missing (UpdateProject (project\<lparr>pj_Name := project_of rq\<rparr>)))"

definition h_DeleteProject :: "http_request \<Rightarrow> answer kprog" where
  "h_DeleteProject rq = answer_none project_missing (DeleteProject (project_of rq))"

definition watched_project :: "kobj \<Rightarrow> project option kprog" where
  "watched_project obj = Ret (map_option namespaceToProject (is_namespace obj))"

definition h_StreamProjects :: "http_request \<Rightarrow> answer kprog" where
  "h_StreamProjects rq =
     stream_answer (opened ProjectRepository_Watch) MProjectStream watched_project (rq_Feed rq)"

subsection \<open>Identity\<close>

definition h_ListUsers :: "components \<Rightarrow> http_request \<Rightarrow> answer kprog" where
  "h_ListUsers S rq = answer_with 200 MUsers internal_error (ListUsers (cs_KubauthNamespace S))"

definition h_GetUser :: "components \<Rightarrow> http_request \<Rightarrow> answer kprog" where
  "h_GetUser S rq = answer_with 200 MUser (missing_or_internal ''User not found'' [])
     (GetUser (cs_KubauthNamespace S) (param rq ''name''))"

text \<open>The user the client sent is what it is answered, its password included.\<close>

definition h_CreateUser :: "components \<Rightarrow> http_request \<Rightarrow> answer kprog" where
  "h_CreateUser S rq = with_body (bd_User (rq_Body rq)) (\<lambda>user.
     answer_with 201 (\<lambda>_. MUser user) internal_error (CreateUser (cs_KubauthNamespace S) user))"

definition h_UpdateUser :: "components \<Rightarrow> http_request \<Rightarrow> answer kprog" where
  "h_UpdateUser S rq = with_body (bd_User (rq_Body rq)) (\<lambda>user0.
     let user = user0\<lparr>um_Name := param rq ''name''\<rparr> in
     answer_with 200 (\<lambda>_. MUser user) internal_error
       (UpdateUser (cs_KubauthNamespace S) (param rq ''name'') user))"

definition h_DeleteUser :: "components \<Rightarrow> http_request \<Rightarrow> answer kprog" where
  "h_DeleteUser S rq = answer_none internal_error (DeleteUser (cs_KubauthNamespace S) (param rq ''name''))"

definition h_ListGroups :: "components \<Rightarrow> http_request \<Rightarrow> answer kprog" where
  "h_ListGroups S rq = answer_with 200 MGroups internal_error (ListGroups (cs_KubauthNamespace S))"

definition h_CreateGroup :: "components \<Rightarrow> http_request \<Rightarrow> answer kprog" where
  "h_CreateGroup S rq = with_body (bd_Group (rq_Body rq)) (\<lambda>grp.
     answer_with 201 (\<lambda>_. MGroup grp) internal_error (CreateGroup (cs_KubauthNamespace S) grp))"

definition h_UpdateGroup :: "components \<Rightarrow> http_request \<Rightarrow> answer kprog" where
  "h_UpdateGroup S rq = with_body (bd_Group (rq_Body rq)) (\<lambda>grp.
     answer_with 200 (\<lambda>_. MGroup grp) internal_error
       (UpdateGroup (cs_KubauthNamespace S) (param rq ''name'') grp))"

definition h_DeleteGroup :: "components \<Rightarrow> http_request \<Rightarrow> answer kprog" where
  "h_DeleteGroup S rq = answer_none internal_error (DeleteGroup (cs_KubauthNamespace S) (param rq ''name''))"

subsection \<open>Secret stores\<close>

abbreviation store_named :: "http_request \<Rightarrow> string \<Rightarrow> farg list" where
  "store_named rq name \<equiv> [FStr name, FStr (project_of rq)]"

definition h_ListSecretStores :: "http_request \<Rightarrow> answer kprog" where
  "h_ListSecretStores rq = answer_with 200 MStores internal_error (ListSecretStores (project_of rq))"

definition create_store_error :: "http_request \<Rightarrow> string \<Rightarrow> gerr \<Rightarrow> answer" where
  "create_store_error rq name e =
     (if is_already_exists e then
        Message 409 (''Secret store '%s' already exists in project '%s'' @ quoted_end) (store_named rq name)
      else if is_validation e then ErrText 400 e
      else ErrText 500 e)"

definition h_CreateSecretStore :: "components \<Rightarrow> http_request \<Rightarrow> answer kprog" where
  "h_CreateSecretStore S rq = with_body (bd_SecretStore (rq_Body rq)) (\<lambda>req.
     answer_with 201 MStore (create_store_error rq (sr_Name req))
       (CreateSecretStore (cs_Lib S) (project_of rq) req))"

definition store_missing :: "http_request \<Rightarrow> gerr \<Rightarrow> answer" where
  "store_missing rq = missing_or_internal (''Secret store '%s' not found in project '%s'' @ quoted_end)
     (store_named rq (param rq ''storeName''))"

definition update_store_error :: "http_request \<Rightarrow> gerr \<Rightarrow> answer" where
  "update_store_error rq e =
     (if is_not_found e then store_missing rq e
      else if is_validation e then ErrText 400 e
      else ErrText 500 e)"

definition h_UpdateSecretStore :: "components \<Rightarrow> http_request \<Rightarrow> answer kprog" where
  "h_UpdateSecretStore S rq = with_body (bd_SecretStore (rq_Body rq)) (\<lambda>req.
     answer_with 200 MStore (update_store_error rq)
       (UpdateSecretStore (cs_Lib S) (project_of rq) (param rq ''storeName'') req))"

definition h_DeleteSecretStore :: "http_request \<Rightarrow> answer kprog" where
  "h_DeleteSecretStore rq =
     answer_none (store_missing rq) (DeleteSecretStore (project_of rq) (param rq ''storeName''))"

definition h_TestSecretStore :: "components \<Rightarrow> http_request \<Rightarrow> answer kprog" where
  "h_TestSecretStore S rq = with_body (bd_SecretStore (rq_Body rq)) (\<lambda>req.
     answer_with 200 (\<lambda>_. MTestOK ''Connection successful'') (\<lambda>e. ErrText 400 e)
       (store_TestConnection (cs_Lib S) req))"

definition h_SecretStoreStatus :: "http_request \<Rightarrow> answer kprog" where
  "h_SecretStoreStatus rq = answer_with 200 MStoreStatus (store_missing rq)
     (GetSecretStoreStatus (project_of rq) (param rq ''storeName''))"

subsection \<open>External secrets\<close>

definition isRejectedInput :: "gerr \<Rightarrow> bool" where
  "isRejectedInput e = (is_validation e \<or> is_invalid e \<or> is_bad_request e)"

definition isSecretStoreNotFoundError :: "extlib \<Rightarrow> gerr \<Rightarrow> bool" where
  "isSecretStoreNotFoundError L e =
     (str_contains (err_text L e) ''SecretStore'' \<and> str_contains (err_text L e) ''not found'')"

definition h_ListExternalSecrets :: "http_request \<Rightarrow> answer kprog" where
  "h_ListExternalSecrets rq =
     answer_with 200 MExternals internal_error (ListExternalSecrets (project_of rq))"

definition create_external_error :: "extlib \<Rightarrow> http_request \<Rightarrow> string \<Rightarrow> gerr \<Rightarrow> answer" where
  "create_external_error L rq name e =
     (if is_already_exists e then
        Message 409 (''ExternalSecret '%s' already exists in project '%s'' @ quoted_end)
          [FStr name, FStr (project_of rq)]
      else if is_not_found e \<or> isSecretStoreNotFoundError L e then ErrText 404 e
      else if isRejectedInput e then ErrText 400 e
      else ErrText 500 e)"

definition h_CreateExternalSecret :: "components \<Rightarrow> http_request \<Rightarrow> answer kprog" where
  "h_CreateExternalSecret S rq = with_body (bd_ExternalSecret (rq_Body rq)) (\<lambda>req.
     answer_with 201 MExternal (create_external_error (cs_Lib S) rq (xq_Name req))
       (CreateExternalSecret (cs_Lib S) (project_of rq) req))"

definition external_missing :: "http_request \<Rightarrow> gerr \<Rightarrow> answer" where
  "external_missing rq = missing_or_internal (''ExternalSecret '%s' not found in project '%s'' @ quoted_end)
     [FStr (param rq ''esName''), FStr (project_of rq)]"

definition update_external_error :: "extlib \<Rightarrow> http_request \<Rightarrow> gerr \<Rightarrow> answer" where
  "update_external_error L rq e =
     (if is_not_found e then external_missing rq e
      else if isSecretStoreNotFoundError L e then ErrText 404 e
      else if isRejectedInput e then ErrText 400 e
      else ErrText 500 e)"

definition h_UpdateExternalSecret :: "components \<Rightarrow> http_request \<Rightarrow> answer kprog" where
  "h_UpdateExternalSecret S rq = with_body (bd_ExternalSecret (rq_Body rq)) (\<lambda>req.
     answer_with 200 MExternal (update_external_error (cs_Lib S) rq)
       (UpdateExternalSecret (cs_Lib S) (project_of rq) (param rq ''esName'') req))"

definition h_DeleteExternalSecret :: "http_request \<Rightarrow> answer kprog" where
  "h_DeleteExternalSecret rq =
     answer_none (external_missing rq) (DeleteExternalSecret (project_of rq) (param rq ''esName''))"

definition h_ExternalSecretStatus :: "http_request \<Rightarrow> answer kprog" where
  "h_ExternalSecretStatus rq = answer_with 200 MExternalStatus (external_missing rq)
     (GetExternalSecretStatus (project_of rq) (param rq ''esName''))"

subsection \<open>Connections\<close>

definition h_GetContracts :: "components \<Rightarrow> http_request \<Rightarrow> answer kprog" where
  "h_GetContracts S rq =
     prog_bind (Connection_Catalog (cs_Contracts S)) (\<lambda>c. Ret (Body 200 (MContracts c)))"

definition h_ListConnections :: "components \<Rightarrow> http_request \<Rightarrow> answer kprog" where
  "h_ListConnections S rq =
     answer_with 200 MConnections internal_error (Connection_List (cs_Contracts S) (project_of rq))"

definition h_ListSelectable :: "http_request \<Rightarrow> answer kprog" where
  "h_ListSelectable rq =
     answer_with 200 MSelectable (\<lambda>_. Message 500 ''Failed to list selectable connections'' [])
       (Connection_ListSelectable (project_of rq) (query rq ''contract''))"

definition h_ListConsumers :: "http_request \<Rightarrow> answer kprog" where
  "h_ListConsumers rq =
     answer_with 200 MConsumers (\<lambda>_. Message 500 ''Failed to list the consumers of this connection'' [])
       (Connection_ListConsumers (project_of rq) (param rq ''connName''))"

definition h_ListInternalConnections :: "components \<Rightarrow> http_request \<Rightarrow> answer kprog" where
  "h_ListInternalConnections S rq =
     answer_with 200 MInternal internal_error (Connection_ListInternal (cs_Contracts S) (project_of rq))"

definition writeError :: "gerr \<Rightarrow> answer" where
  "writeError e =
     (if errors_is e ErrConnectionsUnavailable then ErrText 501 e
      else if is_not_found e then ErrText 404 e
      else if is_validation e then ErrText 400 e
      else ErrText 500 e)"

definition create_connection_error :: "string \<Rightarrow> gerr \<Rightarrow> answer" where
  "create_connection_error name e =
     (if is_already_exists e then Message 409 ''Connection '%s' already exists'' [FStr name]
      else writeError e)"

definition h_CreateConnection :: "components \<Rightarrow> http_request \<Rightarrow> answer kprog" where
  "h_CreateConnection S rq = with_body (bd_Connection (rq_Body rq)) (\<lambda>req.
     answer_with 201 MConnection (create_connection_error (cq_Name req))
       (Connection_Create (cs_Lib S) (cs_Contracts S) (project_of rq) req))"

definition h_UpdateConnection :: "components \<Rightarrow> http_request \<Rightarrow> answer kprog" where
  "h_UpdateConnection S rq = with_body (bd_Connection (rq_Body rq)) (\<lambda>req.
     answer_with 200 MConnection writeError
       (Connection_Update (cs_Lib S) (cs_Contracts S) (project_of rq) (param rq ''connName'') req))"

definition h_DeleteConnection :: "http_request \<Rightarrow> answer kprog" where
  "h_DeleteConnection rq =
     answer_none writeError (Connection_Delete (project_of rq) (param rq ''connName''))"

definition h_TestConnection :: "components \<Rightarrow> http_request \<Rightarrow> answer kprog" where
  "h_TestConnection S rq = with_body (bd_ConnectionTest (rq_Body rq)) (\<lambda>req.
     prog_bind (Connection_Test (cs_Lib S) (cs_Contracts S) req) (\<lambda>r. Ret (Body 200 (MTestResult r))))"

subsection \<open>The catalog\<close>

definition h_GetPlatformServices :: "components \<Rightarrow> http_request \<Rightarrow> answer kprog" where
  "h_GetPlatformServices S rq =
     answer_with 200 MPlatformServices internal_error (Service_GetPlatformServices (cs_Service S))"

definition h_GetMenuCategories :: "http_request \<Rightarrow> answer kprog" where
  "h_GetMenuCategories rq = answer_with 200 MCategories internal_error ContextRepository_GetMenuCategories"

definition writeCatalogError :: "gerr \<Rightarrow> answer" where
  "writeCatalogError e =
     (if errors_is e ErrCatalogValidation then ErrText 400 e
      else if errors_is e ErrCatalogServiceExists then ErrText 409 e
      else if errors_is e ErrCatalogServiceNotFound then ErrText 404 e
      else ErrText 500 e)"

definition h_CreatePlatformService :: "components \<Rightarrow> http_request \<Rightarrow> answer kprog" where
  "h_CreatePlatformService S rq = with_body (bd_PlatformService (rq_Body rq)) (\<lambda>req.
     answer_with 201 MPlatformService writeCatalogError
       (Service_AddPlatformService (cs_Lib S) (cs_Service S) req))"

definition h_UpdatePlatformService :: "components \<Rightarrow> http_request \<Rightarrow> answer kprog" where
  "h_UpdatePlatformService S rq = with_body (bd_PlatformService (rq_Body rq)) (\<lambda>req.
     answer_with 200 MPlatformService writeCatalogError
       (Service_UpdatePlatformService (cs_Lib S) (cs_Service S) (param rq ''serviceName'') req))"

definition h_DeletePlatformService :: "components \<Rightarrow> http_request \<Rightarrow> answer kprog" where
  "h_DeletePlatformService S rq = answer_none writeCatalogError
     (Service_RemovePlatformService (cs_Lib S) (cs_Service S) (param rq ''serviceName''))"

definition h_GetServiceVersions :: "components \<Rightarrow> http_request \<Rightarrow> answer kprog" where
  "h_GetServiceVersions S rq = answer_with 200 MVersions internal_error
     (GetServiceVersions (cs_Schema S) (param rq ''serviceName''))"

definition h_GetServiceInputs :: "components \<Rightarrow> http_request \<Rightarrow> answer kprog" where
  "h_GetServiceInputs S rq = answer_with 200 MInputs internal_error
     (GetPackageInputs (cs_Lib S) (cs_Schema S) (param rq ''serviceName'') (query rq ''tag''))"

definition h_GetServiceSchema :: "components \<Rightarrow> http_request \<Rightarrow> answer kprog" where
  "h_GetServiceSchema S rq = answer_with 200 MSchema internal_error
     (GetParameterSchema (cs_Lib S) (cs_Schema S) (param rq ''serviceName'') (query rq ''tag''))"

definition h_GetProfileImages :: "http_request \<Rightarrow> answer kprog" where
  "h_GetProfileImages rq = answer_with 200 MImages internal_error GetProfileImages"

subsection \<open>Deployed services\<close>

definition h_ListServices :: "components \<Rightarrow> http_request \<Rightarrow> answer kprog" where
  "h_ListServices S rq =
     answer_with 200 MServices internal_error (ListServices (cs_Service S) (project_of rq))"

definition h_DeployService :: "components \<Rightarrow> http_request \<Rightarrow> answer kprog" where
  "h_DeployService S rq = with_body (bd_Service (rq_Body rq)) (\<lambda>req.
     let instanceName = (if sq_InstanceName req = [] then sq_Service req else sq_InstanceName req) in
     answer_with 201 MService
       (exists_or_internal (''Instance '%s' already exists in project '%s'' @ quoted_end)
          [FStr instanceName, FStr (project_of rq)])
       (DeployService (cs_Lib S) (cs_Service S) (project_of rq) req))"

definition service_missing :: "http_request \<Rightarrow> gerr \<Rightarrow> answer" where
  "service_missing rq = missing_or_internal (''Service '%s' not found in project '%s'' @ quoted_end)
     [FStr (param rq ''serviceName''), FStr (project_of rq)]"

definition h_GetService :: "components \<Rightarrow> http_request \<Rightarrow> answer kprog" where
  "h_GetService S rq = answer_with 200 MService (service_missing rq)
     (GetService (cs_Lib S) (cs_Service S) (project_of rq) (param rq ''serviceName''))"

definition h_DeleteService :: "components \<Rightarrow> http_request \<Rightarrow> answer kprog" where
  "h_DeleteService S rq = answer_none (service_missing rq)
     (DeleteService (cs_Provisioner S) (project_of rq) (param rq ''serviceName''))"

definition h_UpdateServiceParameters :: "components \<Rightarrow> http_request \<Rightarrow> answer kprog" where
  "h_UpdateServiceParameters S rq = with_body (bd_ServiceUpdate (rq_Body rq)) (\<lambda>req.
     answer_with 200 MService (service_missing rq)
       (UpdateServiceParameters (cs_Lib S) (cs_Service S) (project_of rq) (param rq ''serviceName'') req))"

text \<open>Every event carries the instance with its address and the health of its pods.\<close>

definition watched_service :: "components \<Rightarrow> kobj \<Rightarrow> service_instance option kprog" where
  "watched_service S obj =
     (case is_raw obj of
        None \<Rightarrow> Ret None
      | Some u \<Rightarrow>
          prog_bind (setURLIfExposed (FromUnstructuredToServiceInstance u)) (\<lambda>i.
          prog_bind (EnrichPodHealth (cs_Service S) i) (\<lambda>i. Ret (Some i))))"

definition h_StreamServices :: "components \<Rightarrow> http_request \<Rightarrow> answer kprog" where
  "h_StreamServices S rq =
     stream_answer (opened (ServiceRepository_Watch (project_of rq) (project_of rq))) MServiceStream
       (watched_service S) (rq_Feed rq)"

definition h_ListPods :: "components \<Rightarrow> http_request \<Rightarrow> answer kprog" where
  "h_ListPods S rq = answer_with 200 MPods internal_error
     (ListPods (cs_Service S) (project_of rq) (param rq ''serviceName''))"

definition h_GetProjectMetrics :: "components \<Rightarrow> http_request \<Rightarrow> answer kprog" where
  "h_GetProjectMetrics S rq = answer_with 200 MProjectMetrics internal_error
     (GetProjectMetrics (cs_Lib S) (cs_Service S) (project_of rq))"

definition h_GetServiceMetrics :: "components \<Rightarrow> http_request \<Rightarrow> answer kprog" where
  "h_GetServiceMetrics S rq = answer_with 200 MMetrics internal_error
     (GetServiceMetrics (cs_Lib S) (project_of rq) (param rq ''serviceName''))"

definition h_GetPodLogs :: "http_request \<Rightarrow> answer kprog" where
  "h_GetPodLogs rq = serve_log rq internal_error
     (GetPodLogs (project_of rq) (param rq ''podName'') (query rq ''container'') (tail_lines rq)
        (query rq ''follow'' = ''true''))"

subsection \<open>Spark applications\<close>

definition h_SubmitSparkApp :: "http_request \<Rightarrow> answer kprog" where
  "h_SubmitSparkApp rq = with_body (bd_SparkApp (rq_Body rq)) (\<lambda>req.
     answer_with 201 MSparkApp
       (exists_or_internal (''SparkApplication '%s' already exists in project '%s'' @ quoted_end)
          [FStr (sj_Name req), FStr (project_of rq)])
       (SubmitApp (project_of rq) req))"

definition h_SubmitSparkAppYAML :: "components \<Rightarrow> http_request \<Rightarrow> answer kprog" where
  "h_SubmitSparkAppYAML S rq = with_body (bd_SparkYAML (rq_Body rq)) (\<lambda>yaml.
     answer_with 201 MSparkApp
       (exists_or_internal (''SparkApplication already exists in project '%s'' @ quoted_end)
          [FStr (project_of rq)])
       (SubmitAppYAML (cs_Lib S) (project_of rq) yaml))"

definition h_ListSparkApps :: "components \<Rightarrow> http_request \<Rightarrow> answer kprog" where
  "h_ListSparkApps S rq =
     answer_with 200 MSparkApps internal_error (ListApps (cs_Lib S) (project_of rq))"

definition app_missing :: "http_request \<Rightarrow> gerr \<Rightarrow> answer" where
  "app_missing rq = missing_or_internal (''SparkApplication '%s' not found in project '%s'' @ quoted_end)
     [FStr (param rq ''appName''), FStr (project_of rq)]"

definition h_GetSparkApp :: "http_request \<Rightarrow> answer kprog" where
  "h_GetSparkApp rq =
     answer_with 200 MSparkApp (app_missing rq) (GetApp (project_of rq) (param rq ''appName''))"

definition h_DeleteSparkApp :: "http_request \<Rightarrow> answer kprog" where
  "h_DeleteSparkApp rq =
     answer_none (app_missing rq) (DeleteApp (project_of rq) (param rq ''appName''))"

definition h_UpdateSparkApp :: "http_request \<Rightarrow> answer kprog" where
  "h_UpdateSparkApp rq = with_body (bd_SparkUpdate (rq_Body rq)) (\<lambda>req.
     answer_with 200 MSparkApp (app_missing rq)
       (UpdateApp (project_of rq) (param rq ''appName'') req))"

definition h_GetSparkUI :: "http_request \<Rightarrow> answer kprog" where
  "h_GetSparkUI rq =
     answer_with 200 MSparkUI (app_missing rq) (GetSparkUI (project_of rq) (param rq ''appName''))"

definition h_GetSparkAppLogs :: "http_request \<Rightarrow> answer kprog" where
  "h_GetSparkAppLogs rq = serve_log rq (app_missing rq)
     (GetDriverLogs (project_of rq) (param rq ''appName'') (query rq ''container'') (tail_lines rq)
        (query rq ''follow'' = ''true''))"

definition h_GetSparkConfig :: "http_request \<Rightarrow> answer kprog" where
  "h_GetSparkConfig rq = answer_with 200 MSparkConfig internal_error GetSparkConfig"

definition h_GetSparkAppSchema :: "http_request \<Rightarrow> answer kprog" where
  "h_GetSparkAppSchema rq = answer_with 200 MSchema (\<lambda>e. ErrText 404 e) GetCRDSchema"

definition watched_app :: "kobj \<Rightarrow> spark_instance option kprog" where
  "watched_app obj = Ret (map_option FromUnstructuredToSparkAppInstance (is_raw obj))"

definition h_StreamSparkApps :: "components \<Rightarrow> http_request \<Rightarrow> answer kprog" where
  "h_StreamSparkApps S rq =
     stream_answer (SparkRepository_Watch (cs_Lib S) (project_of rq) (project_of rq)) MSparkStream
       watched_app (rq_Feed rq)"

end
