(* ===== verification/Router.thy ===== *)
theory Router
  imports Handlers Builtin_Contracts
begin

text \<open>
  The routes of the API, the guards in front of them and the wiring of the components
  (\<^verbatim>\<open>internal/api/router/router.go\<close>, \<^verbatim>\<open>cmd/server/main.go\<close>). The router is gin's: a segment of a
  pattern that starts with a colon takes any segment that is not empty, and which one it prefers
  among several routes a request matches is a parameter. The documentation pages of
  \<^verbatim>\<open>/swagger\<close> are the library's and are left out.
\<close>

subsection \<open>The wiring\<close>

definition service_config_of :: "extlib \<Rightarrow> config \<Rightarrow> service_config" where
  "service_config_of L cfg =
     \<lparr>sv_contextName = cf_ContextName cfg, sv_contextNamespace = cf_ContextNamespace cfg,
      sv_releaseInterval = cf_ReleaseInterval cfg, sv_releaseTimeout = cf_ReleaseTimeout cfg,
      sv_sidecarPrefixes = cf_ExcludedSidecarPrefixes cfg,
      sv_insecureRegistries = cf_InsecureOCIRegistries cfg,
      sv_schema = Some (schema_iface_of L \<lparr>sg_insecureRegistries = cf_InsecureOCIRegistries cfg,
        sg_registryAuthFile = cf_RegistryAuthFile cfg\<rparr>),
      sv_writable = True\<rparr>"

definition components_of :: "extlib \<Rightarrow> catalog_iface \<Rightarrow> config \<Rightarrow> components" where
  "components_of L K cfg =
     \<lparr>cs_Lib = L, cs_Contracts = K, cs_Service = service_config_of L cfg,
      cs_Schema = \<lparr>sg_insecureRegistries = cf_InsecureOCIRegistries cfg,
        sg_registryAuthFile = cf_RegistryAuthFile cfg\<rparr>,
      cs_Provisioner = contextSelector,
      cs_KubauthNamespace = kubauthNamespace (cf_PlatformNamespace cfg)\<rparr>"

subsection \<open>Routes\<close>

type_synonym handler = "http_request \<Rightarrow> answer kprog"
type_synonym route = "string \<times> string \<times> handler"

text \<open>A group of routes: a prefix, and the guards that run before its handlers.\<close>

definition route_group :: "string \<Rightarrow> (http_request \<Rightarrow> answer kprog \<Rightarrow> answer kprog) \<Rightarrow> route list \<Rightarrow> route list" where
  "route_group prefix guard routes = map (\<lambda>(m, p, h). (m, prefix @ p, \<lambda>rq. guard rq (h rq))) routes"

definition esoUnavailable :: string where
  "esoUnavailable = ''Vault integration is not available on this cluster: the external-secrets CRDs are not installed.''"

definition requireProject :: "http_request \<Rightarrow> answer kprog \<Rightarrow> answer kprog" where
  "requireProject rq next' = RequireProject (project_of rq) next'"

definition requireSecretStores :: "answer kprog \<Rightarrow> answer kprog" where
  "requireSecretStores next' =
     RequireFeature SecretStoreRepository_Available ''external-secrets'' esoUnavailable next'"

definition requireExternalSecrets :: "answer kprog \<Rightarrow> answer kprog" where
  "requireExternalSecrets next' =
     RequireFeature ExternalSecretRepository_Available ''external-secrets'' esoUnavailable next'"

definition platform_routes :: "components \<Rightarrow> route list" where
  "platform_routes S =
    [(''GET'', ''/capabilities'', h_GetCapabilities),
     (''GET'', ''/projects'', h_ListProjects),
     (''GET'', ''/projects/stream'', h_StreamProjects),
     (''POST'', ''/projects'', h_CreateProject),
     (''GET'', ''/projects/:name'', h_GetProject),
     (''PUT'', ''/projects/:name'', h_UpdateProject),
     (''DELETE'', ''/projects/:name'', h_DeleteProject),
     (''GET'', ''/contracts'', h_GetContracts S),
     (''GET'', ''/platform-services'', h_GetPlatformServices S),
     (''GET'', ''/platform-categories'', h_GetMenuCategories),
     (''POST'', ''/platform-services'', h_CreatePlatformService S),
     (''PUT'', ''/platform-services/:serviceName'', h_UpdatePlatformService S),
     (''DELETE'', ''/platform-services/:serviceName'', h_DeletePlatformService S),
     (''GET'', ''/platform-services/:serviceName/versions'', h_GetServiceVersions S),
     (''GET'', ''/platform-services/:serviceName/schema'', h_GetServiceSchema S),
     (''GET'', ''/platform-services/:serviceName/inputs'', h_GetServiceInputs S),
     (''GET'', ''/profile-images'', h_GetProfileImages),
     (''GET'', ''/spark-config'', h_GetSparkConfig),
     (''GET'', ''/spark-app-schema'', h_GetSparkAppSchema)]"

definition identity_routes :: "components \<Rightarrow> route list" where
  "identity_routes S =
    [(''GET'', ''/users'', h_ListUsers S),
     (''GET'', ''/users/:name'', h_GetUser S),
     (''POST'', ''/users'', h_CreateUser S),
     (''PUT'', ''/users/:name'', h_UpdateUser S),
     (''DELETE'', ''/users/:name'', h_DeleteUser S),
     (''GET'', ''/groups'', h_ListGroups S),
     (''POST'', ''/groups'', h_CreateGroup S),
     (''PUT'', ''/groups/:name'', h_UpdateGroup S),
     (''DELETE'', ''/groups/:name'', h_DeleteGroup S)]"

definition secret_store_routes :: "components \<Rightarrow> route list" where
  "secret_store_routes S =
    [(''GET'', [], h_ListSecretStores),
     (''POST'', [], h_CreateSecretStore S),
     (''POST'', ''/test'', h_TestSecretStore S),
     (''PUT'', ''/:storeName'', h_UpdateSecretStore S),
     (''DELETE'', ''/:storeName'', h_DeleteSecretStore),
     (''GET'', ''/:storeName/status'', h_SecretStoreStatus)]"

definition external_secret_routes :: "components \<Rightarrow> route list" where
  "external_secret_routes S =
    [(''GET'', [], h_ListExternalSecrets),
     (''POST'', [], h_CreateExternalSecret S),
     (''PUT'', ''/:esName'', h_UpdateExternalSecret S),
     (''DELETE'', ''/:esName'', h_DeleteExternalSecret),
     (''GET'', ''/:esName/status'', h_ExternalSecretStatus)]"

definition connection_routes :: "components \<Rightarrow> route list" where
  "connection_routes S =
    [(''GET'', [], h_ListConnections S),
     (''GET'', ''/internal'', h_ListInternalConnections S),
     (''GET'', ''/selectable'', h_ListSelectable),
     (''GET'', ''/:connName/consumers'', h_ListConsumers),
     (''POST'', [], h_CreateConnection S),
     (''POST'', ''/test'', h_TestConnection S),
     (''PUT'', ''/:connName'', h_UpdateConnection S),
     (''DELETE'', ''/:connName'', h_DeleteConnection)]"

definition service_routes :: "components \<Rightarrow> route list" where
  "service_routes S =
    [(''GET'', [], h_ListServices S),
     (''GET'', ''/stream'', h_StreamServices S),
     (''POST'', [], h_DeployService S),
     (''GET'', ''/:serviceName'', h_GetService S),
     (''PATCH'', ''/:serviceName/parameters'', h_UpdateServiceParameters S),
     (''DELETE'', ''/:serviceName'', h_DeleteService S),
     (''GET'', ''/:serviceName/pods'', h_ListPods S),
     (''GET'', ''/:serviceName/pods/:podName/logs'', h_GetPodLogs),
     (''GET'', ''/:serviceName/metrics'', h_GetServiceMetrics S)]"

definition spark_routes :: "components \<Rightarrow> route list" where
  "spark_routes S =
    [(''GET'', [], h_ListSparkApps S),
     (''GET'', ''/stream'', h_StreamSparkApps S),
     (''POST'', [], h_SubmitSparkApp),
     (''POST'', ''/yaml'', h_SubmitSparkAppYAML S),
     (''GET'', ''/:appName'', h_GetSparkApp),
     (''PUT'', ''/:appName'', h_UpdateSparkApp),
     (''DELETE'', ''/:appName'', h_DeleteSparkApp),
     (''GET'', ''/:appName/logs'', h_GetSparkAppLogs),
     (''GET'', ''/:appName/ui'', h_GetSparkUI)]"

definition project_routes :: "components \<Rightarrow> route list" where
  "project_routes S =
     route_group ''/projects/:name/secret-stores''
       (\<lambda>rq next'. requireProject rq (requireSecretStores next')) (secret_store_routes S) @
     route_group ''/projects/:name/external-secrets''
       (\<lambda>rq next'. requireProject rq (requireExternalSecrets next')) (external_secret_routes S) @
     route_group ''/projects/:name/connections'' requireProject (connection_routes S) @
     route_group ''/projects/:name/services'' requireProject (service_routes S) @
     route_group ''/projects/:name/metrics'' requireProject [(''GET'', [], h_GetProjectMetrics S)] @
     route_group ''/projects/:name/spark-apps'' requireProject (spark_routes S)"

definition api_routes :: "components \<Rightarrow> route list" where
  "api_routes S =
     platform_routes S @
     route_group ''/v1/identity'' (\<lambda>rq. RequireIdentityAPI IdentityRepository_Available) (identity_routes S) @
     project_routes S"

text \<open>The token is required of the group, unless the server runs without a verifier.\<close>

definition authenticate :: "string option \<Rightarrow> string \<Rightarrow> handler \<Rightarrow> handler" where
  "authenticate verifier fullPath h rq =
     (case verifier of
        None \<Rightarrow> h rq
      | Some clientID \<Rightarrow> RequireAuthentication clientID fullPath (rq_Authorization rq) (\<lambda>_. h rq))"

definition h_Health :: handler where "h_Health rq = Ret (Body 200 MHealth)"

definition SetupRouter :: "string option \<Rightarrow> components \<Rightarrow> route list" where
  "SetupRouter verifier S =
     (''GET'', ''/health'', h_Health) #
     map (\<lambda>(m, p, h). (m, ''/api'' @ p, authenticate verifier (''/api'' @ p) h)) (api_routes S)"

subsection \<open>Dispatch\<close>

fun match_segments :: "string list \<Rightarrow> string list \<Rightarrow> string gomap option" where
  "match_segments [] [] = Some []"
| "match_segments (p # ps) (s # ss) =
     (if p \<noteq> [] \<and> hd p = CHR '':'' then
        if s = [] then None else map_option (\<lambda>m. (tl p, s) # m) (match_segments ps ss)
      else if p = s then match_segments ps ss else None)"
| "match_segments ps ss = None"

definition segments :: "string \<Rightarrow> string list" where
  "segments path = tl (split_char (CHR ''/'') path)"

definition route_match :: "http_request \<Rightarrow> route \<Rightarrow> (handler \<times> string gomap) option" where
  "route_match rq r =
     (case r of (m, p, h) \<Rightarrow>
        if m = rq_Method rq then map_option (\<lambda>ps. (h, ps)) (match_segments (segments p) (rq_Path rq)) else None)"

text \<open>The routes a request matches, and the one gin takes.\<close>

definition find_route :: "(http_request \<Rightarrow> nat) \<Rightarrow> http_request \<Rightarrow> route list \<Rightarrow> (handler \<times> string gomap) option" where
  "find_route gin rq routes =
     (let found = keep_some (route_match rq) routes in
      if gin rq < length found then Some (found ! gin rq) else None)"

text \<open>\<^verbatim>\<open>corsMiddleware\<close>: the headers of every answer, and the answer to a preflight.\<close>

definition cors_headers :: "config \<Rightarrow> string gomap" where
  "cors_headers cfg =
    [(''Access-Control-Allow-Origin'', cf_AllowedOrigins cfg),
     (''Access-Control-Allow-Credentials'', ''true''),
     (''Access-Control-Allow-Headers'', ''Content-Type, Content-Length, Accept-Encoding, X-CSRF-Token, Authorization, accept, origin, Cache-Control, X-Requested-With''),
     (''Access-Control-Allow-Methods'', ''POST, OPTIONS, GET, PUT, DELETE, PATCH'')]"

definition corsMiddleware :: "http_request \<Rightarrow> answer kprog \<Rightarrow> answer kprog" where
  "corsMiddleware rq next' = (if rq_Method rq = ''OPTIONS'' then Ret (Bare 204) else next')"

definition serve ::
    "(http_request \<Rightarrow> nat) \<Rightarrow> string option \<Rightarrow> components \<Rightarrow> http_request \<Rightarrow> answer kprog" where
  "serve gin verifier S rq =
     corsMiddleware rq
       (case find_route gin rq (SetupRouter verifier S) of
          None \<Rightarrow> Ret (Bare 404)
        | Some (h, params) \<Rightarrow> h (rq\<lparr>rq_Params := params\<rparr>))"

subsection \<open>The start of the server\<close>

text \<open>
  \<^verbatim>\<open>main\<close>: what starts is the function that serves the requests. The clients of the cluster are
  the environment, and the contracts are the ones of the catalog the binary carries.
\<close>

definition wire ::
    "(http_request \<Rightarrow> nat) \<Rightarrow> extlib \<Rightarrow> (string \<Rightarrow> bool \<Rightarrow> (gerr + unit) kprog) \<Rightarrow> config \<Rightarrow>
       (http_request \<Rightarrow> answer kprog) outcome kprog" where
  "wire gin L NewProvider cfg =
     prog_bind (checkIdentityConfiguration IdentityRepository_Available) (\<lambda>checked. case checked of
         Fatal m as \<Rightarrow> Ret (Fatal m as)
       | Continue _ \<Rightarrow>
           prog_bind (buildTokenVerifier NewProvider cfg) (\<lambda>v. Ret (case v of
               Fatal m as \<Rightarrow> Fatal m as
             | Continue verifier \<Rightarrow>
                 Continue (serve gin verifier (components_of L (embedded_iface builtin_catalog) cfg)))))"

definition start_server ::
    "(http_request \<Rightarrow> nat) \<Rightarrow> extlib \<Rightarrow> (string \<Rightarrow> bool \<Rightarrow> (gerr + unit) kprog) \<Rightarrow> environment \<Rightarrow>
       (http_request \<Rightarrow> answer kprog) outcome kprog" where
  "start_server gin L NewProvider env = prog_bind (Load env) (wire gin L NewProvider)"

end
