(* ===== verification/Confinement.thy ===== *)
theory Confinement
  imports Router Connection_Properties
begin

text \<open>
  What the operations behind the routes of a project may change: objects in the namespace of the
  project, and the OIDC client of one of its releases.
\<close>

fun in_project :: "string \<Rightarrow> kcall \<Rightarrow> bool" where
  "in_project p (KCreate g n x) = (n = p)"
| "in_project p (KUpdate g n x) = (n = p)"
| "in_project p (KDelete g n m) = (n = p \<or> g = oidcClientGVR \<and> has_prefix m (p @ ''-''))"
| "in_project p _ = True"

subsection \<open>Reads\<close>

lemma only_quiet: "runs p (\<lambda>tr x. quiet tr) \<Longrightarrow> only P p"
  by (rule only_of_runs, erule runs_mono) (simp add: quiet_def)

lemma only_reading [only_intros]: "only P (reading f)"
  by (rule only_quiet [OF quiet_reading])

lemma only_http [only_intros]: "only P (http_do q)"
  by (rule only_quiet [OF quiet_http])

lemma only_nothing: "only (\<lambda>_. False) p \<Longrightarrow> runs p (\<lambda>tr x. writes tr = [])"
  unfolding only_def by (erule runs_mono) (simp add: list_all_iff)

lemma only_for_each [only_intros]: "(\<And>x. only P (f x)) \<Longrightarrow> only P (for_each f xs)"
  by (induction xs) (auto intro!: only_intros)

lemma only_names [only_intros]: "only P (releaseInstanceNames project name)"
  unfolding releaseInstanceNames_def ServiceRepository_Get_def by (auto intro!: only_intros)

lemma only_selector [only_intros]: "only P (releaseInstanceSelector project name)"
  unfolding releaseInstanceSelector_def by (auto intro!: only_intros)

lemma only_hosts [only_intros]: "only P (namespaceIngressHosts ns)"
  unfolding namespaceIngressHosts_def by (auto intro!: only_intros)

lemma only_suffix [only_intros]: "only P GetIngressSuffix"
  unfolding GetIngressSuffix_def by (auto intro!: only_intros)

lemma only_url [only_intros]: "only P (setURLIfExposed i)"
  unfolding setURLIfExposed_def by (auto intro!: only_intros)

lemma only_urls [only_intros]: "only P (enrich_urls suffix hosts js)"
  by (induction js arbitrary: hosts) (auto simp: Let_def intro!: only_intros)

lemma only_health [only_intros]: "only P (enrich_health C pods js)"
  by (induction js arbitrary: pods) (auto simp: Let_def intro!: only_intros)

lemma only_enrich [only_intros]:
  "only P (enrichWithURL js)" "only P (enrichWithPodHealth C js)" "only P (EnrichPodHealth C i)"
  unfolding enrichWithURL_def enrichWithPodHealth_def EnrichPodHealth_def by (auto intro!: only_intros)

lemma only_pods [only_intros]: "only P (pods_of C us)"
  by (induction us) (auto intro!: only_intros)

lemma only_metrics [only_intros]: "only P (metrics_of L project pods byName m js)"
  by (induction js arbitrary: m) (auto simp: Let_def intro!: only_intros)

lemma only_open_log [only_intros]: "only P (open_log f ns p c n b)"
  unfolding open_log_def by (auto intro!: only_intros)

lemma only_service_reads [only_intros]:
  "only P (ListServices C project)" "only P (GetService L C project name)"
  "only P (ListPods C project name)" "only P (GetProjectMetrics L C project)"
  "only P (GetServiceMetrics L project name)" "only P (GetPodLogs project pod c n b)"
  "only P (watched_service S obj)" "only P (ServiceRepository_Watch ns q)"
  unfolding ListServices_def GetService_def ListPods_def GetProjectMetrics_def GetServiceMetrics_def
    GetPodLogs_def latestWarningMessage_def ServiceRepository_List_def ServiceRepository_Get_def
    listPodMetricsByName_def watched_service_def ServiceRepository_Watch_def
  by (auto intro!: only_intros)


subsection \<open>Secret stores and external secrets\<close>

lemma only_store_reads [only_intros]:
  "only P (ListSecretStores ns)" "only P (GetSecretStoreStatus ns name)" "only P (read_store ns name)"
  "only P (SecretStoreRepository_Get ns name)" "only P (store_TestConnection L req)"
  unfolding ListSecretStores_def GetSecretStoreStatus_def read_store_def SecretStoreRepository_Get_def
    SecretStoreRepository_List_def store_TestConnection_def validateVaultToken_def Let_def
  by (auto intro!: only_intros)

lemma only_store_secret [only_intros]:
  "only (in_project ns) (store_CreateOrUpdateSecret ns name data)"
  "only (in_project ns) (store_DeleteSecret ns name)"
  unfolding store_CreateOrUpdateSecret_def store_DeleteSecret_def Let_def by (auto intro!: only_intros)

lemma only_default [only_intros]: "only (in_project ns) (clear_default ns req)"
  unfolding clear_default_def RemoveDefaultLabel_def drop_default_def Let_def by (auto intro!: only_intros)

lemma only_store_writes [only_intros]:
  "only (in_project ns) (CreateSecretStore L ns req)"
  "only (in_project ns) (UpdateSecretStore L ns name req)"
  "only (in_project ns) (DeleteSecretStore ns name)"
  unfolding CreateSecretStore_def UpdateSecretStore_def DeleteSecretStore_def create_token_def
    update_token_def drop_token_def SecretStoreRepository_Create_def SecretStoreRepository_Update_def
    SecretStoreRepository_Delete_def Let_def
  by (auto intro!: only_intros)

lemma only_external_reads [only_intros]:
  "only P (ListExternalSecrets ns)" "only P (GetExternalSecretStatus ns name)"
  "only P (read_external ns name)" "only P (require_store ns store)"
  unfolding ListExternalSecrets_def GetExternalSecretStatus_def read_external_def require_store_def
    external_repo_defs
  by (auto intro!: only_intros)

lemma only_external_writes [only_intros]:
  "only (in_project ns) (CreateExternalSecret L ns req)"
  "only (in_project ns) (UpdateExternalSecret L ns name req)"
  "only (in_project ns) (DeleteExternalSecret ns name)"
  unfolding CreateExternalSecret_def UpdateExternalSecret_def DeleteExternalSecret_def
    external_repo_defs Let_def
  by (auto intro!: only_intros)

subsection \<open>Connections\<close>

lemma only_connection_repo [only_intros]:
  "only P ConnectionRepository_Available" "only P (ConnectionRepository_List ns)"
  "only P (ConnectionRepository_Get ns name)" "only P (InspectSecret ns name)"
  unfolding connection_repo_defs InspectSecret_def by (auto intro!: only_intros)

lemma only_connection_reads [only_intros]:
  "only P (Connection_Catalog K)" "only P (Connection_List K ns)" "only P (Connection_ListInternal K ns)"
  "only P (Connection_ListSelectable ns contract)" "only P (Connection_ListConsumers ns name)"
  "only P (validateRequest L K ns req b)"
  unfolding Connection_Catalog_def Connection_List_def Connection_ListInternal_def
    Connection_ListSelectable_def Connection_ListConsumers_def ServiceRepository_List_def
    validateRequest_def checkExistingSecret_def Let_def
  by (auto intro!: only_intros)

lemma only_secret [only_intros]:
  "only (in_project ns) (CreateOrUpdateSecret ns name data)" "only (in_project ns) (DeleteSecret ns name)"
  unfolding CreateOrUpdateSecret_def DeleteSecret_def Let_def by (auto intro!: only_intros)

lemma only_connection_writes [only_intros]:
  "only (in_project ns) (Connection_Create L K ns req)"
  "only (in_project ns) (Connection_Update L K ns name req)"
  "only (in_project ns) (Connection_Delete ns name)"
  unfolding Connection_Create_def Connection_Update_def Connection_Delete_def create_free_def
    create_connection_def storeCredentials_def updateCredentials_def update_connection_def
    ConnectionRepository_Create_def ConnectionRepository_Update_def ConnectionRepository_Delete_def Let_def
  by (auto intro!: only_intros)

lemma only_test [only_intros]: "only P (Connection_Test L K req)"
  by (rule only_of_runs, rule runs_mono [OF Connection_Test_runs]) simp

subsection \<open>Services\<close>

lemma only_idp [only_intros]: "only P GetIdentityProvisioningProvider"
  unfolding GetIdentityProvisioningProvider_def GetIdentity_def by (auto intro!: only_intros)

lemma runs_provider_choice:
  "runs resolve (\<lambda>tr x. writes tr = [] \<and>
     (\<forall>p. x = Inr p \<longrightarrow> p = noneProvisioner \<or> p = kubauthProvisioner \<or> p = keycloakProvisioner))"
  unfolding resolve_def by (rule runs_try_seq [OF only_nothing [OF only_idp]]) auto

lemma only_keycloak [only_intros]: "only P (keycloak_DeleteClient name)"
  unfolding keycloak_DeleteClient_def connect_def findClient_def session_do_def
    GetKeycloakProvisioningConfig_def readSecretCredentials_def Let_def
  by (auto intro!: only_intros)

lemma only_kubauth:
  "(\<And>n. P (KDelete oidcClientGVR n name)) \<Longrightarrow> only P (kubauth_DeleteClient name)"
  unfolding kubauth_DeleteClient_def GetKubauthNamespace_def by (auto intro!: only_intros)

lemma only_provisioner [only_intros]:
  assumes "\<And>n. P (KDelete oidcClientGVR n name)"
  shows "only P (op_DeleteClient contextSelector name)"
proof -
  have "only P (op_DeleteClient p name)"
    if "p = noneProvisioner \<or> p = kubauthProvisioner \<or> p = keycloakProvisioner" for p
    using that assms
    by (auto simp: noneProvisioner_def kubauthProvisioner_def keycloakProvisioner_def
        intro!: only_intros only_kubauth)
  then show ?thesis
    unfolding contextSelector_def only_def
    by simp (rule runs_try_seq [OF runs_provider_choice], simp, auto)
qed

lemma only_cleanup [only_intros]: "only (in_project ns) (cleanupUserResources ns rel)"
  unfolding cleanupUserResources_def cleanup_kind_def cleanup_object_def ServiceRepository_List_def Let_def
  by (auto intro!: only_intros)

lemma only_catalog_reads [only_intros]:
  "only P ContextRepository_GetPlatformServices" "only P GetPackageRepository"
  "only P (resolvePlatformService name)"
  "only P (ps_GetParameterSchema (schema_iface_of L G) name tag)"
  by (rule only_quiet [OF quiet_services], rule only_quiet [OF quiet_repository])
    (auto simp: resolvePlatformService_def intro!: only_intros only_quiet [OF quiet_services]
      only_quiet [OF packages.schema_quiet])

lemma only_parameters [only_intros]:
  "only P (validateParameters L (service_config_of L' cfg) name tag params)"
  unfolding validateParameters_def service_config_of_def by (auto intro!: only_intros)

lemma only_service_writes [only_intros]:
  "only (in_project ns) (DeployService L (service_config_of L' cfg) ns req)"
  "only (in_project ns) (UpdateServiceParameters L (service_config_of L' cfg) ns name upd)"
  "only (in_project ns) (DeleteService contextSelector ns name)"
  unfolding DeployService_def UpdateServiceParameters_def DeleteService_def cleanupOidcClient_def
    ServiceRepository_Create_def ServiceRepository_Get_def ServiceRepository_Update_def
    ServiceRepository_Delete_def Let_def
  by (auto simp: releaseName_of_def str_simps intro!: only_intros)

subsection \<open>Spark applications\<close>

lemma only_spark_reads [only_intros]:
  "only P (ListApps L ns)" "only P (GetApp ns name)" "only P (GetSparkUI ns name)"
  "only P (GetDriverLogs ns name c n b)" "only P (SparkRepository_Watch L ns q)"
  "only P (spark_conf val ns m)"
  subgoal unfolding ListApps_def SparkRepository_List_def by (auto intro!: only_intros)
  subgoal unfolding GetApp_def SparkRepository_Get_def by (auto intro!: only_intros)
  subgoal unfolding GetSparkUI_def SparkRepository_Get_def suffix_or_empty_def by (auto intro!: only_intros)
  subgoal unfolding GetDriverLogs_def SparkRepository_Get_def Let_def by (auto intro!: only_intros)
  subgoal unfolding SparkRepository_Watch_def by (auto intro!: only_intros)
  subgoal by (rule only_of_runs, rule runs_mono [OF runs_spark_conf]) simp
  done

lemma only_complete_yaml [only_intros]: "only P (complete_yaml ns doc)"
  unfolding complete_yaml_def yaml_spec_def Let_def
  by (auto intro!: only_intros split: option.split goval.split)

lemma only_spark_writes [only_intros]:
  "only (in_project ns) (SubmitApp ns req)" "only (in_project ns) (SubmitAppYAML L ns yaml)"
  "only (in_project ns) (UpdateApp ns name upd)" "only (in_project ns) (DeleteApp ns name)"
  unfolding SubmitApp_def SubmitAppYAML_def UpdateApp_def DeleteApp_def SparkRepository_Create_def
    SparkRepository_CreateRaw_def SparkRepository_Get_def SparkRepository_Update_def
    SparkRepository_Delete_def Let_def
  by (auto intro!: only_intros)


subsection \<open>The platform: projects, the catalog, identities\<close>

text \<open>A change to a namespace, to the platform Context, or to an object of kubauth.\<close>

definition namespace_write :: "kcall \<Rightarrow> bool" where
  "namespace_write c = (\<exists>n ns. c = KCreate namespaceGVR [] (ONamespace ns) \<or>
     c = KUpdate namespaceGVR [] (ONamespace ns) \<or> c = KDelete namespaceGVR [] n)"

definition context_write :: "config \<Rightarrow> kcall \<Rightarrow> bool" where
  "context_write cfg c = (\<exists>u. c = KUpdate contextGVR (cf_ContextNamespace cfg) (ORaw u))"

fun identity_write :: "kcall \<Rightarrow> bool" where
  "identity_write (KCreate g n x) = (g \<in> {userGVR, groupGVR, gbGVR})"
| "identity_write (KUpdate g n x) = (g \<in> {userGVR, groupGVR, gbGVR})"
| "identity_write (KDelete g n m) = (g \<in> {userGVR, groupGVR, gbGVR})"
| "identity_write _ = True"

lemma only_projects [only_intros]:
  "only P ListProjects" "only P (GetProject name)" "only P ProjectRepository_Watch"
  "only namespace_write (CreateProject p)" "only namespace_write (UpdateProject p)"
  "only namespace_write (DeleteProject name)"
  unfolding ListProjects_def GetProject_def CreateProject_def UpdateProject_def DeleteProject_def
    ProjectRepository_List_def ProjectRepository_Get_def ProjectRepository_Create_def
    ProjectRepository_Update_def ProjectRepository_Delete_def ProjectRepository_Watch_def
    project_namespace_def get_namespace_def
  by (auto simp: namespace_write_def intro!: only_intros)

lemma only_schema_reads [only_intros]:
  "only P (ps_ListVersions (schema_iface_of L G) svcs)"
  "only P (ps_ListPackageTags (schema_iface_of L G) name repo)"
  "only P (GetServiceVersions G name)" "only P (GetPackageInputs L G name tag)"
  "only P (GetParameterSchema L G name tag)"
  by (rule only_quiet [OF packages.versions_quiet], rule only_quiet [OF packages.tags_quiet])
    (auto simp: GetServiceVersions_def GetPackageInputs_def
      intro!: only_intros only_quiet [OF quiet_GetParameterSchema] only_quiet [OF quiet_resolvePackage]
        only_quiet [OF quiet_load] only_quiet [OF quiet_tagsCached])

lemma only_context_reads [only_intros]:
  "only P ContextRepository_GetMenuCategories" "only P GetProfileImages" "only P GetSparkConfig"
  "only P GetIdentityProvider" "only P GetIdentityOidcConfig" "only P IdentityAPIEnabled"
  "only P GetCRDSchema" "only P (Service_GetPlatformServices (service_config_of L cfg))"
  unfolding ContextRepository_GetMenuCategories_def GetProfileImages_def GetSparkConfig_def
    GetIdentityProvider_def GetIdentityOidcConfig_def IdentityAPIEnabled_def GetCRDSchema_def
    Service_GetPlatformServices_def service_config_of_def
  by (auto intro!: only_intros)

lemma only_available [only_intros]:
  "only P IdentityRepository_Available" "only P SecretStoreRepository_Available"
  "only P ExternalSecretRepository_Available"
  unfolding IdentityRepository_Available_def SecretStoreRepository_Available_def
    ExternalSecretRepository_Available_def
  by (auto intro!: only_intros)

lemma only_capabilities [only_intros]: "only P (GetCapabilities (Some IdentityRepository_Available))"
  unfolding GetCapabilities_def identityCRDs_def Let_def by (auto intro!: only_intros)

lemma only_retry [only_intros]: "only P m \<Longrightarrow> only P (RetryOnConflict n m)"
  by (induction n) (auto intro!: only_intros)

lemma only_mutate [only_intros]:
  "only (context_write cfg) (mutateCategories L (cf_ContextNamespace cfg) name edit)"
  unfolding mutateCategories_def mutate_once_def
  by (auto simp: context_write_def intro!: only_intros)

lemma only_catalog_writes [only_intros]:
  "only (context_write cfg) (Service_AddPlatformService L (service_config_of L' cfg) svc)"
  "only (context_write cfg) (Service_UpdatePlatformService L (service_config_of L' cfg) name svc)"
  "only (context_write cfg) (Service_RemovePlatformService L (service_config_of L' cfg) name)"
  unfolding Service_AddPlatformService_def Service_UpdatePlatformService_def
    Service_RemovePlatformService_def service_config_of_def Writer_AddPlatformService_def
    Writer_UpdatePlatformService_def Writer_RemovePlatformService_def then_invalidate_def
    findCatalogService_def validateVersionsInRegistry_def
  by (auto intro!: only_intros)

lemma only_namespace [only_intros]: "only P (kubauthNamespace ns)"
  unfolding kubauthNamespace_def GetKubauthNamespace_def by (auto intro!: only_intros)

lemma only_in_ns [only_intros]: "(\<And>ns. only P (f ns)) \<Longrightarrow> only P (in_ns (kubauthNamespace p) f)"
  unfolding in_ns_def by (auto intro!: only_intros)

lemma only_for_try [only_intros]: "(\<And>x. only P (f x)) \<Longrightarrow> only P (for_try f xs)"
  by (induction xs) (auto intro!: only_intros)

lemma only_hash [only_intros]: "only P (hash_password s)"
  unfolding hash_password_def by (auto intro!: only_intros)

lemma only_bindings [only_intros]:
  "only P (ListGroupBindings (kubauthNamespace p) user)"
  "only identity_write (CreateGroupBinding (kubauthNamespace p) b)"
  "only identity_write (DeleteGroupBindingByRef (kubauthNamespace p) user g)"
  unfolding ListGroupBindings_def CreateGroupBinding_def DeleteGroupBindingByRef_def
    DeleteGroupBinding_def Let_def
  by (auto intro!: only_intros)

lemma only_users [only_intros]:
  "only P (ListUsers (kubauthNamespace p))" "only P (GetUser (kubauthNamespace p) name)"
  "only identity_write (CreateUser (kubauthNamespace p) user)"
  "only identity_write (UpdateUser (kubauthNamespace p) name user)"
  "only identity_write (DeleteUser (kubauthNamespace p) name)"
  unfolding ListUsers_def GetUser_def CreateUser_def UpdateUser_def DeleteUser_def repo_ListUsers_def
    repo_GetUser_def repo_CreateUser_def repo_UpdateUser_def repo_DeleteUser_def bind_group_def
    sync_groups_def add_binding_def remove_binding_def Let_def
  by (auto intro!: only_intros)

lemma only_groups [only_intros]:
  "only P (ListGroups (kubauthNamespace p))"
  "only identity_write (CreateGroup (kubauthNamespace p) g)"
  "only identity_write (UpdateGroup (kubauthNamespace p) name g)"
  "only identity_write (DeleteGroup (kubauthNamespace p) name)"
  unfolding ListGroups_def CreateGroup_def UpdateGroup_def DeleteGroup_def repo_ListGroups_def
    repo_CreateGroup_def repo_UpdateGroup_def repo_DeleteGroup_def
  by (auto intro!: only_intros)

end
