(* ===== verification/Router_Properties.thy ===== *)
theory Router_Properties
  imports Confinement
begin

text \<open>
  What the routes guarantee, whatever a request asks and the cluster answers: who may have
  anything done, what a route may change, and what is read before it changes anything.
\<close>

subsection \<open>Routes and their handlers\<close>

lemma match_Nil [simp]: "match_segments [] path = Some m \<longleftrightarrow> path = [] \<and> m = []"
  by (cases path) auto

lemma match_Cons [simp]:
  "match_segments (p # ps) path = Some m \<longleftrightarrow> (\<exists>s rest. path = s # rest \<and>
     (if p \<noteq> [] \<and> hd p = CHR '':''
      then s \<noteq> [] \<and> (\<exists>m'. match_segments ps rest = Some m' \<and> m = (tl p, s) # m')
      else p = s \<and> match_segments ps rest = Some m))"
  by (cases path) auto

lemma find_route_Some:
  assumes "find_route gin rq rs = Some (h, ps)"
  shows "\<exists>m p. (m, p, h) \<in> set rs \<and> match_segments (segments p) (rq_Path rq) = Some ps"
proof -
  have "(h, ps) \<in> set (keep_some (route_match rq) rs)"
    using assms by (auto simp: find_route_def Let_def split: if_splits) (metis nth_mem)
  then obtain m p h' where r: "(m, p, h') \<in> set rs" and "route_match rq (m, p, h') = Some (h, ps)"
    unfolding set_keep_some by auto
  then have "h' = h" "match_segments (segments p) (rq_Path rq) = Some ps"
    by (auto simp: route_match_def split: if_splits)
  with r show ?thesis by blast
qed

lemma segments_project:
  "segments (''/api'' @ ''/projects/:name/'' @ q) =
     [''api'', ''projects'', '':name''] @ split_char (CHR ''/'') q"
  by (simp add: segments_def)

lemma split_char_Cons: "\<exists>w ws. split_char sep q = w # ws"
  by (cases "split_char sep q") auto

subsection \<open>What is read first\<close>

text \<open>
  What the exchanges with the outside must hold for a change under a path: under a project, its
  namespace read with the label of a project, and the API of the external secrets available; on the
  identity routes, the provider of the platform and the API of kubauth.
\<close>

definition feature_held :: "string \<Rightarrow> (kcall \<times> kresp) set \<Rightarrow> bool" where
  "feature_held sub es =
     ((sub \<noteq> ''secret-stores'' \<or> (KAvailable GetSecretStoreGVR, RBool True) \<in> es) \<and>
      (sub \<noteq> ''external-secrets'' \<or> (KAvailable GetExternalSecretGVR, RBool True) \<in> es))"

definition project_held :: "string \<Rightarrow> (kcall \<times> kresp) set \<Rightarrow> bool" where
  "project_held p es =
     (\<exists>ns. (KGet namespaceGVR [] p, RObj (ONamespace ns)) \<in> es \<and> label_of ns ProjectLabel \<noteq> [])"

definition identity_held :: "(kcall \<times> kresp) set \<Rightarrow> bool" where
  "identity_held es =
     ((\<exists>u. (KContext, RObj (ORaw u)) \<in> es \<and>
         ctx_string u [''identity'', ''provider''] = IdentityProviderKubauth) \<and>
      (KAvailable userGVR, RBool True) \<in> es)"

definition guards_held :: "string list \<Rightarrow> (kcall \<times> kresp) set \<Rightarrow> bool" where
  "guards_held path es =
     (case path of
        _ # area # rest \<Rightarrow>
          if area = ''projects'' then
            (case rest of p # sub # _ \<Rightarrow> project_held p es \<and> feature_held sub es | _ \<Rightarrow> True)
          else area \<noteq> ''v1'' \<or> identity_held es
      | _ \<Rightarrow> True)"

text \<open>Nothing was changed, or nothing before \<^term>\<open>G\<close> held of the exchanges so far.\<close>

definition preceded :: "((kcall \<times> kresp) set \<Rightarrow> bool) \<Rightarrow> ktrace \<Rightarrow> bool" where
  "preceded G tr = (writes tr = [] \<or> (\<exists>t1 t2. tr = t1 @ t2 \<and> writes t1 = [] \<and> G (set t1)))"

lemma preceded_prefix:
  assumes "preceded G t" and "writes t0 = []" and "\<And>es. G es \<Longrightarrow> H (set t0 \<union> es)"
  shows "preceded H (t0 @ t)"
  using assms(1) unfolding preceded_def
proof (elim disjE exE conjE)
  fix t1 t2 assume "t = t1 @ t2" "writes t1 = []" "G (set t1)"
  then show "writes (t0 @ t) = [] \<or> (\<exists>s1 s2. t0 @ t = s1 @ s2 \<and> writes s1 = [] \<and> H (set s1))"
    using assms(2,3) by (intro disjI2 exI [of _ "t0 @ t1"] exI [of _ t2]) simp
qed (simp add: assms(2))

lemma preceded_now: "writes t1 = [] \<Longrightarrow> G (set t1) \<Longrightarrow> preceded G (t1 @ t2)"
  unfolding preceded_def by blast

lemma preceded_quiet: "writes tr = [] \<Longrightarrow> preceded G tr"
  by (simp add: preceded_def)

lemma preceded_True: "(\<And>es. G es) \<Longrightarrow> preceded G tr"
  using preceded_now [of "[]" G tr] by simp

lemma runs_always: "(\<And>tr x. Q tr x) \<Longrightarrow> runs p Q"
  by (simp add: runs_iff)

lemma runs_feature:
  "runs (RequireFeature (call_bool (KAvailable g)) feature message h)
     (\<lambda>tr x. preceded (\<lambda>es. (KAvailable g, RBool True) \<in> es) tr)"
proof -
  let ?G = "\<lambda>es. (KAvailable g, RBool True) \<in> es"
  have "preceded ?G ((KAvailable g, r) # tr)" if "bool_of r" for r tr
    using that preceded_now [of "[(KAvailable g, r)]" ?G tr] by (cases r) auto
  then show ?thesis
    by (auto simp: RequireFeature_def runs_simps intro: runs_always preceded_quiet)
qed

lemma runs_requireProject:
  assumes "runs h (\<lambda>tr x. preceded G tr)" and "\<And>es es'. G es \<Longrightarrow> G (es' \<union> es)"
  shows "runs (requireProject rq h) (\<lambda>tr x. preceded (\<lambda>es. project_held (project_of rq) es \<and> G es) tr)"
proof -
  have "preceded (\<lambda>es. project_held (project_of rq) es \<and> G es) (t1 @ t2)"
    if "project_read (project_of rq) t1" "writes t1 = []" "preceded G t2" for t1 t2
    using that(3,2)
  proof (rule preceded_prefix)
    fix es assume "G es"
    then show "project_held (project_of rq) (set t1 \<union> es) \<and> G (set t1 \<union> es)"
      using that(1) assms(2) by (auto simp: project_held_def project_read_def)
  qed
  then show ?thesis
    unfolding requireProject_def
    by (intro runs_mono [OF runs_RequireProject [OF assms(1)]]) (auto intro: preceded_quiet)
qed

lemma runs_identity_gate:
  "runs (RequireIdentityAPI IdentityRepository_Available h) (\<lambda>tr x. preceded identity_held tr)"
proof -
  have provider: "runs IdentityAPIEnabled (\<lambda>tr x. writes tr = [] \<and> (x = Inr True \<longrightarrow>
     (\<exists>u. tr = [(KContext, RObj (ORaw u))] \<and>
        ctx_string u [''identity'', ''provider''] = IdentityProviderKubauth)))"
    by (auto simp: IdentityAPIEnabled_def GetIdentityProvider_def reading_def runs_simps split: sum.split)
  have held: "preceded identity_held (t @ (KAvailable userGVR, r) # s)"
    if "bool_of r" "t = [(KContext, RObj (ORaw u))]"
      "ctx_string u [''identity'', ''provider''] = IdentityProviderKubauth" for r t s u
    using that preceded_now [of "t @ [(KAvailable userGVR, r)]" identity_held s]
    by (cases r) (auto simp: identity_held_def)
  show ?thesis
    unfolding RequireIdentityAPI_def
    by (rule runs_seq [OF provider])
      (auto simp: IdentityRepository_Available_def runs_simps split: sum.split
        intro: preceded_quiet runs_always held)
qed

subsection \<open>The handlers of a project\<close>

lemma only_requireProject [only_intros]:
  "only P h \<Longrightarrow> only P (requireProject rq h)" "only P h \<Longrightarrow> only P (requireSecretStores h)"
  "only P h \<Longrightarrow> only P (requireExternalSecrets h)"
  unfolding requireProject_def requireSecretStores_def requireExternalSecrets_def RequireProject_def
    RequireFeature_def
  by (auto intro!: only_intros)

lemma project_handlers:
  assumes "S = components_of L K cfg"
  shows "(m, p, h) \<in> set (secret_store_routes S) \<Longrightarrow> only (in_project (project_of rq)) (h rq)"
    "(m, p, h) \<in> set (external_secret_routes S) \<Longrightarrow> only (in_project (project_of rq)) (h rq)"
    "(m, p, h) \<in> set (connection_routes S) \<Longrightarrow> only (in_project (project_of rq)) (h rq)"
    "(m, p, h) \<in> set (service_routes S) \<Longrightarrow> only (in_project (project_of rq)) (h rq)"
    "(m, p, h) \<in> set (spark_routes S) \<Longrightarrow> only (in_project (project_of rq)) (h rq)"
  subgoal unfolding assms components_of_def
    by (auto simp: secret_store_routes_def h_ListSecretStores_def h_CreateSecretStore_def
        h_TestSecretStore_def h_UpdateSecretStore_def h_DeleteSecretStore_def h_SecretStoreStatus_def
        intro!: only_intros)
  subgoal unfolding assms components_of_def
    by (auto simp: external_secret_routes_def h_ListExternalSecrets_def h_CreateExternalSecret_def
        h_UpdateExternalSecret_def h_DeleteExternalSecret_def h_ExternalSecretStatus_def
        intro!: only_intros)
  subgoal unfolding assms components_of_def
    by (auto simp: connection_routes_def h_ListConnections_def h_ListInternalConnections_def
        h_ListSelectable_def h_ListConsumers_def h_CreateConnection_def h_TestConnection_def
        h_UpdateConnection_def h_DeleteConnection_def intro!: only_intros)
  subgoal unfolding assms components_of_def
    by (auto simp: service_routes_def h_ListServices_def h_StreamServices_def h_DeployService_def
        h_GetService_def h_UpdateServiceParameters_def h_DeleteService_def h_ListPods_def
        h_GetPodLogs_def h_GetServiceMetrics_def Let_def intro!: only_intros)
  subgoal unfolding assms components_of_def
    by (auto simp: spark_routes_def h_ListSparkApps_def h_StreamSparkApps_def h_SubmitSparkApp_def
        h_SubmitSparkAppYAML_def h_GetSparkApp_def h_UpdateSparkApp_def h_DeleteSparkApp_def
        h_GetSparkAppLogs_def h_GetSparkUI_def watched_app_def intro!: only_intros)
  done

text \<open>Every route of a project: its pattern, and its handler behind the guard of the project.\<close>

definition gated_route :: "route \<Rightarrow> bool" where
  "gated_route r = (case r of (m, p, h) \<Rightarrow>
     \<exists>q sub h0. p = ''/projects/:name/'' @ q \<and> hd (split_char (CHR ''/'') q) = sub \<and>
       (sub = [] \<or> hd sub \<noteq> CHR '':'') \<and> h = (\<lambda>rq. requireProject rq (h0 rq)) \<and>
       (\<forall>rq. only (in_project (project_of rq)) (h0 rq)) \<and>
       (\<forall>rq. runs (h0 rq) (\<lambda>tr x. preceded (feature_held sub) tr)))"

lemma gated_group:
  assumes "r \<in> set (route_group (''/projects/:name/'' @ q0) (\<lambda>rq n. requireProject rq (g n)) rs)"
    and "\<And>m p h rq. (m, p, h) \<in> set rs \<Longrightarrow> only (in_project (project_of rq)) (g (h rq))"
    and "\<And>m p h. (m, p, h) \<in> set rs \<Longrightarrow> hd (split_char (CHR ''/'') (q0 @ p)) = q0"
    and "\<And>h. runs (g h) (\<lambda>tr x. preceded (feature_held q0) tr)" and "q0 = [] \<or> hd q0 \<noteq> CHR '':''"
  shows "gated_route r"
proof -
  from assms(1) obtain m p h where "(m, p, h) \<in> set rs"
    and "r = (m, (''/projects/:name/'' @ q0) @ p, \<lambda>rq. requireProject rq (g (h rq)))"
    by (auto simp: route_group_def)
  with assms(2-5) show ?thesis
    unfolding gated_route_def
    by (auto intro!: exI [of _ "q0 @ p"] exI [of _ q0] exI [of _ "\<lambda>rq. g (h rq)"])
qed

lemma runs_stores: "runs (requireSecretStores h) (\<lambda>tr x. preceded (feature_held ''secret-stores'') tr)"
  and runs_externals: "runs (requireExternalSecrets h) (\<lambda>tr x. preceded (feature_held ''external-secrets'') tr)"
  unfolding requireSecretStores_def requireExternalSecrets_def SecretStoreRepository_Available_def
    ExternalSecretRepository_Available_def feature_held_def
  by (simp_all add: runs_feature)

lemma project_route:
  assumes "S = components_of L K cfg" and "r \<in> set (project_routes S)"
  shows "gated_route r"
proof -
  have metrics: "only (in_project (project_of rq)) (h_GetProjectMetrics S rq)" for rq
    unfolding h_GetProjectMetrics_def by (auto intro!: only_intros)
  note handlers = project_handlers [OF assms(1)]
  from assms(2) consider
      "r \<in> set (route_group (''/projects/:name/'' @ ''secret-stores'')
        (\<lambda>rq n. requireProject rq (requireSecretStores n)) (secret_store_routes S))"
    | "r \<in> set (route_group (''/projects/:name/'' @ ''external-secrets'')
        (\<lambda>rq n. requireProject rq (requireExternalSecrets n)) (external_secret_routes S))"
    | "r \<in> set (route_group (''/projects/:name/'' @ ''connections'')
        (\<lambda>rq n. requireProject rq n) (connection_routes S))"
    | "r \<in> set (route_group (''/projects/:name/'' @ ''services'')
        (\<lambda>rq n. requireProject rq n) (service_routes S))"
    | "r \<in> set (route_group (''/projects/:name/'' @ ''metrics'')
        (\<lambda>rq n. requireProject rq n) [(''GET'', [], h_GetProjectMetrics S)])"
    | "r \<in> set (route_group (''/projects/:name/'' @ ''spark-apps'')
        (\<lambda>rq n. requireProject rq n) (spark_routes S))"
    unfolding project_routes_def by auto
  then show ?thesis
  proof cases
    case 1
    then show ?thesis
      by (rule gated_group, intro only_requireProject(2) handlers(1))
        (auto simp: secret_store_routes_def intro: runs_stores)
  next
    case 2
    then show ?thesis
      by (rule gated_group, intro only_requireProject(3) handlers(2))
        (auto simp: external_secret_routes_def intro: runs_externals)
  next
    case 3
    then show ?thesis
      by (rule gated_group [where g = "\<lambda>n. n"], intro handlers(3))
        (auto simp: connection_routes_def intro!: runs_always preceded_True, auto simp: feature_held_def)
  next
    case 4
    then show ?thesis
      by (rule gated_group [where g = "\<lambda>n. n"], intro handlers(4))
        (auto simp: service_routes_def intro!: runs_always preceded_True, auto simp: feature_held_def)
  next
    case 5
    then show ?thesis
      by (rule gated_group [where g = "\<lambda>n. n"])
        (auto intro: metrics intro!: runs_always preceded_True, auto simp: feature_held_def)
  next
    case 6
    then show ?thesis
      by (rule gated_group [where g = "\<lambda>n. n"], intro handlers(5))
        (auto simp: spark_routes_def intro!: runs_always preceded_True, auto simp: feature_held_def)
  qed
qed

subsection \<open>The routes of the platform\<close>

text \<open>What a request may change, by its path.\<close>

definition footprint :: "config \<Rightarrow> string list \<Rightarrow> kcall \<Rightarrow> bool" where
  "footprint cfg path c =
     (case path of
        _ # area # rest \<Rightarrow>
          if area = ''projects'' then
            (case rest of p # _ # _ \<Rightarrow> in_project p c | _ \<Rightarrow> namespace_write c)
          else if area = ''platform-services'' then context_write cfg c
          else if area = ''v1'' then identity_write c
          else False
      | _ \<Rightarrow> False)"

lemma only_footprint:
  "only (in_project p) h \<Longrightarrow> only (footprint cfg (a # ''projects'' # p # b # rest)) h"
  "only namespace_write h \<Longrightarrow> only (footprint cfg [a, ''projects'']) h"
  "only namespace_write h \<Longrightarrow> only (footprint cfg [a, ''projects'', p]) h"
  "only (context_write cfg) h \<Longrightarrow> only (footprint cfg (a # ''platform-services'' # rest)) h"
  "only identity_write h \<Longrightarrow> only (footprint cfg (a # ''v1'' # rest)) h"
  by (auto simp: footprint_def elim!: only_mono)

lemma param_params [simp]: "param (rq\<lparr>rq_Params := ps\<rparr>) k = mstr ps k"
  by (simp add: param_def)

lemma platform_handlers:
  assumes "S = components_of L K cfg" and "(m, p, h) \<in> set (platform_routes S)"
    and "match_segments (segments (''/api'' @ p)) path = Some ps"
  shows "only (footprint cfg path) (h rq)"
  using assms(2,3) unfolding assms(1) components_of_def
  by (auto simp: platform_routes_def segments_def h_GetCapabilities_def h_ListProjects_def
      h_StreamProjects_def h_CreateProject_def h_GetProject_def h_UpdateProject_def h_DeleteProject_def
      h_GetContracts_def h_GetPlatformServices_def h_GetMenuCategories_def h_CreatePlatformService_def
      h_UpdatePlatformService_def h_DeletePlatformService_def h_GetServiceVersions_def
      h_GetServiceSchema_def h_GetServiceInputs_def h_GetProfileImages_def h_GetSparkConfig_def
      h_GetSparkAppSchema_def watched_project_def
      intro!: only_footprint only_intros)

lemma identity_handlers:
  assumes "S = components_of L K cfg" and "(m, p, h) \<in> set (identity_routes S)"
  shows "only identity_write (h rq)"
  using assms(2) unfolding assms(1) components_of_def
  by (auto simp: identity_routes_def h_ListUsers_def h_GetUser_def h_CreateUser_def h_UpdateUser_def
      h_DeleteUser_def h_ListGroups_def h_CreateGroup_def h_UpdateGroup_def h_DeleteGroup_def Let_def
      intro!: only_intros)

lemma only_identity_gate [only_intros]:
  "only P h \<Longrightarrow> only P (RequireIdentityAPI IdentityRepository_Available h)"
  unfolding RequireIdentityAPI_def by (auto intro!: only_intros)

text \<open>
  A route of the API is one of the platform, one of the identities behind their gate, or one of a
  project behind its guard, with the project of the path as its parameter.
\<close>

lemma api_route_cases:
  assumes "S = components_of L K cfg" and "(m, p, h) \<in> set (api_routes S)"
    and "match_segments (segments (''/api'' @ p)) path = Some ps"
  obtains "(m, p, h) \<in> set (platform_routes S)"
    | a rest q h0 where "path = a # ''v1'' # rest" "(m, q, h0) \<in> set (identity_routes S)"
        "h = (\<lambda>rq. RequireIdentityAPI IdentityRepository_Available (h0 rq))"
    | name b rest h0 where "path = ''api'' # ''projects'' # name # b # rest" "mstr ps ''name'' = name"
        "h = (\<lambda>rq. requireProject rq (h0 rq))" "\<And>rq. only (in_project (project_of rq)) (h0 rq)"
        "\<And>rq. runs (h0 rq) (\<lambda>tr x. preceded (feature_held b) tr)"
proof -
  from assms(2) consider "(m, p, h) \<in> set (platform_routes S)"
    | q h0 where "p = ''/v1/identity'' @ q" "(m, q, h0) \<in> set (identity_routes S)"
        "h = (\<lambda>rq. RequireIdentityAPI IdentityRepository_Available (h0 rq))"
    | "(m, p, h) \<in> set (project_routes S)"
    unfolding api_routes_def route_group_def by auto
  then show thesis
  proof cases
    case 1
    then show thesis by (rule that(1))
  next
    case 2
    have "\<exists>a rest. path = a # ''v1'' # rest"
      using assms(3) 2(1) split_char_Cons [of "CHR ''/''" "''identity'' @ q"]
      by (auto simp: segments_def)
    then show thesis using that(2) 2(2,3) by blast
  next
    case 3
    from project_route [OF assms(1) 3] obtain q sub h0 where q: "p = ''/projects/:name/'' @ q"
      and sub: "hd (split_char (CHR ''/'') q) = sub" "sub = [] \<or> hd sub \<noteq> CHR '':''"
      and h: "h = (\<lambda>rq. requireProject rq (h0 rq))" and only: "\<And>rq. only (in_project (project_of rq)) (h0 rq)"
      and pre: "\<And>rq. runs (h0 rq) (\<lambda>tr x. preceded (feature_held sub) tr)"
      unfolding gated_route_def by auto
    from split_char_Cons [of "CHR ''/''" q] sub(1) obtain ws where ws: "split_char (CHR ''/'') q = sub # ws"
      by auto
    from assms(3) sub(2) obtain name rest where "path = ''api'' # ''projects'' # name # sub # rest"
      "mstr ps ''name'' = name"
      unfolding q segments_project ws by (auto simp: mstr_def split: if_splits)
    then show thesis by (rule that(3)) (rule h, rule only, rule pre)
  qed
qed

lemma api_route_footprint:
  assumes "S = components_of L K cfg" and "(m, p, h) \<in> set (api_routes S)"
    and "match_segments (segments (''/api'' @ p)) path = Some ps"
  shows "only (footprint cfg path) (h (rq\<lparr>rq_Params := ps\<rparr>))"
  using assms
proof (cases rule: api_route_cases)
  case 1
  then show ?thesis by (rule platform_handlers [OF assms(1) _ assms(3)])
next
  case (2 a rest q h0)
  then show ?thesis by (auto intro!: only_footprint only_intros identity_handlers [OF assms(1)])
next
  case (3 name b rest h0)
  from 3(4) [of "rq\<lparr>rq_Params := ps\<rparr>"] 3(2) show ?thesis
    unfolding 3(1,3) by (auto intro!: only_footprint only_intros)
qed

lemma preceded_mono: "preceded G tr \<Longrightarrow> (\<And>es. G es \<Longrightarrow> H es) \<Longrightarrow> preceded H tr"
  using preceded_prefix [of G tr "[]" H] by simp

lemma api_route_guards:
  assumes "S = components_of L K cfg" and "(m, p, h) \<in> set (api_routes S)"
    and "match_segments (segments (''/api'' @ p)) path = Some ps"
  shows "runs (h (rq\<lparr>rq_Params := ps\<rparr>)) (\<lambda>tr x. preceded (guards_held path) tr)"
  using assms
proof (cases rule: api_route_cases)
  case 1
  then have "guards_held path es" for es
    using assms(3) by (auto simp: platform_routes_def segments_def guards_held_def)
  then show ?thesis by (auto intro: runs_always preceded_True)
next
  case (2 a rest q h0)
  then show ?thesis
    by (auto intro!: runs_mono [OF runs_identity_gate] elim!: preceded_mono simp: guards_held_def)
next
  case (3 name b rest h0)
  then show ?thesis
    by (auto intro!: runs_mono [OF runs_requireProject [OF 3(5)]] elim!: preceded_mono
        simp: guards_held_def feature_held_def)
qed

subsection \<open>Serving a request\<close>

lemma runs_serve:
  assumes "rq_Method rq = ''OPTIONS'' \<Longrightarrow> Q [] (Bare 204)" and "Q [] (Bare 404)" and "rq_Path rq = [''health''] \<Longrightarrow> Q [] (Body 200 MHealth)"
    and "\<And>m p h ps. (m, p, h) \<in> set (api_routes S) \<Longrightarrow>
           match_segments (segments (''/api'' @ p)) (rq_Path rq) = Some ps \<Longrightarrow>
           runs (authenticate verifier (''/api'' @ p) h (rq\<lparr>rq_Params := ps\<rparr>)) Q"
  shows "runs (serve gin verifier S rq) Q"
proof (cases "find_route gin rq (SetupRouter verifier S)")
  case None
  then show ?thesis using assms(1,2) by (simp add: serve_def corsMiddleware_def)
next
  case (Some a)
  obtain h ps where a: "a = (h, ps)" by (cases a)
  from find_route_Some [OF Some [unfolded a]] obtain m p where
    r: "(m, p, h) \<in> set (SetupRouter verifier S)" "match_segments (segments p) (rq_Path rq) = Some ps" by blast
  have "runs (h (rq\<lparr>rq_Params := ps\<rparr>)) Q"
  proof (cases "p = ''/health'' \<and> h = h_Health")
    case True
    with r(2) assms(3) show ?thesis by (simp add: h_Health_def segments_def)
  next
    case False
    with r(1) obtain q h0 where "(m, q, h0) \<in> set (api_routes S)" "p = ''/api'' @ q"
      "h = authenticate verifier p h0"
      by (auto simp: SetupRouter_def)
    with assms(4) r(2) show ?thesis by simp
  qed
  then show ?thesis using assms(1) by (simp add: serve_def corsMiddleware_def Some a)
qed

lemma runs_authenticate:
  assumes "runs (h rq) Q" and "\<And>t x. verify_only t \<Longrightarrow> status_of x = 401 \<Longrightarrow> Q t x"
    and "\<And>t0 t1 x. verify_only t0 \<Longrightarrow> Q t1 x \<Longrightarrow> Q (t0 @ t1) x"
  shows "runs (authenticate verifier p h rq) Q"
proof (cases verifier)
  case None
  with assms(1) show ?thesis by (simp add: authenticate_def)
next
  case (Some clientID)
  have "verify_only t" if "accepted_token clientID header t who" for header t who
    using that by (auto simp: accepted_token_def verify_only_def)
  then show ?thesis
    unfolding authenticate_def Some option.case
    by (intro runs_mono [OF runs_RequireAuthentication [where Q = "\<lambda>_. Q", OF assms(1)]]) (auto intro: assms(2,3))
qed

text \<open>
  C33. Whatever a request asks, the objects it changes are those its path addresses:
  under a project, objects in the namespace of that project and the OIDC client of one of its
  releases; on the projects themselves, namespaces; on the catalog, the platform Context; on the
  identity routes, users, groups and bindings of kubauth; anywhere else, nothing.
\<close>

theorem serve_footprint:
  "runs (serve gin verifier (components_of L K cfg) rq)
     (\<lambda>tr x. list_all (footprint cfg (rq_Path rq)) (writes tr))"
proof (rule runs_serve)
  fix m p h ps
  assume "(m, p, h) \<in> set (api_routes (components_of L K cfg))"
    and "match_segments (segments (''/api'' @ p)) (rq_Path rq) = Some ps"
  from api_route_footprint [OF refl this]
  have "only (footprint cfg (rq_Path rq)) (h (rq\<lparr>rq_Params := ps\<rparr>))" .
  then show "runs (authenticate verifier (''/api'' @ p) h (rq\<lparr>rq_Params := ps\<rparr>))
       (\<lambda>tr x. list_all (footprint cfg (rq_Path rq)) (writes tr))"
    unfolding only_def by (rule runs_authenticate) (auto dest: verify_only_reads)
qed auto

subsection \<open>Who is served\<close>

text \<open>The requests nobody has to sign for.\<close>

definition public_request :: "http_request \<Rightarrow> bool" where
  "public_request rq =
     (rq_Method rq = ''OPTIONS'' \<or> rq_Path rq = [''health''] \<or> rq_Path rq = [''api'', ''capabilities''])"

definition authenticated :: "string \<Rightarrow> http_request \<Rightarrow> ktrace \<Rightarrow> bool" where
  "authenticated clientID rq tr =
     (\<exists>who t1 t2. tr = t1 @ t2 \<and> accepted_token clientID (rq_Authorization rq) t1 who)"

lemma capabilities_route:
  "(m, p, h) \<in> set (api_routes S) \<Longrightarrow> ''/api'' @ p \<in> set publicPaths \<Longrightarrow> h = h_GetCapabilities"
  unfolding api_routes_def platform_routes_def project_routes_def route_group_def publicPaths_def
  by auto

text \<open>Served to the bearer of a token, public and changing nothing, or refused unasked.\<close>

definition access_controlled :: "string \<Rightarrow> http_request \<Rightarrow> ktrace \<Rightarrow> answer \<Rightarrow> bool" where
  "access_controlled clientID rq tr x =
     (authenticated clientID rq tr \<or>
      (public_request rq \<and> writes tr = []) \<or>
      (verify_only tr \<and> status_of x \<in> {401, 404}))"

lemma runs_access_controlled: "runs (serve gin (Some clientID) S rq) (access_controlled clientID rq)"
proof (rule runs_serve)
  fix m p h ps
  let ?rq = "rq\<lparr>rq_Params := ps\<rparr>" and ?path = "''/api'' @ p"
  assume r: "(m, p, h) \<in> set (api_routes S)" and path: "match_segments (segments ?path) (rq_Path rq) = Some ps"
  let ?P = "\<lambda>who tr x. ?path \<in> set publicPaths \<longrightarrow> writes tr = []"
  have h: "runs (h ?rq) (?P who)" for who
  proof (cases "?path \<in> set publicPaths")
    case True
    have "only (\<lambda>_. False) (h ?rq)"
      unfolding capabilities_route [OF r True] h_GetCapabilities_def by (intro only_intros)
    then show ?thesis by (intro runs_mono [OF only_nothing]) auto
  qed (simp add: runs_iff)
  have "public_request rq" if "?path \<in> set publicPaths"
    using that path by (auto simp: public_request_def publicPaths_def segments_def)
  then show "runs (authenticate (Some clientID) ?path h ?rq) (\<lambda>tr x.
       access_controlled clientID rq tr x)"
    unfolding authenticate_def option.case
    by (intro runs_mono [OF runs_RequireAuthentication [where Q = ?P, OF h]])
      (auto simp: access_controlled_def authenticated_def)
qed (auto simp: access_controlled_def public_request_def verify_only_def)

lemma runs_Load: "runs (Load env) (\<lambda>tr cfg. oc_Disabled (cf_OIDC cfg) = (env ''AUTH_DISABLED'' = Some ''true''))"
  by (auto simp: Load_def ownNamespace_def getEnv_def runs_bind Let_def split: option.split)

text \<open>A server that verifies: for one named client, every answer is under access control.\<close>

definition verifying :: "(http_request \<Rightarrow> answer kprog) \<Rightarrow> bool" where
  "verifying srv = (\<exists>clientID. clientID \<noteq> [] \<and> (\<forall>rq. runs (srv rq) (access_controlled clientID rq)))"

lemma runs_wire:
  assumes "oc_Disabled (cf_OIDC cfg) \<Longrightarrow> env ''AUTH_DISABLED'' = Some ''true''"
  shows "runs (wire gin L NewProvider cfg) (\<lambda>tr x. case x of
       Fatal m as \<Rightarrow> True
     | Continue srv \<Rightarrow> env ''AUTH_DISABLED'' = Some ''true'' \<or> verifying srv)"
  unfolding wire_def
proof (rule runs_seq [OF runs_True], goal_cases)
  case (1 t2 checked)
  show ?case
  proof (cases checked)
    case (Continue u)
    show ?thesis
      unfolding Continue outcome.case
      by (rule runs_seq [OF runs_buildTokenVerifier])
        (use assms in \<open>auto simp: verifier_choice_def verifying_def intro!: runs_access_controlled
           split: outcome.split option.splits\<close>)
  qed simp
qed

text \<open>
  C32. Unless its environment disables authentication in so many words, a
  server that starts refuses a request before it asks the cluster anything, or the request comes with
  a bearer token that the OIDC library verified and that names the client the server was set up for,
  or it is one of the public ones, which change nothing.
\<close>

theorem started_server_verifies:
  "runs (start_server gin L NewProvider env) (\<lambda>tr x. case x of
       Fatal m as \<Rightarrow> True
     | Continue srv \<Rightarrow> env ''AUTH_DISABLED'' = Some ''true'' \<or> verifying srv)"
  unfolding start_server_def
  by (rule runs_seq [OF runs_Load], rule runs_mono [OF runs_wire]) auto

lemma guards_held_mono: "guards_held path es \<Longrightarrow> guards_held path (es' \<union> es)"
  by (auto simp: guards_held_def project_held_def feature_held_def identity_held_def split: list.splits)

text \<open>
  C34. Before anything is changed under a project, the server has read the
  namespace of the project with the label that makes it one, and, on the routes of the vault
  integration, found the API of their resource available; before anything is changed on the identity
  routes, it has read that the platform is configured for kubauth and found its API available.
\<close>

theorem guards_before_changes:
  "runs (serve gin verifier (components_of L K cfg) rq)
     (\<lambda>tr x. preceded (guards_held (rq_Path rq)) tr)"
proof (rule runs_serve)
  fix m p h ps
  assume "(m, p, h) \<in> set (api_routes (components_of L K cfg))"
    and "match_segments (segments (''/api'' @ p)) (rq_Path rq) = Some ps"
  from api_route_guards [OF refl this]
  show "runs (authenticate verifier (''/api'' @ p) h (rq\<lparr>rq_Params := ps\<rparr>))
       (\<lambda>tr x. preceded (guards_held (rq_Path rq)) tr)"
    by (rule runs_authenticate)
      (auto intro: preceded_quiet preceded_prefix guards_held_mono dest: verify_only_reads)
qed (auto intro: preceded_quiet)

subsection \<open>The answer to the creation of a user, and the name an edition stores\<close>

text \<open>The password of a new user comes back to the client in the answer.\<close>

lemma created_user_answers_password:
  assumes "um_Groups user = []" and "um_Password user \<noteq> []"
  shows "\<exists>tr. exec (h_CreateUser (components_of L K cfg) (rq\<lparr>rq_Body := b\<lparr>bd_User := Inr user\<rparr>\<rparr>)) tr
    (Body 201 (MUser user))"
proof -
  have "\<exists>tr. replay (h_CreateUser (components_of L K cfg) (rq\<lparr>rq_Body := b\<lparr>bd_User := Inr user\<rparr>\<rparr>))
     [RText ''hash'', RErr bad_answer, ROk] = Some (tr, Body 201 (MUser user))"
    using assms
    by (simp add: h_CreateUser_def with_body_def answer_with_def CreateUser_def hash_password_def
        repo_CreateUser_def in_ns_def kubauthNamespace_def GetKubauthNamespace_def reading_def components_of_def
        call_obj_def call_unit_def user_object_def Let_def)
  then show ?thesis by (auto dest: replay_Some)
qed

text \<open>An edition stores the login of the path as the display name, whatever name the client sent.\<close>

definition display_name_is :: "string \<Rightarrow> kcall \<Rightarrow> bool" where
  "display_name_is name c = (case c of KUpdate g n (OUser u) \<Rightarrow> cu_Name u = name | _ \<Rightarrow> True)"

lemma UpdateUser_stores_login_as_name:
  "only (display_name_is (param rq ''name'')) (h_UpdateUser (components_of L K cfg) rq)"
  unfolding h_UpdateUser_def UpdateUser_def repo_GetUser_def repo_UpdateUser_def sync_groups_def
    add_binding_def remove_binding_def CreateGroupBinding_def DeleteGroupBindingByRef_def
    DeleteGroupBinding_def components_of_def Let_def
  by (auto simp: display_name_is_def user_object_def intro!: only_intros)

end
