(* ===== verification/API_Docs.thy ===== *)
theory API_Docs
  imports Router
begin

text \<open>
  The description of the API the server publishes (\<^verbatim>\<open>docs/docs.go\<close>, generated from the annotations
  of the handlers and registered by the binary): one list of operations per path, in the order of
  the document, with the parameters and the answers a client is told to expect. The longer
  descriptions of operations, parameters and answers are left out; the models are in theory
  \<^verbatim>\<open>API_Schemas\<close>. Against it stand the routes of the router and the answers of the handlers.
\<close>

subsection \<open>The document\<close>

datatype doc_schema =
    NoContent
  | Schema string
  | ArrayOf doc_schema
  | MapOf doc_schema
  | AnyObject
  | Anything
  | Primitive string

text \<open>
  An operation: method, path, summary, tags, the content types it consumes and produces, its
  parameters (name, place, whether it is required, schema) and its answers.
\<close>

datatype operation = Operation
  (op_Method: string)
  (op_Path: string)
  (op_Summary: string)
  (op_Tags: "string list")
  (op_Consumes: "string list")
  (op_Produces: "string list")
  (op_Params: "(string \<times> string \<times> bool \<times> doc_schema) list")
  (op_Responses: "(nat \<times> doc_schema) list")

text \<open>Errors are documented as an object of texts.\<close>

definition failure :: "nat \<Rightarrow> nat \<times> doc_schema" where
  "failure n = (n, MapOf (Primitive ''string''))"

definition doc_capabilities :: "operation list" where
 "doc_capabilities = [
  Operation ''GET'' ''/api/capabilities'' ''Get platform capabilities''
    [''capabilities''] [] [''application/json'']
    []
    [(200, Schema ''Capabilities'')]]"

definition doc_contracts :: "operation list" where
 "doc_contracts = [
  Operation ''GET'' ''/api/contracts'' ''List the available contracts''
    [''connections''] [] [''application/json'']
    []
    [(200, Schema ''ConnectionCatalogResponse'')]]"

definition doc_platform_categories :: "operation list" where
 "doc_platform_categories = [
  Operation ''GET'' ''/api/platform-categories'' ''List console navigation categories''
    [''platform-services''] [] [''application/json'']
    []
    [(200, ArrayOf (Schema ''MenuCategory'')), failure 500]]"

definition doc_platform_services :: "operation list" where
 "doc_platform_services = [
  Operation ''GET'' ''/api/platform-services'' ''List available platform services''
    [''platform-services''] [] [''application/json'']
    []
    [(200, ArrayOf (Schema ''PlatformService'')), failure 500],
  Operation ''POST'' ''/api/platform-services'' ''Add a service to the catalog''
    [''platform-services''] [''application/json''] [''application/json'']
    [(''request'', ''body'', True, Schema ''PlatformService'')]
    [(201, Schema ''PlatformService''), failure 400, failure 409, failure 500]]"

definition doc_platform_services_serviceName :: "operation list" where
 "doc_platform_services_serviceName = [
  Operation ''PUT'' ''/api/platform-services/{serviceName}'' ''Update a catalog service''
    [''platform-services''] [''application/json''] [''application/json'']
    [(''serviceName'', ''path'', True, Primitive ''string''),
     (''request'', ''body'', True, Schema ''PlatformService'')]
    [(200, Schema ''PlatformService''), failure 400, failure 404, failure 500],
  Operation ''DELETE'' ''/api/platform-services/{serviceName}'' ''Remove a catalog service''
    [''platform-services''] [] [''application/json'']
    [(''serviceName'', ''path'', True, Primitive ''string'')]
    [(204, NoContent), failure 404, failure 500]]"

definition doc_platform_services_serviceName_inputs :: "operation list" where
 "doc_platform_services_serviceName_inputs = [
  Operation ''GET'' ''/api/platform-services/{serviceName}/inputs'' (''Connections a service'' @ [CHR 0x27] @ ''s package declares it needs'')
    [''platform-services''] [] [''application/json'']
    [(''serviceName'', ''path'', True, Primitive ''string''),
     (''tag'', ''query'', False, Primitive ''string'')]
    [(200, ArrayOf (Schema ''PackageInput''))]]"

definition doc_platform_services_serviceName_schema :: "operation list" where
 "doc_platform_services_serviceName_schema = [
  Operation ''GET'' ''/api/platform-services/{serviceName}/schema'' ''Get JSON Schema for a platform service''
    [''platform-services''] [] [''application/json'']
    [(''serviceName'', ''path'', True, Primitive ''string''),
     (''tag'', ''query'', False, Primitive ''string'')]
    [(200, AnyObject), failure 404, failure 500]]"

definition doc_platform_services_serviceName_versions :: "operation list" where
 "doc_platform_services_serviceName_versions = [
  Operation ''GET'' ''/api/platform-services/{serviceName}/versions'' ''List available versions for a platform service''
    [''platform-services''] [] [''application/json'']
    [(''serviceName'', ''path'', True, Primitive ''string'')]
    [(200, Schema ''ServiceVersionsResponse''), failure 500]]"

definition doc_profile_images :: "operation list" where
 "doc_profile_images = [
  Operation ''GET'' ''/api/profile-images'' ''Get available profile images''
    [''platform-services''] [] [''application/json'']
    []
    [(200, MapOf (ArrayOf (Schema ''ProfileImage''))), failure 500]]"

definition doc_projects :: "operation list" where
 "doc_projects = [
  Operation ''GET'' ''/api/projects'' ''List all projects''
    [''projects''] [''application/json''] [''application/json'']
    []
    [(200, ArrayOf (Schema ''Project'')), failure 500],
  Operation ''POST'' ''/api/projects'' ''Create a project''
    [''projects''] [''application/json''] [''application/json'']
    [(''project'', ''body'', True, Schema ''Project'')]
    [(201, Schema ''Project''), failure 400, failure 500]]"

definition doc_projects_stream :: "operation list" where
 "doc_projects_stream = [
  Operation ''GET'' ''/api/projects/stream'' ''Stream project updates''
    [''projects''] [] [''text/event-stream'']
    []
    [(200, Primitive ''string''), failure 500]]"

definition doc_projects_name :: "operation list" where
 "doc_projects_name = [
  Operation ''GET'' ''/api/projects/{name}'' ''Get a project''
    [''projects''] [''application/json''] [''application/json'']
    [(''name'', ''path'', True, Primitive ''string'')]
    [(200, Schema ''Project''), failure 404, failure 500],
  Operation ''PUT'' ''/api/projects/{name}'' ''Update a project''
    [''projects''] [''application/json''] [''application/json'']
    [(''name'', ''path'', True, Primitive ''string''),
     (''project'', ''body'', True, Schema ''Project'')]
    [(200, Schema ''Project''), failure 400, failure 404, failure 500],
  Operation ''DELETE'' ''/api/projects/{name}'' ''Delete a project''
    [''projects''] [''application/json''] [''application/json'']
    [(''name'', ''path'', True, Primitive ''string'')]
    [(204, NoContent), failure 404, failure 500]]"

definition doc_projects_name_connections :: "operation list" where
 "doc_projects_name_connections = [
  Operation ''GET'' ''/api/projects/{name}/connections'' ''List the external connections of a project''
    [''connections''] [] [''application/json'']
    [(''name'', ''path'', True, Primitive ''string'')]
    [(200, ArrayOf (Schema ''ConnectionResponse'')), failure 500],
  Operation ''POST'' ''/api/projects/{name}/connections'' ''Create an external connection in a project''
    [''connections''] [''application/json''] [''application/json'']
    [(''name'', ''path'', True, Primitive ''string''),
     (''request'', ''body'', True, Schema ''ConnectionRequest'')]
    [(201, Schema ''ConnectionResponse''), failure 400, failure 409, failure 501]]"

definition doc_projects_name_connections_internal :: "operation list" where
 "doc_projects_name_connections_internal = [
  Operation ''GET'' ''/api/projects/{name}/connections/internal'' ''List the internal connections of a project''
    [''connections''] [] [''application/json'']
    [(''name'', ''path'', True, Primitive ''string'')]
    [(200, ArrayOf (Schema ''InternalConnection'')), failure 500]]"

definition doc_projects_name_connections_selectable :: "operation list" where
 "doc_projects_name_connections_selectable = [
  Operation ''GET'' ''/api/projects/{name}/connections/selectable'' ''Connections offered for a package input of a given contract''
    [''connections''] [] [''application/json'']
    [(''name'', ''path'', True, Primitive ''string''),
     (''contract'', ''query'', False, Primitive ''string'')]
    [(200, ArrayOf (Schema ''SelectableConnection''))]]"

definition doc_projects_name_connections_test :: "operation list" where
 "doc_projects_name_connections_test = [
  Operation ''POST'' ''/api/projects/{name}/connections/test'' ''Test a connection from the platform''
    [''connections''] [''application/json''] [''application/json'']
    [(''name'', ''path'', True, Primitive ''string''),
     (''request'', ''body'', True, Schema ''ConnectionTestRequest'')]
    [(200, Schema ''ConnectionTestResult''), failure 400]]"

definition doc_projects_name_connections_connName :: "operation list" where
 "doc_projects_name_connections_connName = [
  Operation ''PUT'' ''/api/projects/{name}/connections/{connName}'' ''Update an external connection of a project''
    [''connections''] [''application/json''] [''application/json'']
    [(''name'', ''path'', True, Primitive ''string''),
     (''connName'', ''path'', True, Primitive ''string''),
     (''request'', ''body'', True, Schema ''ConnectionRequest'')]
    [(200, Schema ''ConnectionResponse''), failure 400, failure 404, failure 501],
  Operation ''DELETE'' ''/api/projects/{name}/connections/{connName}'' ''Delete an external connection of a project''
    [''connections''] [] [''application/json'']
    [(''name'', ''path'', True, Primitive ''string''),
     (''connName'', ''path'', True, Primitive ''string'')]
    [(204, NoContent), failure 404, failure 501]]"

definition doc_projects_name_connections_connName_consumers :: "operation list" where
 "doc_projects_name_connections_connName_consumers = [
  Operation ''GET'' ''/api/projects/{name}/connections/{connName}/consumers'' ''Services of the project bound to a connection''
    [''connections''] [] [''application/json'']
    [(''name'', ''path'', True, Primitive ''string''),
     (''connName'', ''path'', True, Primitive ''string'')]
    [(200, ArrayOf (Schema ''ConnectionConsumer''))]]"

definition doc_projects_name_metrics :: "operation list" where
 "doc_projects_name_metrics = [
  Operation ''GET'' ''/api/projects/{name}/metrics'' ''Get live resource usage for every instance of a project''
    [''services''] [] [''application/json'']
    [(''name'', ''path'', True, Primitive ''string'')]
    [(200, MapOf (Schema ''ServiceMetrics'')), failure 500]]"

definition doc_projects_name_services :: "operation list" where
 "doc_projects_name_services = [
  Operation ''GET'' ''/api/projects/{name}/services'' ''List deployed services for a project''
    [''services''] [] [''application/json'']
    [(''name'', ''path'', True, Primitive ''string'')]
    [(200, ArrayOf (Schema ''ServiceInstance'')), failure 500],
  Operation ''POST'' ''/api/projects/{name}/services'' ''Deploy a platform service''
    [''services''] [''application/json''] [''application/json'']
    [(''name'', ''path'', True, Primitive ''string''),
     (''request'', ''body'', True, Schema ''ServiceRequest'')]
    [(201, Schema ''ServiceInstance''), failure 400, failure 409, failure 500]]"

definition doc_projects_name_services_stream :: "operation list" where
 "doc_projects_name_services_stream = [
  Operation ''GET'' ''/api/projects/{name}/services/stream'' ''Stream service updates''
    [''services''] [] [''text/event-stream'']
    [(''name'', ''path'', True, Primitive ''string'')]
    [(200, Primitive ''string''), failure 500]]"

definition doc_projects_name_services_serviceName :: "operation list" where
 "doc_projects_name_services_serviceName = [
  Operation ''GET'' ''/api/projects/{name}/services/{serviceName}'' ''Get a deployed service''
    [''services''] [] [''application/json'']
    [(''name'', ''path'', True, Primitive ''string''),
     (''serviceName'', ''path'', True, Primitive ''string'')]
    [(200, Schema ''ServiceInstance''), failure 404, failure 500],
  Operation ''DELETE'' ''/api/projects/{name}/services/{serviceName}'' ''Delete a deployed service''
    [''services''] [] [''application/json'']
    [(''name'', ''path'', True, Primitive ''string''),
     (''serviceName'', ''path'', True, Primitive ''string'')]
    [(204, NoContent), failure 404, failure 500]]"

definition doc_projects_name_services_serviceName_metrics :: "operation list" where
 "doc_projects_name_services_serviceName_metrics = [
  Operation ''GET'' ''/api/projects/{name}/services/{serviceName}/metrics'' ''Get live resource usage for a service instance''
    [''services''] [] [''application/json'']
    [(''name'', ''path'', True, Primitive ''string''),
     (''serviceName'', ''path'', True, Primitive ''string'')]
    [(200, Schema ''ServiceMetrics''), failure 500]]"

definition doc_projects_name_services_serviceName_parameters :: "operation list" where
 "doc_projects_name_services_serviceName_parameters = [
  Operation ''PATCH'' ''/api/projects/{name}/services/{serviceName}/parameters'' ''Update service parameters and/or version''
    [''services''] [''application/json''] [''application/json'']
    [(''name'', ''path'', True, Primitive ''string''),
     (''serviceName'', ''path'', True, Primitive ''string''),
     (''request'', ''body'', True, Schema ''ServiceUpdateRequest'')]
    [(200, Schema ''ServiceInstance''), failure 400, failure 404, failure 500]]"

definition doc_projects_name_services_serviceName_pods :: "operation list" where
 "doc_projects_name_services_serviceName_pods = [
  Operation ''GET'' ''/api/projects/{name}/services/{serviceName}/pods'' ''List pods for a service instance''
    [''services''] [] [''application/json'']
    [(''name'', ''path'', True, Primitive ''string''),
     (''serviceName'', ''path'', True, Primitive ''string'')]
    [(200, ArrayOf (Schema ''Pod'')), failure 500]]"

definition doc_projects_name_services_serviceName_pods_podName_logs :: "operation list" where
 "doc_projects_name_services_serviceName_pods_podName_logs = [
  Operation ''GET'' ''/api/projects/{name}/services/{serviceName}/pods/{podName}/logs'' ''Get pod logs''
    [''services''] [] [''text/plain'']
    [(''name'', ''path'', True, Primitive ''string''),
     (''serviceName'', ''path'', True, Primitive ''string''),
     (''podName'', ''path'', True, Primitive ''string''),
     (''container'', ''query'', False, Primitive ''string''),
     (''tailLines'', ''query'', False, Primitive ''integer''),
     (''follow'', ''query'', False, Primitive ''boolean'')]
    [(200, Primitive ''string''), failure 500]]"

definition doc_projects_name_spark_apps :: "operation list" where
 "doc_projects_name_spark_apps = [
  Operation ''GET'' ''/api/projects/{name}/spark-apps'' ''List Spark applications for a project''
    [''spark-apps''] [] [''application/json'']
    [(''name'', ''path'', True, Primitive ''string'')]
    [(200, ArrayOf (Schema ''SparkAppInstance'')), failure 500],
  Operation ''POST'' ''/api/projects/{name}/spark-apps'' ''Submit a Spark application''
    [''spark-apps''] [''application/json''] [''application/json'']
    [(''name'', ''path'', True, Primitive ''string''),
     (''request'', ''body'', True, Schema ''SparkAppRequest'')]
    [(201, Schema ''SparkAppInstance''), failure 400, failure 409, failure 500]]"

definition doc_projects_name_spark_apps_stream :: "operation list" where
 "doc_projects_name_spark_apps_stream = [
  Operation ''GET'' ''/api/projects/{name}/spark-apps/stream'' ''Stream Spark application updates''
    [''spark-apps''] [] [''text/event-stream'']
    [(''name'', ''path'', True, Primitive ''string'')]
    [(200, Primitive ''string''), failure 500]]"

definition doc_projects_name_spark_apps_yaml :: "operation list" where
 "doc_projects_name_spark_apps_yaml = [
  Operation ''POST'' ''/api/projects/{name}/spark-apps/yaml'' ''Submit a Spark application from YAML''
    [''spark-apps''] [''application/json''] [''application/json'']
    [(''name'', ''path'', True, Primitive ''string''),
     (''request'', ''body'', True, Schema ''SparkAppYAMLRequest'')]
    [(201, Schema ''SparkAppInstance''), failure 400, failure 409, failure 500]]"

definition doc_projects_name_spark_apps_appName :: "operation list" where
 "doc_projects_name_spark_apps_appName = [
  Operation ''GET'' ''/api/projects/{name}/spark-apps/{appName}'' ''Get a Spark application''
    [''spark-apps''] [] [''application/json'']
    [(''name'', ''path'', True, Primitive ''string''),
     (''appName'', ''path'', True, Primitive ''string'')]
    [(200, Schema ''SparkAppInstance''), failure 404, failure 500],
  Operation ''PUT'' ''/api/projects/{name}/spark-apps/{appName}'' ''Update a Spark application''
    [''spark-apps''] [''application/json''] [''application/json'']
    [(''name'', ''path'', True, Primitive ''string''),
     (''appName'', ''path'', True, Primitive ''string''),
     (''request'', ''body'', True, Schema ''SparkAppUpdateRequest'')]
    [(200, Schema ''SparkAppInstance''), failure 400, failure 404, failure 500],
  Operation ''DELETE'' ''/api/projects/{name}/spark-apps/{appName}'' ''Delete a Spark application''
    [''spark-apps''] [] [''application/json'']
    [(''name'', ''path'', True, Primitive ''string''),
     (''appName'', ''path'', True, Primitive ''string'')]
    [(204, NoContent), failure 404, failure 500]]"

definition doc_projects_name_spark_apps_appName_logs :: "operation list" where
 "doc_projects_name_spark_apps_appName_logs = [
  Operation ''GET'' ''/api/projects/{name}/spark-apps/{appName}/logs'' ''Get Spark application driver logs''
    [''spark-apps''] [] [''text/plain'']
    [(''name'', ''path'', True, Primitive ''string''),
     (''appName'', ''path'', True, Primitive ''string''),
     (''container'', ''query'', False, Primitive ''string''),
     (''tailLines'', ''query'', False, Primitive ''integer''),
     (''follow'', ''query'', False, Primitive ''boolean'')]
    [(200, Primitive ''string''), failure 404, failure 500]]"

definition doc_projects_name_spark_apps_appName_ui :: "operation list" where
 "doc_projects_name_spark_apps_appName_ui = [
  Operation ''GET'' ''/api/projects/{name}/spark-apps/{appName}/ui'' ''Get Spark application driver UI info''
    [''spark-apps''] [] [''application/json'']
    [(''name'', ''path'', True, Primitive ''string''),
     (''appName'', ''path'', True, Primitive ''string'')]
    [(200, Schema ''SparkUIInfo''), failure 404, failure 500]]"

definition doc_projects_projectId_external_secrets :: "operation list" where
 "doc_projects_projectId_external_secrets = [
  Operation ''GET'' ''/api/projects/{projectId}/external-secrets'' ''List external secrets for a project''
    [''external-secrets''] [''application/json''] [''application/json'']
    [(''name'', ''path'', True, Primitive ''string'')]
    [(200, ArrayOf (Schema ''ExternalSecretResponse'')), failure 500],
  Operation ''POST'' ''/api/projects/{projectId}/external-secrets'' ''Create an external secret''
    [''external-secrets''] [''application/json''] [''application/json'']
    [(''name'', ''path'', True, Primitive ''string''),
     (''request'', ''body'', True, Schema ''ExternalSecretRequest'')]
    [(201, Schema ''ExternalSecretResponse''), failure 400, failure 404, failure 409,
     failure 500]]"

definition doc_projects_projectId_external_secrets_esName :: "operation list" where
 "doc_projects_projectId_external_secrets_esName = [
  Operation ''PUT'' ''/api/projects/{projectId}/external-secrets/{esName}'' ''Update an external secret''
    [''external-secrets''] [''application/json''] [''application/json'']
    [(''name'', ''path'', True, Primitive ''string''),
     (''esName'', ''path'', True, Primitive ''string''),
     (''request'', ''body'', True, Schema ''ExternalSecretRequest'')]
    [(200, Schema ''ExternalSecretResponse''), failure 400, failure 404, failure 500],
  Operation ''DELETE'' ''/api/projects/{projectId}/external-secrets/{esName}'' ''Delete an external secret''
    [''external-secrets''] [''application/json''] [''application/json'']
    [(''name'', ''path'', True, Primitive ''string''),
     (''esName'', ''path'', True, Primitive ''string'')]
    [(204, NoContent), failure 404, failure 500]]"

definition doc_projects_projectId_external_secrets_esName_status :: "operation list" where
 "doc_projects_projectId_external_secrets_esName_status = [
  Operation ''GET'' ''/api/projects/{projectId}/external-secrets/{esName}/status'' ''Get external secret status''
    [''external-secrets''] [''application/json''] [''application/json'']
    [(''name'', ''path'', True, Primitive ''string''),
     (''esName'', ''path'', True, Primitive ''string'')]
    [(200, Schema ''ExternalSecretStatusResponse''), failure 404, failure 500]]"

definition doc_projects_projectId_secret_stores :: "operation list" where
 "doc_projects_projectId_secret_stores = [
  Operation ''GET'' ''/api/projects/{projectId}/secret-stores'' ''List secret stores for a project''
    [''secret-stores''] [''application/json''] [''application/json'']
    [(''name'', ''path'', True, Primitive ''string'')]
    [(200, ArrayOf (Schema ''SecretStoreResponse'')), failure 500],
  Operation ''POST'' ''/api/projects/{projectId}/secret-stores'' ''Create a secret store''
    [''secret-stores''] [''application/json''] [''application/json'']
    [(''name'', ''path'', True, Primitive ''string''),
     (''request'', ''body'', True, Schema ''SecretStoreRequest'')]
    [(201, Schema ''SecretStoreResponse''), failure 400, failure 409, failure 500]]"

definition doc_projects_projectId_secret_stores_test :: "operation list" where
 "doc_projects_projectId_secret_stores_test = [
  Operation ''POST'' ''/api/projects/{projectId}/secret-stores/test'' ''Test secret store connection''
    [''secret-stores''] [''application/json''] [''application/json'']
    [(''name'', ''path'', True, Primitive ''string''),
     (''request'', ''body'', True, Schema ''SecretStoreRequest'')]
    [(200, Schema ''TestConnectionResponse''), failure 400]]"

definition doc_projects_projectId_secret_stores_storeName :: "operation list" where
 "doc_projects_projectId_secret_stores_storeName = [
  Operation ''PUT'' ''/api/projects/{projectId}/secret-stores/{storeName}'' ''Update a secret store''
    [''secret-stores''] [''application/json''] [''application/json'']
    [(''name'', ''path'', True, Primitive ''string''),
     (''storeName'', ''path'', True, Primitive ''string''),
     (''request'', ''body'', True, Schema ''SecretStoreRequest'')]
    [(200, Schema ''SecretStoreResponse''), failure 400, failure 404, failure 500],
  Operation ''DELETE'' ''/api/projects/{projectId}/secret-stores/{storeName}'' ''Delete a secret store''
    [''secret-stores''] [''application/json''] [''application/json'']
    [(''name'', ''path'', True, Primitive ''string''),
     (''storeName'', ''path'', True, Primitive ''string'')]
    [(204, NoContent), failure 404, failure 500]]"

definition doc_projects_projectId_secret_stores_storeName_status :: "operation list" where
 "doc_projects_projectId_secret_stores_storeName_status = [
  Operation ''GET'' ''/api/projects/{projectId}/secret-stores/{storeName}/status'' ''Get secret store status''
    [''secret-stores''] [''application/json''] [''application/json'']
    [(''name'', ''path'', True, Primitive ''string''),
     (''storeName'', ''path'', True, Primitive ''string'')]
    [(200, Schema ''SecretStoreStatusResponse''), failure 404, failure 500]]"

definition doc_spark_app_schema :: "operation list" where
 "doc_spark_app_schema = [
  Operation ''GET'' ''/api/spark-app-schema'' ''Get SparkApplication CRD schema''
    [''spark-apps''] [] [''application/json'']
    []
    [(200, AnyObject), failure 404, failure 500]]"

definition doc_spark_config :: "operation list" where
 "doc_spark_config = [
  Operation ''GET'' ''/api/spark-config'' ''Get Spark operator configuration''
    [''spark-apps''] [] [''application/json'']
    []
    [(200, Schema ''SparkConfig''), failure 500]]"

definition doc_v1_identity_groups :: "operation list" where
 "doc_v1_identity_groups = [
  Operation ''GET'' ''/api/v1/identity/groups'' ''List all groups''
    [''identity''] [''application/json''] [''application/json'']
    []
    [(200, ArrayOf (Schema ''Group''))],
  Operation ''POST'' ''/api/v1/identity/groups'' ''Create a new group''
    [''identity''] [''application/json''] [''application/json'']
    [(''group'', ''body'', True, Schema ''Group'')]
    [(201, Schema ''Group'')]]"

definition doc_v1_identity_groups_name :: "operation list" where
 "doc_v1_identity_groups_name = [
  Operation ''PUT'' ''/api/v1/identity/groups/{name}'' ''Update a group''
    [''identity''] [''application/json''] [''application/json'']
    [(''name'', ''path'', True, Primitive ''string''),
     (''group'', ''body'', True, Schema ''Group'')]
    [(200, Schema ''Group'')],
  Operation ''DELETE'' ''/api/v1/identity/groups/{name}'' ''Delete a group''
    [''identity''] [''application/json''] [''application/json'']
    [(''name'', ''path'', True, Primitive ''string'')]
    [(204, NoContent)]]"

definition doc_v1_identity_users :: "operation list" where
 "doc_v1_identity_users = [
  Operation ''GET'' ''/api/v1/identity/users'' ''List all users''
    [''identity''] [''application/json''] [''application/json'']
    []
    [(200, ArrayOf (Schema ''User''))],
  Operation ''POST'' ''/api/v1/identity/users'' ''Create a new user''
    [''identity''] [''application/json''] [''application/json'']
    [(''user'', ''body'', True, Schema ''User'')]
    [(201, Schema ''User'')]]"

definition doc_v1_identity_users_name :: "operation list" where
 "doc_v1_identity_users_name = [
  Operation ''GET'' ''/api/v1/identity/users/{name}'' ''Get user by name''
    [''identity''] [''application/json''] [''application/json'']
    [(''name'', ''path'', True, Primitive ''string'')]
    [(200, Schema ''User'')],
  Operation ''PUT'' ''/api/v1/identity/users/{name}'' ''Update a user''
    [''identity''] [''application/json''] [''application/json'']
    [(''name'', ''path'', True, Primitive ''string''),
     (''user'', ''body'', True, Schema ''User'')]
    [(200, Schema ''User'')],
  Operation ''DELETE'' ''/api/v1/identity/users/{name}'' ''Delete a user''
    [''identity''] [''application/json''] [''application/json'']
    [(''name'', ''path'', True, Primitive ''string'')]
    [(204, NoContent)]]"

definition docTemplate :: "operation list" where
  "docTemplate =
     doc_capabilities @ doc_contracts @
     doc_platform_categories @ doc_platform_services @
     doc_platform_services_serviceName @ doc_platform_services_serviceName_inputs @
     doc_platform_services_serviceName_schema @ doc_platform_services_serviceName_versions @
     doc_profile_images @ doc_projects @
     doc_projects_stream @ doc_projects_name @
     doc_projects_name_connections @ doc_projects_name_connections_internal @
     doc_projects_name_connections_selectable @ doc_projects_name_connections_test @
     doc_projects_name_connections_connName @ doc_projects_name_connections_connName_consumers @
     doc_projects_name_metrics @ doc_projects_name_services @
     doc_projects_name_services_stream @ doc_projects_name_services_serviceName @
     doc_projects_name_services_serviceName_metrics @ doc_projects_name_services_serviceName_parameters @
     doc_projects_name_services_serviceName_pods @ doc_projects_name_services_serviceName_pods_podName_logs @
     doc_projects_name_spark_apps @ doc_projects_name_spark_apps_stream @
     doc_projects_name_spark_apps_yaml @ doc_projects_name_spark_apps_appName @
     doc_projects_name_spark_apps_appName_logs @ doc_projects_name_spark_apps_appName_ui @
     doc_projects_projectId_external_secrets @ doc_projects_projectId_external_secrets_esName @
     doc_projects_projectId_external_secrets_esName_status @ doc_projects_projectId_secret_stores @
     doc_projects_projectId_secret_stores_test @ doc_projects_projectId_secret_stores_storeName @
     doc_projects_projectId_secret_stores_storeName_status @ doc_spark_app_schema @
     doc_spark_config @ doc_v1_identity_groups @
     doc_v1_identity_groups_name @ doc_v1_identity_users @
     doc_v1_identity_users_name"

end
