(* ===== verification/API_Docs_Properties.thy ===== *)
theory API_Docs_Properties
  imports API_Docs "HOL-Library.Multiset"
begin

text \<open>The routes of the router against the operations of the published description.\<close>

subsection \<open>Routes\<close>

text \<open>The shape of a pattern: what stands between the slashes, parameters anonymous.\<close>

definition colon_param :: "string \<Rightarrow> string option" where
  "colon_param s = (if s \<noteq> [] \<and> hd s = CHR '':'' then Some (tl s) else None)"

definition brace_param :: "string \<Rightarrow> string option" where
  "brace_param s = (if s \<noteq> [] \<and> hd s = CHR ''{'' then Some (butlast (tl s)) else None)"

definition shape :: "(string \<Rightarrow> string option) \<Rightarrow> string list \<Rightarrow> string option list" where
  "shape seg ss = map (\<lambda>s. if seg s = None then Some s else None) ss"

definition path_params :: "(string \<Rightarrow> string option) \<Rightarrow> string list \<Rightarrow> string list" where
  "path_params seg ss = keep_some seg ss"

definition declared_params :: "operation \<Rightarrow> string list" where
  "declared_params op = map fst (filter (\<lambda>(name, place, required, sc). place = ''path'') (op_Params op))"

text \<open>An operation of the document and a route of the router, as a client tells them apart.\<close>

definition documented_route :: "operation \<Rightarrow> string \<times> string option list \<times> string list" where
  "documented_route op = (op_Method op, shape brace_param (segments (op_Path op)), declared_params op)"

definition registered_route :: "route \<Rightarrow> string \<times> string option list \<times> string list" where
  "registered_route r = (case r of (m, p, h) \<Rightarrow>
     let ss = segments p in (m, shape colon_param ss, path_params colon_param ss))"

text \<open>The routes under \<^verbatim>\<open>/api\<close>, and the operations of the document in the same order.\<close>

definition served_routes :: "string option \<Rightarrow> components \<Rightarrow> route list" where
  "served_routes verifier S = tl (SetupRouter verifier S)"

definition platform_docs :: "operation list" where
  "platform_docs =
    [doc_capabilities ! 0, doc_projects ! 0, doc_projects_stream ! 0, doc_projects ! 1, 
     doc_projects_name ! 0, doc_projects_name ! 1, doc_projects_name ! 2, doc_contracts ! 0, 
     doc_platform_services ! 0, doc_platform_categories ! 0, doc_platform_services ! 1, 
     doc_platform_services_serviceName ! 0, doc_platform_services_serviceName ! 1, 
     doc_platform_services_serviceName_versions ! 0, doc_platform_services_serviceName_schema ! 0, 
     doc_platform_services_serviceName_inputs ! 0, doc_profile_images ! 0, doc_spark_config ! 0, 
     doc_spark_app_schema ! 0]"

definition identity_docs :: "operation list" where
  "identity_docs =
    [doc_v1_identity_users ! 0, doc_v1_identity_users_name ! 0, doc_v1_identity_users ! 1, 
     doc_v1_identity_users_name ! 1, doc_v1_identity_users_name ! 2, doc_v1_identity_groups ! 0, 
     doc_v1_identity_groups ! 1, doc_v1_identity_groups_name ! 0, doc_v1_identity_groups_name ! 1]"

definition secret_store_docs :: "operation list" where
  "secret_store_docs =
    [doc_projects_projectId_secret_stores ! 0, doc_projects_projectId_secret_stores ! 1, 
     doc_projects_projectId_secret_stores_test ! 0, 
     doc_projects_projectId_secret_stores_storeName ! 0, 
     doc_projects_projectId_secret_stores_storeName ! 1, 
     doc_projects_projectId_secret_stores_storeName_status ! 0]"

definition external_secret_docs :: "operation list" where
  "external_secret_docs =
    [doc_projects_projectId_external_secrets ! 0, doc_projects_projectId_external_secrets ! 1, 
     doc_projects_projectId_external_secrets_esName ! 0, 
     doc_projects_projectId_external_secrets_esName ! 1, 
     doc_projects_projectId_external_secrets_esName_status ! 0]"

definition connection_docs :: "operation list" where
  "connection_docs =
    [doc_projects_name_connections ! 0, doc_projects_name_connections_internal ! 0, 
     doc_projects_name_connections_selectable ! 0, 
     doc_projects_name_connections_connName_consumers ! 0, doc_projects_name_connections ! 1, 
     doc_projects_name_connections_test ! 0, doc_projects_name_connections_connName ! 0, 
     doc_projects_name_connections_connName ! 1]"

definition service_docs :: "operation list" where
  "service_docs =
    [doc_projects_name_services ! 0, doc_projects_name_services_stream ! 0, 
     doc_projects_name_services ! 1, doc_projects_name_services_serviceName ! 0, 
     doc_projects_name_services_serviceName_parameters ! 0, 
     doc_projects_name_services_serviceName ! 1, doc_projects_name_services_serviceName_pods ! 0, 
     doc_projects_name_services_serviceName_pods_podName_logs ! 0, 
     doc_projects_name_services_serviceName_metrics ! 0]"

definition metrics_docs :: "operation list" where
  "metrics_docs =
    [doc_projects_name_metrics ! 0]"

definition spark_docs :: "operation list" where
  "spark_docs =
    [doc_projects_name_spark_apps ! 0, doc_projects_name_spark_apps_stream ! 0, 
     doc_projects_name_spark_apps ! 1, doc_projects_name_spark_apps_yaml ! 0, 
     doc_projects_name_spark_apps_appName ! 0, doc_projects_name_spark_apps_appName ! 1, 
     doc_projects_name_spark_apps_appName ! 2, doc_projects_name_spark_apps_appName_logs ! 0, 
     doc_projects_name_spark_apps_appName_ui ! 0]"

definition route_docs :: "operation list" where
  "route_docs = platform_docs @ identity_docs @ secret_store_docs @ external_secret_docs @
     connection_docs @ service_docs @ metrics_docs @ spark_docs"

lemmas docs_by_group = platform_docs_def identity_docs_def secret_store_docs_def external_secret_docs_def
  connection_docs_def service_docs_def metrics_docs_def spark_docs_def

definition misnamed :: "operation \<Rightarrow> bool" where
  "misnamed op = (path_params brace_param (segments (op_Path op)) \<noteq> declared_params op)"

definition api_patterns :: "components \<Rightarrow> (string \<times> string option list \<times> string list) list" where
  "api_patterns S =
     map (\<lambda>(m, p, h). let ss = segments (''/api'' @ p) in (m, shape colon_param ss, path_params colon_param ss))
       (api_routes S)"

lemma registered_patterns: "map registered_route (served_routes verifier S) = api_patterns S"
  by (simp add: served_routes_def SetupRouter_def api_patterns_def registered_route_def split_def)

text \<open>Both sides evaluate to one list; as arguments of a predicate they need not be compared.\<close>

lemma map_route_group:
  "map (\<lambda>(m, p, h). f m p) (route_group pre guard rs) = map (\<lambda>(m, p, h). f m (pre @ p)) rs"
  by (simp add: route_group_def split_def)

lemmas routes_by_group = platform_routes_def identity_routes_def secret_store_routes_def
  external_secret_routes_def connection_routes_def service_routes_def spark_routes_def

lemma documented_patterns_cong: "Q (map documented_route route_docs) \<longrightarrow> Q (api_patterns S)"
  unfolding route_docs_def docs_by_group api_patterns_def api_routes_def project_routes_def
    map_append map_route_group routes_by_group list.map prod.case
  by (code_simp, rule impI, assumption)

lemma documented_patterns: "map documented_route route_docs = api_patterns S"
  using documented_patterns_cong [of "(=) (map documented_route route_docs)"] by simp

text \<open>The operations in the order of the routes are those of the document.\<close>

lemma mset_parts:
  "length xs = 1 \<Longrightarrow> mset xs = {#xs ! 0#}"
  "length xs = 2 \<Longrightarrow> mset xs = {#xs ! 0, xs ! 1#}"
  "length xs = 3 \<Longrightarrow> mset xs = {#xs ! 0, xs ! 1, xs ! 2#}"
  by (auto simp: length_Suc_conv eval_nat_numeral)

lemma doc_lengths: "map length
   [doc_capabilities, doc_contracts, doc_platform_categories, doc_platform_services, 
    doc_platform_services_serviceName, doc_platform_services_serviceName_inputs, 
    doc_platform_services_serviceName_schema, doc_platform_services_serviceName_versions, 
    doc_profile_images, doc_projects, doc_projects_stream, doc_projects_name, 
    doc_projects_name_connections, doc_projects_name_connections_internal, 
    doc_projects_name_connections_selectable, doc_projects_name_connections_test, 
    doc_projects_name_connections_connName, doc_projects_name_connections_connName_consumers, 
    doc_projects_name_metrics, doc_projects_name_services, doc_projects_name_services_stream, 
    doc_projects_name_services_serviceName, doc_projects_name_services_serviceName_metrics, 
    doc_projects_name_services_serviceName_parameters, doc_projects_name_services_serviceName_pods, 
    doc_projects_name_services_serviceName_pods_podName_logs, doc_projects_name_spark_apps, 
    doc_projects_name_spark_apps_stream, doc_projects_name_spark_apps_yaml, 
    doc_projects_name_spark_apps_appName, doc_projects_name_spark_apps_appName_logs, 
    doc_projects_name_spark_apps_appName_ui, doc_projects_projectId_external_secrets, 
    doc_projects_projectId_external_secrets_esName, 
    doc_projects_projectId_external_secrets_esName_status, doc_projects_projectId_secret_stores, 
    doc_projects_projectId_secret_stores_test, doc_projects_projectId_secret_stores_storeName, 
    doc_projects_projectId_secret_stores_storeName_status, doc_spark_app_schema, doc_spark_config, 
    doc_v1_identity_groups, doc_v1_identity_groups_name, doc_v1_identity_users, 
    doc_v1_identity_users_name] =
   [1, 1, 1, 2, 2, 1, 1, 1, 1, 2, 1, 3, 2, 1, 1, 1, 2, 1, 1, 2, 1, 2, 1, 1, 1, 1, 2, 1, 1, 3, 1, 1, 
    2, 2, 1, 2, 1, 2, 1, 1, 1, 2, 2, 2, 3]"
  unfolding list.map
  by code_simp

lemma mset_groups:
  "mset platform_docs =
     mset doc_capabilities + mset doc_contracts + mset doc_platform_categories + 
     mset doc_platform_services + mset doc_platform_services_serviceName + 
     mset doc_platform_services_serviceName_inputs + 
     mset doc_platform_services_serviceName_schema + 
     mset doc_platform_services_serviceName_versions + mset doc_profile_images + 
     mset doc_projects + mset doc_projects_stream + mset doc_projects_name + 
     mset doc_spark_app_schema + mset doc_spark_config"
  "mset identity_docs =
     mset doc_v1_identity_groups + mset doc_v1_identity_groups_name + mset doc_v1_identity_users + 
     mset doc_v1_identity_users_name"
  "mset secret_store_docs =
     mset doc_projects_projectId_secret_stores + mset doc_projects_projectId_secret_stores_test + 
     mset doc_projects_projectId_secret_stores_storeName + 
     mset doc_projects_projectId_secret_stores_storeName_status"
  "mset external_secret_docs =
     mset doc_projects_projectId_external_secrets + 
     mset doc_projects_projectId_external_secrets_esName + 
     mset doc_projects_projectId_external_secrets_esName_status"
  "mset connection_docs =
     mset doc_projects_name_connections + mset doc_projects_name_connections_internal + 
     mset doc_projects_name_connections_selectable + mset doc_projects_name_connections_test + 
     mset doc_projects_name_connections_connName + 
     mset doc_projects_name_connections_connName_consumers"
  "mset service_docs =
     mset doc_projects_name_services + mset doc_projects_name_services_stream + 
     mset doc_projects_name_services_serviceName + 
     mset doc_projects_name_services_serviceName_metrics + 
     mset doc_projects_name_services_serviceName_parameters + 
     mset doc_projects_name_services_serviceName_pods + 
     mset doc_projects_name_services_serviceName_pods_podName_logs"
  "mset metrics_docs =
     mset doc_projects_name_metrics"
  "mset spark_docs =
     mset doc_projects_name_spark_apps + mset doc_projects_name_spark_apps_stream + 
     mset doc_projects_name_spark_apps_yaml + mset doc_projects_name_spark_apps_appName + 
     mset doc_projects_name_spark_apps_appName_logs + mset doc_projects_name_spark_apps_appName_ui"
  using doc_lengths by (simp_all add: docs_by_group mset_parts)

lemma route_docs_permute: "mset route_docs = mset docTemplate"
  by (simp add: route_docs_def docTemplate_def mset_groups ac_simps)

lemma misnamed_templates:
  "list_all (\<lambda>op. misnamed op = has_prefix (op_Path op) ''/api/projects/{projectId}'') docTemplate"
  unfolding docTemplate_def list_all_append by code_simp

lemma misnamed_operations: "filter misnamed docTemplate =
    filter (\<lambda>op. has_prefix (op_Path op) ''/api/projects/{projectId}'') docTemplate"
  using misnamed_templates by (auto simp: list_all_iff intro: filter_cong)

text \<open>
  C35. The published description and the router agree: taken in the order of the
  routes, the operations of the document have the method, the shape of the path and the path
  parameters of the routes, and no operation is left over. Only the templates of the secret
  stores and external secrets disagree: they name the project \<^verbatim>\<open>projectId\<close>, a parameter their
  own operations do not declare.
\<close>

theorem docs_match_routes:
  "map documented_route route_docs = map registered_route (served_routes verifier S) \<and>
   mset route_docs = mset docTemplate \<and>
   filter misnamed docTemplate =
     filter (\<lambda>op. has_prefix (op_Path op) ''/api/projects/{projectId}'') docTemplate"
  by (simp add: documented_patterns registered_patterns route_docs_permute misnamed_operations)

end
