(* ===== verification/API_Answers.thy ===== *)
theory API_Answers
  imports API_Docs_Properties
begin

text \<open>
  The answers of the routes against the answers the published description lists: the status, and
  the schema of the body. The tables of this theory say what every handler may answer.
\<close>

subsection \<open>Answers\<close>

text \<open>What a client sees of an answer: the status, and the schema of its body.\<close>

fun schema_of_model :: "model \<Rightarrow> doc_schema" where
  "schema_of_model MHealth = AnyObject"
| "schema_of_model (MCapabilities c) = Schema ''Capabilities''"
| "schema_of_model (MProjects ps) = ArrayOf (Schema ''Project'')"
| "schema_of_model (MProject p) = Schema ''Project''"
| "schema_of_model (MUsers us) = ArrayOf (Schema ''User'')"
| "schema_of_model (MUser u) = Schema ''User''"
| "schema_of_model (MGroups gs) = ArrayOf (Schema ''Group'')"
| "schema_of_model (MGroup g) = Schema ''Group''"
| "schema_of_model (MStores ss) = ArrayOf (Schema ''SecretStoreResponse'')"
| "schema_of_model (MStore s) = Schema ''SecretStoreResponse''"
| "schema_of_model (MStoreStatus s) = Schema ''SecretStoreStatusResponse''"
| "schema_of_model (MTestOK t) = Schema ''TestConnectionResponse''"
| "schema_of_model (MExternals es) = ArrayOf (Schema ''ExternalSecretResponse'')"
| "schema_of_model (MExternal e) = Schema ''ExternalSecretResponse''"
| "schema_of_model (MExternalStatus e) = Schema ''ExternalSecretStatusResponse''"
| "schema_of_model (MContracts c) = Schema ''ConnectionCatalogResponse''"
| "schema_of_model (MConnections cs) = ArrayOf (Schema ''ConnectionResponse'')"
| "schema_of_model (MConnection c) = Schema ''ConnectionResponse''"
| "schema_of_model (MInternal cs) = ArrayOf (Schema ''InternalConnection'')"
| "schema_of_model (MSelectable cs) = ArrayOf (Schema ''SelectableConnection'')"
| "schema_of_model (MConsumers cs) = ArrayOf (Schema ''ConnectionConsumer'')"
| "schema_of_model (MTestResult r) = Schema ''ConnectionTestResult''"
| "schema_of_model (MPlatformServices ps) = ArrayOf (Schema ''PlatformService'')"
| "schema_of_model (MPlatformService p) = Schema ''PlatformService''"
| "schema_of_model (MCategories cs) = ArrayOf (Schema ''MenuCategory'')"
| "schema_of_model (MVersions v) = Schema ''ServiceVersionsResponse''"
| "schema_of_model (MInputs is) = ArrayOf (Schema ''PackageInput'')"
| "schema_of_model (MSchema s) = AnyObject"
| "schema_of_model (MImages is) = MapOf (ArrayOf (Schema ''ProfileImage''))"
| "schema_of_model (MServices ss) = ArrayOf (Schema ''ServiceInstance'')"
| "schema_of_model (MService s) = Schema ''ServiceInstance''"
| "schema_of_model (MPods ps) = ArrayOf (Schema ''Pod'')"
| "schema_of_model (MMetrics m) = Schema ''ServiceMetrics''"
| "schema_of_model (MProjectMetrics ms) = MapOf (Schema ''ServiceMetrics'')"
| "schema_of_model (MSparkConfig c) = Schema ''SparkConfig''"
| "schema_of_model (MSparkApps as) = ArrayOf (Schema ''SparkAppInstance'')"
| "schema_of_model (MSparkApp a) = Schema ''SparkAppInstance''"
| "schema_of_model (MSparkUI u) = Schema ''SparkUIInfo''"
| "schema_of_model (MLog l) = Primitive ''string''"
| "schema_of_model (MLogStream l s) = Primitive ''string''"
| "schema_of_model (MProjectStream s) = Primitive ''string''"
| "schema_of_model (MServiceStream s) = Primitive ''string''"
| "schema_of_model (MSparkStream s) = Primitive ''string''"

fun answer_kind :: "answer \<Rightarrow> nat \<times> doc_schema" where
  "answer_kind (Body n m) = (n, schema_of_model m)"
| "answer_kind (ErrText n e) = failure n"
| "answer_kind (Message n f as) = failure n"
| "answer_kind (FeatureUnavailable f m) = failure 501"
| "answer_kind (Bare n) = (n, NoContent)"

definition answers_within :: "(nat \<times> doc_schema) list \<Rightarrow> answer kprog \<Rightarrow> bool" where
  "answers_within K p = runs p (\<lambda>tr x. answer_kind x \<in> set K)"

named_theorems answers_intros \<open>what a handler answers\<close>
named_theorems answer_simps \<open>what an error becomes\<close>

declare internal_error_def [answer_simps] missing_or_internal_def [answer_simps]
  exists_or_internal_def [answer_simps] project_missing_def [answer_simps]
  create_store_error_def [answer_simps] store_missing_def [answer_simps]
  update_store_error_def [answer_simps] create_external_error_def [answer_simps]
  external_missing_def [answer_simps] update_external_error_def [answer_simps]
  writeError_def [answer_simps] create_connection_error_def [answer_simps]
  writeCatalogError_def [answer_simps] service_missing_def [answer_simps] app_missing_def [answer_simps]

lemma answers_bind: "(\<And>a. answers_within K (f a)) \<Longrightarrow> answers_within K (prog_bind p f)"
  unfolding answers_within_def runs_bind by (simp add: runs_iff)

lemma answers_body [answers_intros]:
  "(\<And>a. answer_kind (f a) \<in> set K) \<Longrightarrow> answers_within K (prog_bind p (\<lambda>a. Ret (f a)))"
  by (rule answers_bind) (simp add: answers_within_def)

lemma answers_Ret: "answer_kind a \<in> set K \<Longrightarrow> answers_within K (Ret a)"
  by (simp add: answers_within_def)

lemma answers_answer_with [answers_intros]:
  assumes "\<forall>a. (ok, schema_of_model (model a)) \<in> set K" "\<forall>e. answer_kind (failed e) \<in> set K"
  shows "answers_within K (answer_with ok model failed p)"
  unfolding answer_with_def by (rule answers_bind, rule answers_Ret) (simp add: assms split: sum.split)

lemma answers_answer_none [answers_intros]:
  assumes "(204, NoContent) \<in> set K" "\<forall>e. answer_kind (failed e) \<in> set K"
  shows "answers_within K (answer_none failed p)"
  unfolding answer_none_def by (rule answers_bind, rule answers_Ret) (simp add: assms split: sum.split)

lemma answers_with_body [answers_intros]:
  assumes "failure 400 \<in> set K" "\<And>req. answers_within K (k req)"
  shows "answers_within K (with_body b k)"
  unfolding with_body_def by (auto intro: answers_Ret simp: assms split: sum.split)

lemma answers_serve_log [answers_intros]:
  assumes "(200, Primitive ''string'') \<in> set K" "\<forall>e. answer_kind (failed e) \<in> set K"
  shows "answers_within K (serve_log rq failed p)"
  unfolding serve_log_def by (rule answers_answer_with) (simp_all add: assms)

lemma answers_stream [answers_intros]:
  assumes "\<forall>s. (200, schema_of_model (model s)) \<in> set K" "failure 500 \<in> set K"
  shows "answers_within K (stream_answer op model convert fs)"
  unfolding stream_answer_def
  by (rule answers_bind) (auto intro!: answers_bind answers_Ret simp: assms split: sum.split)

lemma answers_weaken: "answers_within K p \<Longrightarrow> set K \<subseteq> set K' \<Longrightarrow> answers_within K' p"
  unfolding answers_within_def by (erule runs_mono) auto

definition route_answers :: "(nat \<times> doc_schema) list \<Rightarrow> route \<Rightarrow> bool" where
  "route_answers K r = (case r of (m, p, h) \<Rightarrow> \<forall>rq. answers_within K (h rq))"

text \<open>The answers of the handlers, route by route.\<close>

definition platform_answers :: "(nat \<times> doc_schema) list list" where
  "platform_answers =
    [[(200, Schema ''Capabilities''), failure 500],
     [(200, ArrayOf (Schema ''Project'')), failure 500],
     [(200, Primitive ''string''), failure 500],
     [(201, Schema ''Project''), failure 400, failure 500],
     [(200, Schema ''Project''), failure 404, failure 500],
     [(200, Schema ''Project''), failure 400, failure 404, failure 500],
     [(204, NoContent), failure 404, failure 500],
     [(200, Schema ''ConnectionCatalogResponse'')],
     [(200, ArrayOf (Schema ''PlatformService'')), failure 500],
     [(200, ArrayOf (Schema ''MenuCategory'')), failure 500],
     [(201, Schema ''PlatformService''), failure 400, failure 404, failure 409, failure 500],
     [(200, Schema ''PlatformService''), failure 400, failure 404, failure 409, failure 500],
     [(204, NoContent), failure 400, failure 404, failure 409, failure 500],
     [(200, Schema ''ServiceVersionsResponse''), failure 500],
     [(200, AnyObject), failure 500],
     [(200, ArrayOf (Schema ''PackageInput'')), failure 500],
     [(200, MapOf (ArrayOf (Schema ''ProfileImage''))), failure 500],
     [(200, Schema ''SparkConfig''), failure 500],
     [(200, AnyObject), failure 404]]"

lemma platform_answers: "list_all2 route_answers platform_answers (platform_routes S)"
  unfolding platform_answers_def platform_routes_def route_answers_def
  by (auto intro!: answers_intros answers_Ret
      simp: answer_simps Let_def
      h_GetCapabilities_def h_ListProjects_def h_StreamProjects_def h_CreateProject_def
      h_GetProject_def h_UpdateProject_def h_DeleteProject_def h_GetContracts_def
      h_GetPlatformServices_def h_GetMenuCategories_def h_CreatePlatformService_def
      h_UpdatePlatformService_def h_DeletePlatformService_def h_GetServiceVersions_def
      h_GetServiceSchema_def h_GetServiceInputs_def h_GetProfileImages_def h_GetSparkConfig_def
      h_GetSparkAppSchema_def)

definition identity_answers :: "(nat \<times> doc_schema) list list" where
  "identity_answers =
    [[(200, ArrayOf (Schema ''User'')), failure 500],
     [(200, Schema ''User''), failure 404, failure 500],
     [(201, Schema ''User''), failure 400, failure 500],
     [(200, Schema ''User''), failure 400, failure 500],
     [(204, NoContent), failure 500],
     [(200, ArrayOf (Schema ''Group'')), failure 500],
     [(201, Schema ''Group''), failure 400, failure 500],
     [(200, Schema ''Group''), failure 400, failure 500],
     [(204, NoContent), failure 500]]"

lemma identity_answers: "list_all2 route_answers identity_answers (identity_routes S)"
  unfolding identity_answers_def identity_routes_def route_answers_def
  by (auto intro!: answers_intros answers_Ret
      simp: answer_simps Let_def
      h_ListUsers_def h_GetUser_def h_CreateUser_def h_UpdateUser_def h_DeleteUser_def
      h_ListGroups_def h_CreateGroup_def h_UpdateGroup_def h_DeleteGroup_def)

definition secret_store_answers :: "(nat \<times> doc_schema) list list" where
  "secret_store_answers =
    [[(200, ArrayOf (Schema ''SecretStoreResponse'')), failure 500],
     [(201, Schema ''SecretStoreResponse''), failure 400, failure 409, failure 500],
     [(200, Schema ''TestConnectionResponse''), failure 400],
     [(200, Schema ''SecretStoreResponse''), failure 400, failure 404, failure 500],
     [(204, NoContent), failure 404, failure 500],
     [(200, Schema ''SecretStoreStatusResponse''), failure 404, failure 500]]"

lemma secret_store_answers: "list_all2 route_answers secret_store_answers (secret_store_routes S)"
  unfolding secret_store_answers_def secret_store_routes_def route_answers_def
  by (auto intro!: answers_intros answers_Ret
      simp: answer_simps Let_def
      h_ListSecretStores_def h_CreateSecretStore_def h_TestSecretStore_def
      h_UpdateSecretStore_def h_DeleteSecretStore_def h_SecretStoreStatus_def)

definition external_secret_answers :: "(nat \<times> doc_schema) list list" where
  "external_secret_answers =
    [[(200, ArrayOf (Schema ''ExternalSecretResponse'')), failure 500],
     [(201, Schema ''ExternalSecretResponse''), failure 400, failure 404, failure 409, failure 500],
     [(200, Schema ''ExternalSecretResponse''), failure 400, failure 404, failure 500],
     [(204, NoContent), failure 404, failure 500],
     [(200, Schema ''ExternalSecretStatusResponse''), failure 404, failure 500]]"

lemma external_secret_answers: "list_all2 route_answers external_secret_answers (external_secret_routes S)"
  unfolding external_secret_answers_def external_secret_routes_def route_answers_def
  by (auto intro!: answers_intros answers_Ret
      simp: answer_simps Let_def
      h_ListExternalSecrets_def h_CreateExternalSecret_def h_UpdateExternalSecret_def
      h_DeleteExternalSecret_def h_ExternalSecretStatus_def)

definition connection_answers :: "(nat \<times> doc_schema) list list" where
  "connection_answers =
    [[(200, ArrayOf (Schema ''ConnectionResponse'')), failure 500],
     [(200, ArrayOf (Schema ''InternalConnection'')), failure 500],
     [(200, ArrayOf (Schema ''SelectableConnection'')), failure 500],
     [(200, ArrayOf (Schema ''ConnectionConsumer'')), failure 500],
     [(201, Schema ''ConnectionResponse''), failure 400, failure 404, failure 409, failure 500, failure 501],
     [(200, Schema ''ConnectionTestResult''), failure 400],
     [(200, Schema ''ConnectionResponse''), failure 400, failure 404, failure 500, failure 501],
     [(204, NoContent), failure 400, failure 404, failure 500, failure 501]]"

lemma connection_answers: "list_all2 route_answers connection_answers (connection_routes S)"
  unfolding connection_answers_def connection_routes_def route_answers_def
  by (auto intro!: answers_intros answers_Ret
      simp: answer_simps Let_def
      h_ListConnections_def h_ListInternalConnections_def h_ListSelectable_def
      h_ListConsumers_def h_CreateConnection_def h_TestConnection_def h_UpdateConnection_def
      h_DeleteConnection_def)

definition service_answers :: "(nat \<times> doc_schema) list list" where
  "service_answers =
    [[(200, ArrayOf (Schema ''ServiceInstance'')), failure 500],
     [(200, Primitive ''string''), failure 500],
     [(201, Schema ''ServiceInstance''), failure 400, failure 409, failure 500],
     [(200, Schema ''ServiceInstance''), failure 404, failure 500],
     [(200, Schema ''ServiceInstance''), failure 400, failure 404, failure 500],
     [(204, NoContent), failure 404, failure 500],
     [(200, ArrayOf (Schema ''Pod'')), failure 500],
     [(200, Primitive ''string''), failure 500],
     [(200, Schema ''ServiceMetrics''), failure 500]]"

lemma service_answers: "list_all2 route_answers service_answers (service_routes S)"
  unfolding service_answers_def service_routes_def route_answers_def
  by (auto intro!: answers_intros answers_Ret
      simp: answer_simps Let_def
      h_ListServices_def h_StreamServices_def h_DeployService_def h_GetService_def
      h_UpdateServiceParameters_def h_DeleteService_def h_ListPods_def h_GetPodLogs_def
      h_GetServiceMetrics_def)

definition spark_answers :: "(nat \<times> doc_schema) list list" where
  "spark_answers =
    [[(200, ArrayOf (Schema ''SparkAppInstance'')), failure 500],
     [(200, Primitive ''string''), failure 500],
     [(201, Schema ''SparkAppInstance''), failure 400, failure 409, failure 500],
     [(201, Schema ''SparkAppInstance''), failure 400, failure 409, failure 500],
     [(200, Schema ''SparkAppInstance''), failure 404, failure 500],
     [(200, Schema ''SparkAppInstance''), failure 400, failure 404, failure 500],
     [(204, NoContent), failure 404, failure 500],
     [(200, Primitive ''string''), failure 404, failure 500],
     [(200, Schema ''SparkUIInfo''), failure 404, failure 500]]"

lemma spark_answers: "list_all2 route_answers spark_answers (spark_routes S)"
  unfolding spark_answers_def spark_routes_def route_answers_def
  by (auto intro!: answers_intros answers_Ret
      simp: answer_simps Let_def
      h_ListSparkApps_def h_StreamSparkApps_def h_SubmitSparkApp_def h_SubmitSparkAppYAML_def
      h_GetSparkApp_def h_UpdateSparkApp_def h_DeleteSparkApp_def h_GetSparkAppLogs_def
      h_GetSparkUI_def)

lemma metrics_answers:
  "answers_within [(200, MapOf (Schema ''ServiceMetrics'')), failure 500] (h_GetProjectMetrics S rq)"
  unfolding h_GetProjectMetrics_def by (auto intro!: answers_intros simp: answer_simps)

subsection \<open>Answers in front of the handlers\<close>

text \<open>What the guards of a route answer in place of its handler.\<close>

definition guard_answers :: "string \<Rightarrow> (nat \<times> doc_schema) list" where
  "guard_answers p =
     (if p \<in> set publicPaths then [] else [failure 401]) @
     (if has_prefix p ''/api/v1/identity'' then [failure 500, failure 501] else []) @
     (if has_prefix p ''/api/projects/:name/'' then [failure 400, failure 404, failure 500] else []) @
     (if has_prefix p ''/api/projects/:name/secret-stores'' \<or>
         has_prefix p ''/api/projects/:name/external-secrets'' then [failure 501] else [])"

text \<open>The statuses the handlers answer and the document leaves out.\<close>

definition undocumented :: "((string \<times> string) \<times> nat list) list" where
  "undocumented =
    [((''GET'', ''/api/capabilities''), [500]),
     ((''POST'', ''/api/platform-services''), [404]),
     ((''PUT'', ''/api/platform-services/{serviceName}''), [409]),
     ((''DELETE'', ''/api/platform-services/{serviceName}''), [400, 409]),
     ((''GET'', ''/api/platform-services/{serviceName}/inputs''), [500]),
     ((''GET'', ''/api/v1/identity/users''), [500]),
     ((''GET'', ''/api/v1/identity/users/{name}''), [404, 500]),
     ((''POST'', ''/api/v1/identity/users''), [400, 500]),
     ((''PUT'', ''/api/v1/identity/users/{name}''), [400, 500]),
     ((''DELETE'', ''/api/v1/identity/users/{name}''), [500]),
     ((''GET'', ''/api/v1/identity/groups''), [500]),
     ((''POST'', ''/api/v1/identity/groups''), [400, 500]),
     ((''PUT'', ''/api/v1/identity/groups/{name}''), [400, 500]),
     ((''DELETE'', ''/api/v1/identity/groups/{name}''), [500]),
     ((''GET'', ''/api/projects/{name}/connections/selectable''), [500]),
     ((''GET'', ''/api/projects/{name}/connections/{connName}/consumers''), [500]),
     ((''POST'', ''/api/projects/{name}/connections''), [404, 500]),
     ((''PUT'', ''/api/projects/{name}/connections/{connName}''), [500]),
     ((''DELETE'', ''/api/projects/{name}/connections/{connName}''), [400, 500])]"

definition undocumented_answers :: "operation \<Rightarrow> (nat \<times> doc_schema) list" where
  "undocumented_answers op =
     (case map_of undocumented (op_Method op, op_Path op) of None \<Rightarrow> [] | Some ns \<Rightarrow> map failure ns)"

definition allowed_answers :: "operation \<Rightarrow> string \<Rightarrow> (nat \<times> doc_schema) list" where
  "allowed_answers op p = op_Responses op @ guard_answers p @ undocumented_answers op"

definition handler_answers :: "(nat \<times> doc_schema) list list" where
  "handler_answers = platform_answers @ identity_answers @ secret_store_answers @ external_secret_answers @
     connection_answers @ service_answers @ [[(200, MapOf (Schema ''ServiceMetrics'')), failure 500]] @ spark_answers"

text \<open>The comparison by evaluation, which looks an operation up only for a status its document lacks.\<close>

definition answer_allowed :: "operation \<Rightarrow> nat \<times> doc_schema \<Rightarrow> bool" where
  "answer_allowed op k =
     (if k \<in> set (op_Responses op) then True else k \<in> set (undocumented_answers op))"

definition all_allowed :: "(nat \<times> doc_schema) list list \<Rightarrow> operation list \<Rightarrow> bool" where
  "all_allowed = list_all2 (\<lambda>K op. list_all (answer_allowed op) K)"

lemma group_answers_allowed:
  "all_allowed platform_answers platform_docs"
  "all_allowed identity_answers identity_docs"
  "all_allowed secret_store_answers secret_store_docs"
  "all_allowed external_secret_answers external_secret_docs"
  "all_allowed connection_answers connection_docs"
  "all_allowed service_answers service_docs"
  "all_allowed [[(200, MapOf (Schema ''ServiceMetrics'')), failure 500]] metrics_docs"
  "all_allowed spark_answers spark_docs"
  by code_simp+

lemma handler_answers_allowed: "all_allowed handler_answers route_docs"
  using group_answers_allowed unfolding handler_answers_def route_docs_def all_allowed_def
  by (intro list_all2_appendI)

lemma answer_allowed_iff: "answer_allowed op k \<longleftrightarrow> k \<in> set (op_Responses op @ undocumented_answers op)"
  by (simp add: answer_allowed_def)

lemma list_all2_common:
  assumes "list_all2 A ks xs" "list_all2 B ks ys" "\<And>k x y. A k x \<Longrightarrow> B k y \<Longrightarrow> C x y"
  shows "list_all2 C xs ys"
  using assms(1,2)
proof (induction ks arbitrary: xs ys)
  case (Cons k ks)
  then show ?case by (auto simp: list_all2_Cons1 intro: assms(3))
qed simp

text \<open>A route behind its guards.\<close>

definition route_guarded :: "(nat \<times> doc_schema) list \<Rightarrow> route \<Rightarrow> bool" where
  "route_guarded K r = (case r of (m, p, h) \<Rightarrow> \<forall>rq. answers_within (K @ guard_answers (''/api'' @ p)) (h rq))"

lemma guarded_group:
  assumes "list_all2 route_answers Ks routes"
    and "\<And>K rq p next'. answers_within K next' \<Longrightarrow>
      answers_within (K @ guard_answers (''/api'' @ prefix @ p)) (guard rq next')"
  shows "list_all2 route_guarded Ks (route_group prefix guard routes)"
  using assms(1) unfolding route_group_def list_all2_map2
  by (rule list_all2_mono)
    (simp add: route_guarded_def route_answers_def assms(2) [simplified] split: prod.splits)

lemma answers_error: "failure n \<in> set K \<Longrightarrow> answer_kind a = failure n \<Longrightarrow> answers_within K (Ret a)"
  by (simp add: answers_within_def)

lemma answers_RequireProject:
  assumes "answers_within K next'" "set K \<union> {failure 400, failure 404, failure 500} \<subseteq> set K'"
  shows "answers_within K' (requireProject rq next')"
  unfolding requireProject_def RequireProject_def using assms
  by (auto intro!: answers_bind answers_Ret intro: answers_weaken split: sum.split)

lemma answers_RequireFeature:
  assumes "answers_within K next'" "set K \<union> {failure 501} \<subseteq> set K'"
  shows "answers_within K' (RequireFeature available feature message next')"
  unfolding RequireFeature_def using assms
  by (auto intro!: answers_bind answers_Ret intro: answers_weaken)

lemma answers_RequireIdentityAPI:
  assumes "answers_within K next'" "set K \<union> {failure 500, failure 501} \<subseteq> set K'"
  shows "answers_within K' (RequireIdentityAPI installed next')"
proof -
  have "answers_within K' next'" using assms by (auto intro: answers_weaken)
  then show ?thesis
    unfolding RequireIdentityAPI_def using assms(2)
    by (auto intro!: answers_bind answers_Ret split: sum.split)
qed

lemma answers_authenticate:
  assumes "answers_within K (h rq)" "set K \<union> set (guard_answers path) \<subseteq> set K'"
  shows "answers_within K' (authenticate verifier path h rq)"
  unfolding authenticate_def RequireAuthentication_def using assms
  by (auto intro!: answers_bind answers_Ret intro: answers_weaken
      simp: guard_answers_def unauthorized_def split: option.split sum.split if_splits)

lemma guarded_routes: "list_all2 route_guarded handler_answers (api_routes S)"
proof -
  have platform: "list_all2 route_guarded platform_answers (platform_routes S)"
    by (rule list_all2_mono [OF platform_answers])
      (fastforce simp: route_answers_def route_guarded_def elim: answers_weaken)
  show ?thesis
    unfolding handler_answers_def api_routes_def project_routes_def
  proof (intro list_all2_appendI platform guarded_group identity_answers secret_store_answers
        external_secret_answers connection_answers service_answers spark_answers, goal_cases)
    case (1 K rq p next')
    then show ?case by (rule answers_RequireIdentityAPI) (auto simp: guard_answers_def)
  next
    case (2 K rq p next')
    then show ?case
      unfolding requireSecretStores_def
      by (intro answers_RequireProject [OF answers_RequireFeature [where K' = "K @ [failure 501]"]])
        (auto simp: guard_answers_def)
  next
    case (3 K rq p next')
    then show ?case
      unfolding requireExternalSecrets_def
      by (intro answers_RequireProject [OF answers_RequireFeature [where K' = "K @ [failure 501]"]])
        (auto simp: guard_answers_def)
  qed (assumption | rule answers_RequireProject | (auto simp: guard_answers_def; fail)
      | (simp add: route_answers_def metrics_answers; fail))+
qed

text \<open>Every route, with authentication in front, and the operation of the document it answers for.\<close>

definition answers_as_documented :: "operation \<Rightarrow> route \<Rightarrow> bool" where
  "answers_as_documented op r =
     (case r of (m, p, h) \<Rightarrow> \<forall>rq. answers_within (allowed_answers op p) (h rq))"

lemma served_as_documented:
  assumes "list_all (answer_allowed op) K" "route_guarded K (m, p, h)"
  shows "answers_as_documented op (m, ''/api'' @ p, authenticate verifier (''/api'' @ p) h)"
proof -
  have "answers_within (allowed_answers op (''/api'' @ p)) (authenticate verifier (''/api'' @ p) h rq)" for rq
  proof (rule answers_authenticate)
    show "answers_within (K @ guard_answers (''/api'' @ p)) (h rq)"
      using assms(2) by (simp add: route_guarded_def)
    show "set (K @ guard_answers (''/api'' @ p)) \<union> set (guard_answers (''/api'' @ p)) \<subseteq>
        set (allowed_answers op (''/api'' @ p))"
      using assms(1) by (auto simp: allowed_answers_def list_all_iff answer_allowed_iff)
  qed
  then show ?thesis by (simp add: answers_as_documented_def)
qed

text \<open>
  Whatever the request and whatever the cluster answers, what a route answers is listed: the status
  and the schema of the body are documented, or belong to a guard in front of the route, or to the
  table.
\<close>

lemma served_answers: "list_all2 answers_as_documented route_docs (served_routes verifier S)"
  unfolding served_routes_def SetupRouter_def list.sel list_all2_map2
  by (rule list_all2_common [OF handler_answers_allowed [unfolded all_allowed_def] guarded_routes])
    (auto intro: served_as_documented simp del: append.simps)

text \<open>
  The table is no excess of caution: when every call to the cluster fails, these operations answer
  a status that their description leaves out.
\<close>

primrec run_with :: "('c \<Rightarrow> 'r) \<Rightarrow> ('c, 'r, 'a) prog \<Rightarrow> 'a" where
  "run_with f (Ret a) = a"
| "run_with f (Call c k) = run_with f (k (f c))"

lemma run_with_exec: "\<exists>tr. exec m tr (run_with f m)"
proof (induction m)
  case (Call c k)
  then obtain tr where "exec (k (f c)) tr (run_with f (k (f c)))" by (meson rangeI)
  then show ?case by (auto intro: exec.call)
qed auto

lemma run_with_bind [simp]: "run_with f (prog_bind m g) = run_with f (g (run_with f m))"
  by (induction m) simp_all

lemma run_with_try [simp]:
  "run_with f (try_bind m g) = (case run_with f m of Inl e \<Rightarrow> Inl e | Inr a \<Rightarrow> run_with f (g a))"
  by (simp add: try_bind_def split: sum.split)

abbreviation outage :: "kcall \<Rightarrow> kresp" where
  "outage \<equiv> \<lambda>_. RErr (KubeErr OtherReason ''the server is unavailable'')"

definition undocumented_outages :: "components \<Rightarrow> http_request \<Rightarrow> answer kprog list" where
  "undocumented_outages S rq =
    [h_GetCapabilities rq, h_GetServiceInputs S rq, h_ListConsumers rq, h_ListUsers S rq, h_GetUser S rq,
     h_DeleteUser S rq, h_ListGroups S rq, h_DeleteGroup S rq]"

lemma outages_undocumented:
  "list_all (\<lambda>p. answer_kind (run_with outage p) = failure 500) (undocumented_outages S rq)"
  by (simp add: undocumented_outages_def h_GetCapabilities_def h_GetServiceInputs_def h_ListConsumers_def
      h_ListUsers_def h_GetUser_def h_DeleteUser_def h_ListGroups_def h_DeleteGroup_def
      answer_with_def answer_none_def internal_error_def missing_or_internal_def
      GetCapabilities_def GetIdentityProvider_def reading_def ListUsers_def repo_ListUsers_def in_ns_def
      GetUser_def repo_GetUser_def DeleteUser_def repo_DeleteUser_def ListGroupBindings_def
      ListGroups_def repo_ListGroups_def DeleteGroup_def repo_DeleteGroup_def
      GetPackageInputs_def resolvePackage_def ContextRepository_GetPlatformServices_def Connection_ListConsumers_def ServiceRepository_List_def
      call_items_def call_obj_def call_unit_def split: sum.split)

end
