(* ===== verification/API_Schemas.thy ===== *)
theory API_Schemas
  imports API_Docs
begin

text \<open>
  The models of the published description (the \<^verbatim>\<open>definitions\<close> of \<^verbatim>\<open>docs/docs.go\<close>), which the
  parameters and the answers of the operations refer to: for each, the properties a value must
  have and the schema of every property. The names are without their package, the descriptions
  are left out, and an \<^verbatim>\<open>allOf\<close> of one reference (the form of a described reference) is the
  reference.
\<close>

datatype model_schema = ModelSchema
  (ms_Name: string)
  (ms_Required: "string list")
  (ms_Properties: "(string \<times> doc_schema) list")

definition model_Capabilities :: model_schema where
  "model_Capabilities = ModelSchema ''Capabilities'' []
    [(''identity'', Schema ''IdentityCapability''),
     (''oidcProvisioning'', Schema ''OidcProvisioningCapability'')]"

definition model_ConnectionCatalogResponse :: model_schema where
  "model_ConnectionCatalogResponse = ModelSchema ''ConnectionCatalogResponse'' []
    [(''crdAvailable'', Primitive ''boolean''),
     (''types'', ArrayOf (Schema ''ContractDescriptor''))]"

definition model_ConnectionConsumer :: model_schema where
  "model_ConnectionConsumer = ModelSchema ''ConnectionConsumer'' []
    [(''effective'', Primitive ''boolean''), (''releaseName'', Primitive ''string''),
     (''service'', Primitive ''string''), (''status'', Primitive ''string'')]"

definition model_ConnectionField :: model_schema where
  "model_ConnectionField = ModelSchema ''ConnectionField'' []
    [(''default'', Anything), (''derived'', Schema ''FieldDerivation''),
     (''help'', Primitive ''string''), (''label'', Primitive ''string''),
     (''masked'', Primitive ''boolean''), (''max'', Primitive ''number''),
     (''min'', Primitive ''number''), (''name'', Primitive ''string''),
     (''options'', ArrayOf (Primitive ''string'')), (''placeholder'', Primitive ''string''),
     (''required'', Primitive ''boolean''), (''secret'', Primitive ''boolean''),
     (''showWhen'', Schema ''FieldCondition''), (''type'', Primitive ''string'')]"

definition model_ConnectionRequest :: model_schema where
  "model_ConnectionRequest = ModelSchema ''ConnectionRequest'' [''name'', ''type'', ''values'']
    [(''description'', Primitive ''string''), (''existingSecret'', Primitive ''string''),
     (''name'', Primitive ''string''), (''type'', Primitive ''string''), (''values'', AnyObject)]"

definition model_ConnectionResponse :: model_schema where
  "model_ConnectionResponse = ModelSchema ''ConnectionResponse'' []
    [(''createdAt'', Primitive ''string''),
     (''credentialsSecret'', Schema ''CredentialsSecretRef''),
     (''description'', Primitive ''string''), (''message'', Primitive ''string''),
     (''name'', Primitive ''string''), (''namespace'', Primitive ''string''),
     (''scope'', Primitive ''string''), (''secretFields'', ArrayOf (Primitive ''string'')),
     (''status'', Primitive ''string''), (''type'', Primitive ''string''), (''values'', AnyObject)]"

definition model_ConnectionTestCheck :: model_schema where
  "model_ConnectionTestCheck = ModelSchema ''ConnectionTestCheck'' []
    [(''decisive'', Primitive ''boolean''), (''label'', Primitive ''string''),
     (''message'', Primitive ''string''), (''reason'', Primitive ''string''),
     (''success'', Primitive ''boolean''), (''target'', Primitive ''string'')]"

definition model_ConnectionTestRequest :: model_schema where
  "model_ConnectionTestRequest = ModelSchema ''ConnectionTestRequest'' [''type'', ''values'']
    [(''type'', Primitive ''string''), (''values'', AnyObject)]"

definition model_ConnectionTestResult :: model_schema where
  "model_ConnectionTestResult = ModelSchema ''ConnectionTestResult'' []
    [(''checks'', ArrayOf (Schema ''ConnectionTestCheck'')),
     (''durationMs'', Primitive ''integer''), (''message'', Primitive ''string''),
     (''reason'', Primitive ''string''), (''success'', Primitive ''boolean'')]"

definition model_Container :: model_schema where
  "model_Container = ModelSchema ''Container'' []
    [(''image'', Primitive ''string''), (''name'', Primitive ''string''),
     (''ready'', Primitive ''boolean'')]"

definition model_ContractDescriptor :: model_schema where
  "model_ContractDescriptor = ModelSchema ''ContractDescriptor'' []
    [(''category'', Primitive ''string''), (''description'', Primitive ''string''),
     (''displayName'', Primitive ''string''), (''endpointFrom'', ArrayOf (Primitive ''string'')),
     (''external'', Primitive ''boolean''), (''fields'', ArrayOf (Schema ''ConnectionField'')),
     (''icon'', Primitive ''string''), (''name'', Primitive ''string'')]"

definition model_CredentialsSecretRef :: model_schema where
  "model_CredentialsSecretRef = ModelSchema ''CredentialsSecretRef'' []
    [(''keys'', ArrayOf (Primitive ''string'')), (''name'', Primitive ''string''),
     (''namespace'', Primitive ''string''), (''owned'', Primitive ''boolean'')]"

definition model_ExecutorDefaults :: model_schema where
  "model_ExecutorDefaults = ModelSchema ''ExecutorDefaults'' []
    [(''cores'', Primitive ''integer''), (''instances'', Primitive ''integer''),
     (''memory'', Primitive ''string'')]"

definition model_ExternalSecretDataEntry :: model_schema where
  "model_ExternalSecretDataEntry = ModelSchema ''ExternalSecretDataEntry'' [''remoteRef'', ''secretKey'']
    [(''remoteRef'', Schema ''ExternalSecretRemote''), (''secretKey'', Primitive ''string'')]"

definition model_ExternalSecretRemote :: model_schema where
  "model_ExternalSecretRemote = ModelSchema ''ExternalSecretRemote'' [''key'']
    [(''key'', Primitive ''string''), (''property'', Primitive ''string'')]"

definition model_ExternalSecretRequest :: model_schema where
  "model_ExternalSecretRequest = ModelSchema ''ExternalSecretRequest'' [''data'', ''refreshInterval'', ''secretStoreRef'', ''target'']
    [(''data'', ArrayOf (Schema ''ExternalSecretDataEntry'')), (''name'', Primitive ''string''),
     (''refreshInterval'', Primitive ''string''), (''secretStoreRef'', Primitive ''string''),
     (''target'', Schema ''ExternalSecretTarget'')]"

definition model_ExternalSecretResponse :: model_schema where
  "model_ExternalSecretResponse = ModelSchema ''ExternalSecretResponse'' []
    [(''createdAt'', Primitive ''string''),
     (''data'', ArrayOf (Schema ''ExternalSecretDataEntry'')),
     (''lastError'', Primitive ''string''), (''lastSyncedAt'', Primitive ''string''),
     (''name'', Primitive ''string''), (''namespace'', Primitive ''string''),
     (''refreshInterval'', Primitive ''string''), (''secretStoreRef'', Primitive ''string''),
     (''status'', Primitive ''string''), (''target'', Schema ''ExternalSecretTargetResponse'')]"

definition model_ExternalSecretStatusResponse :: model_schema where
  "model_ExternalSecretStatusResponse = ModelSchema ''ExternalSecretStatusResponse'' []
    [(''conditions'', ArrayOf (Schema ''SecretStoreCondition'')),
     (''lastError'', Primitive ''string''), (''lastSyncedAt'', Primitive ''string''),
     (''status'', Primitive ''string'')]"

definition model_ExternalSecretTarget :: model_schema where
  "model_ExternalSecretTarget = ModelSchema ''ExternalSecretTarget'' [''name'']
    [(''name'', Primitive ''string'')]"

definition model_ExternalSecretTargetResponse :: model_schema where
  "model_ExternalSecretTargetResponse = ModelSchema ''ExternalSecretTargetResponse'' []
    [(''creationPolicy'', Primitive ''string''), (''name'', Primitive ''string'')]"

definition model_FieldCondition :: model_schema where
  "model_FieldCondition = ModelSchema ''FieldCondition'' []
    [(''field'', Primitive ''string''), (''value'', Primitive ''string'')]"

definition model_FieldDerivation :: model_schema where
  "model_FieldDerivation = ModelSchema ''FieldDerivation'' []
    [(''from'', Primitive ''string''), (''map'', MapOf (Primitive ''string''))]"

definition model_Group :: model_schema where
  "model_Group = ModelSchema ''Group'' []
    [(''comment'', Primitive ''string''), (''description'', Primitive ''string''),
     (''name'', Primitive ''string'')]"

definition model_IdentityCapability :: model_schema where
  "model_IdentityCapability = ModelSchema ''IdentityCapability'' []
    [(''oidc'', Schema ''IdentityOidcConfig''), (''provider'', Primitive ''string''),
     (''userManagement'', Primitive ''boolean'')]"

definition model_IdentityOidcConfig :: model_schema where
  "model_IdentityOidcConfig = ModelSchema ''IdentityOidcConfig'' []
    [(''authority'', Primitive ''string''), (''clientId'', Primitive ''string''),
     (''scope'', Primitive ''string'')]"

definition model_InternalConnection :: model_schema where
  "model_InternalConnection = ModelSchema ''InternalConnection'' []
    [(''category'', Primitive ''string''), (''createdAt'', Primitive ''string''),
     (''endpoint'', Primitive ''string''), (''host'', Primitive ''string''),
     (''icon'', Primitive ''string''), (''managed'', Primitive ''boolean''),
     (''name'', Primitive ''string''), (''namespace'', Primitive ''string''),
     (''port'', Primitive ''integer''), (''releaseName'', Primitive ''string''),
     (''service'', Primitive ''string''), (''status'', Primitive ''string''),
     (''type'', Primitive ''string''), (''typeDisplay'', Primitive ''string''),
     (''values'', AnyObject)]"

definition model_MenuCategory :: model_schema where
  "model_MenuCategory = ModelSchema ''MenuCategory'' []
    [(''icon'', Primitive ''string''), (''key'', Primitive ''string''),
     (''label'', Primitive ''string''), (''order'', Primitive ''integer'')]"

definition model_MetricValue :: model_schema where
  "model_MetricValue = ModelSchema ''MetricValue'' []
    [(''available'', Primitive ''boolean''), (''limit'', Primitive ''string''),
     (''limitRaw'', Primitive ''number''), (''pct'', Primitive ''number''),
     (''used'', Primitive ''string''), (''usedRaw'', Primitive ''number'')]"

definition model_OidcProvisioningCapability :: model_schema where
  "model_OidcProvisioningCapability = ModelSchema ''OidcProvisioningCapability'' []
    [(''provider'', Primitive ''string'')]"

definition model_PackageInput :: model_schema where
  "model_PackageInput = ModelSchema ''PackageInput'' []
    [(''alias'', Primitive ''string''), (''contract'', Primitive ''string''),
     (''default'', Primitive ''string''), (''description'', Primitive ''string''),
     (''optional'', Primitive ''boolean''), (''parameter'', Primitive ''string'')]"

definition model_PlatformService :: model_schema where
  "model_PlatformService = ModelSchema ''PlatformService'' []
    [(''category'', Primitive ''string''), (''defaultVersion'', Primitive ''string''),
     (''description'', Primitive ''string''), (''exposesUI'', Primitive ''boolean''),
     (''icon'', Primitive ''string''), (''label'', Primitive ''string''),
     (''name'', Primitive ''string''), (''repository'', Primitive ''string''),
     (''versions'', ArrayOf (Primitive ''string''))]"

definition model_Pod :: model_schema where
  "model_Pod = ModelSchema ''Pod'' []
    [(''age'', Primitive ''string''), (''containers'', ArrayOf (Schema ''Container'')),
     (''name'', Primitive ''string''), (''ready'', Primitive ''string''),
     (''restarts'', Primitive ''integer''), (''status'', Primitive ''string'')]"

definition model_ProfileImage :: model_schema where
  "model_ProfileImage = ModelSchema ''ProfileImage'' []
    [(''image'', Primitive ''string''), (''label'', Primitive ''string'')]"

definition model_Project :: model_schema where
  "model_Project = ModelSchema ''Project'' []
    [(''description'', Primitive ''string''), (''name'', Primitive ''string'')]"

definition model_ResourceDefaults :: model_schema where
  "model_ResourceDefaults = ModelSchema ''ResourceDefaults'' []
    [(''cores'', Primitive ''integer''), (''memory'', Primitive ''string'')]"

definition model_SecretAuthConfig :: model_schema where
  "model_SecretAuthConfig = ModelSchema ''SecretAuthConfig'' []
    [(''mountPath'', Primitive ''string''), (''role'', Primitive ''string''),
     (''serviceAccount'', Primitive ''string''), (''token'', Primitive ''string'')]"

definition model_SecretAuthConfigSafe :: model_schema where
  "model_SecretAuthConfigSafe = ModelSchema ''SecretAuthConfigSafe'' []
    [(''mountPath'', Primitive ''string''), (''role'', Primitive ''string''),
     (''serviceAccount'', Primitive ''string'')]"

definition model_SecretStoreAuth :: model_schema where
  "model_SecretStoreAuth = ModelSchema ''SecretStoreAuth'' [''config'', ''type'']
    [(''config'', Schema ''SecretAuthConfig''), (''type'', Primitive ''string'')]"

definition model_SecretStoreAuthResponse :: model_schema where
  "model_SecretStoreAuthResponse = ModelSchema ''SecretStoreAuthResponse'' []
    [(''config'', Schema ''SecretAuthConfigSafe''), (''type'', Primitive ''string'')]"

definition model_SecretStoreCondition :: model_schema where
  "model_SecretStoreCondition = ModelSchema ''SecretStoreCondition'' []
    [(''lastTransitionTime'', Primitive ''string''), (''message'', Primitive ''string''),
     (''reason'', Primitive ''string''), (''status'', Primitive ''string''),
     (''type'', Primitive ''string'')]"

definition model_SecretStoreRequest :: model_schema where
  "model_SecretStoreRequest = ModelSchema ''SecretStoreRequest'' [''auth'', ''provider'', ''vault'']
    [(''auth'', Schema ''SecretStoreAuth''), (''isDefault'', Primitive ''boolean''),
     (''name'', Primitive ''string''), (''provider'', Primitive ''string''),
     (''vault'', Schema ''VaultConfig'')]"

definition model_SecretStoreResponse :: model_schema where
  "model_SecretStoreResponse = ModelSchema ''SecretStoreResponse'' []
    [(''auth'', Schema ''SecretStoreAuthResponse''), (''createdAt'', Primitive ''string''),
     (''isDefault'', Primitive ''boolean''), (''lastCheckedAt'', Primitive ''string''),
     (''lastError'', Primitive ''string''), (''name'', Primitive ''string''),
     (''namespace'', Primitive ''string''), (''provider'', Primitive ''string''),
     (''status'', Primitive ''string''), (''vault'', Schema ''VaultConfig'')]"

definition model_SecretStoreStatusResponse :: model_schema where
  "model_SecretStoreStatusResponse = ModelSchema ''SecretStoreStatusResponse'' []
    [(''conditions'', ArrayOf (Schema ''SecretStoreCondition'')),
     (''lastCheckedAt'', Primitive ''string''), (''lastError'', Primitive ''string''),
     (''status'', Primitive ''string'')]"

definition model_SelectableConnection :: model_schema where
  "model_SelectableConnection = ModelSchema ''SelectableConnection'' []
    [(''description'', Primitive ''string''), (''managed'', Primitive ''boolean''),
     (''name'', Primitive ''string''), (''providedBy'', Primitive ''string''),
     (''scope'', Primitive ''string''), (''status'', Primitive ''string''),
     (''type'', Primitive ''string'')]"

definition model_ServiceConnection :: model_schema where
  "model_ServiceConnection = ModelSchema ''ServiceConnection'' []
    [(''kind'', Primitive ''string''), (''name'', Primitive ''string''),
     (''namespace'', Primitive ''string''), (''resolved'', Primitive ''boolean'')]"

definition model_ServiceInstance :: model_schema where
  "model_ServiceInstance = ModelSchema ''ServiceInstance'' []
    [(''connections'', ArrayOf (Schema ''ServiceConnection'')),
     (''createdAt'', Primitive ''string''), (''name'', Primitive ''string''),
     (''parameters'', AnyObject), (''releaseName'', Primitive ''string''),
     (''roles'', ArrayOf (Primitive ''string'')), (''service'', Primitive ''string''),
     (''serviceTag'', Primitive ''string''), (''status'', Primitive ''string''),
     (''statusMessage'', Primitive ''string''), (''targetNamespace'', Primitive ''string''),
     (''url'', Primitive ''string'')]"

definition model_ServiceMetrics :: model_schema where
  "model_ServiceMetrics = ModelSchema ''ServiceMetrics'' []
    [(''cpu'', Schema ''MetricValue''), (''memory'', Schema ''MetricValue'')]"

definition model_ServiceRequest :: model_schema where
  "model_ServiceRequest = ModelSchema ''ServiceRequest'' [''service'']
    [(''instanceName'', Primitive ''string''), (''parameters'', AnyObject),
     (''service'', Primitive ''string''), (''tag'', Primitive ''string'')]"

definition model_ServiceUpdateRequest :: model_schema where
  "model_ServiceUpdateRequest = ModelSchema ''ServiceUpdateRequest'' []
    [(''parameters'', AnyObject), (''tag'', Primitive ''string'')]"

definition model_SparkAppInstance :: model_schema where
  "model_SparkAppInstance = ModelSchema ''SparkAppInstance'' []
    [(''completedAt'', Primitive ''string''), (''createdAt'', Primitive ''string''),
     (''driverPodName'', Primitive ''string''), (''errorMessage'', Primitive ''string''),
     (''executors'', MapOf (Primitive ''string'')), (''image'', Primitive ''string''),
     (''mode'', Primitive ''string''), (''name'', Primitive ''string''),
     (''status'', Primitive ''string''), (''type'', Primitive ''string'')]"

definition model_SparkAppRequest :: model_schema where
  "model_SparkAppRequest = ModelSchema ''SparkAppRequest'' [''image'', ''name'', ''type'']
    [(''arguments'', ArrayOf (Primitive ''string'')), (''driverCores'', Primitive ''integer''),
     (''driverMemory'', Primitive ''string''), (''executorCores'', Primitive ''integer''),
     (''executorInstances'', Primitive ''integer''), (''executorMemory'', Primitive ''string''),
     (''image'', Primitive ''string''), (''mainApplicationFile'', Primitive ''string''),
     (''mainClass'', Primitive ''string''), (''mode'', Primitive ''string''),
     (''name'', Primitive ''string''), (''sparkConf'', MapOf (Primitive ''string'')),
     (''sparkVersion'', Primitive ''string''), (''type'', Primitive ''string'')]"

definition model_SparkAppUpdateRequest :: model_schema where
  "model_SparkAppUpdateRequest = ModelSchema ''SparkAppUpdateRequest'' []
    [(''arguments'', ArrayOf (Primitive ''string'')), (''driverCores'', Primitive ''integer''),
     (''driverMemory'', Primitive ''string''), (''executorCores'', Primitive ''integer''),
     (''executorInstances'', Primitive ''integer''), (''executorMemory'', Primitive ''string''),
     (''image'', Primitive ''string''), (''mainApplicationFile'', Primitive ''string''),
     (''mainClass'', Primitive ''string''), (''sparkConf'', MapOf (Primitive ''string''))]"

definition model_SparkAppYAMLRequest :: model_schema where
  "model_SparkAppYAMLRequest = ModelSchema ''SparkAppYAMLRequest'' [''yaml'']
    [(''yaml'', Primitive ''string'')]"

definition model_SparkConfig :: model_schema where
  "model_SparkConfig = ModelSchema ''SparkConfig'' []
    [(''image'', Schema ''SparkConfigImage''), (''spark'', Schema ''SparkConfigSpark'')]"

definition model_SparkConfigImage :: model_schema where
  "model_SparkConfigImage = ModelSchema ''SparkConfigImage'' []
    [(''registry'', Primitive ''string''), (''repository'', Primitive ''string''),
     (''tag'', Primitive ''string'')]"

definition model_SparkConfigSpark :: model_schema where
  "model_SparkConfigSpark = ModelSchema ''SparkConfigSpark'' []
    [(''defaultVersion'', Primitive ''string''), (''defaults'', Schema ''SparkDefaults''),
     (''images'', ArrayOf (Schema ''SparkImage''))]"

definition model_SparkDefaults :: model_schema where
  "model_SparkDefaults = ModelSchema ''SparkDefaults'' []
    [(''driver'', Schema ''ResourceDefaults''), (''executor'', Schema ''ExecutorDefaults'')]"

definition model_SparkImage :: model_schema where
  "model_SparkImage = ModelSchema ''SparkImage'' []
    [(''image'', Primitive ''string''), (''label'', Primitive ''string'')]"

definition model_SparkUIInfo :: model_schema where
  "model_SparkUIInfo = ModelSchema ''SparkUIInfo'' []
    [(''available'', Primitive ''boolean''), (''historyServerUrl'', Primitive ''string''),
     (''serviceName'', Primitive ''string''), (''uiAddress'', Primitive ''string'')]"

definition model_TestConnectionResponse :: model_schema where
  "model_TestConnectionResponse = ModelSchema ''TestConnectionResponse'' []
    [(''message'', Primitive ''string'')]"

definition model_User :: model_schema where
  "model_User = ModelSchema ''User'' []
    [(''comment'', Primitive ''string''), (''disabled'', Primitive ''boolean''),
     (''email'', ArrayOf (Primitive ''string'')), (''groups'', ArrayOf (Primitive ''string'')),
     (''name'', Primitive ''string''), (''password'', Primitive ''string''),
     (''uid'', Primitive ''integer''), (''username'', Primitive ''string'')]"

definition model_VaultConfig :: model_schema where
  "model_VaultConfig = ModelSchema ''VaultConfig'' [''path'', ''server'', ''version'']
    [(''caBundle'', Primitive ''string''), (''path'', Primitive ''string''),
     (''server'', Primitive ''string''), (''version'', Primitive ''string'')]"

definition model_ServiceVersionsResponse :: model_schema where
  "model_ServiceVersionsResponse = ModelSchema ''ServiceVersionsResponse'' []
    [(''default'', Primitive ''string''), (''versions'', ArrayOf (Primitive ''string''))]"

definition docDefinitions :: "model_schema list" where
  "docDefinitions =
    [model_Capabilities, model_ConnectionCatalogResponse, model_ConnectionConsumer,
     model_ConnectionField, model_ConnectionRequest, model_ConnectionResponse,
     model_ConnectionTestCheck, model_ConnectionTestRequest, model_ConnectionTestResult,
     model_Container, model_ContractDescriptor, model_CredentialsSecretRef, model_ExecutorDefaults,
     model_ExternalSecretDataEntry, model_ExternalSecretRemote, model_ExternalSecretRequest,
     model_ExternalSecretResponse, model_ExternalSecretStatusResponse, model_ExternalSecretTarget,
     model_ExternalSecretTargetResponse, model_FieldCondition, model_FieldDerivation, model_Group,
     model_IdentityCapability, model_IdentityOidcConfig, model_InternalConnection,
     model_MenuCategory, model_MetricValue, model_OidcProvisioningCapability, model_PackageInput,
     model_PlatformService, model_Pod, model_ProfileImage, model_Project, model_ResourceDefaults,
     model_SecretAuthConfig, model_SecretAuthConfigSafe, model_SecretStoreAuth,
     model_SecretStoreAuthResponse, model_SecretStoreCondition, model_SecretStoreRequest,
     model_SecretStoreResponse, model_SecretStoreStatusResponse, model_SelectableConnection,
     model_ServiceConnection, model_ServiceInstance, model_ServiceMetrics, model_ServiceRequest,
     model_ServiceUpdateRequest, model_SparkAppInstance, model_SparkAppRequest,
     model_SparkAppUpdateRequest, model_SparkAppYAMLRequest, model_SparkConfig,
     model_SparkConfigImage, model_SparkConfigSpark, model_SparkDefaults, model_SparkImage,
     model_SparkUIInfo, model_TestConnectionResponse, model_User, model_VaultConfig,
     model_ServiceVersionsResponse]"

definition documented_model :: "string \<Rightarrow> model_schema option" where
  "documented_model n = find (\<lambda>d. ms_Name d = n) docDefinitions"

lemmas model_defs =
  model_Capabilities_def model_ConnectionCatalogResponse_def model_ConnectionConsumer_def 
  model_ConnectionField_def model_ConnectionRequest_def model_ConnectionResponse_def 
  model_ConnectionTestCheck_def model_ConnectionTestRequest_def model_ConnectionTestResult_def 
  model_Container_def model_ContractDescriptor_def model_CredentialsSecretRef_def 
  model_ExecutorDefaults_def model_ExternalSecretDataEntry_def model_ExternalSecretRemote_def 
  model_ExternalSecretRequest_def model_ExternalSecretResponse_def 
  model_ExternalSecretStatusResponse_def model_ExternalSecretTarget_def 
  model_ExternalSecretTargetResponse_def model_FieldCondition_def model_FieldDerivation_def 
  model_Group_def model_IdentityCapability_def model_IdentityOidcConfig_def 
  model_InternalConnection_def model_MenuCategory_def model_MetricValue_def 
  model_OidcProvisioningCapability_def model_PackageInput_def model_PlatformService_def 
  model_Pod_def model_ProfileImage_def model_Project_def model_ResourceDefaults_def 
  model_SecretAuthConfig_def model_SecretAuthConfigSafe_def model_SecretStoreAuth_def 
  model_SecretStoreAuthResponse_def model_SecretStoreCondition_def model_SecretStoreRequest_def 
  model_SecretStoreResponse_def model_SecretStoreStatusResponse_def model_SelectableConnection_def 
  model_ServiceConnection_def model_ServiceInstance_def model_ServiceMetrics_def 
  model_ServiceRequest_def model_ServiceUpdateRequest_def model_SparkAppInstance_def 
  model_SparkAppRequest_def model_SparkAppUpdateRequest_def model_SparkAppYAMLRequest_def 
  model_SparkConfig_def model_SparkConfigImage_def model_SparkConfigSpark_def 
  model_SparkDefaults_def model_SparkImage_def model_SparkUIInfo_def 
  model_TestConnectionResponse_def model_User_def model_VaultConfig_def 
  model_ServiceVersionsResponse_def

text \<open>
  No model is described twice, and what a model requires is a property of it.
\<close>

lemma model_names: "map ms_Name docDefinitions =
   [''Capabilities'', ''ConnectionCatalogResponse'', ''ConnectionConsumer'', ''ConnectionField'', 
    ''ConnectionRequest'', ''ConnectionResponse'', ''ConnectionTestCheck'', 
    ''ConnectionTestRequest'', ''ConnectionTestResult'', ''Container'', ''ContractDescriptor'', 
    ''CredentialsSecretRef'', ''ExecutorDefaults'', ''ExternalSecretDataEntry'', 
    ''ExternalSecretRemote'', ''ExternalSecretRequest'', ''ExternalSecretResponse'', 
    ''ExternalSecretStatusResponse'', ''ExternalSecretTarget'', ''ExternalSecretTargetResponse'', 
    ''FieldCondition'', ''FieldDerivation'', ''Group'', ''IdentityCapability'', 
    ''IdentityOidcConfig'', ''InternalConnection'', ''MenuCategory'', ''MetricValue'', 
    ''OidcProvisioningCapability'', ''PackageInput'', ''PlatformService'', ''Pod'', 
    ''ProfileImage'', ''Project'', ''ResourceDefaults'', ''SecretAuthConfig'', 
    ''SecretAuthConfigSafe'', ''SecretStoreAuth'', ''SecretStoreAuthResponse'', 
    ''SecretStoreCondition'', ''SecretStoreRequest'', ''SecretStoreResponse'', 
    ''SecretStoreStatusResponse'', ''SelectableConnection'', ''ServiceConnection'', 
    ''ServiceInstance'', ''ServiceMetrics'', ''ServiceRequest'', ''ServiceUpdateRequest'', 
    ''SparkAppInstance'', ''SparkAppRequest'', ''SparkAppUpdateRequest'', ''SparkAppYAMLRequest'', 
    ''SparkConfig'', ''SparkConfigImage'', ''SparkConfigSpark'', ''SparkDefaults'', ''SparkImage'', 
    ''SparkUIInfo'', ''TestConnectionResponse'', ''User'', ''VaultConfig'', 
    ''ServiceVersionsResponse'']"
  by (simp add: docDefinitions_def model_defs)

lemma models_distinct: "distinct (map ms_Name docDefinitions)"
  by (simp add: model_names)

lemma model_properties_described:
  "list_all (\<lambda>d. list_all (\<lambda>k. k \<in> set (map fst (ms_Properties d))) (ms_Required d)) docDefinitions"
  by (simp add: docDefinitions_def model_defs)

end
