(* ===== verification/JSON_Encoding.thy ===== *)
theory JSON_Encoding
  imports Http
begin

text \<open>
  The bodies of the answers as the client reads them: what \<^verbatim>\<open>encoding/json\<close> makes of the models, from
  the tags of their structs (\<^verbatim>\<open>internal/models\<close>). A field is written under the name of its tag;
  with \<^verbatim>\<open>omitempty\<close> it is left out when it is empty (a false, a zero, a nil pointer or interface, a
  text, slice or map without elements); a nil pointer without \<^verbatim>\<open>omitempty\<close> is written \<^verbatim>\<open>null\<close>. The
  order of the members of an object, which the client does not see, is that of the struct, and
  that of the model for a map.
\<close>

subsection \<open>Values\<close>

text \<open>
  A slice or map without elements is written \<^verbatim>\<open>null\<close> when it is nil and \<^verbatim>\<open>[]\<close> or \<^verbatim>\<open>{}\<close> when it is not;
  the models do not tell the two apart, so such a field is \<^verbatim>\<open>JEmpty\<close>, which stands for any of them.
\<close>

datatype json =
    JNull
  | JBool bool
  | JNumber rat
  | JString string
  | JEmpty
  | JArray "json list"
  | JObject "(string \<times> json) list"

fun json_of :: "goval \<Rightarrow> json" where
  "json_of GNil = JNull"
| "json_of (GBool b) = JBool b"
| "json_of (GInt i) = JNumber (of_int i)"
| "json_of (GInt32 i) = JNumber (of_int i)"
| "json_of (GInt64 i) = JNumber (of_int i)"
| "json_of (GFloat32 r) = JNumber r"
| "json_of (GFloat r) = JNumber r"
| "json_of (GStr s) = JString s"
| "json_of (GArr xs) = JArray (map json_of xs)"
| "json_of (GObj kvs) = JObject (map (\<lambda>(k, v). (k, json_of v)) kvs)"

definition json_list :: "('a \<Rightarrow> json) \<Rightarrow> 'a list \<Rightarrow> json" where
  "json_list f xs = (if xs = [] then JEmpty else JArray (map f xs))"

definition json_map :: "('a \<Rightarrow> json) \<Rightarrow> 'a gomap \<Rightarrow> json" where
  "json_map f m = (if m = [] then JEmpty else JObject (map (\<lambda>(k, v). (k, f v)) m))"

text \<open>The text of a message that the code formats (\<^verbatim>\<open>fmt.Sprintf\<close>).\<close>

definition message_text :: "extlib \<Rightarrow> string \<times> farg list \<Rightarrow> string" where
  "message_text L m = (case m of (f, as) \<Rightarrow> fill_verbs f (map (farg_text L) as) [])"

subsection \<open>Fields\<close>

type_synonym members = "(string \<times> json) list"

definition str_field :: "string \<Rightarrow> string \<Rightarrow> members" where "str_field k s = [(k, JString s)]"
definition bool_field :: "string \<Rightarrow> bool \<Rightarrow> members" where "bool_field k b = [(k, JBool b)]"
definition num_field :: "string \<Rightarrow> rat \<Rightarrow> members" where "num_field k r = [(k, JNumber r)]"
definition list_field :: "string \<Rightarrow> ('a \<Rightarrow> json) \<Rightarrow> 'a list \<Rightarrow> members" where
  "list_field k f xs = [(k, json_list f xs)]"
definition map_field :: "string \<Rightarrow> ('a \<Rightarrow> json) \<Rightarrow> 'a gomap \<Rightarrow> members" where
  "map_field k f m = [(k, json_map f m)]"
definition ptr_field :: "string \<Rightarrow> ('a \<Rightarrow> json) \<Rightarrow> 'a option \<Rightarrow> members" where
  "ptr_field k f p = [(k, case p of None \<Rightarrow> JNull | Some a \<Rightarrow> f a)]"

text \<open>With \<^verbatim>\<open>omitempty\<close>.\<close>

definition omit_str :: "string \<Rightarrow> string \<Rightarrow> members" where
  "omit_str k s = (if s = [] then [] else str_field k s)"
definition omit_bool :: "string \<Rightarrow> bool \<Rightarrow> members" where
  "omit_bool k b = (if b then bool_field k b else [])"
definition omit_num :: "string \<Rightarrow> rat \<Rightarrow> members" where
  "omit_num k r = (if r = 0 then [] else num_field k r)"
definition omit_list :: "string \<Rightarrow> ('a \<Rightarrow> json) \<Rightarrow> 'a list \<Rightarrow> members" where
  "omit_list k f xs = (if xs = [] then [] else list_field k f xs)"
definition omit_map :: "string \<Rightarrow> ('a \<Rightarrow> json) \<Rightarrow> 'a gomap \<Rightarrow> members" where
  "omit_map k f m = (if m = [] then [] else map_field k f m)"
definition omit_ptr :: "string \<Rightarrow> ('a \<Rightarrow> json) \<Rightarrow> 'a option \<Rightarrow> members" where
  "omit_ptr k f p = (case p of None \<Rightarrow> [] | Some a \<Rightarrow> [(k, f a)])"
definition omit_any :: "string \<Rightarrow> goval \<Rightarrow> members" where
  "omit_any k v = (if v = GNil then [] else [(k, json_of v)])"

subsection \<open>Models\<close>

definition json_IdentityOidcConfig :: "identity_oidc_config \<Rightarrow> json" where
  "json_IdentityOidcConfig i = JObject (
     str_field ''authority'' (io_Authority i) @ str_field ''clientId'' (io_ClientID i) @
     omit_str ''scope'' (io_Scope i))"

definition json_IdentityCapability :: "capabilities \<Rightarrow> json" where
  "json_IdentityCapability c = JObject (
     str_field ''provider'' (cy_Provider c) @ bool_field ''userManagement'' (cy_UserManagement c) @
     omit_ptr ''oidc'' json_IdentityOidcConfig (cy_Oidc c))"

definition json_OidcProvisioningCapability :: "capabilities \<Rightarrow> json" where
  "json_OidcProvisioningCapability c = JObject (
     str_field ''provider'' (cy_OidcProvisioning c))"

definition json_Capabilities :: "capabilities \<Rightarrow> json" where
  "json_Capabilities c = JObject (
     [(''identity'', json_IdentityCapability c)] @
     [(''oidcProvisioning'', json_OidcProvisioningCapability c)])"

definition json_Project :: "project \<Rightarrow> json" where
  "json_Project p = JObject (
     str_field ''name'' (pj_Name p) @ str_field ''description'' (pj_Description p))"

definition json_User :: "user_model \<Rightarrow> json" where
  "json_User u = JObject (
     str_field ''name'' (um_Name u) @ str_field ''username'' (um_Username u) @
     omit_list ''email'' JString (um_Email u) @ omit_str ''comment'' (um_Comment u) @
     omit_bool ''disabled'' (um_Disabled u) @ omit_num ''uid'' (of_int (um_UID u)) @
     omit_list ''groups'' JString (um_Groups u) @ omit_str ''password'' (um_Password u))"

definition json_Group :: "group_model \<Rightarrow> json" where
  "json_Group g = JObject (
     str_field ''name'' (gm_Name g) @ omit_str ''comment'' (gm_Comment g) @
     omit_str ''description'' (gm_Description g))"

definition json_VaultConfig :: "vault_config \<Rightarrow> json" where
  "json_VaultConfig v = JObject (
     str_field ''server'' (vc_Server v) @ str_field ''path'' (vc_Path v) @
     str_field ''version'' (vc_Version v) @ omit_str ''caBundle'' (vc_CABundle v))"

definition json_SecretAuthConfigSafe :: "store_auth_response \<Rightarrow> json" where
  "json_SecretAuthConfigSafe a = JObject (
     ptr_field ''mountPath'' JString (ar_MountPath a) @ ptr_field ''role'' JString (ar_Role a) @
     omit_ptr ''serviceAccount'' JString (ar_ServiceAccount a))"

definition json_SecretStoreAuthResponse :: "store_auth_response \<Rightarrow> json" where
  "json_SecretStoreAuthResponse a = JObject (
     str_field ''type'' (ar_Type a) @ [(''config'', json_SecretAuthConfigSafe a)])"

definition json_SecretStoreResponse :: "store_response \<Rightarrow> json" where
  "json_SecretStoreResponse s = JObject (
     str_field ''name'' (so_Name s) @ str_field ''provider'' (so_Provider s) @
     str_field ''namespace'' (so_Namespace s) @ str_field ''status'' (so_Status s) @
     ptr_field ''lastCheckedAt'' JString (so_LastCheckedAt s) @
     ptr_field ''lastError'' JString (so_LastError s) @ bool_field ''isDefault'' (so_IsDefault s) @
     str_field ''createdAt'' (so_CreatedAt s) @ omit_ptr ''vault'' json_VaultConfig (so_Vault s) @
     omit_ptr ''auth'' json_SecretStoreAuthResponse (so_Auth s))"

definition json_SecretStoreCondition :: "eso_condition \<Rightarrow> json" where
  "json_SecretStoreCondition c = JObject (
     str_field ''type'' (ec_Type c) @ str_field ''status'' (ec_Status c) @
     str_field ''reason'' (ec_Reason c) @ str_field ''message'' (ec_Message c) @
     str_field ''lastTransitionTime'' (ec_LastTransitionTime c))"

definition json_SecretStoreStatusResponse :: "store_status_response \<Rightarrow> json" where
  "json_SecretStoreStatusResponse s = JObject (
     str_field ''status'' (sx_Status s) @
     list_field ''conditions'' json_SecretStoreCondition (sx_Conditions s) @
     ptr_field ''lastCheckedAt'' JString (sx_LastCheckedAt s) @
     ptr_field ''lastError'' JString (sx_LastError s))"

definition json_ExternalSecretRemote :: "remote_ref \<Rightarrow> json" where
  "json_ExternalSecretRemote r = JObject (
     str_field ''key'' (rm_Key r) @ omit_str ''property'' (rm_Property r))"

definition json_ExternalSecretDataEntry :: "data_entry \<Rightarrow> json" where
  "json_ExternalSecretDataEntry d = JObject (
     str_field ''secretKey'' (dt_SecretKey d) @
     [(''remoteRef'', json_ExternalSecretRemote (dt_RemoteRef d))])"

definition json_ExternalSecretTargetResponse :: "external_response \<Rightarrow> json" where
  "json_ExternalSecretTargetResponse x = JObject (
     str_field ''name'' (xp_TargetName x) @ str_field ''creationPolicy'' (xp_CreationPolicy x))"

definition json_ExternalSecretResponse :: "external_response \<Rightarrow> json" where
  "json_ExternalSecretResponse x = JObject (
     str_field ''name'' (xp_Name x) @ str_field ''namespace'' (xp_Namespace x) @
     str_field ''secretStoreRef'' (xp_SecretStoreRef x) @
     [(''target'', json_ExternalSecretTargetResponse x)] @
     str_field ''refreshInterval'' (xp_RefreshInterval x) @
     list_field ''data'' json_ExternalSecretDataEntry (xp_Data x) @
     str_field ''status'' (xp_Status x) @ ptr_field ''lastSyncedAt'' JString (xp_LastSyncedAt x) @
     ptr_field ''lastError'' JString (xp_LastError x) @ str_field ''createdAt'' (xp_CreatedAt x))"

definition json_ExternalSecretStatusResponse :: "external_status_response \<Rightarrow> json" where
  "json_ExternalSecretStatusResponse x = JObject (
     str_field ''status'' (xt_Status x) @
     list_field ''conditions'' json_SecretStoreCondition (xt_Conditions x) @
     ptr_field ''lastSyncedAt'' JString (xt_LastSyncedAt x) @
     ptr_field ''lastError'' JString (xt_LastError x))"

definition json_FieldCondition :: "field_condition \<Rightarrow> json" where
  "json_FieldCondition c = JObject (
     str_field ''field'' (fc_Field c) @ str_field ''value'' (fc_Value c))"

definition json_FieldDerivation :: "field_derivation \<Rightarrow> json" where
  "json_FieldDerivation d = JObject (
     str_field ''from'' (fd_From d) @ map_field ''map'' JString (fd_Map d))"

definition json_ConnectionField :: "connection_field \<Rightarrow> json" where
  "json_ConnectionField f = JObject (
     str_field ''name'' (cf_Name f) @ str_field ''label'' (cf_Label f) @
     str_field ''type'' (cf_Type f) @ bool_field ''required'' (cf_Required f) @
     omit_bool ''secret'' (cf_Secret f) @ omit_bool ''masked'' (cf_Masked f) @
     omit_any ''default'' (cf_Default f) @ omit_list ''options'' JString (cf_Options f) @
     omit_str ''placeholder'' (cf_Placeholder f) @ omit_str ''help'' (cf_Help f) @
     omit_ptr ''min'' JNumber (cf_Min f) @ omit_ptr ''max'' JNumber (cf_Max f) @
     omit_ptr ''showWhen'' json_FieldCondition (cf_ShowWhen f) @
     omit_ptr ''derived'' json_FieldDerivation (cf_Derived f))"

definition json_ContractDescriptor :: "contract_descriptor \<Rightarrow> json" where
  "json_ContractDescriptor d = JObject (
     str_field ''name'' (cd_Name d) @ str_field ''displayName'' (cd_DisplayName d) @
     str_field ''description'' (cd_Description d) @ str_field ''icon'' (cd_Icon d) @
     str_field ''category'' (cd_Category d) @ bool_field ''external'' (cd_External d) @
     list_field ''fields'' json_ConnectionField (cd_Fields d) @
     omit_list ''endpointFrom'' JString (cd_EndpointFrom d))"

definition json_CredentialsSecretRef :: "credentials_secret_ref \<Rightarrow> json" where
  "json_CredentialsSecretRef r = JObject (
     str_field ''name'' (cx_Name r) @ omit_str ''namespace'' (cx_Namespace r) @
     omit_list ''keys'' JString (cx_Keys r) @ bool_field ''owned'' (cx_Owned r))"

definition json_ConnectionResponse :: "connection_response \<Rightarrow> json" where
  "json_ConnectionResponse c = JObject (
     str_field ''name'' (cp_Name c) @ str_field ''type'' (cp_Type c) @
     str_field ''scope'' (cp_Scope c) @ omit_str ''namespace'' (cp_Namespace c) @
     omit_str ''description'' (cp_Description c) @ str_field ''status'' (cp_Status c) @
     omit_str ''message'' (cp_Message c) @ map_field ''values'' json_of (cp_Values c) @
     omit_list ''secretFields'' JString (cp_SecretFields c) @
     omit_ptr ''credentialsSecret'' json_CredentialsSecretRef (cp_CredentialsSecret c) @
     omit_str ''createdAt'' (cp_CreatedAt c))"

definition json_InternalConnection :: "internal_connection \<Rightarrow> json" where
  "json_InternalConnection c = JObject (
     str_field ''name'' (ic_Name c) @ str_field ''type'' (ic_Type c) @
     str_field ''typeDisplay'' (ic_TypeDisplay c) @ omit_str ''icon'' (ic_Icon c) @
     omit_str ''category'' (ic_Category c) @ str_field ''service'' (ic_Service c) @
     str_field ''releaseName'' (ic_ReleaseName c) @ str_field ''namespace'' (ic_Namespace c) @
     str_field ''status'' (ic_Status c) @ str_field ''endpoint'' (ic_Endpoint c) @
     str_field ''host'' (ic_Host c) @ num_field ''port'' (of_int (ic_Port c)) @
     map_field ''values'' json_of (ic_Values c) @ bool_field ''managed'' (ic_Managed c) @
     omit_str ''createdAt'' (ic_CreatedAt c))"

definition json_SelectableConnection :: "selectable_connection \<Rightarrow> json" where
  "json_SelectableConnection c = JObject (
     str_field ''name'' (sl_Name c) @ str_field ''scope'' (sl_Scope c) @
     str_field ''type'' (sl_Type c) @ str_field ''status'' (sl_Status c) @
     omit_str ''description'' (sl_Description c) @ bool_field ''managed'' (sl_Managed c) @
     omit_str ''providedBy'' (sl_ProvidedBy c))"

definition json_ConnectionConsumer :: "connection_consumer \<Rightarrow> json" where
  "json_ConnectionConsumer c = JObject (
     str_field ''service'' (cm_Service c) @ str_field ''releaseName'' (cm_ReleaseName c) @
     str_field ''status'' (cm_Status c) @ bool_field ''effective'' (cm_Effective c))"

definition json_ConnectionTestCheck :: "extlib \<Rightarrow> test_check \<Rightarrow> json" where
  "json_ConnectionTestCheck L c = JObject (
     str_field ''label'' (tk_Label c) @ str_field ''target'' (tk_Target c) @
     bool_field ''decisive'' (tk_Decisive c) @ bool_field ''success'' (tk_Success c) @
     str_field ''message'' (message_text L (tk_Message c)) @ omit_str ''reason'' (tk_Reason c))"

definition json_ConnectionTestResult :: "extlib \<Rightarrow> connection_test_result \<Rightarrow> json" where
  "json_ConnectionTestResult L t = JObject (
     bool_field ''success'' (ts_Success t) @ str_field ''message'' (message_text L (ts_Message t)) @
     omit_str ''reason'' (ts_Reason t) @ num_field ''durationMs'' (of_int (ts_DurationMs t)) @
     omit_list ''checks'' (json_ConnectionTestCheck L) (ts_Checks t))"

definition json_PlatformService :: "platform_service \<Rightarrow> json" where
  "json_PlatformService s = JObject (
     str_field ''name'' (pv_Name s) @ list_field ''versions'' JString (pv_Versions s) @
     str_field ''defaultVersion'' (pv_DefaultVersion s) @
     str_field ''description'' (pv_Description s) @ omit_str ''icon'' (pv_Icon s) @
     omit_str ''category'' (pv_Category s) @ omit_str ''repository'' (pv_Repository s) @
     omit_str ''label'' (pv_Label s) @ omit_ptr ''exposesUI'' JBool (pv_ExposesUI s))"

definition json_MenuCategory :: "menu_category \<Rightarrow> json" where
  "json_MenuCategory c = JObject (
     str_field ''key'' (mc_Key c) @ str_field ''label'' (mc_Label c) @
     omit_str ''icon'' (mc_Icon c) @ num_field ''order'' (of_nat (mc_Order c)))"

definition json_PackageInput :: "package_input \<Rightarrow> json" where
  "json_PackageInput i = JObject (
     str_field ''alias'' (pk_Alias i) @ str_field ''contract'' (pk_Contract i) @
     omit_str ''parameter'' (pk_Parameter i) @ bool_field ''optional'' (pk_Optional i) @
     omit_str ''default'' (pk_Default i) @ omit_str ''description'' (pk_Description i))"

definition json_ProfileImage :: "profile_image \<Rightarrow> json" where
  "json_ProfileImage i = JObject (
     str_field ''label'' (pi_Label i) @ str_field ''image'' (pi_Image i))"

definition json_ServiceConnection :: "service_connection \<Rightarrow> json" where
  "json_ServiceConnection c = JObject (
     str_field ''name'' (sn_Name c) @ omit_str ''namespace'' (sn_Namespace c) @
     str_field ''kind'' (sn_Kind c) @ bool_field ''resolved'' (sn_Resolved c))"

definition json_ServiceInstance :: "service_instance \<Rightarrow> json" where
  "json_ServiceInstance s = JObject (
     str_field ''name'' (si_Name s) @ str_field ''releaseName'' (si_ReleaseName s) @
     str_field ''service'' (si_Service s) @ str_field ''serviceTag'' (si_ServiceTag s) @
     str_field ''status'' (si_Status s) @ omit_str ''statusMessage'' (si_StatusMessage s) @
     str_field ''targetNamespace'' (si_TargetNamespace s) @ omit_str ''url'' (si_URL s) @
     omit_list ''roles'' JString (si_Roles s) @
     omit_map ''parameters'' json_of (case si_Parameters s of None \<Rightarrow> [] | Some ps \<Rightarrow> ps) @
     omit_list ''connections'' json_ServiceConnection (si_Connections s) @
     omit_str ''createdAt'' (si_CreatedAt s))"

definition json_Container :: "pod_container \<Rightarrow> json" where
  "json_Container c = JObject (
     str_field ''name'' (pc_Name c) @ str_field ''image'' (pc_Image c) @
     bool_field ''ready'' (pc_Ready c))"

definition json_Pod :: "pod_view \<Rightarrow> json" where
  "json_Pod p = JObject (
     str_field ''name'' (pd_Name p) @ str_field ''status'' (pd_Status p) @
     str_field ''ready'' (pd_Ready p) @ num_field ''restarts'' (of_int (sint (pd_Restarts p))) @
     str_field ''age'' (pd_Age p) @ list_field ''containers'' json_Container (pd_Containers p))"

definition json_MetricValue :: "metric_value \<Rightarrow> json" where
  "json_MetricValue v = JObject (
     num_field ''usedRaw'' (mv_UsedRaw v) @ num_field ''limitRaw'' (mv_LimitRaw v) @
     str_field ''used'' (mv_Used v) @ str_field ''limit'' (mv_Limit v) @
     num_field ''pct'' (mv_Pct v) @ bool_field ''available'' (mv_Available v))"

definition json_ServiceMetrics :: "service_metrics \<Rightarrow> json" where
  "json_ServiceMetrics m = JObject (
     [(''cpu'', json_MetricValue (mx_CPU m))] @ [(''memory'', json_MetricValue (mx_Memory m))])"

definition json_SparkAppInstance :: "spark_instance \<Rightarrow> json" where
  "json_SparkAppInstance a = JObject (
     str_field ''name'' (sy_Name a) @ str_field ''type'' (sy_Type a) @
     str_field ''mode'' (sy_Mode a) @ str_field ''image'' (sy_Image a) @
     str_field ''status'' (sy_Status a) @ omit_str ''errorMessage'' (sy_ErrorMessage a) @
     omit_str ''driverPodName'' (sy_DriverPodName a) @ omit_str ''createdAt'' (sy_CreatedAt a) @
     omit_str ''completedAt'' (sy_CompletedAt a) @ omit_map ''executors'' JString (sy_Executors a))"

definition json_SparkUIInfo :: "spark_ui \<Rightarrow> json" where
  "json_SparkUIInfo u = JObject (
     str_field ''serviceName'' (sw_ServiceName u) @ str_field ''uiAddress'' (sw_UIAddress u) @
     str_field ''historyServerUrl'' (sw_HistoryServerURL u) @
     bool_field ''available'' (sw_Available u))"

definition json_SparkImage :: "profile_image \<Rightarrow> json" where
  "json_SparkImage i = JObject (str_field ''label'' (pi_Label i) @ str_field ''image'' (pi_Image i))"

definition resource_members :: "resource_defaults \<Rightarrow> members" where
  "resource_members r = num_field ''cores'' (of_int (rd_Cores r)) @ str_field ''memory'' (rd_Memory r)"

definition json_ResourceDefaults :: "resource_defaults \<Rightarrow> json" where
  "json_ResourceDefaults r = JObject (resource_members r)"

text \<open>\<^verbatim>\<open>ExecutorDefaults\<close> embeds \<^verbatim>\<open>ResourceDefaults\<close>, whose fields are promoted.\<close>

definition json_ExecutorDefaults :: "resource_defaults \<Rightarrow> json" where
  "json_ExecutorDefaults r =
     JObject (resource_members r @ num_field ''instances'' (of_int (rd_Instances r)))"

definition json_SparkDefaults :: "spark_config \<Rightarrow> json" where
  "json_SparkDefaults c = JObject (
     [(''driver'', json_ResourceDefaults (sf_Driver c))] @
     [(''executor'', json_ExecutorDefaults (sf_Executor c))])"

definition json_SparkConfigSpark :: "spark_config \<Rightarrow> json" where
  "json_SparkConfigSpark c = JObject (
     str_field ''defaultVersion'' (sf_DefaultVersion c) @ list_field ''images'' json_SparkImage (sf_Images c) @
     [(''defaults'', json_SparkDefaults c)])"

definition json_SparkConfigImage :: "spark_config \<Rightarrow> json" where
  "json_SparkConfigImage c = JObject (
     str_field ''registry'' (sf_Registry c) @ str_field ''repository'' (sf_Repository c) @
     str_field ''tag'' (sf_Tag c))"

definition json_SparkConfig :: "spark_config \<Rightarrow> json" where
  "json_SparkConfig c = JObject (
     [(''image'', json_SparkConfigImage c)] @ [(''spark'', json_SparkConfigSpark c)])"

definition json_ConnectionCatalogResponse :: "contract_descriptor list \<times> bool \<Rightarrow> json" where
  "json_ConnectionCatalogResponse c = JObject (list_field ''types'' json_ContractDescriptor (fst c) @
     bool_field ''crdAvailable'' (snd c))"

definition json_ServiceVersionsResponse :: "string list \<times> string \<Rightarrow> json" where
  "json_ServiceVersionsResponse v = JObject (list_field ''versions'' JString (fst v) @ str_field ''default'' (snd v))"

definition json_TestConnectionResponse :: "string \<Rightarrow> json" where
  "json_TestConnectionResponse message = JObject (str_field ''message'' message)"

subsection \<open>Bodies\<close>

text \<open>The body of an answer in JSON; logs and streams of events have none.\<close>

fun model_json :: "extlib \<Rightarrow> model \<Rightarrow> json option" where
  "model_json L MHealth = Some (JObject (str_field ''status'' ''ok''))"
| "model_json L (MCapabilities c) = Some (json_Capabilities c)"
| "model_json L (MProjects ps) = Some (json_list json_Project ps)"
| "model_json L (MProject p) = Some (json_Project p)"
| "model_json L (MUsers us) = Some (json_list json_User us)"
| "model_json L (MUser u) = Some (json_User u)"
| "model_json L (MGroups gs) = Some (json_list json_Group gs)"
| "model_json L (MGroup g) = Some (json_Group g)"
| "model_json L (MStores ss) = Some (json_list json_SecretStoreResponse ss)"
| "model_json L (MStore s) = Some (json_SecretStoreResponse s)"
| "model_json L (MStoreStatus s) = Some (json_SecretStoreStatusResponse s)"
| "model_json L (MTestOK t) = Some (json_TestConnectionResponse t)"
| "model_json L (MExternals es) = Some (json_list json_ExternalSecretResponse es)"
| "model_json L (MExternal e) = Some (json_ExternalSecretResponse e)"
| "model_json L (MExternalStatus e) = Some (json_ExternalSecretStatusResponse e)"
| "model_json L (MContracts c) = Some (json_ConnectionCatalogResponse c)"
| "model_json L (MConnections cs) = Some (json_list json_ConnectionResponse cs)"
| "model_json L (MConnection c) = Some (json_ConnectionResponse c)"
| "model_json L (MInternal cs) = Some (json_list json_InternalConnection cs)"
| "model_json L (MSelectable cs) = Some (json_list json_SelectableConnection cs)"
| "model_json L (MConsumers cs) = Some (json_list json_ConnectionConsumer cs)"
| "model_json L (MTestResult r) = Some (json_ConnectionTestResult L r)"
| "model_json L (MPlatformServices ps) = Some (json_list json_PlatformService ps)"
| "model_json L (MPlatformService p) = Some (json_PlatformService p)"
| "model_json L (MCategories cs) = Some (json_list json_MenuCategory cs)"
| "model_json L (MVersions v) = Some (json_ServiceVersionsResponse v)"
| "model_json L (MInputs is) = Some (json_list json_PackageInput is)"
| "model_json L (MSchema s) = Some (json_map json_of s)"
| "model_json L (MImages is) = Some (json_map (json_list json_ProfileImage) is)"
| "model_json L (MServices ss) = Some (json_list json_ServiceInstance ss)"
| "model_json L (MService s) = Some (json_ServiceInstance s)"
| "model_json L (MPods ps) = Some (json_list json_Pod ps)"
| "model_json L (MMetrics m) = Some (json_ServiceMetrics m)"
| "model_json L (MProjectMetrics ms) = Some (json_map json_ServiceMetrics ms)"
| "model_json L (MSparkConfig c) = Some (json_SparkConfig c)"
| "model_json L (MSparkApps as) = Some (json_list json_SparkAppInstance as)"
| "model_json L (MSparkApp a) = Some (json_SparkAppInstance a)"
| "model_json L (MSparkUI u) = Some (json_SparkUIInfo u)"
| "model_json L (MLog l) = None"
| "model_json L (MLogStream l s) = None"
| "model_json L (MProjectStream s) = None"
| "model_json L (MServiceStream s) = None"
| "model_json L (MSparkStream s) = None"

definition error_json :: "string \<Rightarrow> json" where "error_json message = JObject (str_field ''error'' message)"

definition json_FeatureUnavailable :: "string \<Rightarrow> string \<Rightarrow> json" where
  "json_FeatureUnavailable feature message = JObject (str_field ''error'' message @
     str_field ''reason'' ''feature-not-installed'' @ str_field ''feature'' feature)"

fun answer_json :: "extlib \<Rightarrow> answer \<Rightarrow> json option" where
  "answer_json L (Body n m) = model_json L m"
| "answer_json L (ErrText n e) = Some (error_json (err_text L e))"
| "answer_json L (Message n f as) = Some (error_json (message_text L (f, as)))"
| "answer_json L (FeatureUnavailable f m) = Some (json_FeatureUnavailable f m)"
| "answer_json L (Bare n) = None"

end
