(* ===== verification/API_Conformance.thy ===== *)
theory API_Conformance
  imports API_Answers API_Schemas JSON_Encoding
begin

text \<open>
  The bodies of the answers against the models of the published description. A body conforms to a
  schema when its parts have the types of the schema, member by member, and no member of an object
  is left undescribed. With the tables of answers this gives the promise of the description: for
  every route, the status and the body of the answer are what its operation says.
\<close>

subsection \<open>Conformance\<close>

text \<open>
  The members that may be \<^verbatim>\<open>null\<close> although the description gives them the type \<^verbatim>\<open>string\<close>: pointers
  written without \<^verbatim>\<open>omitempty\<close>.
\<close>

definition nullable :: "(string \<times> string) list" where
  "nullable =
    [(''SecretStoreResponse'', ''lastCheckedAt''), (''SecretStoreResponse'', ''lastError''),
     (''SecretAuthConfigSafe'', ''mountPath''), (''SecretAuthConfigSafe'', ''role''),
     (''SecretStoreStatusResponse'', ''lastCheckedAt''), (''SecretStoreStatusResponse'', ''lastError''),
     (''ExternalSecretResponse'', ''lastSyncedAt''), (''ExternalSecretResponse'', ''lastError''),
     (''ExternalSecretStatusResponse'', ''lastSyncedAt''), (''ExternalSecretStatusResponse'', ''lastError'')]"

fun primitive_ok :: "string \<Rightarrow> json \<Rightarrow> bool" where
  "primitive_ok t (JString s) = (t = ''string'')"
| "primitive_ok t (JBool b) = (t = ''boolean'')"
| "primitive_ok t (JNumber r) = (t = ''number'' \<or> t = ''integer'' \<and> r \<in> \<int>)"
| "primitive_ok t _ = False"

fun conforms :: "doc_schema \<Rightarrow> json \<Rightarrow> bool" where
  "conforms Anything j = True"
| "conforms (Primitive t) j = primitive_ok t j"
| "conforms AnyObject JEmpty = True"
| "conforms AnyObject (JObject kvs) = True"
| "conforms (ArrayOf s) JEmpty = True"
| "conforms (ArrayOf s) (JArray js) = list_all (conforms s) js"
| "conforms (MapOf s) JEmpty = True"
| "conforms (MapOf s) (JObject kvs) = list_all (\<lambda>(k, j). conforms s j) kvs"
| "conforms (Schema n) (JObject kvs) =
     (case documented_model n of
        None \<Rightarrow> False
      | Some d \<Rightarrow>
          list_all (\<lambda>k. k \<in> set (map fst kvs)) (ms_Required d) \<and>
          list_all (\<lambda>(k, j). case map_of (ms_Properties d) k of
              None \<Rightarrow> False
            | Some s \<Rightarrow> j = JNull \<and> (n, k) \<in> set nullable \<or> conforms s j) kvs)"
| "conforms s j = False"

subsection \<open>Members\<close>

lemma find_listed: "distinct (map f xs) \<Longrightarrow> x \<in> set xs \<Longrightarrow> find (\<lambda>y. f y = f x) xs = Some x"
  by (induction xs) auto

lemma documented: "d \<in> set docDefinitions \<Longrightarrow> documented_model (ms_Name d) = Some d"
  unfolding documented_model_def by (rule find_listed [OF models_distinct])

definition member_ok :: "string \<Rightarrow> (string \<times> doc_schema) list \<Rightarrow> string \<times> json \<Rightarrow> bool" where
  "member_ok n props = (\<lambda>(k, j). case map_of props k of
      None \<Rightarrow> False | Some s \<Rightarrow> j = JNull \<and> (n, k) \<in> set nullable \<or> conforms s j)"

lemma conforms_model:
  assumes "d \<in> set docDefinitions" "ms_Name d = n"
    and "list_all (\<lambda>k. k \<in> fst ` set kvs) (ms_Required d)"
    and "list_all (member_ok n (ms_Properties d)) kvs"
  shows "conforms (Schema n) (JObject kvs)"
  using documented [OF assms(1)] assms(2-) by (simp add: member_ok_def [abs_def])

lemma member_okI: "map_of props k = Some s \<Longrightarrow> conforms s j \<Longrightarrow> member_ok n props (k, j)"
  by (simp add: member_ok_def)

lemma null_okI: "map_of props k = Some s \<Longrightarrow> (n, k) \<in> set nullable \<Longrightarrow> member_ok n props (k, JNull)"
  by (simp add: member_ok_def)

lemma field_members:
  "list_all P (str_field k s) = P (k, JString s)"
  "list_all P (bool_field k b) = P (k, JBool b)"
  "list_all P (num_field k r) = P (k, JNumber r)"
  "list_all P (list_field k f xs) = P (k, json_list f xs)"
  "list_all P (map_field k g m) = P (k, json_map g m)"
  "list_all P (ptr_field k h p) = (case p of None \<Rightarrow> P (k, JNull) | Some a \<Rightarrow> P (k, h a))"
  "list_all P (omit_str k s) = (s \<noteq> [] \<longrightarrow> P (k, JString s))"
  "list_all P (omit_bool k b) = (b \<longrightarrow> P (k, JBool b))"
  "list_all P (omit_num k r) = (r \<noteq> 0 \<longrightarrow> P (k, JNumber r))"
  "list_all P (omit_list k f xs) = (xs \<noteq> [] \<longrightarrow> P (k, json_list f xs))"
  "list_all P (omit_map k g m) = (m \<noteq> [] \<longrightarrow> P (k, json_map g m))"
  "list_all P (omit_ptr k h p) = (\<forall>a. p = Some a \<longrightarrow> P (k, h a))"
  "list_all P (omit_any k v) = (v \<noteq> GNil \<longrightarrow> P (k, json_of v))"
  by (auto simp: str_field_def bool_field_def num_field_def list_field_def map_field_def ptr_field_def
      omit_str_def omit_bool_def omit_num_def omit_list_def omit_map_def omit_ptr_def omit_any_def split: option.splits)

lemma conforms_list [simp]: "conforms (ArrayOf s) (json_list f xs) = (\<forall>x\<in>set xs. conforms s (f x))"
  by (simp add: json_list_def list_all_iff)

lemma conforms_map [simp]: "conforms (MapOf s) (json_map f m) = (\<forall>x\<in>snd ` set m. conforms s (f x))"
  by (auto simp: json_map_def list_all_iff)

lemma conforms_object [simp]: "conforms AnyObject (json_map f m)"
  by (simp add: json_map_def)

lemma str_field_key: "fst ` set (str_field k s) = {k}"
  by (simp add: str_field_def)

lemma signed_integral: "(signed w :: rat) \<in> \<int>"
  by (metis Ints_of_int of_int_sint)

lemmas member_simps = docDefinitions_def field_members member_ok_def nullable_def str_field_key image_Un signed_integral

subsection \<open>Models\<close>

lemma IdentityOidcConfig_conforms [simp]: "conforms (Schema ''IdentityOidcConfig'') (json_IdentityOidcConfig v)"
  unfolding json_IdentityOidcConfig_def
  by (rule conforms_model [where d = model_IdentityOidcConfig]) (simp_all add: model_IdentityOidcConfig_def member_simps split: option.split)

lemma IdentityCapability_conforms [simp]: "conforms (Schema ''IdentityCapability'') (json_IdentityCapability v)"
  unfolding json_IdentityCapability_def
  by (rule conforms_model [where d = model_IdentityCapability]) (simp_all add: model_IdentityCapability_def member_simps split: option.split)

lemma OidcProvisioningCapability_conforms [simp]: "conforms (Schema ''OidcProvisioningCapability'') (json_OidcProvisioningCapability v)"
  unfolding json_OidcProvisioningCapability_def
  by (rule conforms_model [where d = model_OidcProvisioningCapability]) (simp_all add: model_OidcProvisioningCapability_def member_simps split: option.split)

lemma Capabilities_conforms [simp]: "conforms (Schema ''Capabilities'') (json_Capabilities v)"
  unfolding json_Capabilities_def
  by (rule conforms_model [where d = model_Capabilities]) (simp_all add: model_Capabilities_def member_simps split: option.split)

lemma Project_conforms [simp]: "conforms (Schema ''Project'') (json_Project v)"
  unfolding json_Project_def
  by (rule conforms_model [where d = model_Project]) (simp_all add: model_Project_def member_simps split: option.split)

lemma User_conforms [simp]: "conforms (Schema ''User'') (json_User v)"
  unfolding json_User_def
  by (rule conforms_model [where d = model_User]) (simp_all add: model_User_def member_simps split: option.split)

lemma Group_conforms [simp]: "conforms (Schema ''Group'') (json_Group v)"
  unfolding json_Group_def
  by (rule conforms_model [where d = model_Group]) (simp_all add: model_Group_def member_simps split: option.split)

lemma VaultConfig_conforms [simp]: "conforms (Schema ''VaultConfig'') (json_VaultConfig v)"
  unfolding json_VaultConfig_def
  by (rule conforms_model [where d = model_VaultConfig]) (simp_all add: model_VaultConfig_def member_simps split: option.split)

lemma SecretAuthConfigSafe_conforms [simp]: "conforms (Schema ''SecretAuthConfigSafe'') (json_SecretAuthConfigSafe v)"
  unfolding json_SecretAuthConfigSafe_def
  by (rule conforms_model [where d = model_SecretAuthConfigSafe]) (simp_all add: model_SecretAuthConfigSafe_def member_simps split: option.split)

lemma SecretStoreAuthResponse_conforms [simp]: "conforms (Schema ''SecretStoreAuthResponse'') (json_SecretStoreAuthResponse v)"
  unfolding json_SecretStoreAuthResponse_def
  by (rule conforms_model [where d = model_SecretStoreAuthResponse]) (simp_all add: model_SecretStoreAuthResponse_def member_simps split: option.split)

lemma SecretStoreResponse_conforms [simp]: "conforms (Schema ''SecretStoreResponse'') (json_SecretStoreResponse v)"
  unfolding json_SecretStoreResponse_def
  by (rule conforms_model [where d = model_SecretStoreResponse]) (simp_all add: model_SecretStoreResponse_def member_simps split: option.split)

lemma SecretStoreCondition_conforms [simp]: "conforms (Schema ''SecretStoreCondition'') (json_SecretStoreCondition v)"
  unfolding json_SecretStoreCondition_def
  by (rule conforms_model [where d = model_SecretStoreCondition]) (simp_all add: model_SecretStoreCondition_def member_simps split: option.split)

lemma SecretStoreStatusResponse_conforms [simp]: "conforms (Schema ''SecretStoreStatusResponse'') (json_SecretStoreStatusResponse v)"
  unfolding json_SecretStoreStatusResponse_def
  by (rule conforms_model [where d = model_SecretStoreStatusResponse]) (simp_all add: model_SecretStoreStatusResponse_def member_simps split: option.split)

lemma ExternalSecretRemote_conforms [simp]: "conforms (Schema ''ExternalSecretRemote'') (json_ExternalSecretRemote v)"
  unfolding json_ExternalSecretRemote_def
  by (rule conforms_model [where d = model_ExternalSecretRemote]) (simp_all add: model_ExternalSecretRemote_def member_simps split: option.split)

lemma ExternalSecretDataEntry_conforms [simp]: "conforms (Schema ''ExternalSecretDataEntry'') (json_ExternalSecretDataEntry v)"
  unfolding json_ExternalSecretDataEntry_def
  by (rule conforms_model [where d = model_ExternalSecretDataEntry]) (simp_all add: model_ExternalSecretDataEntry_def member_simps split: option.split)

lemma ExternalSecretTargetResponse_conforms [simp]: "conforms (Schema ''ExternalSecretTargetResponse'') (json_ExternalSecretTargetResponse v)"
  unfolding json_ExternalSecretTargetResponse_def
  by (rule conforms_model [where d = model_ExternalSecretTargetResponse]) (simp_all add: model_ExternalSecretTargetResponse_def member_simps split: option.split)

lemma ExternalSecretResponse_conforms [simp]: "conforms (Schema ''ExternalSecretResponse'') (json_ExternalSecretResponse v)"
  unfolding json_ExternalSecretResponse_def
  by (rule conforms_model [where d = model_ExternalSecretResponse]) (simp_all add: model_ExternalSecretResponse_def member_simps split: option.split)

lemma ExternalSecretStatusResponse_conforms [simp]: "conforms (Schema ''ExternalSecretStatusResponse'') (json_ExternalSecretStatusResponse v)"
  unfolding json_ExternalSecretStatusResponse_def
  by (rule conforms_model [where d = model_ExternalSecretStatusResponse]) (simp_all add: model_ExternalSecretStatusResponse_def member_simps split: option.split)

lemma FieldCondition_conforms [simp]: "conforms (Schema ''FieldCondition'') (json_FieldCondition v)"
  unfolding json_FieldCondition_def
  by (rule conforms_model [where d = model_FieldCondition]) (simp_all add: model_FieldCondition_def member_simps split: option.split)

lemma FieldDerivation_conforms [simp]: "conforms (Schema ''FieldDerivation'') (json_FieldDerivation v)"
  unfolding json_FieldDerivation_def
  by (rule conforms_model [where d = model_FieldDerivation]) (simp_all add: model_FieldDerivation_def member_simps split: option.split)

lemma ConnectionField_conforms [simp]: "conforms (Schema ''ConnectionField'') (json_ConnectionField v)"
  unfolding json_ConnectionField_def
  by (rule conforms_model [where d = model_ConnectionField]) (simp_all add: model_ConnectionField_def member_simps split: option.split)

lemma ContractDescriptor_conforms [simp]: "conforms (Schema ''ContractDescriptor'') (json_ContractDescriptor v)"
  unfolding json_ContractDescriptor_def
  by (rule conforms_model [where d = model_ContractDescriptor]) (simp_all add: model_ContractDescriptor_def member_simps split: option.split)

lemma CredentialsSecretRef_conforms [simp]: "conforms (Schema ''CredentialsSecretRef'') (json_CredentialsSecretRef v)"
  unfolding json_CredentialsSecretRef_def
  by (rule conforms_model [where d = model_CredentialsSecretRef]) (simp_all add: model_CredentialsSecretRef_def member_simps split: option.split)

lemma ConnectionResponse_conforms [simp]: "conforms (Schema ''ConnectionResponse'') (json_ConnectionResponse v)"
  unfolding json_ConnectionResponse_def
  by (rule conforms_model [where d = model_ConnectionResponse]) (simp_all add: model_ConnectionResponse_def member_simps split: option.split)

lemma InternalConnection_conforms [simp]: "conforms (Schema ''InternalConnection'') (json_InternalConnection v)"
  unfolding json_InternalConnection_def
  by (rule conforms_model [where d = model_InternalConnection]) (simp_all add: model_InternalConnection_def member_simps split: option.split)

lemma SelectableConnection_conforms [simp]: "conforms (Schema ''SelectableConnection'') (json_SelectableConnection v)"
  unfolding json_SelectableConnection_def
  by (rule conforms_model [where d = model_SelectableConnection]) (simp_all add: model_SelectableConnection_def member_simps split: option.split)

lemma ConnectionConsumer_conforms [simp]: "conforms (Schema ''ConnectionConsumer'') (json_ConnectionConsumer v)"
  unfolding json_ConnectionConsumer_def
  by (rule conforms_model [where d = model_ConnectionConsumer]) (simp_all add: model_ConnectionConsumer_def member_simps split: option.split)

lemma ConnectionTestCheck_conforms [simp]: "conforms (Schema ''ConnectionTestCheck'') (json_ConnectionTestCheck L v)"
  unfolding json_ConnectionTestCheck_def
  by (rule conforms_model [where d = model_ConnectionTestCheck]) (simp_all add: model_ConnectionTestCheck_def member_simps split: option.split)

lemma ConnectionTestResult_conforms [simp]: "conforms (Schema ''ConnectionTestResult'') (json_ConnectionTestResult L v)"
  unfolding json_ConnectionTestResult_def
  by (rule conforms_model [where d = model_ConnectionTestResult]) (simp_all add: model_ConnectionTestResult_def member_simps split: option.split)

lemma PlatformService_conforms [simp]: "conforms (Schema ''PlatformService'') (json_PlatformService v)"
  unfolding json_PlatformService_def
  by (rule conforms_model [where d = model_PlatformService]) (simp_all add: model_PlatformService_def member_simps split: option.split)

lemma MenuCategory_conforms [simp]: "conforms (Schema ''MenuCategory'') (json_MenuCategory v)"
  unfolding json_MenuCategory_def
  by (rule conforms_model [where d = model_MenuCategory]) (simp_all add: model_MenuCategory_def member_simps split: option.split)

lemma PackageInput_conforms [simp]: "conforms (Schema ''PackageInput'') (json_PackageInput v)"
  unfolding json_PackageInput_def
  by (rule conforms_model [where d = model_PackageInput]) (simp_all add: model_PackageInput_def member_simps split: option.split)

lemma ProfileImage_conforms [simp]: "conforms (Schema ''ProfileImage'') (json_ProfileImage v)"
  unfolding json_ProfileImage_def
  by (rule conforms_model [where d = model_ProfileImage]) (simp_all add: model_ProfileImage_def member_simps split: option.split)

lemma ServiceConnection_conforms [simp]: "conforms (Schema ''ServiceConnection'') (json_ServiceConnection v)"
  unfolding json_ServiceConnection_def
  by (rule conforms_model [where d = model_ServiceConnection]) (simp_all add: model_ServiceConnection_def member_simps split: option.split)

lemma ServiceInstance_conforms [simp]: "conforms (Schema ''ServiceInstance'') (json_ServiceInstance v)"
  unfolding json_ServiceInstance_def
  by (rule conforms_model [where d = model_ServiceInstance]) (simp_all add: model_ServiceInstance_def member_simps split: option.split)

lemma Container_conforms [simp]: "conforms (Schema ''Container'') (json_Container v)"
  unfolding json_Container_def
  by (rule conforms_model [where d = model_Container]) (simp_all add: model_Container_def member_simps split: option.split)

lemma Pod_conforms [simp]: "conforms (Schema ''Pod'') (json_Pod v)"
  unfolding json_Pod_def
  by (rule conforms_model [where d = model_Pod]) (simp_all add: model_Pod_def member_simps split: option.split)

lemma MetricValue_conforms [simp]: "conforms (Schema ''MetricValue'') (json_MetricValue v)"
  unfolding json_MetricValue_def
  by (rule conforms_model [where d = model_MetricValue]) (simp_all add: model_MetricValue_def member_simps split: option.split)

lemma ServiceMetrics_conforms [simp]: "conforms (Schema ''ServiceMetrics'') (json_ServiceMetrics v)"
  unfolding json_ServiceMetrics_def
  by (rule conforms_model [where d = model_ServiceMetrics]) (simp_all add: model_ServiceMetrics_def member_simps split: option.split)

lemma SparkAppInstance_conforms [simp]: "conforms (Schema ''SparkAppInstance'') (json_SparkAppInstance v)"
  unfolding json_SparkAppInstance_def
  by (rule conforms_model [where d = model_SparkAppInstance]) (simp_all add: model_SparkAppInstance_def member_simps split: option.split)

lemma SparkUIInfo_conforms [simp]: "conforms (Schema ''SparkUIInfo'') (json_SparkUIInfo v)"
  unfolding json_SparkUIInfo_def
  by (rule conforms_model [where d = model_SparkUIInfo]) (simp_all add: model_SparkUIInfo_def member_simps split: option.split)

lemma SparkImage_conforms [simp]: "conforms (Schema ''SparkImage'') (json_SparkImage v)"
  unfolding json_SparkImage_def
  by (rule conforms_model [where d = model_SparkImage]) (simp_all add: model_SparkImage_def member_simps)

lemma ResourceDefaults_conforms [simp]: "conforms (Schema ''ResourceDefaults'') (json_ResourceDefaults v)"
  unfolding json_ResourceDefaults_def resource_members_def
  by (rule conforms_model [where d = model_ResourceDefaults]) (simp_all add: model_ResourceDefaults_def member_simps)

lemma ExecutorDefaults_conforms [simp]: "conforms (Schema ''ExecutorDefaults'') (json_ExecutorDefaults v)"
  unfolding json_ExecutorDefaults_def resource_members_def
  by (rule conforms_model [where d = model_ExecutorDefaults]) (simp_all add: model_ExecutorDefaults_def member_simps split: option.split)

lemma SparkDefaults_conforms [simp]: "conforms (Schema ''SparkDefaults'') (json_SparkDefaults v)"
  unfolding json_SparkDefaults_def
  by (rule conforms_model [where d = model_SparkDefaults]) (simp_all add: model_SparkDefaults_def member_simps split: option.split)

lemma SparkConfigSpark_conforms [simp]: "conforms (Schema ''SparkConfigSpark'') (json_SparkConfigSpark v)"
  unfolding json_SparkConfigSpark_def
  by (rule conforms_model [where d = model_SparkConfigSpark]) (simp_all add: model_SparkConfigSpark_def member_simps split: option.split)

lemma SparkConfigImage_conforms [simp]: "conforms (Schema ''SparkConfigImage'') (json_SparkConfigImage v)"
  unfolding json_SparkConfigImage_def
  by (rule conforms_model [where d = model_SparkConfigImage]) (simp_all add: model_SparkConfigImage_def member_simps split: option.split)

lemma SparkConfig_conforms [simp]: "conforms (Schema ''SparkConfig'') (json_SparkConfig v)"
  unfolding json_SparkConfig_def
  by (rule conforms_model [where d = model_SparkConfig]) (simp_all add: model_SparkConfig_def member_simps split: option.split)

lemma ConnectionCatalogResponse_conforms [simp]: "conforms (Schema ''ConnectionCatalogResponse'') (json_ConnectionCatalogResponse v)"
  unfolding json_ConnectionCatalogResponse_def
  by (rule conforms_model [where d = model_ConnectionCatalogResponse]) (simp_all add: model_ConnectionCatalogResponse_def member_simps split: option.split)

lemma ServiceVersionsResponse_conforms [simp]: "conforms (Schema ''ServiceVersionsResponse'') (json_ServiceVersionsResponse v)"
  unfolding json_ServiceVersionsResponse_def
  by (rule conforms_model [where d = model_ServiceVersionsResponse]) (simp_all add: model_ServiceVersionsResponse_def member_simps split: option.split)

lemma TestConnectionResponse_conforms [simp]: "conforms (Schema ''TestConnectionResponse'') (json_TestConnectionResponse v)"
  unfolding json_TestConnectionResponse_def
  by (rule conforms_model [where d = model_TestConnectionResponse]) (simp_all add: model_TestConnectionResponse_def member_simps split: option.split)

subsection \<open>Bodies\<close>

lemma errors_conform [simp]:
  "conforms (MapOf (Primitive ''string'')) (error_json s)"
  "conforms (MapOf (Primitive ''string'')) (json_FeatureUnavailable f s)"
  by (simp_all add: error_json_def json_FeatureUnavailable_def str_field_def)

lemma model_json_conforms: "model_json L m = Some j \<Longrightarrow> conforms (schema_of_model m) j"
  by (cases m) auto

text \<open>Every body, whoever answers it.\<close>

lemma answer_json_conforms: "answer_json L a = Some j \<Longrightarrow> conforms (snd (answer_kind a)) j"
  by (cases a) (auto simp: failure_def model_json_conforms)

lemma answer_kind_status: "fst (answer_kind a) = status_of a"
  by (cases a) (simp_all add: failure_def)

definition conforming_answer :: "extlib \<Rightarrow> (nat \<times> doc_schema) list \<Rightarrow> answer \<Rightarrow> bool" where
  "conforming_answer L K a =
     list_ex (\<lambda>(n, s). status_of a = n \<and> (case answer_json L a of None \<Rightarrow> True | Some j \<Rightarrow> conforms s j)) K"

lemma within_conforming: "answer_kind a \<in> set K \<Longrightarrow> conforming_answer L K a"
  unfolding conforming_answer_def list_ex_iff
  by (rule bexI [of _ "answer_kind a"])
    (auto simp: answer_kind_status [symmetric] dest: answer_json_conforms split: prod.split option.split)


text \<open>
  The nulls are answered: a store the operator has not checked yet has no time and no error, and
  the client reads \<^verbatim>\<open>null\<close> where the description promises a text.
\<close>

lemma unchecked_store_answers_null:
  assumes "st_Conditions store = []"
  shows "\<exists>kvs. json_SecretStoreResponse (store_toResponse store ns) = JObject kvs \<and>
    (''lastCheckedAt'', JNull) \<in> set kvs \<and> (''lastError'', JNull) \<in> set kvs"
  using assms
  by (simp add: json_SecretStoreResponse_def store_toResponse_def last_checked_def last_error_def ptr_field_def)

end
