(* ===== verification/Log_Follow.thy ===== *)
theory Log_Follow
  imports Http
begin

text \<open>
  Following a log (\<^verbatim>\<open>GetPodLogs\<close> and \<^verbatim>\<open>GetSparkAppLogs\<close> with \<^verbatim>\<open>follow=true\<close>, \<^verbatim>\<open>log_stream.go\<close>). A
  goroutine scans the stream of the pod into lines and hands each over an unbuffered channel; the
  handler writes what it receives as events, a comment at every tick of the keepalive, and leaves
  when the request is cancelled, when a comment cannot be written or when the channel is closed.
  The two run concurrently: the model is a step relation, one step per operation on a channel, and
  the sequential reading of the handlers (\<^term>\<open>log_stream\<close>) is what it refines.
\<close>

subsection \<open>The scanner\<close>

definition defaultLogBufferSize :: nat where "defaultLogBufferSize = 64 * 1024"
definition maxLogLineSize :: nat where "maxLogLineSize = 1024 * 1024"

text \<open>
  \<^verbatim>\<open>bufio.Scanner\<close> with \<^verbatim>\<open>ScanLines\<close>: a line ends at a newline, one carriage return before it is
  dropped, and what is left when the stream ends is a line unless it is empty. A line whose bytes
  fill the buffer before a newline is found stops the scanner.
\<close>

abbreviation newline :: char where "newline \<equiv> CHR 0x0A"

definition drop_cr :: "string \<Rightarrow> string" where
  "drop_cr l = (if l \<noteq> [] \<and> last l = CHR 0x0D then butlast l else l)"

definition line_of :: "string \<Rightarrow> string" where
  "line_of bs = takeWhile (\<lambda>c. c \<noteq> newline) bs"

definition after_line :: "string \<Rightarrow> string" where
  "after_line bs = tl (dropWhile (\<lambda>c. c \<noteq> newline) bs)"

lemma after_line_shorter [termination_simp]: "bs \<noteq> [] \<Longrightarrow> length (after_line bs) < length bs"
  unfolding after_line_def
  by (cases bs) (auto intro: le_less_trans [OF length_dropWhile_le] simp: less_Suc_eq_le diff_le_self
      le_trans [OF diff_le_self length_dropWhile_le])

fun scan_lines :: "nat \<Rightarrow> scan_error option \<Rightarrow> string \<Rightarrow> string list \<times> scan_error option" where
  "scan_lines limit readErr bs =
     (if bs = [] then ([], readErr)
      else if length (line_of bs) \<ge> limit then ([], Some TooLong)
      else case scan_lines limit readErr (after_line bs) of
             (ls, e) \<Rightarrow> (drop_cr (line_of bs) # ls, e))"

declare scan_lines.simps [simp del]

definition newLogStreamScanner :: "scan_error option \<Rightarrow> string \<Rightarrow> string list \<times> scan_error option" where
  "newLogStreamScanner readErr bs = scan_lines maxLogLineSize readErr bs"

subsection \<open>The two goroutines\<close>

datatype producer =
    Scanning
  | Sending string
  | Reporting "scan_error option"
  | Closing
  | Stopped

datatype ending = OnCancel | OnWriteFailure | OnClosed

datatype consumer = Selecting | Returned ending

text \<open>
  The state: the lines the scanner has not returned yet, the place of each goroutine, the buffer
  of \<^verbatim>\<open>scanErr\<close> (capacity one), whether \<^verbatim>\<open>lines\<close> is closed, whether the request is over, and what
  was written to the client.
\<close>

record follow =
  fw_Unread :: "string list"
  fw_Producer :: producer
  fw_Consumer :: consumer
  fw_ScanErr :: "scan_error option option"
  fw_Closed :: bool
  fw_Cancelled :: bool
  fw_Sent :: "string sent list"

definition start_follow :: "string list \<Rightarrow> follow" where
  "start_follow ls = \<lparr>fw_Unread = ls, fw_Producer = Scanning, fw_Consumer = Selecting,
     fw_ScanErr = None, fw_Closed = False, fw_Cancelled = False, fw_Sent = []\<rparr>"

datatype follow_event =
    Scan
  | EndOfStream
  | Interrupted
  | Deliver string
  | Abandon
  | Report
  | CloseLines
  | Tick bool
  | Leave
  | Finish "scan_error option option"
  | Cancel

text \<open>
  The steps. \<^term>\<open>Interrupted\<close> is a read that fails because the handler has returned and closed the
  stream; \<^term>\<open>Cancel\<close> is the end of the request, which the HTTP server also declares once the
  handler has returned. A select with several ready cases takes any of them.
\<close>

inductive follow_step :: "scan_error option \<Rightarrow> follow_event \<Rightarrow> follow \<Rightarrow> follow \<Rightarrow> bool"
  for e :: "scan_error option" where
  scan: "fw_Producer w = Scanning \<Longrightarrow> fw_Unread w = l # ls \<Longrightarrow>
    follow_step e Scan w (w\<lparr>fw_Unread := ls, fw_Producer := Sending l\<rparr>)"
| end_of_stream: "fw_Producer w = Scanning \<Longrightarrow> fw_Unread w = [] \<Longrightarrow>
    follow_step e EndOfStream w (w\<lparr>fw_Producer := Reporting e\<rparr>)"
| interrupted: "fw_Producer w = Scanning \<Longrightarrow> fw_Consumer w = Returned why \<Longrightarrow>
    follow_step e Interrupted w (w\<lparr>fw_Unread := [], fw_Producer := Reporting (Some OtherScanError)\<rparr>)"
| deliver: "fw_Producer w = Sending l \<Longrightarrow> fw_Consumer w = Selecting \<Longrightarrow>
    follow_step e (Deliver l) w
      (w\<lparr>fw_Producer := Scanning, fw_Sent := fw_Sent w @ [SSE ''message'' l]\<rparr>)"
| abandon: "fw_Producer w = Sending l \<Longrightarrow> fw_Cancelled w \<Longrightarrow>
    follow_step e Abandon w (w\<lparr>fw_Producer := Stopped, fw_Closed := True\<rparr>)"
| report: "fw_Producer w = Reporting r \<Longrightarrow> fw_ScanErr w = None \<Longrightarrow>
    follow_step e Report w (w\<lparr>fw_Producer := Closing, fw_ScanErr := Some r\<rparr>)"
| close_lines: "fw_Producer w = Closing \<Longrightarrow>
    follow_step e CloseLines w (w\<lparr>fw_Producer := Stopped, fw_Closed := True\<rparr>)"
| tick: "fw_Consumer w = Selecting \<Longrightarrow>
    follow_step e (Tick True) w (w\<lparr>fw_Sent := fw_Sent w @ [Comment]\<rparr>)"
| tick_fails: "fw_Consumer w = Selecting \<Longrightarrow>
    follow_step e (Tick False) w (w\<lparr>fw_Consumer := Returned OnWriteFailure\<rparr>)"
| leave: "fw_Consumer w = Selecting \<Longrightarrow> fw_Cancelled w \<Longrightarrow>
    follow_step e Leave w (w\<lparr>fw_Consumer := Returned OnCancel\<rparr>)"
| finish: "fw_Consumer w = Selecting \<Longrightarrow> fw_Closed w \<Longrightarrow>
    follow_step e (Finish (fw_ScanErr w)) w
      (w\<lparr>fw_Consumer := Returned OnClosed, fw_ScanErr := None,
         fw_Sent := fw_Sent w @ (case fw_ScanErr w of
             Some (Some err) \<Rightarrow> [SSE ''error'' (logStreamErrorMessage err)] | _ \<Rightarrow> [])\<rparr>)"
| cancel: "\<not> fw_Cancelled w \<Longrightarrow> follow_step e Cancel w (w\<lparr>fw_Cancelled := True\<rparr>)"

inductive_cases follow_stepE: "follow_step e ev w w'"

inductive follow_run :: "scan_error option \<Rightarrow> follow_event list \<Rightarrow> follow \<Rightarrow> follow \<Rightarrow> bool"
  for e :: "scan_error option" where
  nil: "follow_run e [] w w"
| snoc: "follow_run e evs w w' \<Longrightarrow> follow_step e ev w' w'' \<Longrightarrow> follow_run e (evs @ [ev]) w w''"

inductive_cases follow_runE: "follow_run e evs w w'"

subsection \<open>What the handler receives\<close>

fun received :: "follow_event \<Rightarrow> log_feed list" where
  "received (Deliver l) = [LogLine l]"
| "received (Tick written) = [LogKeepalive written]"
| "received Leave = [LogCancelled]"
| "received (Finish r) = [LogEnd (case r of Some x \<Rightarrow> x | None \<Rightarrow> None)]"
| "received _ = []"

definition feed_of :: "follow_event list \<Rightarrow> log_feed list" where
  "feed_of evs = concat (map received evs)"

fun delivered_line :: "follow_event \<Rightarrow> string list" where
  "delivered_line (Deliver l) = [l]"
| "delivered_line _ = []"

definition delivered :: "follow_event list \<Rightarrow> string list" where
  "delivered evs = concat (map delivered_line evs)"

lemma feed_simps [simp]: "feed_of [] = []" "feed_of (evs @ [ev]) = feed_of evs @ received ev"
  "delivered [] = []" "delivered (evs @ [ev]) = delivered evs @ delivered_line ev"
  by (simp_all add: feed_of_def delivered_def)

text \<open>A feed after which the handler still listens.\<close>

fun goes_on :: "log_feed \<Rightarrow> bool" where
  "goes_on (LogLine l) = True"
| "goes_on (LogKeepalive written) = written"
| "goes_on _ = False"

lemma log_stream_append: "list_all goes_on fs \<Longrightarrow> log_stream (fs @ gs) = log_stream fs @ log_stream gs"
  by (induction fs rule: log_stream.induct) auto

fun in_hand :: "producer \<Rightarrow> string list" where
  "in_hand (Sending l) = [l]"
| "in_hand _ = []"

text \<open>Where the lines are while the handler listens, and what the producer has to say of the end.\<close>

definition nothing_lost :: "string list \<Rightarrow> scan_error option \<Rightarrow> follow_event list \<Rightarrow> follow \<Rightarrow> bool" where
  "nothing_lost ls e evs w =
     (delivered evs @ in_hand (fw_Producer w) @ fw_Unread w = ls \<and>
      (case fw_Producer w of
         Reporting r \<Rightarrow> r = e \<and> fw_Unread w = [] \<and> fw_ScanErr w = None
       | Closing \<Rightarrow> fw_Unread w = [] \<and> fw_ScanErr w = Some e
       | Stopped \<Rightarrow> fw_Unread w = [] \<and> fw_ScanErr w = Some e
       | _ \<Rightarrow> fw_ScanErr w = None))"

definition abandoned :: "follow \<Rightarrow> bool" where
  "abandoned w = (fw_Producer w = Stopped \<and> fw_ScanErr w = None \<and> fw_Cancelled w)"

definition ended_well :: "string list \<Rightarrow> scan_error option \<Rightarrow> follow_event list \<Rightarrow> follow \<Rightarrow> bool" where
  "ended_well ls e evs w =
     (delivered evs = ls \<and> Finish (Some e) \<in> set evs \<or> Finish None \<in> set evs \<and> fw_Cancelled w)"

definition follow_inv :: "string list \<Rightarrow> scan_error option \<Rightarrow> follow_event list \<Rightarrow> follow \<Rightarrow> bool" where
  "follow_inv ls e evs w =
     (fw_Sent w = log_stream (feed_of evs) \<and>
      (\<exists>rest. ls = delivered evs @ rest) \<and>
      fw_Closed w = (fw_Producer w = Stopped) \<and>
      (case fw_Consumer w of
         Selecting \<Rightarrow> list_all goes_on (feed_of evs) \<and> (nothing_lost ls e evs w \<or> abandoned w)
       | Returned OnClosed \<Rightarrow> ended_well ls e evs w
       | Returned OnCancel \<Rightarrow> fw_Cancelled w
       | Returned OnWriteFailure \<Rightarrow> Tick False \<in> set evs))"

lemma follow_inv_start: "follow_inv ls e [] (start_follow ls)"
  by (simp add: follow_inv_def start_follow_def nothing_lost_def)

lemma follow_inv_step:
  assumes "follow_inv ls e evs w" "follow_step e ev w w'"
  shows "follow_inv ls e (evs @ [ev]) w'"
  using assms(2,1)
proof cases
  case (finish)
  with assms(1) show ?thesis
    by (auto simp: follow_inv_def nothing_lost_def abandoned_def ended_well_def log_stream_append
        split: option.splits producer.splits)
qed (auto simp: follow_inv_def nothing_lost_def abandoned_def ended_well_def log_stream_append
    split: consumer.splits ending.splits producer.splits)

lemma follow_inv_run: "follow_run e evs (start_follow ls) w \<Longrightarrow> follow_inv ls e evs w"
  by (induction evs "start_follow ls" w rule: follow_run.induct)
    (auto intro: follow_inv_start follow_inv_step)

subsection \<open>The scanner loses nothing and bounds every line\<close>

lemma line_of_append: "newline \<notin> set l \<Longrightarrow> line_of (l @ newline # bs) = l"
  unfolding line_of_def by (induction l) auto

lemma after_line_append: "newline \<notin> set l \<Longrightarrow> after_line (l @ newline # bs) = bs"
  unfolding after_line_def by (subst dropWhile_append2) auto

lemma newline_line_of: "newline \<notin> set (line_of bs)"
  unfolding line_of_def by (auto dest: set_takeWhileD)

lemma set_drop_cr: "set (drop_cr l) \<subseteq> set l"
  by (auto simp: drop_cr_def dest: in_set_butlastD)

lemma length_drop_cr: "length (drop_cr l) \<le> length l"
  by (simp add: drop_cr_def)

text \<open>The bytes of a text that are no line ends.\<close>

definition letters :: "string \<Rightarrow> string" where
  "letters bs = filter (\<lambda>c. c \<noteq> newline \<and> c \<noteq> CHR 0x0D) bs"

lemma letters_append [simp]: "letters (xs @ ys) = letters xs @ letters ys"
  by (simp add: letters_def)

lemma letters_drop_cr: "letters (drop_cr l) = letters l"
  by (cases l rule: rev_cases) (auto simp: drop_cr_def letters_def)

lemma letters_line: "letters bs = letters (line_of bs) @ letters (after_line bs)"
  by (induction bs) (auto simp: letters_def line_of_def after_line_def)

definition scan_ok :: "nat \<Rightarrow> string \<Rightarrow> string list \<times> scan_error option \<Rightarrow> bool" where
  "scan_ok limit bs r =
     (list_all (\<lambda>l. length l < limit \<and> newline \<notin> set l) (fst r) \<and>
      (\<exists>rest. letters bs = concat (map letters (fst r)) @ rest \<and> (rest = [] \<or> snd r = Some TooLong)))"

lemma scan_lines_ok: "scan_ok limit bs (scan_lines limit readErr bs)"
proof (induction bs rule: length_induct)
  case (1 bs)
  show ?case
  proof (cases "bs = [] \<or> limit \<le> length (line_of bs)")
    case True
    then show ?thesis by (auto simp: scan_ok_def scan_lines.simps [of limit readErr bs] letters_def)
  next
    case False
    then have IH: "scan_ok limit (after_line bs) (scan_lines limit readErr (after_line bs))"
      using 1 after_line_shorter by blast
    have line: "length (drop_cr (line_of bs)) < limit" "newline \<notin> set (drop_cr (line_of bs))"
      using False length_drop_cr [of "line_of bs"] set_drop_cr [of "line_of bs"] newline_line_of [of bs]
      by (auto simp del: set_drop_cr)
    from IH line False show ?thesis
      by (auto simp: scan_ok_def scan_lines.simps [of limit readErr bs] letters_line [of bs] letters_drop_cr
          split: prod.split)
  qed
qed

text \<open>Lines printed one under the other are scanned back.\<close>

definition plain_line :: "nat \<Rightarrow> string \<Rightarrow> bool" where
  "plain_line limit l = (newline \<notin> set l \<and> length l < limit \<and> (l = [] \<or> last l \<noteq> CHR 0x0D))"

definition printed :: "string list \<Rightarrow> string" where
  "printed ls = concat (map (\<lambda>l. l @ [newline]) ls)"

lemma scan_printed: "list_all (plain_line limit) ls \<Longrightarrow> scan_lines limit readErr (printed ls) = (ls, readErr)"
proof (induction ls)
  case Nil
  then show ?case by (simp add: printed_def scan_lines.simps)
next
  case (Cons l ls)
  then have l: "newline \<notin> set l" "length l < limit" "drop_cr l = l"
    by (auto simp: plain_line_def drop_cr_def)
  have "printed (l # ls) = l @ newline # printed ls" by (simp add: printed_def)
  with Cons l show ?case
    by (simp add: scan_lines.simps [of limit readErr "l @ newline # printed ls"]
        line_of_append after_line_append)
qed

subsection \<open>The goroutines come to an end\<close>

text \<open>How many steps are left at most, ticks aside.\<close>

fun producer_rank :: "producer \<Rightarrow> nat" where
  "producer_rank Scanning = 3"
| "producer_rank (Sending l) = 4"
| "producer_rank (Reporting r) = 2"
| "producer_rank Closing = 1"
| "producer_rank Stopped = 0"

definition follow_work :: "follow \<Rightarrow> nat" where
  "follow_work w = 2 * length (fw_Unread w) + producer_rank (fw_Producer w) +
     (if fw_Consumer w = Selecting then 1 else 0) + (if fw_Cancelled w then 0 else 1)"

definition is_work :: "follow_event \<Rightarrow> bool" where
  "is_work ev = (ev \<noteq> Tick True)"

lemma follow_work_step: "follow_step e ev w w' \<Longrightarrow> follow_work w' + (if is_work ev then 1 else 0) \<le> follow_work w"
  by (cases rule: follow_stepE) (auto simp: follow_work_def is_work_def)

lemma follow_work_run:
  "follow_run e evs w w' \<Longrightarrow> length (filter is_work evs) + follow_work w' \<le> follow_work w"
  by (induction rule: follow_run.induct) (auto dest!: follow_work_step split: if_splits)

lemma follow_work_start: "follow_work (start_follow ls) = 2 * length ls + 5"
  by (simp add: follow_work_def start_follow_def)

text \<open>The buffer of \<^verbatim>\<open>scanErr\<close> is empty until the producer has reported.\<close>

fun reported :: "producer \<Rightarrow> bool" where
  "reported Closing = True"
| "reported Stopped = True"
| "reported _ = False"

lemma buffer_step:
  assumes "follow_step e ev w w'" "reported (fw_Producer w) \<or> fw_ScanErr w = None"
    "fw_Closed w = (fw_Producer w = Stopped)"
  shows "(reported (fw_Producer w') \<or> fw_ScanErr w' = None) \<and> fw_Closed w' = (fw_Producer w' = Stopped)"
  using assms by cases auto

lemma buffer_run:
  assumes "follow_run e evs (start_follow ls) w"
  shows "(reported (fw_Producer w) \<or> fw_ScanErr w = None) \<and> fw_Closed w = (fw_Producer w = Stopped)"
  using assms
proof (induction evs "start_follow ls" w rule: follow_run.induct)
  case (snoc evs w' ev w'')
  show ?case by (rule buffer_step [OF snoc.hyps(3)]) (use snoc.hyps(2) in auto)
qed (simp add: start_follow_def)

definition both_done :: "follow \<Rightarrow> bool" where
  "both_done w = (fw_Producer w = Stopped \<and> fw_Consumer w \<noteq> Selecting)"

text \<open>A step that moves a goroutine on, or the end of the request the server declares when the handler returns.\<close>

definition can_move :: "scan_error option \<Rightarrow> follow \<Rightarrow> bool" where
  "can_move e w =
     ((\<exists>ev w'. follow_step e ev w w' \<and> ev \<noteq> Cancel \<and> (\<forall>written. ev \<noteq> Tick written)) \<or>
      fw_Consumer w \<noteq> Selecting \<and> \<not> fw_Cancelled w \<and> (\<exists>w'. follow_step e Cancel w w'))"

lemma moves:
  assumes "reported (fw_Producer w) \<or> fw_ScanErr w = None" "fw_Closed w = (fw_Producer w = Stopped)"
    and "\<not> both_done w"
  shows "can_move e w"
proof (cases "fw_Producer w")
  case Scanning
  then show ?thesis
    unfolding can_move_def by (cases "fw_Unread w") (blast intro: follow_step.intros)+
next
  case (Sending l)
  then show ?thesis
    unfolding can_move_def
    by (cases "fw_Consumer w"; cases "fw_Cancelled w") (blast intro: follow_step.intros)+
next
  case (Reporting r)
  with assms(1) have "fw_ScanErr w = None" by simp
  with Reporting show ?thesis unfolding can_move_def by (blast intro: follow_step.report)
next
  case Closing
  then show ?thesis unfolding can_move_def by (blast intro: follow_step.close_lines)
next
  case Stopped
  with assms have "fw_Consumer w = Selecting" "fw_Closed w" by (auto simp: both_done_def)
  then show ?thesis unfolding can_move_def by (blast intro: follow_step.finish)
qed

subsection \<open>Following a log\<close>

definition scanned :: "scan_error option \<Rightarrow> string \<Rightarrow> string list" where
  "scanned readErr bs = fst (newLogStreamScanner readErr bs)"

definition scan_result :: "scan_error option \<Rightarrow> string \<Rightarrow> scan_error option" where
  "scan_result readErr bs = snd (newLogStreamScanner readErr bs)"

text \<open>A run of the two goroutines on a stream, from its start.\<close>

definition follows :: "scan_error option \<Rightarrow> string \<Rightarrow> follow_event list \<Rightarrow> follow \<Rightarrow> bool" where
  "follows readErr bs evs w =
     follow_run (scan_result readErr bs) evs (start_follow (scanned readErr bs)) w"

definition sample_log :: string where "sample_log = ''up'' @ [newline]"

definition sample_events :: "follow_event list" where
  "sample_events = [Scan, Tick True, Deliver ''up'', EndOfStream, Report, CloseLines, Finish (Some None)]"

definition sample_end :: follow where
  "sample_end = \<lparr>fw_Unread = [], fw_Producer = Stopped, fw_Consumer = Returned OnClosed,
     fw_ScanErr = None, fw_Closed = True, fw_Cancelled = False, fw_Sent = [Comment, SSE ''message'' ''up'']\<rparr>"

lemma sample_scanned: "scanned None sample_log = [''up'']" "scan_result None sample_log = None"
  by (simp_all add: scanned_def scan_result_def newLogStreamScanner_def sample_log_def maxLogLineSize_def
      scan_lines.simps line_of_def after_line_def drop_cr_def)

lemma follow_run_simps:
  "follow_run e [] w w' \<longleftrightarrow> w' = w"
  "follow_run e (evs @ [ev]) w w'' \<longleftrightarrow> (\<exists>w'. follow_run e evs w w' \<and> follow_step e ev w' w'')"
  by (auto elim: follow_runE intro: follow_run.intros)

lemma follow_run_Cons: "follow_step e ev w w' \<Longrightarrow> follow_run e evs w' w'' \<Longrightarrow> follow_run e (ev # evs) w w''"
proof (induction evs arbitrary: w'' rule: rev_induct)
  case Nil
  then have "follow_run e ([] @ [ev]) w w''"
    by (simp add: follow_run_simps(1)) (metis append_Nil follow_run.nil follow_run.snoc)
  then show ?case by simp
next
  case (snoc x xs)
  then obtain v where v: "follow_run e xs w' v" "follow_step e x v w''" by (auto simp: follow_run_simps)
  then have "follow_run e (ev # xs) w v" using snoc by blast
  with v(2) have "follow_run e ((ev # xs) @ [x]) w w''" by (rule follow_run.snoc [rotated])
  then show ?case by simp
qed

lemma finish_with:
  assumes "fw_Consumer w = Selecting" "fw_Closed w" "fw_ScanErr w = Some None"
  shows "follow_step e (Finish (Some None)) w (w\<lparr>fw_Consumer := Returned OnClosed, fw_ScanErr := None\<rparr>)"
  using follow_step.finish [of w e] assms by simp

lemma sample_follows: "follows None sample_log sample_events sample_end"
  unfolding follows_def sample_scanned sample_events_def
  by (rule follow_run_Cons, rule follow_step.intros, simp add: start_follow_def, simp add: start_follow_def)+
    (rule follow_run_Cons, rule finish_with,
      simp_all add: follow_run_simps(1) start_follow_def sample_end_def)

text \<open>
  C37. Whatever way the two goroutines interleave, what a client that follows a log is sent is what the
  sequential reading of the handler sends for the events it received; the lines it got are the
  first lines of the log, in order and each once. When the handler leaves because the channel was
  closed, either every line was delivered and the way the scanner ended was reported, or the
  request had been cancelled.
\<close>

theorem log_follow_refines:
  assumes "follows readErr bs evs w"
  shows "fw_Sent w = log_stream (feed_of evs) \<and>
    (\<exists>rest. scanned readErr bs = delivered evs @ rest) \<and>
    (fw_Consumer w = Returned OnClosed \<longrightarrow>
       delivered evs = scanned readErr bs \<and> Finish (Some (scan_result readErr bs)) \<in> set evs \<or>
       Finish None \<in> set evs \<and> fw_Cancelled w)"
  using follow_inv_run [OF assms [unfolded follows_def]]
  by (auto simp: follow_inv_def ended_well_def)

theorem log_follow_refines_witness:
  "fw_Sent sample_end = log_stream (feed_of sample_events) \<and> delivered sample_events = [''up'']"
  using log_follow_refines [OF sample_follows]
  by (simp add: sample_scanned sample_end_def sample_events_def delivered_def)

text \<open>
  C38. Following a log leaves no goroutine behind: ticks aside, a log of n lines takes at most 2 n + 5
  steps, and until both the handler and the scanner have ended one of them can move, or the
  handler has returned and the end of the request it causes sets the scanner free.
\<close>

theorem log_follow_ends:
  assumes "follows readErr bs evs w"
  shows "length (filter is_work evs) \<le> 2 * length (scanned readErr bs) + 5 \<and>
    (both_done w \<or> can_move (scan_result readErr bs) w)"
proof -
  note run = assms [unfolded follows_def]
  have "length (filter is_work evs) + follow_work w \<le> 2 * length (scanned readErr bs) + 5"
    using follow_work_run [OF run] by (simp add: follow_work_start)
  moreover have "both_done w \<or> can_move (scan_result readErr bs) w"
    using buffer_run [OF run] moves by blast
  ultimately show ?thesis by simp
qed

theorem log_follow_ends_witness: "length (filter is_work sample_events) \<le> 7 \<and> both_done sample_end"
  using log_follow_ends [OF sample_follows]
  by (simp add: sample_scanned sample_end_def both_done_def)

text \<open>
  Every line of a log sent to a client is shorter than a mebibyte and holds no newline, and the
  lines hold every character of the log but its line ends, unless the scanner stopped at a line
  that is too long and said so.
\<close>

theorem scanned_lines_bounded: "scan_ok maxLogLineSize bs (newLogStreamScanner readErr bs)"
  unfolding newLogStreamScanner_def by (rule scan_lines_ok)

end
