(* ===== verification/Catalog_Concurrency.thy ===== *)
theory Catalog_Concurrency
  imports Service_Catalog_Properties Connection_Properties
begin

text \<open>
  The edits of the catalog when several requests, on several replicas of the server, make them at
  the same time, and others edit the Context by hand. A history is the sequence of requests about
  the Context the API server answered, each with the party that sent it; the editors are parties
  that run \<^term>\<open>mutateCategories\<close>. What is known of the API server is its optimistic concurrency
  control, stated by \<^verbatim>\<open>served\<close>. Every accepted edit then applies to the catalog as it stands.
\<close>

type_synonym party = nat
type_synonym history = "(party \<times> kcall \<times> kresp) list"
type_synonym edit = "goval list \<Rightarrow> gerr + goval list"

subsection \<open>The API server\<close>

text \<open>
  The stored versions of the Context, the latest first, and the log of what was written. A read
  answers the stored object, or no object. A write is applied when it carries the version stored,
  or none at all; it gives the object a version never used before. A write answered by an error
  may have been applied all the same, unless the error is a conflict.
\<close>

definition conflict_answer :: "kresp \<Rightarrow> bool" where
  "conflict_answer r = (\<exists>e. r = RErr e \<and> is_conflict e)"

inductive served ::
    "string \<Rightarrow> string \<Rightarrow> uobj list \<Rightarrow> history \<Rightarrow> (party \<times> uobj) list \<Rightarrow> uobj list \<Rightarrow> bool"
  for ns ctx :: string where
  nil: "served ns ctx past [] [] past"
| answered: "served ns ctx (cur # past) h ws past' \<Longrightarrow>
    served ns ctx (cur # past) ((i, KGet contextGVR ns ctx, RObj (ORaw cur)) # h) ws past'"
| failed: "(\<And>u. r \<noteq> RObj (ORaw u)) \<Longrightarrow> served ns ctx past h ws past' \<Longrightarrow>
    served ns ctx past ((i, KGet contextGVR ns ctx, r) # h) ws past'"
| applied: "u_ResourceVersion u \<in> {[], u_ResourceVersion cur} \<Longrightarrow> new = u\<lparr>u_ResourceVersion := v\<rparr> \<Longrightarrow>
    v \<noteq> [] \<Longrightarrow> v \<notin> u_ResourceVersion ` set (cur # past) \<Longrightarrow> \<not> conflict_answer r \<Longrightarrow>
    served ns ctx (new # cur # past) h ws past' \<Longrightarrow>
    served ns ctx (cur # past) ((i, KUpdate contextGVR ns (ORaw u), r) # h) ((i, new) # ws) past'"
| refused: "\<not> answered_ok r \<Longrightarrow> served ns ctx past h ws past' \<Longrightarrow>
    served ns ctx past ((i, KUpdate contextGVR ns (ORaw u), r) # h) ws past'"

inductive_cases served_ConsE: "served ns ctx past (e # h) ws past'"

text \<open>What the documentation of \<^verbatim>\<open>SetNestedSlice\<close> says of the object it changes.\<close>

definition sets_slice :: "extlib \<Rightarrow> bool" where
  "sets_slice L = (\<forall>u xs p u'. SetNestedSlice L u xs p = Inr u' \<longrightarrow>
     u_ResourceVersion u' = u_ResourceVersion u \<and> u_NestedSlice u' p = Inr (Some xs))"

subsection \<open>The editors\<close>

definition thread :: "party \<Rightarrow> history \<Rightarrow> ktrace" where
  "thread i h = map snd (filter (\<lambda>e. fst e = i) h)"

lemma thread_simps [simp]:
  "thread i [] = []" "thread i ((j, c) # h) = (if j = i then c # thread i h else thread i h)"
  by (simp_all add: thread_def)

text \<open>The sections of a Context.\<close>

definition sections_of :: "uobj \<Rightarrow> goval list" where
  "sections_of u = (case u_NestedSlice u catalog_path of Inr (Some cs) \<Rightarrow> cs | _ \<Rightarrow> [])"

definition edited_from :: "extlib \<Rightarrow> edit \<Rightarrow> uobj \<Rightarrow> uobj \<Rightarrow> bool" where
  "edited_from L fn cur u = (\<exists>updated. fn (sections_of cur) = Inr updated \<and>
     SetNestedSlice L cur updated catalog_path = Inr u)"

definition object_read :: "kresp \<Rightarrow> uobj option" where
  "object_read r = (case r of RObj (ORaw u) \<Rightarrow> Some u | _ \<Rightarrow> None)"

text \<open>Every write of an editor follows the read it is computed from.\<close>

fun paired :: "extlib \<Rightarrow> edit \<Rightarrow> uobj option \<Rightarrow> ktrace \<Rightarrow> bool" where
  "paired L fn seen [] = True"
| "paired L fn seen ((KUpdate g ns (ORaw u), r) # tr) =
     ((\<exists>cur. seen = Some cur \<and> edited_from L fn cur u) \<and> paired L fn None tr)"
| "paired L fn seen ((c, r) # tr) = paired L fn (object_read r) tr"

text \<open>Writes that may have been applied, and writes that certainly were.\<close>

fun landed :: "kcall \<times> kresp \<Rightarrow> bool" where
  "landed (KUpdate g ns u, r) = (\<not> conflict_answer r)"
| "landed _ = False"

fun accepted_write :: "kcall \<times> kresp \<Rightarrow> bool" where
  "accepted_write (KUpdate g ns u, r) = answered_ok r"
| "accepted_write _ = False"

definition edit_thread :: "extlib \<Rightarrow> edit \<Rightarrow> ktrace \<Rightarrow> gerr + unit \<Rightarrow> bool" where
  "edit_thread L fn tr x =
     ((\<forall>seen. paired L fn seen tr) \<and> length (filter landed tr) \<le> 1 \<and>
      (x = Inr () \<longrightarrow> length (filter accepted_write tr) = 1))"

lemma unit_of_cases: "unit_of r = Inl e \<longleftrightarrow> r = RErr e" "unit_of r = Inr () \<longleftrightarrow> answered_ok r"
  "Inl e = unit_of r \<longleftrightarrow> r = RErr e" "Inr () = unit_of r \<longleftrightarrow> answered_ok r"
  by (cases r; auto simp: answered_ok_def)+

lemma attempt_paired:
  assumes "attempt L ns ctx fn t x" "\<forall>seen. paired L fn seen rest"
  shows "paired L fn seen (t @ rest)"
  using assms
  by (auto simp: attempt_def object_read_def edited_from_def sections_of_def split: option.splits)

lemma attempt_landed:
  assumes "attempt L ns ctx fn t x"
  shows "length (filter landed t) \<le> 1" "x = Inr () \<Longrightarrow> length (filter accepted_write t) = 1"
    "x = Inl e \<Longrightarrow> is_conflict e \<Longrightarrow> filter landed t = []"
    "x = Inl e \<Longrightarrow> filter accepted_write t = []"
  using assms by (auto simp: attempt_def conflict_answer_def unit_of_cases)

lemma runs_editor: "runs (mutateCategories L ns ctx fn) (edit_thread L fn)"
proof -
  have "runs (mutateCategories L ns ctx fn) (\<lambda>tr x. \<exists>ts t. tr = concat ts @ t \<and> attempt L ns ctx fn t x \<and>
      (\<forall>t'\<in>set ts. \<exists>e. attempt L ns ctx fn t' (Inl e) \<and> is_conflict e))"
    unfolding mutateCategories_def by (rule runs_mono [OF runs_RetryOnConflict [OF runs_mutate_once]]) blast
  then show ?thesis
  proof (rule runs_mono)
    fix tr x
    assume "\<exists>ts t. tr = concat ts @ t \<and> attempt L ns ctx fn t x \<and>
      (\<forall>t'\<in>set ts. \<exists>e. attempt L ns ctx fn t' (Inl e) \<and> is_conflict e)"
    then obtain ts t where tr: "tr = concat ts @ t" "attempt L ns ctx fn t x"
      and ts: "\<forall>t'\<in>set ts. \<exists>e. attempt L ns ctx fn t' (Inl e) \<and> is_conflict e" by blast
    have "paired L fn seen (concat ts @ t)" for seen
      using ts
    proof (induction ts arbitrary: seen)
      case Nil
      show ?case using attempt_paired [OF tr(2), of "[]"] by simp
    next
      case (Cons t' ts)
      then obtain e where "attempt L ns ctx fn t' (Inl e)" by auto
      from attempt_paired [OF this] Cons show ?case by simp
    qed
    moreover have "filter landed (concat ts) = []" "filter accepted_write (concat ts) = []"
      using ts by (induction ts) (auto dest: attempt_landed)
    ultimately show "edit_thread L fn tr x"
      using attempt_landed(1,2) [OF tr(2)] by (simp add: edit_thread_def tr(1))
  qed
qed

subsection \<open>The order of the writes explains every version\<close>

text \<open>
  The writes, read in the order they were applied, from one version of the Context to another: an
  editor wrote its own edit of the sections as they stood, whoever had written them.
\<close>

fun explained :: "(party \<Rightarrow> edit option) \<Rightarrow> uobj \<Rightarrow> (party \<times> uobj) list \<Rightarrow> uobj \<Rightarrow> bool" where
  "explained editors cur [] final = (final = cur)"
| "explained editors cur ((i, new) # ws) final =
     ((case editors i of None \<Rightarrow> True | Some fn \<Rightarrow> fn (sections_of cur) = Inr (sections_of new)) \<and>
      explained editors new ws final)"

definition versioned :: "uobj list \<Rightarrow> bool" where
  "versioned past = (past \<noteq> [] \<and> distinct (map u_ResourceVersion past) \<and> [] \<notin> u_ResourceVersion ` set past)"

definition threads_paired ::
    "extlib \<Rightarrow> (party \<Rightarrow> edit option) \<Rightarrow> uobj list \<Rightarrow> (party \<Rightarrow> uobj option) \<Rightarrow> history \<Rightarrow> bool" where
  "threads_paired L editors past seen h =
     (\<forall>i fn. editors i = Some fn \<longrightarrow> paired L fn (seen i) (thread i h) \<and> (\<forall>u. seen i = Some u \<longrightarrow> u \<in> set past))"

lemma threads_paired_read:
  assumes "threads_paired L editors past seen ((i, KGet g ns name, r) # h)"
    and "\<And>u. object_read r = Some u \<Longrightarrow> u \<in> set past"
  shows "threads_paired L editors past (seen(i := object_read r)) h"
  using assms by (auto simp: threads_paired_def split: if_splits)

lemma threads_paired_update:
  assumes "threads_paired L editors past seen ((i, KUpdate g ns (ORaw u), r) # h)" "set past \<subseteq> set past'"
  shows "threads_paired L editors past' (seen(i := None)) h"
  using assms by (fastforce simp: threads_paired_def split: if_splits)

lemma threads_paired_write:
  assumes "threads_paired L editors past seen ((i, KUpdate g ns (ORaw u), r) # h)" "editors i = Some fn"
  shows "\<exists>read\<in>set past. edited_from L fn read u"
proof -
  from assms have "paired L fn (seen i) ((KUpdate g ns (ORaw u), r) # thread i h)"
      "\<forall>u. seen i = Some u \<longrightarrow> u \<in> set past"
    unfolding threads_paired_def by (metis thread_simps(2))+
  then show ?thesis by auto
qed

lemma same_version: "versioned (cur # past) \<Longrightarrow> u \<in> set (cur # past) \<Longrightarrow> u_ResourceVersion u = u_ResourceVersion cur \<Longrightarrow> u = cur"
  by (auto simp: versioned_def) (metis imageI)

lemma served_explained:
  assumes "served ns ctx past h ws past'" "sets_slice L" "versioned past" "threads_paired L editors past seen h"
  shows "explained editors (hd past) ws (hd past')"
  using assms(1,3,4)
proof (induction arbitrary: seen rule: served.induct)
  case (answered cur past h ws past' i)
  show ?case
    by (rule answered.IH [OF answered.prems(1) threads_paired_read [OF answered.prems(2)]])
      (simp add: object_read_def)
next
  case (failed r past h ws past' i)
  have "object_read r = None"
    using failed.hyps(1) by (auto simp: object_read_def split: kresp.split kobj.split)
  with failed.prems show ?case
    by (auto intro: failed.IH dest: threads_paired_read)
next
  case (applied u cur new v past r h ws past' i)
  have past: "versioned (new # cur # past)"
    using applied.hyps applied.prems(1) by (auto simp: versioned_def)
  have rest: "explained editors (hd (new # cur # past)) ws (hd past')"
    by (rule applied.IH [OF past threads_paired_update [OF applied.prems(2)]]) auto
  have "fn (sections_of cur) = Inr (sections_of new)" if fn: "editors i = Some fn" for fn
  proof -
    from threads_paired_write [OF applied.prems(2) fn] obtain read
      where read: "read \<in> set (cur # past)" "edited_from L fn read u" by blast
    then obtain updated where upd: "fn (sections_of read) = Inr updated"
        "SetNestedSlice L read updated catalog_path = Inr u"
      by (auto simp: edited_from_def)
    with assms(2) have u: "u_ResourceVersion u = u_ResourceVersion read" "sections_of u = updated"
      by (auto simp: sets_slice_def sections_of_def)
    have "u_ResourceVersion read \<noteq> []"
      using read(1) applied.prems(1) unfolding versioned_def by (metis imageI)
    with applied.hyps(1) u(1) have "u_ResourceVersion read = u_ResourceVersion cur" by auto
    with same_version [OF applied.prems(1) read(1)] have "read = cur" .
    moreover have "sections_of new = updated" using applied.hyps(2) u(2) by (simp add: sections_of_def)
    ultimately show ?thesis using upd(1) by simp
  qed
  with rest show ?case by (auto split: option.split)
next
  case (refused r past h ws past' i u)
  then show ?case by (blast intro: threads_paired_update)
qed simp

subsection \<open>Every success is one write\<close>

definition writes_of :: "party \<Rightarrow> (party \<times> uobj) list \<Rightarrow> nat" where
  "writes_of i ws = length (filter (\<lambda>w. fst w = i) ws)"

lemma served_writes:
  assumes "served ns ctx past h ws past'"
  shows "writes_of i ws \<le> length (filter landed (thread i h)) \<and>
    length (filter accepted_write (thread i h)) \<le> writes_of i ws"
  using assms
  by (induction rule: served.induct) (auto simp: writes_of_def)

subsection \<open>Concurrent edits\<close>

text \<open>
  A history in which the editors run their edits, each from its start to its result, and the API
  server starts from the Context \<^term>\<open>u0\<close>.
\<close>

definition concurrent_edits ::
    "extlib \<Rightarrow> string \<Rightarrow> string \<Rightarrow> (party \<Rightarrow> edit option) \<Rightarrow> (party \<Rightarrow> gerr + unit) \<Rightarrow> uobj \<Rightarrow> history \<Rightarrow>
       (party \<times> uobj) list \<Rightarrow> uobj list \<Rightarrow> bool" where
  "concurrent_edits L ns ctx editors result u0 h ws past =
     (served ns ctx [u0] h ws past \<and> u_ResourceVersion u0 \<noteq> [] \<and>
      (\<forall>i fn. editors i = Some fn \<longrightarrow> exec (mutateCategories L ns ctx fn) (thread i h) (result i)))"

definition written_once :: "(party \<Rightarrow> edit option) \<Rightarrow> (party \<Rightarrow> gerr + unit) \<Rightarrow> (party \<times> uobj) list \<Rightarrow> bool" where
  "written_once editors result ws =
     (\<forall>i. editors i \<noteq> None \<longrightarrow> writes_of i ws \<le> 1 \<and> (result i = Inr () \<longrightarrow> writes_of i ws = 1))"

text \<open>
  C39. However the edits of the catalog interleave, on any number of replicas and with other
  parties writing the Context in between, the Context ends as if every write had been made alone,
  in the order the API server applied them: each editor's write is its edit of the sections left
  by the write before, whoever made it. An edit that answers success was written exactly once, one
  that fails at most once.
\<close>

theorem catalog_edits_linearize:
  assumes "sets_slice L" "concurrent_edits L ns ctx editors result u0 h ws past"
  shows "explained editors u0 ws (hd past) \<and> written_once editors result ws"
proof
  have served: "served ns ctx [u0] h ws past" and "versioned [u0]"
    using assms(2) by (auto simp: concurrent_edits_def versioned_def)
  have thread: "edit_thread L fn (thread i h) (result i)" if "editors i = Some fn" for i fn
    using assms(2) that by (auto simp: concurrent_edits_def intro: runsD [OF runs_editor])
  then have "threads_paired L editors [u0] (\<lambda>_. None) h"
    by (simp add: threads_paired_def edit_thread_def)
  from served_explained [OF served assms(1) \<open>versioned [u0]\<close> this]
  show "explained editors u0 ws (hd past)" by simp
  show "written_once editors result ws"
    unfolding written_once_def
  proof (intro allI impI, elim not_None_eq [THEN iffD1, THEN exE], goal_cases)
    case (1 i fn)
    from thread [OF 1] served_writes [OF served, of i] show ?case
      by (auto simp: edit_thread_def)
  qed
qed

text \<open>Two editors: the second reads before the first has written, meets a conflict and starts again.\<close>

definition slice_lib :: extlib where
  "slice_lib = lenient_lib\<lparr>SetNestedSlice := (\<lambda>u xs p.
     Inr (u\<lparr>u_NestedSlice := (\<lambda>q. if q = p then Inr (Some xs) else u_NestedSlice u q)\<rparr>))\<rparr>"

definition context_at :: "string \<Rightarrow> goval list \<Rightarrow> uobj" where
  "context_at v cs = \<lparr>u_APIVersion = [], u_Kind = [], u_Name = ''default'', u_Labels = [], u_Annotations = [],
     u_CreatedAt = None, u_OwnerUIDs = [], u_ResourceVersion = v, u_NestedString = (\<lambda>p. []),
     u_NestedBool = (\<lambda>p. False), u_NestedSlice = (\<lambda>p. if p = catalog_path then Inr (Some cs) else Inr None),
     u_NestedMap = (\<lambda>p. Inr None), u_NestedStringMap = (\<lambda>p. None)\<rparr>"

definition append_edit :: "string \<Rightarrow> edit" where
  "append_edit name cs = Inr (cs @ [GStr name])"

definition two_editors :: "party \<Rightarrow> edit option" where
  "two_editors i = (if i = 0 then Some (append_edit ''a'') else if i = 1 then Some (append_edit ''b'') else None)"

definition conflict_error :: kresp where "conflict_error = RErr (KubeErr Conflict [])"

definition two_edits :: history where
  "two_edits =
    [(0, KGet contextGVR [] ''default'', RObj (ORaw (context_at ''1'' []))),
     (1, KGet contextGVR [] ''default'', RObj (ORaw (context_at ''1'' []))),
     (0, KUpdate contextGVR [] (ORaw (context_at ''1'' [GStr ''a''])), ROk),
     (1, KUpdate contextGVR [] (ORaw (context_at ''1'' [GStr ''b''])), conflict_error),
     (1, KGet contextGVR [] ''default'', RObj (ORaw (context_at ''2'' [GStr ''a'']))),
     (1, KUpdate contextGVR [] (ORaw (context_at ''2'' [GStr ''a'', GStr ''b''])), ROk)]"

lemma set_context_at [simp]:
  "SetNestedSlice slice_lib (context_at v cs) cs' catalog_path = Inr (context_at v cs')"
  "context_at v cs\<lparr>u_ResourceVersion := v'\<rparr> = context_at v' cs"
  "u_ResourceVersion (context_at v cs) = v" "u_NestedSlice (context_at v cs) catalog_path = Inr (Some cs)"
  "sections_of (context_at v cs) = cs"
  by (auto simp: slice_lib_def context_at_def sections_of_def)

lemma slice_lib_sets: "sets_slice slice_lib"
  by (auto simp: sets_slice_def slice_lib_def)

lemma two_edits_served:
  "served [] ''default'' [context_at ''1'' []] two_edits
     [(0, context_at ''2'' [GStr ''a'']), (1, context_at ''3'' [GStr ''a'', GStr ''b''])]
     [context_at ''3'' [GStr ''a'', GStr ''b''], context_at ''2'' [GStr ''a''], context_at ''1'' []]"
  unfolding two_edits_def
  apply (rule served.answered)+
  apply (rule served.applied [where v = "''2''"], simp_all add: conflict_answer_def)
  apply (rule served.refused, simp add: conflict_error_def)
  apply (rule served.answered)
  apply (rule served.applied [where v = "''3''"], simp_all add: conflict_answer_def)
  by (rule served.nil)

lemma two_edits_concurrent:
  "concurrent_edits slice_lib [] ''default'' two_editors (\<lambda>_. Inr ()) (context_at ''1'' []) two_edits
     [(0, context_at ''2'' [GStr ''a'']), (1, context_at ''3'' [GStr ''a'', GStr ''b''])]
     [context_at ''3'' [GStr ''a'', GStr ''b''], context_at ''2'' [GStr ''a''], context_at ''1'' []]"
  using two_edits_served
  by (simp add: concurrent_edits_def two_editors_def two_edits_def mutateCategories_def DefaultRetrySteps_def
      eval_nat_numeral mutate_once_def replay_exec call_obj_def call_unit_def append_edit_def
      from_unstructured_def sum_bind_def conflict_error_def)

theorem catalog_edits_linearize_witness:
  "explained two_editors (context_at ''1'' [])
     [(0, context_at ''2'' [GStr ''a'']), (1, context_at ''3'' [GStr ''a'', GStr ''b''])]
     (context_at ''3'' [GStr ''a'', GStr ''b''])"
  using catalog_edits_linearize [OF slice_lib_sets two_edits_concurrent] by simp

end
