(* ===== verification/Deep_Copy.thy ===== *)
theory Deep_Copy
  imports Crd
begin

text \<open>
  The deep copies of the SecretStore and ExternalSecret types (\<^verbatim>\<open>internal/repository/crd\<close>). Elsewhere
  these types are values; here a pointer or a slice is an address into a memory, so that what two
  objects share can be told. A slice is the address of its elements, and the nil slice is none.
  Strings and the metadata are values: the metadata's own deep copy is the library's.
\<close>

subsection \<open>Objects in memory\<close>

type_synonym addr = nat

record go_kube =
  gk_MountPath :: string
  gk_Role :: string
  gk_ServiceAccountRef :: "addr option"

record go_auth =
  ga_TokenSecretRef :: "addr option"
  ga_Kubernetes :: "addr option"

record go_vault =
  gv_Server :: string
  gv_Path :: string
  gv_Version :: string
  gv_CABundle :: "addr option"
  gv_Auth :: go_auth

record go_provider =
  gp_Name :: string
  gp_Vault :: "addr option"

record go_store =
  gs_APIVersion :: string
  gs_Kind :: string
  gs_Meta :: object_meta
  gs_Provider :: go_provider
  gs_Conditions :: "addr option"

record go_external_spec =
  gx_RefreshInterval :: string
  gx_StoreName :: string
  gx_StoreKind :: string
  gx_TargetName :: string
  gx_CreationPolicy :: string
  gx_Data :: "addr option"

record go_external =
  ge_APIVersion :: string
  ge_Kind :: string
  ge_Meta :: object_meta
  ge_Spec :: go_external_spec
  ge_Conditions :: "addr option"
  ge_RefreshTime :: string

datatype cell =
    CBytes string
  | CToken eso_token_ref
  | CAccount string
  | CKube go_kube
  | CVault go_vault
  | CConditions "eso_condition list"
  | CData "eso_data list"
  | CStore go_store
  | CExternal go_external

text \<open>Addresses are given out in order; \<^term>\<open>next_addr\<close> is the first one not in use.\<close>

record memory =
  cells :: "addr \<Rightarrow> cell option"
  next_addr :: addr

definition new_cell :: "cell \<Rightarrow> memory \<Rightarrow> addr \<times> memory" where
  "new_cell c m = (next_addr m, m\<lparr>cells := (cells m)(next_addr m := Some c), next_addr := Suc (next_addr m)\<rparr>)"

definition write_cell :: "addr \<Rightarrow> cell \<Rightarrow> memory \<Rightarrow> memory" where
  "write_cell a c m = m\<lparr>cells := (cells m)(a := Some c)\<rparr>"

text \<open>A read through a pointer of a type; what it yields elsewhere never matters.\<close>

definition bytes_at :: "memory \<Rightarrow> addr \<Rightarrow> string" where
  "bytes_at m a = (case cells m a of Some (CBytes b) \<Rightarrow> b | _ \<Rightarrow> [])"

definition token_at :: "memory \<Rightarrow> addr \<Rightarrow> eso_token_ref" where
  "token_at m a = (case cells m a of Some (CToken t) \<Rightarrow> t | _ \<Rightarrow> \<lparr>tr_Name = [], tr_Key = []\<rparr>)"

definition account_at :: "memory \<Rightarrow> addr \<Rightarrow> string" where
  "account_at m a = (case cells m a of Some (CAccount s) \<Rightarrow> s | _ \<Rightarrow> [])"

definition kube_at :: "memory \<Rightarrow> addr \<Rightarrow> go_kube" where
  "kube_at m a = (case cells m a of Some (CKube k) \<Rightarrow> k
     | _ \<Rightarrow> \<lparr>gk_MountPath = [], gk_Role = [], gk_ServiceAccountRef = None\<rparr>)"

definition vault_at :: "memory \<Rightarrow> addr \<Rightarrow> go_vault" where
  "vault_at m a = (case cells m a of Some (CVault v) \<Rightarrow> v
     | _ \<Rightarrow> \<lparr>gv_Server = [], gv_Path = [], gv_Version = [], gv_CABundle = None,
            gv_Auth = \<lparr>ga_TokenSecretRef = None, ga_Kubernetes = None\<rparr>\<rparr>)"

definition conditions_at :: "memory \<Rightarrow> addr \<Rightarrow> eso_condition list" where
  "conditions_at m a = (case cells m a of Some (CConditions cs) \<Rightarrow> cs | _ \<Rightarrow> [])"

definition data_at :: "memory \<Rightarrow> addr \<Rightarrow> eso_data list" where
  "data_at m a = (case cells m a of Some (CData ds) \<Rightarrow> ds | _ \<Rightarrow> [])"

subsection \<open>The copies\<close>

text \<open>A copy of what a pointer or slice leads to, when it leads anywhere.\<close>

definition copy_opt :: "(memory \<Rightarrow> addr \<Rightarrow> addr option \<times> memory) \<Rightarrow> addr option \<Rightarrow> memory \<Rightarrow> addr option \<times> memory" where
  "copy_opt f p m = (case p of None \<Rightarrow> (None, m) | Some a \<Rightarrow> f m a)"

text \<open>\<^verbatim>\<open>*out = new(T); **out = **in\<close>, and \<^verbatim>\<open>make\<close> followed by \<^verbatim>\<open>copy\<close>.\<close>

definition copy_cell :: "(memory \<Rightarrow> addr \<Rightarrow> cell) \<Rightarrow> memory \<Rightarrow> addr \<Rightarrow> addr option \<times> memory" where
  "copy_cell read m a = apfst Some (new_cell (read m a) m)"

text \<open>\<^verbatim>\<open>append([]byte(nil), b...)\<close>, which is nil again when there is nothing to append.\<close>

definition append_bytes :: "memory \<Rightarrow> addr \<Rightarrow> addr option \<times> memory" where
  "append_bytes m a =
     (if bytes_at m a = [] then (None, m) else apfst Some (new_cell (CBytes (bytes_at m a)) m))"

definition copy_kube :: "memory \<Rightarrow> addr \<Rightarrow> addr option \<times> memory" where
  "copy_kube m a =
     (let k = kube_at m a;
          (b, m1) = new_cell (CKube k) m;
          (s, m2) = copy_opt (copy_cell (\<lambda>m x. CAccount (account_at m x))) (gk_ServiceAccountRef k) m1
      in (Some b, write_cell b (CKube (k\<lparr>gk_ServiceAccountRef := s\<rparr>)) m2))"

definition ESOVaultAuth_DeepCopyInto :: "go_auth \<Rightarrow> memory \<Rightarrow> go_auth \<times> memory" where
  "ESOVaultAuth_DeepCopyInto a m =
     (let (t, m1) = copy_opt (copy_cell (\<lambda>m x. CToken (token_at m x))) (ga_TokenSecretRef a) m;
          (k, m2) = copy_opt copy_kube (ga_Kubernetes a) m1
      in (\<lparr>ga_TokenSecretRef = t, ga_Kubernetes = k\<rparr>, m2))"

definition copy_vault :: "memory \<Rightarrow> addr \<Rightarrow> addr option \<times> memory" where
  "copy_vault m a =
     (let v = vault_at m a;
          (b, m1) = new_cell (CVault v) m;
          (ca, m2) = copy_opt append_bytes (gv_CABundle v) m1;
          (auth, m3) = ESOVaultAuth_DeepCopyInto (gv_Auth v) m2
      in (Some b, write_cell b (CVault (v\<lparr>gv_CABundle := ca, gv_Auth := auth\<rparr>)) m3))"

definition ESOProvider_DeepCopyInto :: "go_provider \<Rightarrow> memory \<Rightarrow> go_provider \<times> memory" where
  "ESOProvider_DeepCopyInto p m =
     (let (v, m1) = copy_opt copy_vault (gp_Vault p) m in (p\<lparr>gp_Vault := v\<rparr>, m1))"

definition copy_conditions :: "addr option \<Rightarrow> memory \<Rightarrow> addr option \<times> memory" where
  "copy_conditions = copy_opt (copy_cell (\<lambda>m x. CConditions (conditions_at m x)))"

definition ESOSecretStore_DeepCopyInto :: "go_store \<Rightarrow> memory \<Rightarrow> go_store \<times> memory" where
  "ESOSecretStore_DeepCopyInto s m =
     (let (p, m1) = ESOProvider_DeepCopyInto (gs_Provider s) m;
          (cs, m2) = copy_conditions (gs_Conditions s) m1
      in (s\<lparr>gs_Provider := p, gs_Conditions := cs\<rparr>, m2))"

definition ESOExternalSecretSpec_DeepCopyInto :: "go_external_spec \<Rightarrow> memory \<Rightarrow> go_external_spec \<times> memory" where
  "ESOExternalSecretSpec_DeepCopyInto x m =
     (let (d, m1) = copy_opt (copy_cell (\<lambda>m a. CData (data_at m a))) (gx_Data x) m in (x\<lparr>gx_Data := d\<rparr>, m1))"

definition ESOExternalSecret_DeepCopyInto :: "go_external \<Rightarrow> memory \<Rightarrow> go_external \<times> memory" where
  "ESOExternalSecret_DeepCopyInto e m =
     (let (x, m1) = ESOExternalSecretSpec_DeepCopyInto (ge_Spec e) m;
          (cs, m2) = copy_conditions (ge_Conditions e) m1
      in (e\<lparr>ge_Spec := x, ge_Conditions := cs\<rparr>, m2))"

definition store_at :: "memory \<Rightarrow> addr \<Rightarrow> go_store" where
  "store_at m a = (case cells m a of Some (CStore s) \<Rightarrow> s
     | _ \<Rightarrow> \<lparr>gs_APIVersion = [], gs_Kind = [], gs_Meta = object_meta0,
            gs_Provider = \<lparr>gp_Name = [], gp_Vault = None\<rparr>, gs_Conditions = None\<rparr>)"

definition external_at :: "memory \<Rightarrow> addr \<Rightarrow> go_external" where
  "external_at m a = (case cells m a of Some (CExternal e) \<Rightarrow> e
     | _ \<Rightarrow> \<lparr>ge_APIVersion = [], ge_Kind = [], ge_Meta = object_meta0,
            ge_Spec = \<lparr>gx_RefreshInterval = [], gx_StoreName = [], gx_StoreKind = [], gx_TargetName = [],
              gx_CreationPolicy = [], gx_Data = None\<rparr>, ge_Conditions = None, ge_RefreshTime = []\<rparr>)"

text \<open>\<^verbatim>\<open>DeepCopy\<close>: nil for nil, else a new object, with the copies of what the old one points to.\<close>

definition ESOSecretStore_DeepCopy :: "addr option \<Rightarrow> memory \<Rightarrow> addr option \<times> memory" where
  "ESOSecretStore_DeepCopy p m =
     (case p of
        None \<Rightarrow> (None, m)
      | Some a \<Rightarrow>
          (let s = store_at m a; (b, m1) = new_cell (CStore s) m; (s', m2) = ESOSecretStore_DeepCopyInto s m1
           in (Some b, write_cell b (CStore s') m2)))"

definition ESOExternalSecret_DeepCopy :: "addr option \<Rightarrow> memory \<Rightarrow> addr option \<times> memory" where
  "ESOExternalSecret_DeepCopy p m =
     (case p of
        None \<Rightarrow> (None, m)
      | Some a \<Rightarrow>
          (let e = external_at m a; (b, m1) = new_cell (CExternal e) m;
               (e', m2) = ESOExternalSecret_DeepCopyInto e m1
           in (Some b, write_cell b (CExternal e') m2)))"

subsection \<open>What an object is and what it reaches\<close>

text \<open>The value seen through the memory, and the addresses it is read from.\<close>

definition account_value :: "memory \<Rightarrow> addr option \<Rightarrow> string option" where
  "account_value m p = (case p of None \<Rightarrow> None | Some a \<Rightarrow> Some (account_at m a))"

definition token_value :: "memory \<Rightarrow> addr option \<Rightarrow> eso_token_ref option" where
  "token_value m p = (case p of None \<Rightarrow> None | Some a \<Rightarrow> Some (token_at m a))"

definition bytes_value :: "memory \<Rightarrow> addr option \<Rightarrow> string" where
  "bytes_value m p = (case p of None \<Rightarrow> [] | Some a \<Rightarrow> bytes_at m a)"

definition conditions_value :: "memory \<Rightarrow> addr option \<Rightarrow> eso_condition list" where
  "conditions_value m p = (case p of None \<Rightarrow> [] | Some a \<Rightarrow> conditions_at m a)"

definition data_value :: "memory \<Rightarrow> addr option \<Rightarrow> eso_data list" where
  "data_value m p = (case p of None \<Rightarrow> [] | Some a \<Rightarrow> data_at m a)"

definition own_cell :: "memory \<Rightarrow> addr option \<Rightarrow> addr set" where
  "own_cell m p = set_option p"

definition kube_value :: "memory \<Rightarrow> addr option \<Rightarrow> eso_kube_auth option" where
  "kube_value m p = (case p of None \<Rightarrow> None | Some a \<Rightarrow> (let k = kube_at m a in
     Some \<lparr>ka_MountPath = gk_MountPath k, ka_Role = gk_Role k,
       ka_ServiceAccountRef = account_value m (gk_ServiceAccountRef k)\<rparr>))"

definition kube_reach :: "memory \<Rightarrow> addr option \<Rightarrow> addr set" where
  "kube_reach m p = (case p of None \<Rightarrow> {} | Some a \<Rightarrow> insert a (own_cell m (gk_ServiceAccountRef (kube_at m a))))"

definition auth_value :: "memory \<Rightarrow> go_auth \<Rightarrow> eso_vault_auth" where
  "auth_value m a = \<lparr>va_TokenSecretRef = token_value m (ga_TokenSecretRef a),
     va_Kubernetes = kube_value m (ga_Kubernetes a)\<rparr>"

definition auth_reach :: "memory \<Rightarrow> go_auth \<Rightarrow> addr set" where
  "auth_reach m a = own_cell m (ga_TokenSecretRef a) \<union> kube_reach m (ga_Kubernetes a)"

definition vault_value :: "memory \<Rightarrow> addr option \<Rightarrow> eso_vault option" where
  "vault_value m p = (case p of None \<Rightarrow> None | Some a \<Rightarrow> (let v = vault_at m a in
     Some \<lparr>ev_Server = gv_Server v, ev_Path = gv_Path v, ev_Version = gv_Version v,
       ev_CABundle = bytes_value m (gv_CABundle v), ev_Auth = auth_value m (gv_Auth v)\<rparr>))"

definition vault_reach :: "memory \<Rightarrow> addr option \<Rightarrow> addr set" where
  "vault_reach m p = (case p of None \<Rightarrow> {}
     | Some a \<Rightarrow> insert a (own_cell m (gv_CABundle (vault_at m a)) \<union> auth_reach m (gv_Auth (vault_at m a))))"

definition provider_value :: "memory \<Rightarrow> go_provider \<Rightarrow> eso_provider" where
  "provider_value m p = \<lparr>ep_Name = gp_Name p, ep_Vault = vault_value m (gp_Vault p)\<rparr>"

definition provider_reach :: "memory \<Rightarrow> go_provider \<Rightarrow> addr set" where
  "provider_reach m p = vault_reach m (gp_Vault p)"

definition store_value :: "memory \<Rightarrow> go_store \<Rightarrow> eso_store" where
  "store_value m s = \<lparr>st_APIVersion = gs_APIVersion s, st_Kind = gs_Kind s, st_Meta = gs_Meta s,
     st_Provider = provider_value m (gs_Provider s), st_Conditions = conditions_value m (gs_Conditions s)\<rparr>"

definition store_reach :: "memory \<Rightarrow> go_store \<Rightarrow> addr set" where
  "store_reach m s = provider_reach m (gs_Provider s) \<union> own_cell m (gs_Conditions s)"

definition spec_value :: "memory \<Rightarrow> go_external_spec \<Rightarrow> eso_external_spec" where
  "spec_value m x = \<lparr>es_RefreshInterval = gx_RefreshInterval x, es_StoreName = gx_StoreName x,
     es_StoreKind = gx_StoreKind x, es_TargetName = gx_TargetName x,
     es_CreationPolicy = gx_CreationPolicy x, es_Data = data_value m (gx_Data x)\<rparr>"

definition spec_reach :: "memory \<Rightarrow> go_external_spec \<Rightarrow> addr set" where
  "spec_reach m x = own_cell m (gx_Data x)"

definition external_value :: "memory \<Rightarrow> go_external \<Rightarrow> eso_external" where
  "external_value m e = \<lparr>ex_APIVersion = ge_APIVersion e, ex_Kind = ge_Kind e, ex_Meta = ge_Meta e,
     ex_Spec = spec_value m (ge_Spec e), ex_Conditions = conditions_value m (ge_Conditions e),
     ex_RefreshTime = ge_RefreshTime e\<rparr>"

definition external_reach :: "memory \<Rightarrow> go_external \<Rightarrow> addr set" where
  "external_reach m e = spec_reach m (ge_Spec e) \<union> own_cell m (ge_Conditions e)"

definition store_object :: "memory \<Rightarrow> addr option \<Rightarrow> eso_store option" where
  "store_object m p = (case p of None \<Rightarrow> None | Some a \<Rightarrow> Some (store_value m (store_at m a)))"

definition store_cells :: "memory \<Rightarrow> addr option \<Rightarrow> addr set" where
  "store_cells m p = (case p of None \<Rightarrow> {} | Some a \<Rightarrow> insert a (store_reach m (store_at m a)))"

definition external_object :: "memory \<Rightarrow> addr option \<Rightarrow> eso_external option" where
  "external_object m p = (case p of None \<Rightarrow> None | Some a \<Rightarrow> Some (external_value m (external_at m a)))"

definition external_cells :: "memory \<Rightarrow> addr option \<Rightarrow> addr set" where
  "external_cells m p = (case p of None \<Rightarrow> {} | Some a \<Rightarrow> insert a (external_reach m (external_at m a)))"

subsection \<open>The contract of a deep copy\<close>

definition below :: "memory \<Rightarrow> addr set \<Rightarrow> bool" where
  "below m A = (\<forall>a\<in>A. a < next_addr m)"

definition extends :: "memory \<Rightarrow> memory \<Rightarrow> bool" where
  "extends m m' = (next_addr m \<le> next_addr m' \<and> (\<forall>a < next_addr m. cells m' a = cells m a))"

definition between :: "memory \<Rightarrow> memory \<Rightarrow> addr set \<Rightarrow> bool" where
  "between m m' A = (\<forall>a\<in>A. next_addr m \<le> a \<and> a < next_addr m')"

locale deep_copy =
  fixes val :: "memory \<Rightarrow> 'x \<Rightarrow> 'v" and reach :: "memory \<Rightarrow> 'x \<Rightarrow> addr set"
    and copy :: "'x \<Rightarrow> memory \<Rightarrow> 'x \<times> memory"
  assumes frame: "(\<And>a. a \<in> reach m x \<Longrightarrow> cells m' a = cells m a) \<Longrightarrow> val m' x = val m x \<and> reach m' x = reach m x"
    and copy_ok: "below m (reach m x) \<Longrightarrow> copy x m = (y, m') \<Longrightarrow>
      val m' y = val m x \<and> between m m' (reach m' y) \<and> extends m m'"
begin

text \<open>The original is untouched, and shares no cell with its copy.\<close>

lemma original:
  assumes "below m (reach m x)" "copy x m = (y, m')"
  shows "val m' x = val m x" "reach m' x = reach m x" "reach m' x \<inter> reach m' y = {}"
proof -
  note ok = copy_ok [OF assms]
  have "cells m' a = cells m a" if "a \<in> reach m x" for a
    using ok assms(1) that by (auto simp: below_def extends_def)
  from frame [OF this] show "val m' x = val m x" "reach m' x = reach m x" by auto
  then show "reach m' x \<inter> reach m' y = {}"
    using ok assms(1) by (force simp: below_def between_def)
qed

text \<open>Whatever is written to the cells of one, the other keeps its value.\<close>

lemma isolated:
  assumes "below m (reach m x)" "copy x m = (y, m')"
  shows "(\<And>a. a \<notin> reach m' y \<Longrightarrow> cells w a = cells m' a) \<Longrightarrow> val w x = val m x"
    and "(\<And>a. a \<notin> reach m' x \<Longrightarrow> cells w a = cells m' a) \<Longrightarrow> val w y = val m x"
proof -
  note orig = original [OF assms] and ok = copy_ok [OF assms]
  show "val w x = val m x" if "\<And>a. a \<notin> reach m' y \<Longrightarrow> cells w a = cells m' a"
    using frame [of m' x w] orig that by auto
  show "val w y = val m x" if "\<And>a. a \<notin> reach m' x \<Longrightarrow> cells w a = cells m' a"
    using frame [of m' y w] orig ok that by auto
qed

end

lemma between_trans: "between m1 m2 A \<Longrightarrow> extends m m1 \<Longrightarrow> extends m2 m3 \<Longrightarrow> between m m3 A"
  by (force simp: between_def extends_def)

lemma extends_trans: "extends m m1 \<Longrightarrow> extends m1 m2 \<Longrightarrow> extends m m2"
  by (auto simp: extends_def)

lemma extends_refl [simp]: "extends m m"
  by (simp add: extends_def)

lemma below_extends: "below m A \<Longrightarrow> extends m m' \<Longrightarrow> below m' A"
  by (force simp: below_def extends_def)

lemma between_empty [simp]: "between m m' {}"
  by (simp add: between_def)

lemma new_cell_extends: "new_cell c m = (b, m') \<Longrightarrow> b = next_addr m \<and> next_addr m' = Suc b \<and> extends m m' \<and> cells m' b = Some c"
  by (auto simp: new_cell_def extends_def)

lemma write_extends: "extends m m' \<Longrightarrow> next_addr m \<le> b \<Longrightarrow> extends m (write_cell b c m')"
  by (auto simp: extends_def write_cell_def)

interpretation accounts: deep_copy account_value own_cell "copy_opt (copy_cell (\<lambda>m x. CAccount (account_at m x)))"
  by unfold_locales
    (auto simp: account_value_def account_at_def own_cell_def copy_opt_def copy_cell_def new_cell_def
      extends_def between_def split: option.splits)

interpretation tokens: deep_copy token_value own_cell "copy_opt (copy_cell (\<lambda>m x. CToken (token_at m x)))"
  by unfold_locales
    (auto simp: token_value_def token_at_def own_cell_def copy_opt_def copy_cell_def new_cell_def
      extends_def between_def split: option.splits)

interpretation byte_slices: deep_copy bytes_value own_cell "copy_opt append_bytes"
  by unfold_locales
    (auto simp: bytes_value_def bytes_at_def own_cell_def copy_opt_def append_bytes_def new_cell_def
      extends_def between_def split: option.splits if_splits)

interpretation condition_slices: deep_copy conditions_value own_cell copy_conditions
  by unfold_locales
    (auto simp: conditions_value_def conditions_at_def own_cell_def copy_conditions_def copy_opt_def
      copy_cell_def new_cell_def extends_def between_def split: option.splits)

interpretation data_slices: deep_copy data_value own_cell "copy_opt (copy_cell (\<lambda>m a. CData (data_at m a)))"
  by unfold_locales
    (auto simp: data_value_def data_at_def own_cell_def copy_opt_def copy_cell_def new_cell_def
      extends_def between_def split: option.splits)

subsection \<open>Copies of structures\<close>

text \<open>Two fields, one after the other.\<close>

definition pair_value where "pair_value V V' m z = (V m (fst z), V' m (snd z))"

definition pair_reach :: "(memory \<Rightarrow> 'x \<Rightarrow> addr set) \<Rightarrow> (memory \<Rightarrow> 'y \<Rightarrow> addr set) \<Rightarrow> memory \<Rightarrow> 'x \<times> 'y \<Rightarrow> addr set" where
  "pair_reach R R' m z = R m (fst z) \<union> R' m (snd z)"

definition pair_copy ::
    "('x \<Rightarrow> memory \<Rightarrow> 'x \<times> memory) \<Rightarrow> ('y \<Rightarrow> memory \<Rightarrow> 'y \<times> memory) \<Rightarrow> 'x \<times> 'y \<Rightarrow> memory \<Rightarrow> ('x \<times> 'y) \<times> memory" where
  "pair_copy C C' z m = (let (x, m1) = C (fst z) m; (y, m2) = C' (snd z) m1 in ((x, y), m2))"

lemma deep_copy_pair:
  assumes "deep_copy V R C" "deep_copy V' R' C'"
  shows "deep_copy (pair_value V V') (pair_reach R R') (pair_copy C C')"
proof (unfold_locales, goal_cases)
  case (1 m z m')
  from deep_copy.frame [OF assms(1), of m "fst z" m'] deep_copy.frame [OF assms(2), of m "snd z" m'] 1
  show ?case by (auto simp: pair_value_def pair_reach_def)
next
  case (2 m z y m')
  obtain x1 m1 where c1: "C (fst z) m = (x1, m1)" by force
  obtain x2 where c2: "C' (snd z) m1 = (x2, m')" and y: "y = (x1, x2)"
    using 2(2) by (auto simp: pair_copy_def c1 split: prod.splits)
  have b: "below m (R m (fst z))" "below m (R' m (snd z))"
    using 2(1) by (auto simp: pair_reach_def below_def)
  note ok1 = deep_copy.copy_ok [OF assms(1) b(1) c1]
  have same: "V' m1 (snd z) = V' m (snd z)" "R' m1 (snd z) = R' m (snd z)"
    using deep_copy.frame [OF assms(2), of m "snd z" m1] ok1 b(2) by (auto simp: below_def extends_def)
  have b2: "below m1 (R' m1 (snd z))" using below_extends b(2) ok1 same(2) by metis
  note ok2 = deep_copy.copy_ok [OF assms(2) b2 c2]
  have kept: "V m' x1 = V m1 x1" "R m' x1 = R m1 x1"
    using deep_copy.frame [OF assms(1), of m1 x1 m'] ok1 ok2 by (auto simp: between_def extends_def)
  have "extends m m'" using ok1 ok2 extends_trans by blast
  moreover have "between m m' (R m' x1 \<union> R' m' x2)"
    using ok1 ok2 kept by (auto simp: between_def extends_def; fastforce)
  ultimately show ?case
    using ok1 ok2 kept same by (simp add: y pair_value_def pair_reach_def)
qed

text \<open>A structure by value, whose pointers are \<^term>\<open>part s\<close>.\<close>

lemma deep_copy_struct:
  assumes "deep_copy V R C"
    and "\<And>m s. val m s = f s (V m (part s))" "\<And>m s. reach m s = R m (part s)"
    and "\<And>m s. copy s m = (case C (part s) m of (x, m') \<Rightarrow> (set_part s x, m'))"
    and "\<And>s x. part (set_part s x) = x" "\<And>s x. f (set_part s x) = f s"
  shows "deep_copy val reach copy"
proof (unfold_locales, goal_cases)
  case (1 m s m')
  with deep_copy.frame [OF assms(1), of m "part s" m'] show ?case by (simp add: assms(2,3))
next
  case (2 m s y m')
  then obtain x where "C (part s) m = (x, m')" "y = set_part s x"
    by (auto simp: assms(4) split: prod.splits)
  with 2 deep_copy.copy_ok [OF assms(1), of m "part s"] show ?case by (simp add: assms(2,3,5,6))
qed

text \<open>A pointer to a structure: a new cell, the parts, and the cell written once more.\<close>

lemma deep_copy_pointer:
  assumes "deep_copy V R C"
    and val: "\<And>m. val m None = None" "\<And>m a. val m (Some a) = Some (f (read m a) (V m (part (read m a))))"
    and reach: "\<And>m. reach m None = {}" "\<And>m a. reach m (Some a) = insert a (R m (part (read m a)))"
    and copy: "\<And>m. copy None m = (None, m)"
      "\<And>m a. copy (Some a) m = (let k = read m a; (b, m1) = new_cell (mk k) m; (x, m2) = C (part k) m1
         in (Some b, write_cell b (mk (set_part k x)) m2))"
    and parts: "\<And>k x. part (set_part k x) = x" "\<And>k x. f (set_part k x) = f k"
    and read: "\<And>m a k. cells m a = Some (mk k) \<Longrightarrow> read m a = k"
      "\<And>m m' a. cells m' a = cells m a \<Longrightarrow> read m' a = read m a"
  shows "deep_copy val reach copy"
proof (unfold_locales, goal_cases)
  case (1 m p m')
  show ?case
  proof (cases p)
    case (Some a)
    with 1 have "read m' a = read m a" "\<And>b. b \<in> R m (part (read m a)) \<Longrightarrow> cells m' b = cells m b"
      by (auto simp: reach intro: read(2))
    with deep_copy.frame [OF assms(1), of m "part (read m a)" m'] Some show ?thesis
      by (simp add: val reach)
  qed (simp add: val reach)
next
  case (2 m p y m')
  show ?case
  proof (cases p)
    case (Some a)
    let ?k = "read m a"
    obtain b m1 where new: "new_cell (mk ?k) m = (b, m1)" by force
    obtain x m2 where sub: "C (part ?k) m1 = (x, m2)" by force
    have y: "y = Some b" "m' = write_cell b (mk (set_part ?k x)) m2"
      using 2(2) by (simp_all add: Some copy new sub Let_def)
    note n = new_cell_extends [OF new]
    have bel: "below m (R m (part ?k))" using 2(1) by (auto simp: Some reach below_def)
    have same: "V m1 (part ?k) = V m (part ?k)" "R m1 (part ?k) = R m (part ?k)"
      using deep_copy.frame [OF assms(1), of m "part ?k" m1] n bel by (auto simp: below_def extends_def)
    have "below m1 (R m1 (part ?k))" using bel n same(2) below_extends by metis
    note ok = deep_copy.copy_ok [OF assms(1) this sub]
    have "b \<notin> R m2 x" using ok n by (force simp: between_def)
    then have "cells m' a = cells m2 a" if "a \<in> R m2 x" for a
      using that by (auto simp: y write_cell_def)
    from deep_copy.frame [OF assms(1) this] have kept: "V m' x = V m2 x" "R m' x = R m2 x" by auto
    have r: "read m' b = set_part ?k x" by (rule read(1)) (simp add: y write_cell_def)
    have ext: "extends m m'"
      unfolding y(2) using extends_trans n ok by (blast intro: write_extends order_refl)
    have nx: "next_addr m' = next_addr m2" "b < next_addr m2" "next_addr m \<le> b"
      using n ok by (auto simp: y write_cell_def extends_def)
    have "between m m' (insert b (R m' x))"
      using ok n nx kept by (auto simp: between_def)
    then show ?thesis
      using ok same kept ext by (simp add: Some y(1) val reach r parts)
  qed (use 2 in \<open>simp add: val reach copy\<close>)
qed

interpretation kubes: deep_copy kube_value kube_reach "copy_opt copy_kube"
  by (rule deep_copy_pointer [OF accounts.deep_copy_axioms, where read = kube_at and part = gk_ServiceAccountRef
        and set_part = "\<lambda>k s. k\<lparr>gk_ServiceAccountRef := s\<rparr>" and mk = CKube
        and f = "\<lambda>k s. \<lparr>ka_MountPath = gk_MountPath k, ka_Role = gk_Role k, ka_ServiceAccountRef = s\<rparr>"])
    (auto simp: kube_value_def kube_reach_def copy_opt_def copy_kube_def kube_at_def Let_def)

interpretation auths: deep_copy auth_value auth_reach ESOVaultAuth_DeepCopyInto
  by (rule deep_copy_struct [OF deep_copy_pair [OF tokens.deep_copy_axioms kubes.deep_copy_axioms],
        where part = "\<lambda>a. (ga_TokenSecretRef a, ga_Kubernetes a)"
        and set_part = "\<lambda>a z. \<lparr>ga_TokenSecretRef = fst z, ga_Kubernetes = snd z\<rparr>"
        and f = "\<lambda>a v. \<lparr>va_TokenSecretRef = fst v, va_Kubernetes = snd v\<rparr>"])
    (auto simp: auth_value_def auth_reach_def ESOVaultAuth_DeepCopyInto_def pair_value_def pair_reach_def
      pair_copy_def Let_def split: prod.splits)

interpretation vaults: deep_copy vault_value vault_reach "copy_opt copy_vault"
  by (rule deep_copy_pointer [OF deep_copy_pair [OF byte_slices.deep_copy_axioms auths.deep_copy_axioms],
        where read = vault_at and part = "\<lambda>v. (gv_CABundle v, gv_Auth v)"
        and set_part = "\<lambda>v z. v\<lparr>gv_CABundle := fst z, gv_Auth := snd z\<rparr>" and mk = CVault
        and f = "\<lambda>v z. \<lparr>ev_Server = gv_Server v, ev_Path = gv_Path v, ev_Version = gv_Version v,
          ev_CABundle = fst z, ev_Auth = snd z\<rparr>"])
    (auto simp: vault_value_def vault_reach_def copy_opt_def copy_vault_def vault_at_def pair_value_def
      pair_reach_def pair_copy_def Let_def split: prod.splits)

interpretation providers: deep_copy provider_value provider_reach ESOProvider_DeepCopyInto
  by (rule deep_copy_struct [OF vaults.deep_copy_axioms, where part = gp_Vault
        and set_part = "\<lambda>p v. p\<lparr>gp_Vault := v\<rparr>" and f = "\<lambda>p v. \<lparr>ep_Name = gp_Name p, ep_Vault = v\<rparr>"])
    (auto simp: provider_value_def provider_reach_def ESOProvider_DeepCopyInto_def split: prod.splits)

interpretation store_structs: deep_copy store_value store_reach ESOSecretStore_DeepCopyInto
  by (rule deep_copy_struct [OF deep_copy_pair [OF providers.deep_copy_axioms condition_slices.deep_copy_axioms],
        where part = "\<lambda>s. (gs_Provider s, gs_Conditions s)"
        and set_part = "\<lambda>s z. s\<lparr>gs_Provider := fst z, gs_Conditions := snd z\<rparr>"
        and f = "\<lambda>s z. \<lparr>st_APIVersion = gs_APIVersion s, st_Kind = gs_Kind s, st_Meta = gs_Meta s,
          st_Provider = fst z, st_Conditions = snd z\<rparr>"])
    (auto simp: store_value_def store_reach_def ESOSecretStore_DeepCopyInto_def pair_value_def pair_reach_def
      pair_copy_def Let_def split: prod.splits)

interpretation specs: deep_copy spec_value spec_reach ESOExternalSecretSpec_DeepCopyInto
  by (rule deep_copy_struct [OF data_slices.deep_copy_axioms, where part = gx_Data
        and set_part = "\<lambda>x d. x\<lparr>gx_Data := d\<rparr>"
        and f = "\<lambda>x d. \<lparr>es_RefreshInterval = gx_RefreshInterval x, es_StoreName = gx_StoreName x,
          es_StoreKind = gx_StoreKind x, es_TargetName = gx_TargetName x,
          es_CreationPolicy = gx_CreationPolicy x, es_Data = d\<rparr>"])
    (auto simp: spec_value_def spec_reach_def ESOExternalSecretSpec_DeepCopyInto_def split: prod.splits)

interpretation external_structs: deep_copy external_value external_reach ESOExternalSecret_DeepCopyInto
  by (rule deep_copy_struct [OF deep_copy_pair [OF specs.deep_copy_axioms condition_slices.deep_copy_axioms],
        where part = "\<lambda>e. (ge_Spec e, ge_Conditions e)"
        and set_part = "\<lambda>e z. e\<lparr>ge_Spec := fst z, ge_Conditions := snd z\<rparr>"
        and f = "\<lambda>e z. \<lparr>ex_APIVersion = ge_APIVersion e, ex_Kind = ge_Kind e, ex_Meta = ge_Meta e,
          ex_Spec = fst z, ex_Conditions = snd z, ex_RefreshTime = ge_RefreshTime e\<rparr>"])
    (auto simp: external_value_def external_reach_def ESOExternalSecret_DeepCopyInto_def pair_value_def
      pair_reach_def pair_copy_def Let_def split: prod.splits)

interpretation store_objects: deep_copy store_object store_cells ESOSecretStore_DeepCopy
  by (rule deep_copy_pointer [OF store_structs.deep_copy_axioms, where read = store_at and part = "\<lambda>s. s"
        and set_part = "\<lambda>s s'. s'" and mk = CStore and f = "\<lambda>s v. v"])
    (auto simp: store_object_def store_cells_def ESOSecretStore_DeepCopy_def store_at_def Let_def)

interpretation external_objects: deep_copy external_object external_cells ESOExternalSecret_DeepCopy
  by (rule deep_copy_pointer [OF external_structs.deep_copy_axioms, where read = external_at and part = "\<lambda>s. s"
        and set_part = "\<lambda>s s'. s'" and mk = CExternal and f = "\<lambda>s v. v"])
    (auto simp: external_object_def external_cells_def ESOExternalSecret_DeepCopy_def external_at_def Let_def)

subsection \<open>Copies share nothing\<close>

text \<open>
  Two objects in a memory of which neither sees what is written through the other: they reach no
  cell in common, and each keeps its value in every memory that differs only in cells of the other.
\<close>

definition independent ::
    "(memory \<Rightarrow> 'x \<Rightarrow> 'v) \<Rightarrow> (memory \<Rightarrow> 'x \<Rightarrow> addr set) \<Rightarrow> memory \<Rightarrow> 'x \<Rightarrow> 'x \<Rightarrow> bool" where
  "independent val reach m x y =
     (reach m x \<inter> reach m y = {} \<and>
      (\<forall>w. (\<forall>a. a \<notin> reach m y \<longrightarrow> cells w a = cells m a) \<longrightarrow> val w x = val m x) \<and>
      (\<forall>w. (\<forall>a. a \<notin> reach m x \<longrightarrow> cells w a = cells m a) \<longrightarrow> val w y = val m y))"

lemma deep_copy_independent:
  assumes "deep_copy V R C" "below m (R m x)" "C x m = (y, m')"
  shows "V m' y = V m x \<and> V m' x = V m x \<and> independent V R m' x y"
  using deep_copy.copy_ok [OF assms] deep_copy.original [OF assms] deep_copy.isolated [OF assms]
  by (auto simp: independent_def)

definition sample_memory :: memory where
  "sample_memory = \<lparr>cells = [0 \<mapsto> CBytes ''PEM'', 1 \<mapsto> CToken \<lparr>tr_Name = ''t'', tr_Key = ''token''\<rparr>,
     2 \<mapsto> CVault \<lparr>gv_Server = ''https://vault'', gv_Path = ''secret'', gv_Version = ''v2'', gv_CABundle = Some 0,
       gv_Auth = \<lparr>ga_TokenSecretRef = Some 1, ga_Kubernetes = None\<rparr>\<rparr>,
     3 \<mapsto> CStore \<lparr>gs_APIVersion = [], gs_Kind = [], gs_Meta = object_meta0,
       gs_Provider = \<lparr>gp_Name = ''vault'', gp_Vault = Some 2\<rparr>, gs_Conditions = None\<rparr>], next_addr = 4\<rparr>"

text \<open>
  C40. The deep copy of a secret store is equal to the original, leaves it as it was, and shares no
  memory with it: what is later written through one, to the bytes of a CA bundle, a token
  reference, a service account or a condition, is never seen through the other.
\<close>

theorem deep_copy_shares_nothing:
  assumes "below m (store_cells m p)" "ESOSecretStore_DeepCopy p m = (q, m')"
  shows "store_object m' q = store_object m p \<and> store_object m' p = store_object m p \<and>
    independent store_object store_cells m' p q"
  by (rule deep_copy_independent [OF store_objects.deep_copy_axioms assms])

theorem deep_copy_shares_nothing_witness:
  "\<exists>q m'. ESOSecretStore_DeepCopy (Some 3) sample_memory = (q, m') \<and> q = Some 4 \<and>
     independent store_object store_cells m' (Some 3) q"
proof -
  obtain q m' where copy: "ESOSecretStore_DeepCopy (Some 3) sample_memory = (q, m')" by force
  have "below sample_memory (store_cells sample_memory (Some 3))"
    by (simp add: below_def sample_memory_def store_cells_def store_at_def store_reach_def provider_reach_def
        vault_reach_def vault_at_def auth_reach_def own_cell_def kube_reach_def)
  from deep_copy_shares_nothing [OF this copy] copy show ?thesis
    by (auto simp: ESOSecretStore_DeepCopy_def new_cell_def sample_memory_def Let_def split: prod.splits)
qed

lemma external_copy_shares_nothing:
  assumes "below m (external_cells m p)" "ESOExternalSecret_DeepCopy p m = (q, m')"
  shows "external_object m' q = external_object m p \<and> external_object m' p = external_object m p \<and>
    independent external_object external_cells m' p q"
  by (rule deep_copy_independent [OF external_objects.deep_copy_axioms assms])

end
