(* ===== verification/Server_Main.thy ===== *)
theory Server_Main
  imports Router_Properties
begin

text \<open>
  The program (\<^verbatim>\<open>cmd/server/main.go\<close>): the clients of the cluster (\<^verbatim>\<open>repository/k8s_client.go\<close>), the
  settings of the HTTP server, and the logger in front of every request
  (\<^verbatim>\<open>middleware/logging.go\<close>). The client libraries are a parameter: each function answers a
  configuration or an error.
\<close>

subsection \<open>The clients of the cluster\<close>

record rest_config =
  rc_Host :: string
  rc_QPS :: int
  rc_Burst :: int

record client_library =
  rest_InClusterConfig :: "gerr + rest_config"
  clientcmd_ClientConfig :: "gerr + rest_config"
  dynamic_NewForConfig :: "rest_config \<Rightarrow> gerr + unit"
  discovery_NewForConfig :: "rest_config \<Rightarrow> gerr + unit"
  kubernetes_NewForConfig :: "rest_config \<Rightarrow> gerr + unit"

text \<open>The configuration of the pod, or else the local one, with the rate of requests raised.\<close>

definition getK8sConfig :: "client_library \<Rightarrow> gerr + rest_config" where
  "getK8sConfig K =
     (let limited = (\<lambda>c. c\<lparr>rc_QPS := 50, rc_Burst := 100\<rparr>) in
      case rest_InClusterConfig K of
        Inr c \<Rightarrow> Inr (limited c)
      | Inl _ \<Rightarrow>
          (case clientcmd_ClientConfig K of
             Inl e \<Rightarrow> Inl (Wrapf ''failed to get kubernetes config (tried in-cluster and local): %w'' [] e)
           | Inr c \<Rightarrow> Inr (limited c)))"

definition new_client :: "client_library \<Rightarrow> (rest_config \<Rightarrow> gerr + unit) \<Rightarrow> string \<Rightarrow> gerr + rest_config" where
  "new_client K new' message =
     (case getK8sConfig K of
        Inl e \<Rightarrow> Inl e
      | Inr c \<Rightarrow> (case new' c of Inl e \<Rightarrow> Inl (Wrapf message [] e) | Inr _ \<Rightarrow> Inr c))"

definition InitK8sClient :: "client_library \<Rightarrow> gerr + rest_config" where
  "InitK8sClient K = new_client K (dynamic_NewForConfig K) ''failed to create dynamic client: %w''"

definition InitK8sDiscoveryClient :: "client_library \<Rightarrow> gerr + rest_config" where
  "InitK8sDiscoveryClient K = new_client K (discovery_NewForConfig K) ''failed to create discovery client: %w''"

definition InitK8sTypedClient :: "client_library \<Rightarrow> gerr + rest_config" where
  "InitK8sTypedClient K = new_client K (kubernetes_NewForConfig K) ''failed to create typed client: %w''"

definition or_fatal :: "string \<Rightarrow> gerr + 'a \<Rightarrow> ('a \<Rightarrow> 'b outcome kprog) \<Rightarrow> 'b outcome kprog" where
  "or_fatal message r k = (case r of Inl e \<Rightarrow> Ret (Fatal message [FErr e]) | Inr a \<Rightarrow> k a)"

lemma getK8sConfig_limits: "getK8sConfig K = Inr c \<Longrightarrow> rc_QPS c = 50 \<and> rc_Burst c = 100"
  by (auto simp: getK8sConfig_def Let_def split: sum.splits)

lemma clients_configured:
  "InitK8sClient K = Inr c \<Longrightarrow> getK8sConfig K = Inr c"
  "InitK8sTypedClient K = Inr c \<Longrightarrow> getK8sConfig K = Inr c"
  "InitK8sDiscoveryClient K = Inr c \<Longrightarrow> getK8sConfig K = Inr c"
  by (auto simp: InitK8sClient_def InitK8sTypedClient_def InitK8sDiscoveryClient_def new_client_def
      split: sum.splits)

subsection \<open>Main\<close>

text \<open>The settings of the HTTP server, in seconds; no deadline on writes, because streams have no end.\<close>

record http_server =
  hs_Addr :: string
  hs_ReadHeaderTimeout :: int
  hs_IdleTimeout :: int
  hs_WriteTimeout :: "int option"

definition server_settings :: "config \<Rightarrow> http_server" where
  "server_settings cfg = \<lparr>hs_Addr = '':'' @ cf_ServerPort cfg, hs_ReadHeaderTimeout = 10,
     hs_IdleTimeout = 120, hs_WriteTimeout = None\<rparr>"

text \<open>
  What \<^verbatim>\<open>main\<close> does until it listens; the level of the logger, and the failure of
  \<^verbatim>\<open>ListenAndServe\<close>, are the library's.
\<close>

definition main_program ::
    "(http_request \<Rightarrow> nat) \<Rightarrow> extlib \<Rightarrow> client_library \<Rightarrow> (string \<Rightarrow> bool \<Rightarrow> (gerr + unit) kprog) \<Rightarrow> environment \<Rightarrow>
       (http_server \<times> (http_request \<Rightarrow> answer kprog)) outcome kprog" where
  "main_program gin L K NewProvider env =
     prog_bind (Load env) (\<lambda>cfg.
       or_fatal ''Failed to initialize Kubernetes client: %v'' (InitK8sClient K) (\<lambda>_.
       or_fatal ''Failed to initialize typed Kubernetes client: %v'' (InitK8sTypedClient K) (\<lambda>_.
       or_fatal ''Failed to initialize Kubernetes discovery client: %v'' (InitK8sDiscoveryClient K) (\<lambda>_.
         prog_bind (wire gin L NewProvider cfg) (\<lambda>w. Ret (case w of
             Fatal m as \<Rightarrow> Fatal m as
           | Continue srv \<Rightarrow> Continue (server_settings cfg, srv)))))))"

text \<open>The program listens only with the three clients made, and then verifies as the server does.\<close>

lemma main_program_verifies:
  "runs (main_program gin L K NewProvider env) (\<lambda>tr x. case x of
       Fatal m as \<Rightarrow> True
     | Continue (hs, srv) \<Rightarrow> hs_WriteTimeout hs = None \<and>
         (\<exists>c. getK8sConfig K = Inr c \<and> rc_QPS c = 50 \<and> rc_Burst c = 100) \<and>
         (env ''AUTH_DISABLED'' = Some ''true'' \<or> verifying srv))"
  unfolding main_program_def or_fatal_def
proof (rule runs_seq [OF runs_Load], goal_cases)
  case (1 t1 cfg)
  then show ?case
    by (auto split: sum.split outcome.split simp: server_settings_def getK8sConfig_limits
        dest!: clients_configured intro!: runs_seq [OF runs_wire [of cfg env]])
qed

subsection \<open>The request log\<close>

datatype log_level = LevelError | LevelWarn | LevelInfo

record log_entry =
  le_Level :: log_level
  le_Message :: string
  le_Status :: nat
  le_Method :: string
  le_Path :: "string list"
  le_Actor :: "(string \<times> string) option"

text \<open>
  The entry of a request: the text of the errors attached to it (\<^verbatim>\<open>c.Errors\<close>, put together by the web
  framework; none when nothing was attached) comes first, then the status decides. The address of
  the client and the time taken are left out.
\<close>

definition request_entry :: "identity option \<Rightarrow> http_request \<Rightarrow> string option \<Rightarrow> nat \<Rightarrow> log_entry" where
  "request_entry actor rq errors status =
     (let entry = (\<lambda>level message. \<lparr>le_Level = level, le_Message = message, le_Status = status,
        le_Method = rq_Method rq, le_Path = rq_Path rq,
        le_Actor = map_option (\<lambda>i. (id_Subject i, id_Username i)) actor\<rparr>) in
      case errors of Some text \<Rightarrow> entry LevelError text
      | None \<Rightarrow>
          if status \<ge> 500 then entry LevelError ''Internal Server Error''
          else if status \<ge> 400 then entry LevelWarn ''Bad Request''
          else entry LevelInfo ''Request Handled'')"

definition RequestLogger ::
    "identity option \<Rightarrow> string option \<Rightarrow> http_request \<Rightarrow> answer kprog \<Rightarrow> (answer \<times> log_entry) kprog" where
  "RequestLogger actor errors rq next' =
     prog_bind next' (\<lambda>x. Ret (x, request_entry actor rq errors (status_of x)))"

lemma runs_RequestLogger:
  "runs (RequestLogger actor errors rq next') Q =
     runs next' (\<lambda>tr x. Q tr (x, request_entry actor rq errors (status_of x)))"
  by (simp add: RequestLogger_def runs_bind)

end
