(* ===== verification/Spec2Isabelle.thy ===== *)
theory Spec2Isabelle
  imports Catalog_Properties Connection_Properties Service_Catalog_Properties Package_Properties
    Instance_Properties API_Probe Secret_Store_Properties External_Secrets Identity_Properties
    Router_Properties API_Conformance Log_Follow Catalog_Concurrency Deep_Copy Server_Main
begin

text \<open>
  The OKDP control plane server, a Go program, modelled and verified. The server is the backend of a
  console: for each request of its HTTP API it reads and writes objects of a Kubernetes cluster and
  asks a few other systems (an OCI registry, an OIDC issuer, Keycloak, a vault, databases). It keeps
  almost nothing itself: two caches and one probe per optional API. A project is a labelled
  namespace; a deployed service is a release object in it; connections, secret stores, external
  secrets, identities and Spark applications are objects of their own resources; the catalog of
  services lives in one object, the platform Context.

  \<^bold>\<open>How the program is modelled.\<close>

  An operation is a program in the sense of theory \<^verbatim>\<open>Effects\<close>: it returns a value or makes a call and
  goes on with the answer. The calls (\<^verbatim>\<open>kcall\<close>, theory \<^verbatim>\<open>Kube\<close>) are the requests the code sends out of
  the process, with their arguments; the answers (\<^verbatim>\<open>kresp\<close>) are arbitrary, errors included. So no
  behaviour of the cluster is assumed: what other clients change between two calls, failures at
  every step, and objects of an unexpected shape are all among the answers a theorem ranges over.
  \<^verbatim>\<open>runs m Q\<close> says that every execution of \<^verbatim>\<open>m\<close>, with its trace of calls and answers and its result,
  satisfies \<^verbatim>\<open>Q\<close>. Every program terminates after finitely many calls by construction, and
  \<^verbatim>\<open>exec_exists\<close> shows that whatever the answers it returns. A concrete run is computed with
  \<^verbatim>\<open>replay\<close>, from the list of answers.

  Errors are values of \<^verbatim>\<open>gerr\<close> (theory \<^verbatim>\<open>Go_Values\<close>), with the classes the code tells apart
  (\<^verbatim>\<open>errors.Is\<close>, \<^verbatim>\<open>errors.As\<close>, the reasons of the Kubernetes API) and the message as its format literal
  with the operands; theory \<^verbatim>\<open>Go_Fmt\<close> renders it where the code looks into the text. Go strings are byte
  lists, Go maps are association lists in the order of iteration (a theorem over all lists covers
  every order), an untyped value is a \<^verbatim>\<open>goval\<close>, and an integer keeps its width where it can wrap
  (\<^verbatim>\<open>32 word\<close> for the restarts of a pod, \<^verbatim>\<open>to_int32\<close> for a port). Packages that are not in the repository are
  fields of the parameter \<^verbatim>\<open>extlib\<close>, about which nothing is assumed; the objects of the cluster that
  the code reads without a type are the records of what the library's accessors answer.

  \<^bold>\<open>The theories, in the order of the code.\<close>

  \<^item> Values and effects: \<^verbatim>\<open>Prelude\<close>, \<^verbatim>\<open>Go_Strings\<close> (\<^verbatim>\<open>strings\<close>, \<^verbatim>\<open>strconv\<close>), \<^verbatim>\<open>Go_Values\<close>, \<^verbatim>\<open>Effects\<close>, \<^verbatim>\<open>Crd\<close>
    (\<^verbatim>\<open>internal/repository/crd\<close>), \<^verbatim>\<open>Kube\<close>, \<^verbatim>\<open>Extlib\<close>, \<^verbatim>\<open>Go_Fmt\<close>. The locale \<^verbatim>\<open>object_repository\<close> is the contract the
    repositories of the resources share; each repository interprets it.
  \<^item> Contracts: \<^verbatim>\<open>Contract_Catalog\<close> and \<^verbatim>\<open>Builtin_Contracts\<close> (\<^verbatim>\<open>internal/service/contract_catalog.go\<close> with the
    embedded descriptors), and what they guarantee in \<^verbatim>\<open>Catalog_Properties\<close>: normalisation settles every
    field, validation accepts exactly the conforming values, the embedded contracts load. The locale
    \<^verbatim>\<open>contract_catalog\<close> is the interface the connections rely on.
  \<^item> Connections: \<^verbatim>\<open>Connection_Repository\<close>, \<^verbatim>\<open>Connection_Service\<close>, \<^verbatim>\<open>Connection_Write\<close>, \<^verbatim>\<open>Connection_Testers\<close>,
    \<^verbatim>\<open>Connection_Consumers\<close>; \<^verbatim>\<open>Connection_Properties\<close> shows the order of writes of creation, edition and
    deletion, the ownership of credentials and the verdict of a test.
  \<^item> The Context and the catalog: \<^verbatim>\<open>Context_Repository\<close> (with its cache of five seconds),
    \<^verbatim>\<open>Context_Writer\<close> (optimistic retries, five attempts), \<^verbatim>\<open>Service_Catalog\<close>; \<^verbatim>\<open>Service_Catalog_Properties\<close>
    shows that an accepted edition is checked against the registry, changes one entry and loses no
    concurrent one, and that an entry written is the entry read. \<^verbatim>\<open>Catalog_Concurrency\<close> puts several
    editors, on several replicas, and other writers of the Context in one history: the edits that were
    accepted are the sequence of the edits, each of what the one before left.
  \<^item> Packages: \<^verbatim>\<open>Registry\<close> and \<^verbatim>\<open>Package_Schema\<close> (\<^verbatim>\<open>package_schema_service.go\<close>), \<^verbatim>\<open>Package_Properties\<close>:
    the exchange with a registry and its token server, the expansion of titles, the key of the cache.
    The locale \<^verbatim>\<open>package_schema\<close> is what the services rely on.
  \<^item> Services: \<^verbatim>\<open>Releases\<close>, \<^verbatim>\<open>Provisioning\<close>, \<^verbatim>\<open>Services\<close>, \<^verbatim>\<open>Service_Metrics\<close>, with \<^verbatim>\<open>Provisioning_Properties\<close>,
    \<^verbatim>\<open>Service_Cleanup\<close>, \<^verbatim>\<open>Service_Properties\<close> and \<^verbatim>\<open>Instance_Properties\<close>: deployment and edition are checked
    first, a deletion takes only what the release owns, an instance shows only addresses and
    connections that are its own. The locale \<^verbatim>\<open>oidc_interface\<close> is the provisioner a deletion calls.
  \<^item> The probe of an optional API: \<^verbatim>\<open>API_Probe\<close> (\<^verbatim>\<open>api_availability.go\<close>), a step relation over concurrent
    callers; its invariant, its progress and its refinement of an abstract probe.
  \<^item> Secret stores and external secrets: \<^verbatim>\<open>Secret_Stores\<close>, \<^verbatim>\<open>Secret_Store_Properties\<close>, \<^verbatim>\<open>External_Secrets\<close>.
  \<^item> Identities: \<^verbatim>\<open>Identity\<close>, \<^verbatim>\<open>Identity_Properties\<close>. Projects: \<^verbatim>\<open>Projects\<close>. Spark applications: \<^verbatim>\<open>Spark\<close>.
  \<^item> Authentication and capabilities: \<^verbatim>\<open>Auth\<close>; configuration and start: \<^verbatim>\<open>Startup\<close>.
  \<^item> The HTTP layer: \<^verbatim>\<open>Http\<close> (requests, answers, streams), \<^verbatim>\<open>Handlers\<close> (every handler), \<^verbatim>\<open>Router\<close> (the table of
    routes, the guards, the wiring of \<^verbatim>\<open>main\<close>), \<^verbatim>\<open>Server_Main\<close> (\<^verbatim>\<open>main\<close> until it listens, with
    \<^verbatim>\<open>k8s_client.go\<close> and the request log). \<^verbatim>\<open>Confinement\<close> shows what each operation may change and
    \<^verbatim>\<open>Router_Properties\<close> composes everything: for any request and any answers of the cluster, who is
    served, which objects a route may change, and what was read before it changed anything.
  \<^item> A followed log: \<^verbatim>\<open>Log_Follow\<close>, the goroutine that scans the log of a pod and the handler that streams
    it, as a step relation that refines the sequential reading in \<^verbatim>\<open>Handlers\<close> and leaves no goroutine
    behind.
  \<^item> The published description (\<^verbatim>\<open>docs/docs.go\<close>): \<^verbatim>\<open>API_Docs\<close> has its operations and \<^verbatim>\<open>API_Schemas\<close> its
    models; \<^verbatim>\<open>API_Docs_Properties\<close> compares the operations with the routes, \<^verbatim>\<open>API_Answers\<close> with what the
    handlers and the guards answer. \<^verbatim>\<open>JSON_Encoding\<close> is the JSON of the answers (the tags of the structs
    in \<^verbatim>\<open>internal/models\<close>), and \<^verbatim>\<open>API_Conformance\<close> shows that every body conforms to the schema its
    operation documents.
  \<^item> \<^verbatim>\<open>Deep_Copy\<close>: the copies of the resource types (\<^verbatim>\<open>secret_store_types.go\<close>,
    \<^verbatim>\<open>external_secret_types.go\<close>) over a memory of cells. The locale \<^verbatim>\<open>deep_copy\<close> is what a copy promises;
    every type of the two resources interprets it, a struct from its fields.

  \<^bold>\<open>What is known of the outside.\<close> Nothing, except in two theories. \<^verbatim>\<open>Catalog_Concurrency\<close> takes the
  optimistic concurrency control of the API server (\<^verbatim>\<open>served\<close>: a write is applied only when it carries
  the version stored, and gives a version never used) and what the library says of
  \<^verbatim>\<open>SetNestedSlice\<close> (\<^verbatim>\<open>sets_slice\<close>); its witness runs two editors against a concrete library. \<^verbatim>\<open>Log_Follow\<close>
  takes channels, \<^verbatim>\<open>select\<close> and \<^verbatim>\<open>bufio.Scanner\<close> as the language and its library define them.

  \<^bold>\<open>Bounds.\<close> The retries of a catalog edition stop after five attempts, as in the code. The recursion
  of \<^verbatim>\<open>Prelude\<close> and the loops over lists are structural or have a measure; no definition runs on fuel.
  The probe and the following of a log are relations, and their theorems of progress bound their steps.

  \<^bold>\<open>What is not modelled, and why.\<close>

  \<^item> Test code and build tools: \<^verbatim>\<open>internal/service/mocks\<close>, \<^verbatim>\<open>tools.go\<close>; a request type nothing reads
    (\<^verbatim>\<open>models/import_request.go\<close>).
  \<^item> Text for people: the long descriptions in \<^verbatim>\<open>docs/docs.go\<close> and the lines of the log, except the entry
    of a request; of that one, not the address of the client and the time taken.
  \<^item> Input and output with no decision in it: the framing of server-sent events, the listening loop of
    \<^verbatim>\<open>main\<close>, the delays between retries.
  \<^item> The framework: how a body is bound to a type (a handler gets an error or any value of its
    type), which of several matching routes is taken (a parameter), the recovery from a panic, and
    the documentation pages.
  \<^item> Rounding: the sums of usage metrics are exact rationals where the code adds \<^verbatim>\<open>float64\<close>.
  \<^item> Interleaving between requests is covered through the answers: a cache or an object another
    request changes answers differently at the next call. The shared memory of one process is
    modelled as such for the probe and for a followed log only.
\<close>

end
